(* ===== verification/Py_Prelude.thy ===== *)
theory Py_Prelude
  imports Complex_Main "HOL-Library.Word" "HOL-Library.AList" "HOL-Library.Sublist"
begin

section \<open>Python values, dictionaries and exceptions\<close>

text \<open>
  What every component of the development shares: the values a DEFw dictionary may hold, truth
  testing, \<open>==\<close> and \<open>in\<close>, \<open>int(...)\<close> and \<open>dict(...)\<close>, dictionaries in insertion order, and the
  exceptions as values of a sum type. A dictionary is an association list in insertion order:
  assignment to a present key keeps its position and assignment to a new key appends, which is
  what the library's \<^const>\<open>AList.update\<close> does, and deletion is \<^const>\<open>AList.delete\<close>. The
  collections \<open>py_simps\<close> and \<open>dict_simps\<close> carry the component proofs.
\<close>

named_theorems py_simps
named_theorems dict_simps

subsection \<open>Exceptions\<close>

text \<open>
  The exception classes of \<open>defw_exception.py\<close> that the modelled code raises, and the built-in
  ones it can run into. The string is the constant part of the message.
\<close>

datatype exc =
    DEFwError string
  | DEFwNotFound string
  | DEFwInProgress string
  | DEFwCommError string
  | DEFwAgentNotFound string
  | DEFwInternalError string
  | DEFwRemoteError string
  | DEFwReserveError string
  | PyKeyError
  | PyTypeError
  | PyValueError
  | PyAttributeError
  | PyIndexError
  | PyRuntimeError string

type_synonym 'a result = "exc + 'a"

text \<open>Sequencing: the first exception ends the computation.\<close>

definition ebind :: "'a result \<Rightarrow> ('a \<Rightarrow> 'b result) \<Rightarrow> 'b result" where
  "ebind m f = (case m of Inl e \<Rightarrow> Inl e | Inr x \<Rightarrow> f x)"

lemma ebind_simps [simp]:
  "ebind (Inl e) f = Inl e"
  "ebind (Inr x) f = f x"
  by (simp_all add: ebind_def)

lemma ebind_Inr_iff: "ebind m f = Inr y \<longleftrightarrow> (\<exists>x. m = Inr x \<and> f x = Inr y)"
  by (cases m) auto

lemma ebind_InrE:
  assumes "ebind m f = Inr y"
  obtains x where "m = Inr x" and "f x = Inr y"
  using assms by (auto simp: ebind_Inr_iff)

text \<open>A list comprehension whose body can raise, evaluated from left to right.\<close>

fun emap :: "('a \<Rightarrow> 'b result) \<Rightarrow> 'a list \<Rightarrow> 'b list result" where
  "emap f [] = Inr []"
| "emap f (x # xs) = ebind (f x) (\<lambda>y. ebind (emap f xs) (\<lambda>ys. Inr (y # ys)))"

lemma emap_pure [simp]: "emap (\<lambda>x. Inr (g x)) xs = Inr (map g xs)"
  by (induction xs) auto

lemma emap_cong_Inr: "(\<And>x. x \<in> set xs \<Longrightarrow> f x = Inr (g x)) \<Longrightarrow> emap f xs = Inr (map g xs)"
  by (induction xs) auto

lemma emap_length: "emap f xs = Inr ys \<Longrightarrow> length ys = length xs"
  by (induction xs arbitrary: ys) (auto simp: ebind_Inr_iff)

subsection \<open>Values\<close>

type_synonym byte = "8 word"

datatype pyval =
    PNone
  | PBool bool
  | PInt int
  | PFloat real
  | PStr string
  | PBytes "byte list"
  | PBytearray "byte list"
  | PList "pyval list"
  | PTuple "pyval list"
  | PDict "(pyval \<times> pyval) list"
  | PObj nat

text \<open>
  \<^term>\<open>PObj n\<close> is any other object (a callback, a service instance, a NumPy array), known by its
  identity only.
\<close>

type_synonym dict = "(pyval \<times> pyval) list"

text \<open>Truth testing, as in \<open>if v\<close>, \<open>v or w\<close> and \<open>not v\<close>.\<close>

fun truthy :: "pyval \<Rightarrow> bool" where
  "truthy PNone = False"
| "truthy (PBool b) = b"
| "truthy (PInt n) = (n \<noteq> 0)"
| "truthy (PFloat x) = (x \<noteq> 0)"
| "truthy (PStr s) = (s \<noteq> [])"
| "truthy (PBytes bs) = (bs \<noteq> [])"
| "truthy (PBytearray bs) = (bs \<noteq> [])"
| "truthy (PList xs) = (xs \<noteq> [])"
| "truthy (PTuple xs) = (xs \<noteq> [])"
| "truthy (PDict d) = (d \<noteq> [])"
| "truthy (PObj _) = True"

definition py_or :: "pyval \<Rightarrow> pyval \<Rightarrow> pyval" where
  "py_or a b = (if truthy a then a else b)"

text \<open>Numbers compare by value across \<open>bool\<close>, \<open>int\<close> and \<open>float\<close>.\<close>

fun py_num :: "pyval \<Rightarrow> real option" where
  "py_num (PBool b) = Some (if b then 1 else 0)"
| "py_num (PInt n) = Some (of_int n)"
| "py_num (PFloat x) = Some x"
| "py_num _ = None"

fun py_buf :: "pyval \<Rightarrow> byte list option" where
  "py_buf (PBytes bs) = Some bs"
| "py_buf (PBytearray bs) = Some bs"
| "py_buf _ = None"

lemma size_zip_left [termination_simp]:
  "(a, b) \<in> set (zip xs ys) \<Longrightarrow> f a < Suc (size_list f xs)"
  by (auto dest!: set_zip_leftD size_list_estimation'[where f = f and y = "f a"])

text \<open>
  \<open>a == b\<close>. Sequences compare element by element, dictionaries irrespective of their order, other
  objects by identity.
\<close>

fun py_eq :: "pyval \<Rightarrow> pyval \<Rightarrow> bool" where
  "py_eq PNone y = (y = PNone)"
| "py_eq (PStr s) y = (y = PStr s)"
| "py_eq (PObj n) y = (y = PObj n)"
| "py_eq (PBool b) y = (py_num y = Some (if b then 1 else 0))"
| "py_eq (PInt n) y = (py_num y = Some (of_int n))"
| "py_eq (PFloat x) y = (py_num y = Some x)"
| "py_eq (PBytes bs) y = (py_buf y = Some bs)"
| "py_eq (PBytearray bs) y = (py_buf y = Some bs)"
| "py_eq (PList xs) y = (case y of PList ys \<Rightarrow> length xs = length ys \<and>
     list_all (\<lambda>(a, b). py_eq a b) (zip xs ys) | _ \<Rightarrow> False)"
| "py_eq (PTuple xs) y = (case y of PTuple ys \<Rightarrow> length xs = length ys \<and>
     list_all (\<lambda>(a, b). py_eq a b) (zip xs ys) | _ \<Rightarrow> False)"
| "py_eq (PDict d) y = (case y of PDict e \<Rightarrow> length d = length e \<and>
     list_all (\<lambda>(k, v). case map_of e k of None \<Rightarrow> False | Some w \<Rightarrow> py_eq v w) d | _ \<Rightarrow> False)"

text \<open>Membership of a list: \<open>v in xs\<close>.\<close>

definition py_mem :: "pyval \<Rightarrow> pyval list \<Rightarrow> bool" where
  "py_mem v xs = list_ex (py_eq v) xs"

text \<open>\<open>v in c\<close> for any container: a substring test on strings, a key test on dictionaries.\<close>

fun py_contains :: "pyval \<Rightarrow> pyval \<Rightarrow> bool result" where
  "py_contains v (PList xs) = Inr (py_mem v xs)"
| "py_contains v (PTuple xs) = Inr (py_mem v xs)"
| "py_contains v (PDict d) = Inr (map_of d v \<noteq> None)"
| "py_contains v (PStr t) = (case v of PStr s \<Rightarrow> Inr (sublist s t) | _ \<Rightarrow> Inl PyTypeError)"
| "py_contains v _ = Inl PyTypeError"

subsection \<open>Integers from values\<close>

text \<open>
  \<open>int(v)\<close>: numbers truncate towards zero; a string is stripped and read as an optionally signed
  decimal number whose digits may be separated by single underscores.
\<close>

definition py_space :: "char \<Rightarrow> bool" where
  "py_space c = (of_char c \<in> {9, 10, 11, 12, 13, 28, 29, 30, 31, 32 :: nat})"

definition py_strip :: "string \<Rightarrow> string" where
  "py_strip s = rev (dropWhile py_space (rev (dropWhile py_space s)))"

definition digit_val :: "char \<Rightarrow> int option" where
  "digit_val c = (let n = of_char c :: int in if 48 \<le> n \<and> n \<le> 57 then Some (n - 48) else None)"

fun read_digits :: "int \<Rightarrow> string \<Rightarrow> int option" where
  "read_digits acc [] = Some acc"
| "read_digits acc (c # cs) =
     (case digit_val c of
        Some d \<Rightarrow> read_digits (10 * acc + d) cs
      | None \<Rightarrow> if c = CHR ''_'' then
          (case cs of [] \<Rightarrow> None
           | c' # cs' \<Rightarrow> (case digit_val c' of None \<Rightarrow> None | Some d \<Rightarrow> read_digits (10 * acc + d) cs'))
        else None)"

definition read_nat :: "string \<Rightarrow> int option" where
  "read_nat s = (case s of [] \<Rightarrow> None
     | c # cs \<Rightarrow> (case digit_val c of None \<Rightarrow> None | Some d \<Rightarrow> read_digits d cs))"

definition py_int_str :: "string \<Rightarrow> int option" where
  "py_int_str t = (case py_strip t of
     [] \<Rightarrow> None
   | c # cs \<Rightarrow> if c = CHR ''-'' then map_option uminus (read_nat cs)
              else if c = CHR ''+'' then read_nat cs else read_nat (c # cs))"

fun py_int :: "pyval \<Rightarrow> int result" where
  "py_int (PInt n) = Inr n"
| "py_int (PBool b) = Inr (if b then 1 else 0)"
| "py_int (PFloat x) = Inr (if 0 \<le> x then \<lfloor>x\<rfloor> else \<lceil>x\<rceil>)"
| "py_int (PStr s) = (case py_int_str s of None \<Rightarrow> Inl PyValueError | Some n \<Rightarrow> Inr n)"
| "py_int _ = Inl PyTypeError"

subsection \<open>Dictionaries\<close>

text \<open>\<open>d.get(name, default)\<close> for a string key, and \<open>d.get(name)\<close>.\<close>

definition dget :: "dict \<Rightarrow> string \<Rightarrow> pyval \<Rightarrow> pyval" where
  "dget d k v = (case map_of d (PStr k) of None \<Rightarrow> v | Some w \<Rightarrow> w)"

abbreviation dget0 :: "dict \<Rightarrow> string \<Rightarrow> pyval" where
  "dget0 d k \<equiv> dget d k PNone"

definition dset :: "string \<Rightarrow> pyval \<Rightarrow> dict \<Rightarrow> dict" where
  "dset k v d = AList.update (PStr k) v d"

text \<open>\<open>d.setdefault(name, v)\<close>.\<close>

definition dsetdefault :: "string \<Rightarrow> pyval \<Rightarrow> dict \<Rightarrow> dict" where
  "dsetdefault k v d = (case map_of d (PStr k) of None \<Rightarrow> dset k v d | Some _ \<Rightarrow> d)"

text \<open>\<open>d.update(e)\<close>: the pairs of \<open>e\<close> in their order.\<close>

definition dupdate :: "('k \<times> 'v) list \<Rightarrow> ('k \<times> 'v) list \<Rightarrow> ('k \<times> 'v) list" where
  "dupdate d e = foldl (\<lambda>acc (k, v). AList.update k v acc) d e"

text \<open>
  \<open>dict(v)\<close>: a dictionary is copied; a sequence of pairs becomes a dictionary; any other value
  raises. A key must be hashable.
\<close>

fun hashable :: "pyval \<Rightarrow> bool" where
  "hashable (PList _) = False"
| "hashable (PDict _) = False"
| "hashable (PBytearray _) = False"
| "hashable (PTuple xs) = list_all hashable xs"
| "hashable _ = True"

fun py_pair :: "pyval \<Rightarrow> (pyval \<times> pyval) result" where
  "py_pair (PList [a, b]) = (if hashable a then Inr (a, b) else Inl PyTypeError)"
| "py_pair (PTuple [a, b]) = (if hashable a then Inr (a, b) else Inl PyTypeError)"
| "py_pair (PStr [a, b]) = Inr (PStr [a], PStr [b])"
| "py_pair (PList _) = Inl PyValueError"
| "py_pair (PTuple _) = Inl PyValueError"
| "py_pair (PStr _) = Inl PyValueError"
| "py_pair _ = Inl PyTypeError"

fun py_dict :: "pyval \<Rightarrow> dict result" where
  "py_dict (PDict d) = Inr d"
| "py_dict (PList xs) = ebind (emap py_pair xs) (\<lambda>ps. Inr (dupdate [] ps))"
| "py_dict (PTuple xs) = ebind (emap py_pair xs) (\<lambda>ps. Inr (dupdate [] ps))"
| "py_dict (PStr s) = (if s = [] then Inr [] else Inl PyValueError)"
| "py_dict _ = Inl PyTypeError"

text \<open>The values a \<open>for\<close> loop over a value visits.\<close>

fun py_iter :: "pyval \<Rightarrow> pyval list result" where
  "py_iter (PList xs) = Inr xs"
| "py_iter (PTuple xs) = Inr xs"
| "py_iter (PDict d) = Inr (map fst d)"
| "py_iter (PStr s) = Inr (map (\<lambda>c. PStr [c]) s)"
| "py_iter (PBytes bs) = Inr (map (\<lambda>b. PInt (uint b)) bs)"
| "py_iter (PBytearray bs) = Inr (map (\<lambda>b. PInt (uint b)) bs)"
| "py_iter _ = Inl PyTypeError"

text \<open>\<open>v.items()\<close> and \<open>v.get(...)\<close> on a value that may not be a dictionary.\<close>

fun py_items :: "pyval \<Rightarrow> dict result" where
  "py_items (PDict d) = Inr d"
| "py_items _ = Inl PyAttributeError"

text \<open>\<open>d[name]\<close> on a dictionary, and on a value that may not be one.\<close>

definition dindex :: "dict \<Rightarrow> string \<Rightarrow> pyval result" where
  "dindex d k = (case map_of d (PStr k) of None \<Rightarrow> Inl PyKeyError | Some v \<Rightarrow> Inr v)"

fun py_getitem :: "pyval \<Rightarrow> string \<Rightarrow> pyval result" where
  "py_getitem (PDict d) k = dindex d k"
| "py_getitem _ k = Inl PyTypeError"

lemma dget_dset [simp, dict_simps]:
  "dget (dset k v d) k' u = (if k = k' then v else dget d k' u)"
  by (simp add: dget_def dset_def update_conv')

lemma dget_Nil [simp]: "dget [] k v = v"
  by (simp add: dget_def)

lemma dget_Cons [simp]:
  "dget ((PStr a, x) # d) k v = (if a = k then x else dget d k v)"
  by (simp add: dget_def)

lemma dget_dsetdefault [dict_simps]:
  "dget (dsetdefault k v d) k' u =
     (if k = k' then (case map_of d (PStr k) of None \<Rightarrow> v | Some w \<Rightarrow> w) else dget d k' u)"
  by (auto simp: dsetdefault_def split: option.splits) (auto simp: dget_def)

lemma map_of_dupdate: "map_of (dupdate d e) k = (case map_of (rev e) k of None \<Rightarrow> map_of d k | Some v \<Rightarrow> Some v)"
proof (induction e arbitrary: d)
  case Nil
  then show ?case by (simp add: dupdate_def)
next
  case (Cons p e)
  obtain a b where p: "p = (a, b)" by (cases p)
  have "dupdate d (p # e) = dupdate (AList.update a b d) e"
    by (simp add: dupdate_def p)
  then show ?case
    using Cons.IH [of "AList.update a b d"]
    by (auto simp: p update_conv' map_add_def split: option.splits)
qed

lemma distinct_dupdate: "distinct (map fst d) \<Longrightarrow> distinct (map fst (dupdate d e))"
proof (induction e arbitrary: d)
  case Nil
  then show ?case by (simp add: dupdate_def)
next
  case (Cons p e)
  obtain a b where p: "p = (a, b)" by (cases p)
  have "dupdate d (p # e) = dupdate (AList.update a b d) e"
    by (simp add: dupdate_def p)
  then show ?case
    using Cons.IH [of "AList.update a b d"] Cons.prems by (simp add: distinct_update)
qed

text \<open>Association lists with distinct keys, read as sets of pairs.\<close>

lemma set_alist_update [dict_simps]:
  "distinct (map fst d) \<Longrightarrow>
     set (AList.update k v d) = insert (k, v) {p \<in> set d. fst p \<noteq> k}"
  by (induction d) force+

lemma set_alist_update_subset: "set (AList.update k v d) \<subseteq> insert (k, v) (set d)"
  by (induction d) auto

lemma map_of_alist_update [simp, dict_simps]:
  "map_of (AList.update k v d) k' = (if k = k' then Some v else map_of d k')"
  by (simp add: update_conv')

lemma map_of_alist_delete [simp, dict_simps]:
  "map_of (AList.delete k d) k' = (if k = k' then None else map_of d k')"
  by (simp add: delete_conv')

lemma map_of_filter_value:
  "distinct (map fst d) \<Longrightarrow>
     map_of (filter (\<lambda>(k, v). P v) d) k
       = (case map_of d k of None \<Rightarrow> None | Some v \<Rightarrow> if P v then Some v else None)"
proof (induction d)
  case (Cons p d)
  then have "map_of d (fst p) = None" by (simp add: map_of_eq_None_iff)
  with Cons show ?case by (cases p) (auto split: option.splits)
qed simp

lemma map_of_map_value:
  "map_of (map (\<lambda>(k, v). (k, f v)) d) k = map_option f (map_of d k)"
  by (induction d) auto

lemma distinct_fst_filter: "distinct (map fst d) \<Longrightarrow> distinct (map fst (filter P d))"
  by (induction d) auto

lemma update_alist_same_key [simp]:
  "AList.update k v (AList.update k w d) = AList.update k v d"
  by (induction d) auto

subsection \<open>Strings\<close>

text \<open>\<open>s.split(c)\<close> and \<open>c.join(ws)\<close>; \<open>s.upper()\<close> and \<open>s.lower()\<close> on ASCII letters.\<close>

fun split_on :: "char \<Rightarrow> string \<Rightarrow> string list" where
  "split_on c [] = [[]]"
| "split_on c (x # xs) =
     (if x = c then [] # split_on c xs
      else case split_on c xs of [] \<Rightarrow> [[x]] | w # ws \<Rightarrow> (x # w) # ws)"

fun join_on :: "string \<Rightarrow> string list \<Rightarrow> string" where
  "join_on sep [] = []"
| "join_on sep [w] = w"
| "join_on sep (w # v # ws) = w @ sep @ join_on sep (v # ws)"

definition py_upper :: "string \<Rightarrow> string" where
  "py_upper s = map (\<lambda>c. let n = of_char c :: nat in if 97 \<le> n \<and> n \<le> 122 then char_of (n - 32) else c) s"

definition py_lower :: "string \<Rightarrow> string" where
  "py_lower s = map (\<lambda>c. let n = of_char c :: nat in if 65 \<le> n \<and> n \<le> 90 then char_of (n + 32) else c) s"

text \<open>\<open>os.path.join(a, b)\<close>.\<close>

definition path_join :: "string \<Rightarrow> string \<Rightarrow> string" where
  "path_join a b =
     (if b \<noteq> [] \<and> hd b = CHR ''/'' then b
      else if a = [] \<or> last a = CHR ''/'' then a @ b
      else a @ ''/'' @ b)"

lemma split_on_ne [simp]: "split_on c s \<noteq> []"
  by (induction s) (auto split: list.splits)

lemma join_on_Cons: "ws \<noteq> [] \<Longrightarrow> join_on sep (w # ws) = w @ sep @ join_on sep ws"
  by (cases ws) auto

lemma join_split_on: "join_on [c] (split_on c s) = s"
proof (induction s)
  case (Cons x s)
  have "join_on [c] ((x # w) # ws) = x # join_on [c] (w # ws)" for w ws
    by (cases ws) auto
  with Cons show ?case by (cases "split_on c s") (auto simp: join_on_Cons)
qed simp

lemma split_on_no_sep: "w \<in> set (split_on c s) \<Longrightarrow> c \<notin> set w"
  by (induction s arbitrary: w) (auto split: list.splits if_splits)

lemma split_on_none: "c \<notin> set s \<Longrightarrow> split_on c s = [s]"
  by (induction s) auto

lemma split_on_append: "c \<notin> set w \<Longrightarrow> split_on c (w @ c # s) = w # split_on c s"
  by (induction w) auto

lemma split_join_on: "ws \<noteq> [] \<Longrightarrow> \<forall>w \<in> set ws. c \<notin> set w \<Longrightarrow> split_on c (join_on [c] ws) = ws"
proof (induction ws)
  case (Cons w ws)
  then show ?case by (cases ws) (auto simp: join_on_Cons split_on_append split_on_none)
qed simp

lemma set_join_on: "set (join_on sep ws) \<subseteq> set sep \<union> \<Union> (set ` set ws)"
  by (induction sep ws rule: join_on.induct) auto

lemma set_join_on_sup: "w \<in> set ws \<Longrightarrow> set w \<subseteq> set (join_on sep ws)"
  by (induction sep ws rule: join_on.induct) auto

subsection \<open>Decimal numbers\<close>

text \<open>\<open>str(n)\<close>, and \<open>str(v)\<close>; \<open>rp\<close> is \<open>str\<close> on floats, containers and other objects.\<close>

definition digit_char :: "nat \<Rightarrow> char" where
  "digit_char d = char_of (48 + d)"

fun nat_dec :: "nat \<Rightarrow> string" where
  "nat_dec n = (if n < 10 then [digit_char n] else nat_dec (n div 10) @ [digit_char (n mod 10)])"

declare nat_dec.simps [simp del]

definition int_dec :: "int \<Rightarrow> string" where
  "int_dec n = (if n < 0 then CHR ''-'' # nat_dec (nat (- n)) else nat_dec (nat n))"

fun py_str :: "(pyval \<Rightarrow> string) \<Rightarrow> pyval \<Rightarrow> string" where
  "py_str rp (PStr s) = s"
| "py_str rp (PInt n) = int_dec n"
| "py_str rp (PBool b) = (if b then ''True'' else ''False'')"
| "py_str rp PNone = ''None''"
| "py_str rp v = rp v"

lemma digit_char_code: "d < 10 \<Longrightarrow> (of_char (digit_char d) :: nat) = 48 + d"
  by (simp add: digit_char_def of_char_of)

lemma digit_val_digit_char [simp]: "d < 10 \<Longrightarrow> digit_val (digit_char d) = Some (int d)"
proof -
  assume "d < 10"
  then have "(of_char (digit_char d) :: int) = 48 + int d"
    using digit_char_code [of d] of_nat_of_char [where 'a = int, of "digit_char d"] by simp
  with \<open>d < 10\<close> show ?thesis by (simp add: digit_val_def Let_def)
qed

lemma read_digits_snoc:
  "read_digits a s = Some m \<Longrightarrow> d < 10 \<Longrightarrow> read_digits a (s @ [digit_char d]) = Some (10 * m + int d)"
  by (induction a s rule: read_digits.induct) (auto split: option.splits if_splits list.splits)

lemma nat_dec_ne [simp]: "nat_dec n \<noteq> []"
  by (subst nat_dec.simps) simp

lemma read_nat_dec: "read_nat (nat_dec n) = Some (int n)"
proof (induction n rule: nat_dec.induct)
  case (1 n)
  show ?case
  proof (cases "n < 10")
    case True
    then show ?thesis by (subst nat_dec.simps) (simp add: read_nat_def)
  next
    case False
    then obtain c cs where c: "nat_dec (n div 10) = c # cs" by (meson list.exhaust nat_dec_ne)
    with 1 False obtain d where d: "digit_val c = Some d" "read_digits d cs = Some (int (n div 10))"
      by (auto simp: read_nat_def split: option.splits)
    have "read_digits d (cs @ [digit_char (n mod 10)]) = Some (10 * int (n div 10) + int (n mod 10))"
      by (rule read_digits_snoc [OF d(2)]) simp
    moreover have "10 * int (n div 10) + int (n mod 10) = int n"
      by (metis mult_div_mod_eq of_nat_add of_nat_mult of_nat_numeral)
    ultimately show ?thesis using False c d by (subst nat_dec.simps) (simp add: read_nat_def)
  qed
qed

lemma nat_dec_digits: "c \<in> set (nat_dec n) \<Longrightarrow> \<exists>d < 10. c = digit_char d"
proof (induction n rule: nat_dec.induct)
  case (1 n)
  show ?case
  proof (cases "n < 10")
    case True
    with 1 show ?thesis by (subst (asm) nat_dec.simps) auto
  next
    case False
    then have "c \<in> set (nat_dec (n div 10)) \<or> c = digit_char (n mod 10)"
      using "1.prems" by (subst (asm) nat_dec.simps) auto
    moreover have "n mod 10 < 10" by simp
    ultimately show ?thesis using "1.IH" False by blast
  qed
qed

lemma digit_not_space: "d < 10 \<Longrightarrow> \<not> py_space (digit_char d) \<and> digit_char d \<noteq> CHR ''-'' \<and> digit_char d \<noteq> CHR ''+''"
  using digit_char_code [of d] by (auto simp: py_space_def)

lemma dropWhile_none: "\<forall>c \<in> set s. \<not> P c \<Longrightarrow> dropWhile P s = s"
  by (cases s) auto

lemma py_strip_id: "\<forall>c \<in> set s. \<not> py_space c \<Longrightarrow> py_strip s = s"
  by (simp add: py_strip_def dropWhile_none)

text \<open>Reading what \<open>str\<close> printed gives the number back.\<close>

lemma py_int_str_int_dec: "py_int_str (int_dec n) = Some n"
proof -
  have nospace: "\<forall>c \<in> set (nat_dec m). \<not> py_space c" for m
    using nat_dec_digits digit_not_space by blast
  have minus: "\<not> py_space CHR ''-''" by (simp add: py_space_def)
  obtain c cs where c: "nat_dec (nat n) = c # cs" by (meson list.exhaust nat_dec_ne)
  then have "c \<noteq> CHR ''-''" "c \<noteq> CHR ''+''"
    using nat_dec_digits [of c "nat n"] digit_not_space by auto
  show ?thesis
  proof (cases "n < 0")
    case True
    have "py_strip (CHR ''-'' # nat_dec (nat (- n))) = CHR ''-'' # nat_dec (nat (- n))"
      by (rule py_strip_id) (use nospace minus in auto)
    with True show ?thesis by (simp add: int_dec_def py_int_str_def read_nat_dec)
  next
    case False
    then have "int_dec n = c # cs" by (simp add: int_dec_def c)
    moreover have "py_strip (c # cs) = c # cs"
      unfolding c [symmetric] by (rule py_strip_id [OF nospace])
    moreover have "read_nat (c # cs) = Some n"
      unfolding c [symmetric] using False by (simp add: read_nat_dec)
    ultimately show ?thesis using \<open>c \<noteq> CHR ''-''\<close> \<open>c \<noteq> CHR ''+''\<close> by (simp add: py_int_str_def)
  qed
qed

end
