(* ===== verification/Directory.thy ===== *)
theory Directory
  imports Py_Prelude
begin

unbundle bit_operations_syntax

section \<open>The service directory (\<open>python/infra/defw_directory.py\<close>)\<close>

text \<open>
  The directory keeps one record per service id, with a generation that counts restarts and a
  state that follows the peer the service lives on. The record the code builds as a dictionary
  with fixed keys is the record type \<open>service_record\<close>; what callers pass in (registrations,
  peer events, filters) stays a dictionary. An operation takes the directory and returns the new
  directory, the calls it makes to listeners and subscribers in their order, and its result or
  exception. \<open>time.time()\<close>, \<open>uuid.uuid4()\<close> and the local runtime id are arguments. The locks make
  each operation atomic, and exceptions of listeners and callbacks are swallowed by the code, so
  those calls are outputs only.
\<close>

subsection \<open>State\<close>

datatype svc_state = UP | DOWN | TIMED_OUT | DEREGISTERED

record service_record =
  sr_service_id :: pyval
  sr_service_name :: pyval
  sr_service_type :: pyval
  sr_runtime_id :: pyval
  sr_peer_handle :: pyval
  sr_generation :: int
  sr_endpoint :: dict
  sr_api_bindings :: "dict list"
  sr_selector :: dict
  sr_properties :: dict
  sr_capability :: dict
  sr_qpm_type :: pyval
  sr_qpm_capabilities :: pyval
  sr_state :: svc_state
  sr_last_seen :: real
  sr_state_changed_at :: real
  sr_down_reason :: pyval
  sr_retention_deadline :: "real option"

record registration =
  rg_registration_id :: string
  rg_event_type :: pyval
  rg_subscriber_runtime_id :: string
  rg_callback :: pyval
  rg_filters :: dict

record directory =
  d_records :: "(pyval \<times> service_record) list"
  d_retention_seconds :: real
  d_lifecycle_listeners :: "pyval list"
  d_event_registrations :: "(pyval \<times> (string \<times> registration) list) list"

definition SERVICE_CONNECTED :: pyval where
  "SERVICE_CONNECTED = PStr ''SERVICE_CONNECTED''"

definition SERVICE_DISCONNECTED :: pyval where
  "SERVICE_DISCONNECTED = PStr ''SERVICE_DISCONNECTED''"

definition SERVICE_EVENT_TYPES :: "pyval list" where
  "SERVICE_EVENT_TYPES = [SERVICE_CONNECTED, SERVICE_DISCONNECTED]"

definition SERVICE_EVENT_FILTERS :: "pyval list" where
  "SERVICE_EVENT_FILTERS = [PStr ''service_id'', PStr ''service_type'']"

definition DEFAULT_RETENTION_SECONDS :: real where
  "DEFAULT_RETENTION_SECONDS = 300"

definition init_directory :: "real \<Rightarrow> directory" where
  "init_directory retention =
     \<lparr>d_records = [], d_retention_seconds = retention, d_lifecycle_listeners = [],
      d_event_registrations = []\<rparr>"

text \<open>The event a subscriber receives: the last two keys are present on one kind of event each.\<close>

record service_event =
  se_event :: pyval
  se_directory_runtime_id :: string
  se_service_id :: pyval
  se_service_type :: pyval
  se_runtime_id :: pyval
  se_peer_handle :: pyval
  se_service_record :: "service_record option"
  se_reason :: "pyval option"

datatype dir_out =
    LifecycleCall pyval string service_record dict pyval dict
    \<comment> \<open>listener, event type, service record, peer event, reason, details\<close>
  | EventPut pyval service_event
    \<comment> \<open>callback, event\<close>

type_synonym 'a dir_op = "directory \<times> dir_out list \<times> 'a result"

subsection \<open>Helpers\<close>

fun state_str :: "svc_state \<Rightarrow> string" where
  "state_str UP = ''UP''"
| "state_str DOWN = ''DOWN''"
| "state_str TIMED_OUT = ''TIMED_OUT''"
| "state_str DEREGISTERED = ''DEREGISTERED''"

text \<open>The dictionary a record is in the code, with its keys in the order of the literal.\<close>

definition record_dict :: "service_record \<Rightarrow> dict" where
  "record_dict r =
     [(PStr ''service_id'', sr_service_id r),
      (PStr ''service_name'', sr_service_name r),
      (PStr ''service_type'', sr_service_type r),
      (PStr ''runtime_id'', sr_runtime_id r),
      (PStr ''peer_handle'', sr_peer_handle r),
      (PStr ''generation'', PInt (sr_generation r)),
      (PStr ''endpoint'', PDict (sr_endpoint r)),
      (PStr ''api_bindings'', PList (map PDict (sr_api_bindings r))),
      (PStr ''selector'', PDict (sr_selector r)),
      (PStr ''properties'', PDict (sr_properties r)),
      (PStr ''capability'', PDict (sr_capability r)),
      (PStr ''qpm_type'', sr_qpm_type r),
      (PStr ''qpm_capabilities'', sr_qpm_capabilities r),
      (PStr ''state'', PStr (state_str (sr_state r))),
      (PStr ''last_seen'', PFloat (sr_last_seen r)),
      (PStr ''state_changed_at'', PFloat (sr_state_changed_at r)),
      (PStr ''down_reason'', sr_down_reason r),
      (PStr ''retention_deadline'',
        (case sr_retention_deadline r of None \<Rightarrow> PNone | Some t \<Rightarrow> PFloat t))]"

definition copy_record :: "dict \<Rightarrow> dict result" where
  "copy_record d =
     ebind (py_dict (py_or (dget0 d ''endpoint'') (PDict []))) (\<lambda>ep.
     ebind (py_dict (py_or (dget0 d ''selector'') (PDict []))) (\<lambda>sel.
     ebind (py_dict (py_or (dget0 d ''properties'') (PDict []))) (\<lambda>props.
     ebind (py_dict (py_or (dget0 d ''capability'') (PDict []))) (\<lambda>cap.
     ebind (py_iter (dget d ''api_bindings'' (PList []))) (\<lambda>bs.
     ebind (emap py_dict bs) (\<lambda>binds.
     Inr (dset ''api_bindings'' (PList (map PDict binds))
         (dset ''capability'' (PDict cap)
         (dset ''properties'' (PDict props)
         (dset ''selector'' (PDict sel)
         (dset ''endpoint'' (PDict ep) d)))))))))))"

definition normalize_bindings :: "dict \<Rightarrow> dict list result" where
  "normalize_bindings d =
     (let bindings = py_or (dget0 d ''api_bindings'') (PList []) in
      if \<not> truthy bindings then Inl (DEFwError ''Directory registration missing api_bindings'')
      else ebind (py_iter bindings) (emap py_dict))"

text \<open>\<open>value not in (-1, None)\<close>.\<close>

definition is_set :: "pyval \<Rightarrow> bool" where
  "is_set v = (\<not> py_mem v [PInt (-1), PNone])"

fun first_set :: "dict \<Rightarrow> string list \<Rightarrow> pyval option" where
  "first_set d [] = None"
| "first_set d (name # names) =
     (if is_set (dget0 d name) then Some (dget0 d name) else first_set d names)"

definition record_value :: "dict \<Rightarrow> string list \<Rightarrow> pyval result" where
  "record_value d names =
     (case first_set d names of
        Some v \<Rightarrow> Inr v
      | None \<Rightarrow> ebind (py_items (py_or (dget0 d ''properties'') (PDict []))) (\<lambda>properties.
          Inr (case first_set properties names of Some v \<Rightarrow> v | None \<Rightarrow> PInt (-1))))"

definition bits_match :: "pyval \<Rightarrow> pyval \<Rightarrow> bool" where
  "bits_match record_bits requested_bits =
     (if \<not> is_set requested_bits then True
      else if \<not> is_set record_bits then False
      else case py_int record_bits of Inl _ \<Rightarrow> False | Inr rb \<Rightarrow>
        (case py_int requested_bits of Inl _ \<Rightarrow> False | Inr qb \<Rightarrow>
           if qb = 0 then True
           else if rb = 0 then False
           else (qb AND rb) = qb))"

subsection \<open>Listeners and subscribers\<close>

text \<open>
  \<open>callable(listener)\<close> and \<open>callable(getattr(callback, 'put', None))\<close> are predicates on objects:
  the arguments \<open>is_callable\<close> and \<open>has_put\<close>.
\<close>

definition add_lifecycle_listener :: "(pyval \<Rightarrow> bool) \<Rightarrow> pyval \<Rightarrow> directory \<Rightarrow> pyval dir_op" where
  "add_lifecycle_listener is_callable listener d =
     (if \<not> is_callable listener then
        (d, [], Inl (DEFwError ''Directory lifecycle listener is not callable''))
      else
        (if py_mem listener (d_lifecycle_listeners d) then d
         else d\<lparr>d_lifecycle_listeners := d_lifecycle_listeners d @ [listener]\<rparr>,
         [], Inr listener))"

fun list_remove :: "pyval \<Rightarrow> pyval list \<Rightarrow> pyval list" where
  "list_remove v [] = []"
| "list_remove v (x # xs) = (if py_eq v x then xs else x # list_remove v xs)"

definition remove_lifecycle_listener :: "pyval \<Rightarrow> directory \<Rightarrow> unit dir_op" where
  "remove_lifecycle_listener listener d =
     (if py_mem listener (d_lifecycle_listeners d)
      then d\<lparr>d_lifecycle_listeners := list_remove listener (d_lifecycle_listeners d)\<rparr>
      else d, [], Inr ())"

fun is_str :: "pyval \<Rightarrow> bool" where
  "is_str (PStr _) = True"
| "is_str _ = False"

text \<open>The argument checks, in their order; the result is the copied filters.\<close>

definition check_registration ::
  "(pyval \<Rightarrow> bool) \<Rightarrow> pyval \<Rightarrow> pyval \<Rightarrow> string \<Rightarrow> pyval \<Rightarrow> dict result" where
  "check_registration has_put callback event_type subscriber filters =
     (if \<not> hashable event_type then Inl PyTypeError
      else if \<not> py_mem event_type SERVICE_EVENT_TYPES then
        Inl (DEFwError ''Unsupported directory event type'')
      else if subscriber = [] then
        Inl (DEFwError ''Directory event registration missing subscriber runtime ID'')
      else if callback = PNone \<or> \<not> has_put callback then
        Inl (DEFwError ''Directory event callback must expose put(event)'')
      else ebind (py_dict (py_or filters (PDict []))) (\<lambda>fs.
        let unsupported = filter (\<lambda>k. \<not> py_mem k SERVICE_EVENT_FILTERS) (map fst fs) in
        if unsupported \<noteq> [] then
          Inl (if list_all is_str unsupported
               then DEFwError ''Unsupported directory event filters'' else PyTypeError)
        else Inr fs))"

definition register_event_notification ::
  "(pyval \<Rightarrow> bool) \<Rightarrow> string \<Rightarrow> pyval \<Rightarrow> pyval \<Rightarrow> string \<Rightarrow> pyval \<Rightarrow> directory \<Rightarrow> string dir_op" where
  "register_event_notification has_put uuid callback event_type subscriber filters d =
     (case check_registration has_put callback event_type subscriber filters of
        Inl e \<Rightarrow> (d, [], Inl e)
      | Inr fs \<Rightarrow>
          (let registration =
             \<lparr>rg_registration_id = uuid, rg_event_type = event_type,
              rg_subscriber_runtime_id = subscriber, rg_callback = callback,
              rg_filters = fs\<rparr>;
             regs = (case map_of (d_event_registrations d) event_type of
                       None \<Rightarrow> [] | Some rs \<Rightarrow> rs) in
           (d\<lparr>d_event_registrations := AList.update event_type
                (AList.update uuid registration regs) (d_event_registrations d)\<rparr>,
            [], Inr uuid)))"

text \<open>The first event type that holds the id loses it; an emptied event type stays.\<close>

fun pop_registration ::
  "string \<Rightarrow> (pyval \<times> (string \<times> registration) list) list
     \<Rightarrow> (pyval \<times> (string \<times> registration) list) list \<times> bool" where
  "pop_registration rid [] = ([], False)"
| "pop_registration rid ((et, regs) # rest) =
     (case map_of regs rid of
        Some _ \<Rightarrow> ((et, AList.delete rid regs) # rest, True)
      | None \<Rightarrow> (case pop_registration rid rest of (rest', found) \<Rightarrow> ((et, regs) # rest', found)))"

definition unregister_event_notification :: "string \<Rightarrow> directory \<Rightarrow> bool dir_op" where
  "unregister_event_notification rid d =
     (case pop_registration rid (d_event_registrations d) of
        (regs, found) \<Rightarrow> (d\<lparr>d_event_registrations := regs\<rparr>, [], Inr found))"

definition remove_subscriber :: "pyval \<Rightarrow> directory \<Rightarrow> directory" where
  "remove_subscriber runtime_id d =
     d\<lparr>d_event_registrations :=
         filter (\<lambda>(et, regs). regs \<noteq> [])
           (map (\<lambda>(et, regs).
              (et, filter (\<lambda>(rid, rg). \<not> py_eq (PStr (rg_subscriber_runtime_id rg)) runtime_id) regs))
            (d_event_registrations d))\<rparr>"

definition notify_lifecycle ::
  "directory \<Rightarrow> string \<Rightarrow> service_record \<Rightarrow> dict \<Rightarrow> pyval \<Rightarrow> dict \<Rightarrow> dir_out list" where
  "notify_lifecycle d event_type r peer_event reason details =
     map (\<lambda>listener. LifecycleCall listener event_type r peer_event reason details)
       (d_lifecycle_listeners d)"

text \<open>An unset filter value matches; the other values are compared with the record's field.\<close>

definition event_matches :: "dict \<Rightarrow> service_record \<Rightarrow> bool" where
  "event_matches filters r =
     list_all (\<lambda>(k, v). \<not> truthy v \<or>
       py_eq (case map_of (record_dict r) k of None \<Rightarrow> PNone | Some w \<Rightarrow> w) v) filters"

definition publish_service_event ::
  "string \<Rightarrow> directory \<Rightarrow> pyval \<Rightarrow> service_record \<Rightarrow> pyval \<Rightarrow> dir_out list" where
  "publish_service_event local_id d event_type r reason =
     (let registrations = filter (\<lambda>rg. event_matches (rg_filters rg) r)
        (map snd (case map_of (d_event_registrations d) event_type of None \<Rightarrow> [] | Some rs \<Rightarrow> rs));
        event =
          \<lparr>se_event = event_type, se_directory_runtime_id = local_id,
           se_service_id = sr_service_id r, se_service_type = sr_service_type r,
           se_runtime_id = sr_runtime_id r, se_peer_handle = sr_peer_handle r,
           se_service_record = (if event_type = SERVICE_CONNECTED then Some r else None),
           se_reason = (if event_type = SERVICE_CONNECTED then None
                        else Some (py_or reason (sr_down_reason r)))\<rparr>
      in map (\<lambda>rg. EventPut (rg_callback rg) event) registrations)"

subsection \<open>Registration and deregistration\<close>

text \<open>
  The record a registration stores. The conversions are evaluated in the order of the code, and
  the first one that fails ends the registration before anything is stored.
\<close>

definition build_record ::
  "real \<Rightarrow> pyval \<Rightarrow> pyval \<Rightarrow> pyval \<Rightarrow> int \<Rightarrow> dict \<Rightarrow> dict \<Rightarrow> service_record result" where
  "build_record now sid rid ph gen rec peer =
     ebind (py_dict (py_or (dget0 rec ''properties'') (PDict []))) (\<lambda>properties0.
     ebind (record_value rec [''qpm_type'']) (\<lambda>qpm_type.
     ebind (record_value rec [''qpm_capabilities'']) (\<lambda>qpm_capabilities.
     let properties1 = (if \<not> py_eq qpm_type (PInt (-1))
                        then dsetdefault ''qpm_type'' qpm_type properties0 else properties0);
         properties = (if \<not> py_eq qpm_capabilities (PInt (-1))
                       then dsetdefault ''qpm_capabilities'' qpm_capabilities properties1
                       else properties1) in
     ebind (py_dict (py_or (py_or (dget0 rec ''endpoint'') (dget0 peer ''endpoint'')) (PDict [])))
       (\<lambda>ep.
     ebind (normalize_bindings rec) (\<lambda>bindings.
     ebind (py_dict (py_or (dget0 rec ''selector'') (PDict []))) (\<lambda>sel.
     ebind (py_dict (py_or (dget0 rec ''capability'') (PDict []))) (\<lambda>cap.
     Inr \<lparr>sr_service_id = sid,
          sr_service_name = py_or (dget0 rec ''service_name'') sid,
          sr_service_type = dget rec ''service_type'' (PStr ''defw.service''),
          sr_runtime_id = rid,
          sr_peer_handle = ph,
          sr_generation = gen,
          sr_endpoint = ep,
          sr_api_bindings = bindings,
          sr_selector = sel,
          sr_properties = properties,
          sr_capability = cap,
          sr_qpm_type = qpm_type,
          sr_qpm_capabilities = qpm_capabilities,
          sr_state = UP,
          sr_last_seen = now,
          sr_state_changed_at = now,
          sr_down_reason = PStr '''',
          sr_retention_deadline = None\<rparr>)))))))"

definition register_service ::
  "real \<Rightarrow> string \<Rightarrow> dict \<Rightarrow> dict \<Rightarrow> directory \<Rightarrow> service_record dir_op" where
  "register_service now local_id rec peer d =
     (let sid = py_or (dget0 rec ''service_id'') (dget0 rec ''name'') in
      if \<not> truthy sid then
        (d, [], Inl (DEFwError ''Directory registration missing service_id''))
      else
        (let rid = py_or (dget0 rec ''runtime_id'') (dget0 peer ''runtime_id'');
             ph = py_or (dget0 rec ''peer_handle'') (dget0 peer ''peer_handle'') in
         if \<not> truthy rid \<or> \<not> truthy ph then
           (d, [], Inl (DEFwError ''Directory registration missing peer binding''))
         else if \<not> hashable sid then (d, [], Inl PyTypeError)
         else
           (let current = map_of (d_records d) sid;
                live = (case current of None \<Rightarrow> False | Some c \<Rightarrow> sr_state c = UP) in
            if (case current of None \<Rightarrow> False
                | Some c \<Rightarrow> sr_state c = UP \<and> \<not> py_eq (sr_runtime_id c) rid) then
              (d, [], Inl (DEFwError ''service_id already has a live runtime''))
            else
              (let gen = (case current of None \<Rightarrow> 1
                          | Some c \<Rightarrow> if sr_state c = UP then sr_generation c
                                     else sr_generation c + 1);
                   details = (case current of None \<Rightarrow> []
                              | Some c \<Rightarrow> if sr_state c = UP then []
                                  else [(PStr ''previous_generation'', PInt (sr_generation c))]) in
               case build_record now sid rid ph gen rec peer of
                 Inl e \<Rightarrow> (d, [], Inl e)
               | Inr r \<Rightarrow>
                   (let d' = d\<lparr>d_records := AList.update sid r (d_records d)\<rparr> in
                    (d', notify_lifecycle d' ''registration'' r [] PNone details
                         @ (if live then []
                            else publish_service_event local_id d' SERVICE_CONNECTED r (PStr '''')),
                     Inr r))))))"

definition deregister_service ::
  "real \<Rightarrow> string \<Rightarrow> pyval \<Rightarrow> pyval \<Rightarrow> pyval \<Rightarrow> directory \<Rightarrow> service_record dir_op" where
  "deregister_service now local_id sid rid gen d =
     (if \<not> hashable sid then (d, [], Inl PyTypeError)
      else case map_of (d_records d) sid of
        None \<Rightarrow> (d, [], Inl (DEFwNotFound ''service_id not registered''))
      | Some r \<Rightarrow>
          if \<not> py_eq (sr_runtime_id r) rid \<or> \<not> py_eq (PInt (sr_generation r)) gen then
            (d, [], Inl (DEFwError ''stale deregistration request''))
          else
            (let r' = r\<lparr>sr_state := DEREGISTERED, sr_endpoint := [], sr_state_changed_at := now,
                        sr_retention_deadline := Some (now + d_retention_seconds d)\<rparr>;
                 d' = d\<lparr>d_records := AList.update sid r' (d_records d)\<rparr> in
             (d', notify_lifecycle d' ''deregistration'' r' [] PNone []
                  @ publish_service_event local_id d' SERVICE_DISCONNECTED r' (PStr ''deregistered''),
              Inr r')))"

subsection \<open>Peer events\<close>

definition is_loss :: "pyval \<Rightarrow> bool" where
  "is_loss event_type = (event_type \<in> {PStr ''PEER_LOST'', PStr ''PEER_REMOVED''})"

definition event_runtime :: "dict \<Rightarrow> pyval" where
  "event_runtime event = py_or (dget0 event ''remote_runtime_id'') (dget0 event ''runtime_id'')"

text \<open>
  The body of the loop over the records: the record it leaves and the notification it queues. A
  time stamp that is not a number raises when it is first compared, before any record changed.
\<close>

definition peer_step ::
  "real \<Rightarrow> dict \<Rightarrow> pyval \<Rightarrow> service_record
     \<Rightarrow> (service_record \<times> (string \<times> service_record \<times> pyval) list) result" where
  "peer_step retention event now r =
     (if \<not> py_eq (sr_peer_handle r) (dget0 event ''peer_handle'') then Inr (r, [])
      else if truthy (event_runtime event) \<and> \<not> py_eq (sr_runtime_id r) (event_runtime event)
        then Inr (r, [])
      else case py_num now of None \<Rightarrow> Inl PyTypeError
      | Some t \<Rightarrow>
          if t < sr_last_seen r then Inr (r, [])
          else
            (let r1 = r\<lparr>sr_last_seen := t\<rparr> in
             if is_loss (dget0 event ''event_type'') then
               (let reason = py_or (dget event ''reason'' (PStr '''')) (PStr ''peer-removed'');
                    r2 = r1\<lparr>sr_state := (if reason = PStr ''heartbeat-timeout''
                                          then TIMED_OUT else DOWN),
                            sr_down_reason := reason,
                            sr_state_changed_at := t,
                            sr_retention_deadline := Some (t + retention)\<rparr>
                in Inr (r2, [(''peer-lost'', r2, reason)]))
             else if dget0 event ''event_type'' = PStr ''PEER_READY''
                  \<and> sr_state r1 \<in> {DOWN, TIMED_OUT} then
               (let r2 = r1\<lparr>sr_state := UP, sr_down_reason := PStr '''',
                            sr_state_changed_at := t, sr_retention_deadline := None\<rparr>
                in Inr (r2, [(''peer-ready'', r2, dget event ''reason'' (PStr ''''))]))
             else Inr (r1, [])))"

definition peer_sweep ::
  "real \<Rightarrow> dict \<Rightarrow> pyval \<Rightarrow> (pyval \<times> service_record) list
     \<Rightarrow> ((pyval \<times> service_record) list \<times> (string \<times> service_record \<times> pyval) list) result" where
  "peer_sweep retention event now rs =
     ebind (emap (\<lambda>(k, r). ebind (peer_step retention event now r) (\<lambda>(r', ns). Inr ((k, r'), ns))) rs)
       (\<lambda>xs. Inr (map fst xs, concat (map snd xs)))"

definition peer_outputs ::
  "string \<Rightarrow> directory \<Rightarrow> dict \<Rightarrow> string \<times> service_record \<times> pyval \<Rightarrow> dir_out list" where
  "peer_outputs local_id d event n =
     (case n of (lifecycle_event, r, reason) \<Rightarrow>
        notify_lifecycle d lifecycle_event r event reason []
        @ publish_service_event local_id d
            (if lifecycle_event = ''peer-ready'' then SERVICE_CONNECTED else SERVICE_DISCONNECTED)
            r reason)"

definition apply_peer_event :: "real \<Rightarrow> string \<Rightarrow> dict \<Rightarrow> directory \<Rightarrow> unit dir_op" where
  "apply_peer_event clock local_id event d =
     (let now = dget event ''timestamp'' (PFloat clock);
          d1 = (if is_loss (dget0 event ''event_type'') \<and> truthy (event_runtime event)
                then remove_subscriber (event_runtime event) d else d) in
      case peer_sweep (d_retention_seconds d1) event now (d_records d1) of
        Inl e \<Rightarrow> (d1, [], Inl e)
      | Inr (rs, notifications) \<Rightarrow>
          (let d2 = d1\<lparr>d_records := rs\<rparr> in
           (d2, concat (map (peer_outputs local_id d2 event) notifications), Inr ())))"

subsection \<open>Queries and retention\<close>

definition expired :: "real \<Rightarrow> service_record \<Rightarrow> bool" where
  "expired now r =
     (case sr_retention_deadline r of None \<Rightarrow> False | Some t \<Rightarrow> t \<noteq> 0 \<and> t \<le> now)"

definition purge_expired :: "real \<Rightarrow> real option \<Rightarrow> directory \<Rightarrow> unit dir_op" where
  "purge_expired clock now_arg d =
     (let now = (case now_arg of None \<Rightarrow> clock | Some t \<Rightarrow> if t = 0 then clock else t);
          purged = filter (\<lambda>(k, r). expired now r) (d_records d);
          d' = d\<lparr>d_records := filter (\<lambda>(k, r). \<not> expired now r) (d_records d)\<rparr> in
      (d', concat (map (\<lambda>(k, r). notify_lifecycle d' ''retention-purge'' r [] PNone
                          [(PStr ''purged_at'', PFloat now)]) purged), Inr ()))"

text \<open>A filter on a field applies when its value is true.\<close>

definition field_matches :: "dict \<Rightarrow> dict \<Rightarrow> string \<times> string \<Rightarrow> bool" where
  "field_matches filters d p =
     (case p of (src, dst) \<Rightarrow>
        \<not> truthy (dget0 filters src) \<or> py_eq (dget0 d dst) (dget0 filters src))"

definition selector_has :: "dict \<Rightarrow> dict \<Rightarrow> string \<Rightarrow> string \<Rightarrow> bool result" where
  "selector_has filters sel src dst =
     (if \<not> truthy (dget0 filters src) then Inr True
      else py_contains (dget0 filters src) (dget sel dst (PList [])))"

definition record_matches :: "service_record \<Rightarrow> dict \<Rightarrow> bool result" where
  "record_matches r filters =
     (if \<not> list_all (\<lambda>field. field_matches filters (record_dict r) (field, field))
           [''service_id'', ''service_name'', ''service_type'']
      then Inr False
      else
        ebind (record_value (record_dict r) [''qpm_type'']) (\<lambda>qt.
        if \<not> bits_match qt (dget filters ''qpm_type'' (PInt (-1))) then Inr False
        else
          ebind (record_value (record_dict r) [''qpm_capabilities'']) (\<lambda>qc.
          if \<not> bits_match qc (dget filters ''qpm_capabilities'' (PInt (-1))) then Inr False
          else
            ebind (py_items (py_or (dget0 filters ''properties'') (PDict []))) (\<lambda>props.
            if \<not> list_all (\<lambda>(k, v).
                 py_eq (case map_of (sr_properties r) k of None \<Rightarrow> PNone | Some w \<Rightarrow> w) v) props
            then Inr False
            else if \<not> field_matches filters (sr_selector r) (''selector_name'', ''name'')
            then Inr False
            else
              ebind (selector_has filters (sr_selector r) ''selector_alias'' ''aliases'') (\<lambda>ok1.
              if \<not> ok1 then Inr False
              else selector_has filters (sr_selector r) ''selector_resource'' ''resources'')))))"

definition binding_matches :: "dict \<Rightarrow> dict \<Rightarrow> bool" where
  "binding_matches binding filters =
     list_all (field_matches filters binding)
       [(''binding_name'', ''binding_name''), (''client_class'', ''client_class''),
        (''service_class'', ''service_class'')]"

record resolved_binding =
  rb_service_record :: service_record
  rb_selected_binding :: dict
  rb_latest_generation :: int

definition record_bindings :: "dict \<Rightarrow> service_record \<Rightarrow> resolved_binding list result" where
  "record_bindings filters r =
     (if sr_state r \<noteq> UP then Inr []
      else ebind (record_matches r filters) (\<lambda>ok.
        Inr (if \<not> ok then []
             else map (\<lambda>b. \<lparr>rb_service_record = r, rb_selected_binding = b,
                            rb_latest_generation = sr_generation r\<rparr>)
                    (filter (\<lambda>b. binding_matches b filters) (sr_api_bindings r)))))"

definition resolve_services :: "real \<Rightarrow> dict \<Rightarrow> directory \<Rightarrow> resolved_binding list dir_op" where
  "resolve_services clock filters d =
     (case purge_expired clock None d of
        (d', out, _) \<Rightarrow>
          (d', out, ebind (emap (\<lambda>(k, r). record_bindings filters r) (d_records d'))
                      (\<lambda>bss. Inr (concat bss))))"

definition query :: "real \<Rightarrow> bool \<Rightarrow> directory \<Rightarrow> service_record list dir_op" where
  "query clock include_inactive d =
     (case purge_expired clock None d of
        (d', out, _) \<Rightarrow>
          (d', out, Inr (filter (\<lambda>r. include_inactive \<or> sr_state r = UP) (map snd (d_records d')))))"

definition get_service_generation :: "real \<Rightarrow> pyval \<Rightarrow> directory \<Rightarrow> int option dir_op" where
  "get_service_generation clock sid d =
     (case purge_expired clock None d of
        (d', out, _) \<Rightarrow>
          (d', out, if \<not> hashable sid then Inl PyTypeError
                    else Inr (map_option sr_generation (map_of (d_records d') sid))))"

subsection \<open>Well-formed directories\<close>

text \<open>
  What every operation keeps: one record per service id, stored under its own id; a generation of
  at least 1; a runtime, a peer and at least one binding; a retention deadline exactly while the
  service is not up, counted from the last change of state; no loss reason while up; no endpoint
  once deregistered; and event registrations filed under their own type and id.
\<close>

definition record_ok :: "real \<Rightarrow> pyval \<Rightarrow> service_record \<Rightarrow> bool" where
  "record_ok retention k r \<longleftrightarrow>
     sr_service_id r = k \<and> truthy k \<and> hashable k \<and> 1 \<le> sr_generation r \<and>
     truthy (sr_runtime_id r) \<and> truthy (sr_peer_handle r) \<and> sr_api_bindings r \<noteq> [] \<and>
     sr_retention_deadline r =
       (if sr_state r = UP then None else Some (sr_state_changed_at r + retention)) \<and>
     (sr_state r = UP \<longrightarrow> sr_down_reason r = PStr '''') \<and>
     (sr_state r = DEREGISTERED \<longrightarrow> sr_endpoint r = [])"

definition registration_ok :: "pyval \<Rightarrow> string \<times> registration \<Rightarrow> bool" where
  "registration_ok et p \<longleftrightarrow>
     rg_registration_id (snd p) = fst p \<and> rg_event_type (snd p) = et \<and>
     rg_subscriber_runtime_id (snd p) \<noteq> [] \<and> rg_callback (snd p) \<noteq> PNone \<and>
     list_all (\<lambda>k. k \<in> set SERVICE_EVENT_FILTERS) (map fst (rg_filters (snd p)))"

definition records_ok :: "real \<Rightarrow> (pyval \<times> service_record) list \<Rightarrow> bool" where
  "records_ok retention rs \<longleftrightarrow>
     distinct (map fst rs) \<and> list_all (\<lambda>(k, r). record_ok retention k r) rs"

definition registrations_ok :: "(pyval \<times> (string \<times> registration) list) list \<Rightarrow> bool" where
  "registrations_ok regs \<longleftrightarrow>
     distinct (map fst regs) \<and>
     list_all (\<lambda>(et, rs). et \<in> set SERVICE_EVENT_TYPES \<and> distinct (map fst rs) \<and>
       list_all (registration_ok et) rs) regs"

definition dir_inv :: "directory \<Rightarrow> bool" where
  "dir_inv d \<longleftrightarrow> records_ok (d_retention_seconds d) (d_records d) \<and>
     registrations_ok (d_event_registrations d)"

lemma records_ok_update:
  assumes "records_ok ret rs" and "record_ok ret k r"
  shows "records_ok ret (AList.update k r rs)"
  using assms unfolding records_ok_def list_all_iff
  by (auto simp: distinct_update set_alist_update)

lemma records_ok_filter: "records_ok ret rs \<Longrightarrow> records_ok ret (filter P rs)"
  by (auto simp: records_ok_def list_all_iff distinct_fst_filter)

lemma records_ok_lookup: "records_ok ret rs \<Longrightarrow> map_of rs k = Some r \<Longrightarrow> record_ok ret k r"
  by (auto simp: records_ok_def list_all_iff dest: map_of_SomeD)

lemma py_iter_nonempty: "truthy v \<Longrightarrow> py_iter v = Inr xs \<Longrightarrow> xs \<noteq> []"
  by (cases v) auto

lemma normalize_bindings_nonempty: "normalize_bindings rec = Inr bs \<Longrightarrow> bs \<noteq> []"
  by (auto simp: normalize_bindings_def Let_def ebind_Inr_iff
      dest!: emap_length py_iter_nonempty split: if_splits)

lemma build_record_fields:
  assumes "build_record now sid rid ph gen rec peer = Inr r"
  shows "sr_service_id r = sid \<and> sr_runtime_id r = rid \<and> sr_peer_handle r = ph \<and>
    sr_generation r = gen \<and> sr_state r = UP \<and> sr_last_seen r = now \<and>
    sr_state_changed_at r = now \<and> sr_down_reason r = PStr '''' \<and>
    sr_retention_deadline r = None \<and> sr_api_bindings r \<noteq> [] \<and>
    sr_service_name r = py_or (dget0 rec ''service_name'') sid \<and>
    sr_service_type r = dget rec ''service_type'' (PStr ''defw.service'')"
  using assms
  by (auto simp: build_record_def Let_def ebind_Inr_iff dest: normalize_bindings_nonempty)

text \<open>The identities a registration resolves to, and the generation it is given.\<close>

abbreviation reg_sid :: "dict \<Rightarrow> pyval" where
  "reg_sid rec \<equiv> py_or (dget0 rec ''service_id'') (dget0 rec ''name'')"

abbreviation reg_rid :: "dict \<Rightarrow> dict \<Rightarrow> pyval" where
  "reg_rid rec peer \<equiv> py_or (dget0 rec ''runtime_id'') (dget0 peer ''runtime_id'')"

abbreviation reg_ph :: "dict \<Rightarrow> dict \<Rightarrow> pyval" where
  "reg_ph rec peer \<equiv> py_or (dget0 rec ''peer_handle'') (dget0 peer ''peer_handle'')"

definition next_generation :: "service_record option \<Rightarrow> int" where
  "next_generation current = (case current of None \<Rightarrow> 1
     | Some c \<Rightarrow> if sr_state c = UP then sr_generation c else sr_generation c + 1)"

definition is_live :: "service_record option \<Rightarrow> bool" where
  "is_live current = (case current of None \<Rightarrow> False | Some c \<Rightarrow> sr_state c = UP)"

lemma register_service_err:
  "register_service now lid rec peer d = (d', out, Inl e) \<Longrightarrow> d' = d \<and> out = []"
  by (auto simp: register_service_def Let_def split: if_splits option.splits sum.splits)

lemma register_service_ok:
  assumes "register_service now lid rec peer d = (d', out, Inr r)"
  shows "truthy (reg_sid rec)" and "hashable (reg_sid rec)"
    and "truthy (reg_rid rec peer)" and "truthy (reg_ph rec peer)"
    and "build_record now (reg_sid rec) (reg_rid rec peer) (reg_ph rec peer)
           (next_generation (map_of (d_records d) (reg_sid rec))) rec peer = Inr r"
    and "d' = d\<lparr>d_records := AList.update (reg_sid rec) r (d_records d)\<rparr>"
    and "\<And>c. map_of (d_records d) (reg_sid rec) = Some c \<Longrightarrow> sr_state c = UP \<Longrightarrow>
           py_eq (sr_runtime_id c) (reg_rid rec peer)"
    and "out = notify_lifecycle d' ''registration'' r [] PNone
             (case map_of (d_records d) (reg_sid rec) of None \<Rightarrow> []
              | Some c \<Rightarrow> if sr_state c = UP then []
                  else [(PStr ''previous_generation'', PInt (sr_generation c))])
           @ (if is_live (map_of (d_records d) (reg_sid rec)) then []
              else publish_service_event lid d' SERVICE_CONNECTED r (PStr ''''))"
  using assms
  by (auto simp: register_service_def Let_def next_generation_def is_live_def
      split: if_splits option.splits sum.splits)

lemma register_service_inv:
  assumes inv: "dir_inv d" and step: "register_service now lid rec peer d = (d', out, res)"
  shows "dir_inv d'"
proof (cases res)
  case (Inl e)
  with step have "d' = d" by (blast dest: register_service_err)
  with inv show ?thesis by simp
next
  case (Inr r)
  note ok = register_service_ok [OF step [unfolded Inr]]
  from inv have recs: "records_ok (d_retention_seconds d) (d_records d)" by (simp add: dir_inv_def)
  have "1 \<le> next_generation (map_of (d_records d) (reg_sid rec))"
    using records_ok_lookup [OF recs, of "reg_sid rec"]
    by (fastforce simp: next_generation_def record_ok_def split: option.splits)
  then have "record_ok (d_retention_seconds d) (reg_sid rec) r"
    using ok(1-4) build_record_fields [OF ok(5)] by (simp add: record_ok_def)
  then show ?thesis
    using inv ok(6) by (auto simp: dir_inv_def intro: records_ok_update)
qed

lemma deregister_service_err:
  "deregister_service now lid sid rid gen d = (d', out, Inl e) \<Longrightarrow> d' = d \<and> out = []"
  by (auto simp: deregister_service_def Let_def split: if_splits option.splits)

lemma deregister_service_ok:
  assumes "deregister_service now lid sid rid gen d = (d', out, Inr r')"
  obtains r where "map_of (d_records d) sid = Some r" and "py_eq (sr_runtime_id r) rid"
    and "py_eq (PInt (sr_generation r)) gen" and "hashable sid"
    and "r' = r\<lparr>sr_state := DEREGISTERED, sr_endpoint := [], sr_state_changed_at := now,
                 sr_retention_deadline := Some (now + d_retention_seconds d)\<rparr>"
    and "d' = d\<lparr>d_records := AList.update sid r' (d_records d)\<rparr>"
    and "out = notify_lifecycle d' ''deregistration'' r' [] PNone []
           @ publish_service_event lid d' SERVICE_DISCONNECTED r' (PStr ''deregistered'')"
  using assms
  by (auto simp: deregister_service_def Let_def split: if_splits option.splits)

lemma deregister_service_inv:
  assumes inv: "dir_inv d" and step: "deregister_service now lid sid rid gen d = (d', out, res)"
  shows "dir_inv d'"
proof (cases res)
  case (Inl e)
  with step have "d' = d" by (blast dest: deregister_service_err)
  with inv show ?thesis by simp
next
  case (Inr r')
  from deregister_service_ok [OF step [unfolded Inr]] obtain r where
    r: "map_of (d_records d) sid = Some r" and
    r': "r' = r\<lparr>sr_state := DEREGISTERED, sr_endpoint := [], sr_state_changed_at := now,
                 sr_retention_deadline := Some (now + d_retention_seconds d)\<rparr>" and
    d': "d' = d\<lparr>d_records := AList.update sid r' (d_records d)\<rparr>" by blast
  from inv have recs: "records_ok (d_retention_seconds d) (d_records d)" by (simp add: dir_inv_def)
  from records_ok_lookup [OF recs r] have "record_ok (d_retention_seconds d) sid r'"
    by (simp add: record_ok_def r')
  then show ?thesis
    using inv d' by (auto simp: dir_inv_def intro: records_ok_update)
qed

lemma purge_expired_eq:
  "purge_expired clock now_arg d = (d', out, res) \<Longrightarrow>
     \<exists>now. d' = d\<lparr>d_records := filter (\<lambda>(k, r). \<not> expired now r) (d_records d)\<rparr> \<and> res = Inr ()"
  by (auto simp: purge_expired_def Let_def)

lemma purge_expired_inv: "dir_inv d \<Longrightarrow> purge_expired clock now_arg d = (d', out, res) \<Longrightarrow> dir_inv d'"
  by (auto dest!: purge_expired_eq simp: dir_inv_def intro: records_ok_filter)

text \<open>The loop over the records, unfolded one record at a time.\<close>

lemma peer_sweep_Nil [simp]: "peer_sweep ret ev now [] = Inr ([], [])"
  by (simp add: peer_sweep_def)

lemma peer_sweep_Cons [simp]:
  "peer_sweep ret ev now ((k, r) # rs) =
     ebind (peer_step ret ev now r) (\<lambda>(r', ns).
     ebind (peer_sweep ret ev now rs) (\<lambda>(rs', ns'). Inr ((k, r') # rs', ns @ ns')))"
  by (auto simp: peer_sweep_def ebind_def split: sum.splits)

lemma peer_sweep_keys: "peer_sweep ret ev now rs = Inr (rs', ns) \<Longrightarrow> map fst rs' = map fst rs"
  by (induction rs arbitrary: rs' ns) (auto simp: ebind_Inr_iff)

lemma peer_sweep_lookup:
  assumes "peer_sweep ret ev now rs = Inr (rs', ns)" and "map_of rs k = Some r"
  obtains r' ms where "peer_step ret ev now r = Inr (r', ms)" and "map_of rs' k = Some r'"
  using assms by (induction rs arbitrary: rs' ns) (auto simp: ebind_Inr_iff split: if_splits)

lemma peer_sweep_lookup_back:
  assumes "peer_sweep ret ev now rs = Inr (rs', ns)" and "map_of rs' k = Some r'"
  obtains r ms where "peer_step ret ev now r = Inr (r', ms)" and "map_of rs k = Some r"
  using assms by (induction rs arbitrary: rs' ns) (auto simp: ebind_Inr_iff split: if_splits)

text \<open>What one event does to one record: nothing, a loss, a recovery, or a newer \<open>last_seen\<close>.\<close>

definition peer_concerns :: "dict \<Rightarrow> service_record \<Rightarrow> bool" where
  "peer_concerns ev r \<longleftrightarrow> py_eq (sr_peer_handle r) (dget0 ev ''peer_handle'') \<and>
     (truthy (event_runtime ev) \<longrightarrow> py_eq (sr_runtime_id r) (event_runtime ev))"

definition loss_reason_of :: "dict \<Rightarrow> pyval" where
  "loss_reason_of ev = py_or (dget ev ''reason'' (PStr '''')) (PStr ''peer-removed'')"

definition lost_record :: "real \<Rightarrow> dict \<Rightarrow> real \<Rightarrow> service_record \<Rightarrow> service_record" where
  "lost_record ret ev t r = r\<lparr>sr_last_seen := t,
     sr_state := (if loss_reason_of ev = PStr ''heartbeat-timeout'' then TIMED_OUT else DOWN),
     sr_down_reason := loss_reason_of ev, sr_state_changed_at := t,
     sr_retention_deadline := Some (t + ret)\<rparr>"

definition ready_record :: "real \<Rightarrow> service_record \<Rightarrow> service_record" where
  "ready_record t r = r\<lparr>sr_last_seen := t, sr_state := UP, sr_down_reason := PStr '''',
     sr_state_changed_at := t, sr_retention_deadline := None\<rparr>"

lemma peer_step_eq:
  "peer_step ret ev now r =
     (if \<not> peer_concerns ev r then Inr (r, [])
      else case py_num now of None \<Rightarrow> Inl PyTypeError
      | Some t \<Rightarrow>
          if t < sr_last_seen r then Inr (r, [])
          else if is_loss (dget0 ev ''event_type'') then
            Inr (lost_record ret ev t r,
                 [(''peer-lost'', lost_record ret ev t r, loss_reason_of ev)])
          else if dget0 ev ''event_type'' = PStr ''PEER_READY'' \<and> sr_state r \<in> {DOWN, TIMED_OUT}
            then Inr (ready_record t r,
                 [(''peer-ready'', ready_record t r, dget ev ''reason'' (PStr ''''))])
          else Inr (r\<lparr>sr_last_seen := t\<rparr>, []))"
proof (cases "peer_concerns ev r")
  case False
  then show ?thesis by (auto simp: peer_step_def peer_concerns_def)
next
  case c: True
  then have "py_eq (sr_peer_handle r) (dget0 ev ''peer_handle'')"
    "\<not> (truthy (event_runtime ev) \<and> \<not> py_eq (sr_runtime_id r) (event_runtime ev))"
    by (auto simp: peer_concerns_def)
  with c show ?thesis
    by (cases "py_num now")
      (simp_all add: peer_step_def loss_reason_of_def lost_record_def ready_record_def Let_def
        del: de_Morgan_conj insert_iff)
qed

lemma peer_step_cases:
  assumes "peer_step ret ev now r = Inr (r', ns)"
  obtains (ignored) "r' = r" "ns = []"
      "peer_concerns ev r \<Longrightarrow> \<exists>t. py_num now = Some t \<and> t < sr_last_seen r"
  | (lost) t where "peer_concerns ev r" "py_num now = Some t" "sr_last_seen r \<le> t"
      "is_loss (dget0 ev ''event_type'')" "r' = lost_record ret ev t r"
      "ns = [(''peer-lost'', r', loss_reason_of ev)]"
  | (ready) t where "peer_concerns ev r" "py_num now = Some t" "sr_last_seen r \<le> t"
      "dget0 ev ''event_type'' = PStr ''PEER_READY''" "sr_state r \<in> {DOWN, TIMED_OUT}"
      "r' = ready_record t r" "ns = [(''peer-ready'', r', dget ev ''reason'' (PStr ''''))]"
  | (seen) t where "peer_concerns ev r" "py_num now = Some t" "sr_last_seen r \<le> t"
      "\<not> is_loss (dget0 ev ''event_type'')"
      "dget0 ev ''event_type'' = PStr ''PEER_READY'' \<Longrightarrow> sr_state r \<notin> {DOWN, TIMED_OUT}"
      "r' = r\<lparr>sr_last_seen := t\<rparr>" "ns = []"
proof (cases "peer_concerns ev r")
  case False
  with assms have "r' = r" "ns = []" by (simp_all add: peer_step_eq)
  with False show thesis using ignored by simp
next
  case c: True
  show thesis
  proof (cases "py_num now")
    case None
    with assms c show thesis by (simp add: peer_step_eq)
  next
    case t: (Some t)
    consider "t < sr_last_seen r" | "sr_last_seen r \<le> t" by linarith
    then show thesis
    proof cases
      case 1
      with assms c t have "r' = r" "ns = []" by (simp_all add: peer_step_eq)
      with 1 t show thesis using ignored by simp
    next
      case 2
      let ?et = "dget0 ev ''event_type''"
      consider (l) "is_loss ?et"
        | (r) "\<not> is_loss ?et" "?et = PStr ''PEER_READY''" "sr_state r \<in> {DOWN, TIMED_OUT}"
        | (s) "\<not> is_loss ?et" "\<not> (?et = PStr ''PEER_READY'' \<and> sr_state r \<in> {DOWN, TIMED_OUT})"
        by blast
      then show thesis
      proof cases
        case l
        show thesis
          by (rule lost [OF c t 2 l]) (use assms c t 2 l in \<open>auto simp: peer_step_eq\<close>)
      next
        case r
        show thesis
          by (rule ready [OF c t 2 r(2,3)]) (use assms c t 2 r in \<open>auto simp: peer_step_eq\<close>)
      next
        case s
        show thesis
          by (rule seen [OF c t 2 s(1)])
            (use assms c t 2 s in \<open>simp_all add: peer_step_eq split: if_split_asm\<close>)
      qed
    qed
  qed
qed

lemma peer_step_id:
  "peer_step ret ev now r = Inr (r', ns) \<Longrightarrow>
     sr_service_id r' = sr_service_id r \<and> sr_runtime_id r' = sr_runtime_id r \<and>
     sr_peer_handle r' = sr_peer_handle r \<and> sr_generation r' = sr_generation r \<and>
     sr_api_bindings r' = sr_api_bindings r \<and> sr_endpoint r' = sr_endpoint r"
  by (erule peer_step_cases) (simp_all add: lost_record_def ready_record_def)

lemma peer_step_record_ok:
  assumes "record_ok ret k r" and "peer_step ret ev now r = Inr (r', ns)"
  shows "record_ok ret k r'"
  using assms(2,1)
  by (cases rule: peer_step_cases) (simp_all add: record_ok_def lost_record_def ready_record_def)

lemma peer_sweep_records_ok:
  assumes "records_ok ret rs" and "peer_sweep ret ev now rs = Inr (rs', ns)"
  shows "records_ok ret rs'"
proof -
  have "list_all (\<lambda>(k, r). record_ok ret k r) rs'"
    using assms unfolding records_ok_def
    by (induction rs arbitrary: rs' ns) (fastforce simp: ebind_Inr_iff dest: peer_step_record_ok)+
  then show ?thesis
    using assms peer_sweep_keys [OF assms(2)] by (simp add: records_ok_def)
qed

lemma registrations_ok_prune:
  assumes "registrations_ok regs"
  shows "registrations_ok (filter (\<lambda>(et, rs). rs \<noteq> [])
           (map (\<lambda>(et, rs). (et, filter P rs)) regs))"
proof -
  have "map fst (map (\<lambda>(et, rs). (et, filter P rs)) regs) = map fst regs"
    by (induction regs) auto
  then have "distinct (map fst (filter (\<lambda>(et, rs). rs \<noteq> [])
      (map (\<lambda>(et, rs). (et, filter P rs)) regs)))"
    using assms by (simp add: registrations_ok_def distinct_fst_filter del: map_map)
  then show ?thesis
    using assms unfolding registrations_ok_def list_all_iff
    by (fastforce intro: distinct_fst_filter)
qed

lemma remove_subscriber_ok:
  "registrations_ok (d_event_registrations d) \<Longrightarrow>
     registrations_ok (d_event_registrations (remove_subscriber rid d))"
  by (simp add: remove_subscriber_def registrations_ok_prune)

lemma remove_subscriber_frame [simp]:
  "d_records (remove_subscriber rid d) = d_records d"
  "d_retention_seconds (remove_subscriber rid d) = d_retention_seconds d"
  "d_lifecycle_listeners (remove_subscriber rid d) = d_lifecycle_listeners d"
  by (simp_all add: remove_subscriber_def)

definition drop_lost :: "dict \<Rightarrow> directory \<Rightarrow> directory" where
  "drop_lost ev d = (if is_loss (dget0 ev ''event_type'') \<and> truthy (event_runtime ev)
                     then remove_subscriber (event_runtime ev) d else d)"

lemma drop_lost_frame [simp]:
  "d_records (drop_lost ev d) = d_records d"
  "d_retention_seconds (drop_lost ev d) = d_retention_seconds d"
  "d_lifecycle_listeners (drop_lost ev d) = d_lifecycle_listeners d"
  by (simp_all add: drop_lost_def)

lemma apply_peer_event_cases:
  assumes "apply_peer_event clock lid ev d = (d', out, res)"
  obtains (err) e where "res = Inl e" "out = []" "d' = drop_lost ev d"
  | (ok) rs ns where
      "peer_sweep (d_retention_seconds d) ev (dget ev ''timestamp'' (PFloat clock)) (d_records d)
         = Inr (rs, ns)"
      "res = Inr ()" "d' = (drop_lost ev d)\<lparr>d_records := rs\<rparr>"
      "out = concat (map (peer_outputs lid d' ev) ns)"
  using assms by (auto simp: apply_peer_event_def Let_def drop_lost_def [symmetric]
      split: sum.splits prod.splits)

lemma apply_peer_event_inv:
  assumes inv: "dir_inv d" and step: "apply_peer_event clock lid ev d = (d', out, res)"
  shows "dir_inv d'"
proof -
  have drop: "dir_inv (drop_lost ev d)"
    using inv by (auto simp: drop_lost_def dir_inv_def intro: remove_subscriber_ok)
  from step show ?thesis
    by (cases rule: apply_peer_event_cases)
      (use drop in \<open>auto simp: dir_inv_def intro: peer_sweep_records_ok\<close>)
qed

lemma py_mem_event_types: "py_mem et SERVICE_EVENT_TYPES \<Longrightarrow> et \<in> set SERVICE_EVENT_TYPES"
  by (cases et) (auto simp: py_mem_def SERVICE_EVENT_TYPES_def SERVICE_CONNECTED_def
      SERVICE_DISCONNECTED_def split: pyval.splits)

lemma py_mem_event_filters: "py_mem k SERVICE_EVENT_FILTERS \<Longrightarrow> k \<in> set SERVICE_EVENT_FILTERS"
  by (cases k) (auto simp: py_mem_def SERVICE_EVENT_FILTERS_def split: pyval.splits)

lemma registrations_ok_lookup:
  "registrations_ok regs \<Longrightarrow> map_of regs et = Some rs \<Longrightarrow>
     distinct (map fst rs) \<and> list_all (registration_ok et) rs"
  by (auto simp: registrations_ok_def list_all_iff dest!: map_of_SomeD)

lemma check_registration_ok:
  assumes "check_registration hp cb et sub fs = Inr fs'"
  shows "et \<in> set SERVICE_EVENT_TYPES \<and> sub \<noteq> [] \<and> cb \<noteq> PNone \<and> hp cb \<and>
    py_dict (py_or fs (PDict [])) = Inr fs' \<and>
    list_all (\<lambda>k. k \<in> set SERVICE_EVENT_FILTERS) (map fst fs')"
  using assms
  by (auto simp: check_registration_def Let_def ebind_Inr_iff list_all_iff filter_empty_conv
      dest!: py_mem_event_filters py_mem_event_types split: if_split_asm)

lemma register_event_notification_err:
  "register_event_notification hp u cb et sub fs d = (d', out, Inl e) \<Longrightarrow> d' = d \<and> out = []"
  by (simp add: register_event_notification_def Let_def split: sum.split_asm)

lemma register_event_notification_ok:
  assumes "register_event_notification hp u cb et sub fs d = (d', out, Inr rid)"
  obtains fs' rg where "check_registration hp cb et sub fs = Inr fs'"
    and "rg = \<lparr>rg_registration_id = u, rg_event_type = et, rg_subscriber_runtime_id = sub,
               rg_callback = cb, rg_filters = fs'\<rparr>"
    and "registration_ok et (u, rg)" and "et \<in> set SERVICE_EVENT_TYPES"
    and "d' = d\<lparr>d_event_registrations := AList.update et
           (AList.update u rg (case map_of (d_event_registrations d) et of
                                 None \<Rightarrow> [] | Some rs \<Rightarrow> rs)) (d_event_registrations d)\<rparr>"
    and "rid = u" and "out = []"
proof -
  from assms obtain fs' where fs': "check_registration hp cb et sub fs = Inr fs'"
    by (auto simp: register_event_notification_def Let_def split: sum.split_asm)
  show thesis
    by (rule that [OF fs' refl])
      (use assms check_registration_ok [OF fs'] in
        \<open>auto simp: register_event_notification_def Let_def registration_ok_def fs'\<close>)
qed

lemma registrations_ok_update:
  assumes "registrations_ok regs" and "registration_ok et (u, rg)" and "et \<in> set SERVICE_EVENT_TYPES"
  shows "registrations_ok (AList.update et
           (AList.update u rg (case map_of regs et of None \<Rightarrow> [] | Some rs \<Rightarrow> rs)) regs)"
proof -
  define old where "old = (case map_of regs et of None \<Rightarrow> [] | Some rs \<Rightarrow> rs)"
  have "distinct (map fst old) \<and> list_all (registration_ok et) old"
    using registrations_ok_lookup [OF assms(1), of et] by (auto simp: old_def split: option.splits)
  then have "distinct (map fst (AList.update u rg old)) \<and>
      list_all (registration_ok et) (AList.update u rg old)"
    using assms(2) by (auto simp: distinct_update list_all_iff set_alist_update)
  then show ?thesis
    using assms(1,3) unfolding old_def [symmetric] registrations_ok_def list_all_iff
    by (auto simp: distinct_update set_alist_update)
qed

lemma pop_registration_keys: "map fst (fst (pop_registration rid regs)) = map fst regs"
  by (induction rid regs rule: pop_registration.induct) (auto split: option.splits prod.splits)

lemma pop_registration_ok:
  assumes "registrations_ok regs"
  shows "registrations_ok (fst (pop_registration rid regs))"
proof -
  have "list_all (\<lambda>(et, rs). et \<in> set SERVICE_EVENT_TYPES \<and> distinct (map fst rs) \<and>
       list_all (registration_ok et) rs) (fst (pop_registration rid regs))"
    using assms unfolding registrations_ok_def
    by (induction rid regs rule: pop_registration.induct)
      (auto simp: list_all_iff distinct_fst_filter AList.delete_eq split: option.splits prod.splits)
  then show ?thesis
    using assms pop_registration_keys [of rid regs] by (simp add: registrations_ok_def)
qed

lemma register_event_notification_inv:
  assumes inv: "dir_inv d"
    and step: "register_event_notification hp u cb et sub fs d = (d', out, res)"
  shows "dir_inv d'"
proof (cases res)
  case (Inl e)
  with step have "d' = d" by (blast dest: register_event_notification_err)
  with inv show ?thesis by simp
next
  case (Inr rid)
  from register_event_notification_ok [OF step [unfolded Inr]] obtain rg where
    "registration_ok et (u, rg)" "et \<in> set SERVICE_EVENT_TYPES"
    "d' = d\<lparr>d_event_registrations := AList.update et
           (AList.update u rg (case map_of (d_event_registrations d) et of
                                 None \<Rightarrow> [] | Some rs \<Rightarrow> rs)) (d_event_registrations d)\<rparr>"
    by metis
  with inv show ?thesis by (auto simp: dir_inv_def intro: registrations_ok_update)
qed

lemma unregister_event_notification_inv:
  "dir_inv d \<Longrightarrow> unregister_event_notification rid d = (d', out, res) \<Longrightarrow> dir_inv d'"
  using pop_registration_ok [of "d_event_registrations d" rid]
  by (auto simp: unregister_event_notification_def dir_inv_def split: prod.splits)

subsection \<open>Runs of the directory\<close>

text \<open>One step is one call of an operation, from any thread, that ran to its end or raised.\<close>

inductive dir_step :: "directory \<Rightarrow> directory \<Rightarrow> bool" where
  add_listener: "add_lifecycle_listener ic l d = (d', out, res) \<Longrightarrow> dir_step d d'"
| remove_listener: "remove_lifecycle_listener l d = (d', out, res) \<Longrightarrow> dir_step d d'"
| subscribe: "register_event_notification hp u cb et sub fs d = (d', out, res2) \<Longrightarrow> dir_step d d'"
| unsubscribe: "unregister_event_notification rid d = (d', out, res3) \<Longrightarrow> dir_step d d'"
| register: "register_service now lid rec peer d = (d', out, res4) \<Longrightarrow> dir_step d d'"
| deregister: "deregister_service now lid sid rt gen d = (d', out, res4) \<Longrightarrow> dir_step d d'"
| peer_event: "apply_peer_event clock lid ev d = (d', out, res) \<Longrightarrow> dir_step d d'"
| purge: "purge_expired clock na d = (d', out, res) \<Longrightarrow> dir_step d d'"
| resolve: "resolve_services clock fil d = (d', out, res5) \<Longrightarrow> dir_step d d'"
| list_services: "query clock ia d = (d', out, res6) \<Longrightarrow> dir_step d d'"
| generation_of: "get_service_generation clock sid d = (d', out, res7) \<Longrightarrow> dir_step d d'"

inductive dir_reachable :: "real \<Rightarrow> directory \<Rightarrow> bool" for ret where
  start: "dir_reachable ret (init_directory ret)"
| step: "dir_reachable ret d \<Longrightarrow> dir_step d d' \<Longrightarrow> dir_reachable ret d'"

text \<open>The queries change the directory only by purging.\<close>

lemma query_purges:
  "resolve_services clock fil d = (d', out, res5) \<Longrightarrow> \<exists>r. purge_expired clock None d = (d', out, r)"
  "query clock ia d = (d', out, res6) \<Longrightarrow> \<exists>r. purge_expired clock None d = (d', out, r)"
  "get_service_generation clock sid d = (d', out, res7) \<Longrightarrow>
     \<exists>r. purge_expired clock None d = (d', out, r)"
  by (auto simp: resolve_services_def query_def get_service_generation_def split: prod.splits)

lemma dir_step_inv: "dir_step d d' \<Longrightarrow> dir_inv d \<Longrightarrow> dir_inv d'"
proof (induction rule: dir_step.induct)
  case (add_listener ic l d d' out res)
  then show ?case by (auto simp: add_lifecycle_listener_def dir_inv_def split: if_splits)
next
  case (remove_listener l d d' out res)
  then show ?case by (auto simp: remove_lifecycle_listener_def dir_inv_def split: if_splits)
qed (blast dest: register_event_notification_inv unregister_event_notification_inv
    register_service_inv deregister_service_inv apply_peer_event_inv purge_expired_inv
    query_purges)+

end
