(* ===== verification/Directory_Props.thy ===== *)
theory Directory_Props
  imports Directory
begin

section \<open>What the directory guarantees\<close>

text \<open>
  An abstract directory of owners, generations and liveness that every operation of
  \<open>Directory\<close> refines, and the properties of registration, fencing, resolution, peer loss,
  retention and event delivery.
\<close>

subsection \<open>The abstract directory\<close>

text \<open>
  What the directory promises about ownership, without the record contents: a service id maps to
  the runtime that owns it, a generation and whether it is live. Registration is refused while
  another runtime is live, keeps the generation of a live owner, and starts the next generation
  when the service was down; deregistration ends the current incarnation; peer events change
  liveness only; retention forgets services that are not live.
\<close>

type_synonym abs_dir = "pyval \<Rightarrow> (pyval \<times> int \<times> bool) option"

definition abs_of :: "service_record \<Rightarrow> pyval \<times> int \<times> bool" where
  "abs_of r = (sr_runtime_id r, sr_generation r, sr_state r = UP)"

definition dir_abs :: "directory \<Rightarrow> abs_dir" where
  "dir_abs d sid = map_option abs_of (map_of (d_records d) sid)"

definition spec_register :: "pyval \<Rightarrow> pyval \<Rightarrow> abs_dir \<Rightarrow> abs_dir option" where
  "spec_register sid rid m =
     (case m sid of
        None \<Rightarrow> Some (m(sid \<mapsto> (rid, 1, True)))
      | Some (owner, g, live) \<Rightarrow>
          if \<not> live then Some (m(sid \<mapsto> (rid, g + 1, True)))
          else if py_eq owner rid then Some (m(sid \<mapsto> (rid, g, True)))
          else None)"

definition spec_deregister :: "pyval \<Rightarrow> pyval \<Rightarrow> pyval \<Rightarrow> abs_dir \<Rightarrow> abs_dir option" where
  "spec_deregister sid rid gen m =
     (case m sid of
        None \<Rightarrow> None
      | Some (owner, g, live) \<Rightarrow>
          if py_eq owner rid \<and> py_eq (PInt g) gen then Some (m(sid \<mapsto> (owner, g, False)))
          else None)"

text \<open>Peer events: same ids, same owners, same generations.\<close>

definition same_owners :: "abs_dir \<Rightarrow> abs_dir \<Rightarrow> bool" where
  "same_owners m m' \<longleftrightarrow> (\<forall>sid. map_option (\<lambda>(o', g, l). (o', g)) (m sid)
                             = map_option (\<lambda>(o', g, l). (o', g)) (m' sid))"

inductive abs_step :: "abs_dir \<Rightarrow> abs_dir \<Rightarrow> bool" where
  abs_skip: "abs_step m m"
| abs_register: "spec_register sid rid m = Some m' \<Longrightarrow> abs_step m m'"
| abs_deregister: "spec_deregister sid rid gen m = Some m' \<Longrightarrow> abs_step m m'"
| abs_peer: "same_owners m m' \<Longrightarrow> abs_step m m'"
| abs_forget: "(\<And>sid. m' sid = m sid \<or> (m' sid = None \<and> (\<exists>o' g. m sid = Some (o', g, False))))
     \<Longrightarrow> abs_step m m'"

lemma register_service_refines:
  assumes "register_service now lid rec peer d = (d', out, Inr r)"
  shows "spec_register (reg_sid rec) (reg_rid rec peer) (dir_abs d) = Some (dir_abs d')"
proof -
  note ok = register_service_ok [OF assms]
  show ?thesis
    using ok(7) build_record_fields [OF ok(5)]
    by (auto simp: spec_register_def dir_abs_def ok(6) abs_of_def next_generation_def fun_eq_iff
        split: option.splits)
qed

lemma deregister_service_refines:
  assumes "deregister_service now lid sid rid gen d = (d', out, Inr r)"
  shows "spec_deregister sid rid gen (dir_abs d) = Some (dir_abs d')"
  by (rule deregister_service_ok [OF assms])
    (auto simp: spec_deregister_def dir_abs_def abs_of_def fun_eq_iff)

lemma peer_sweep_same_owners:
  assumes "peer_sweep ret ev now (d_records d) = Inr (rs, ns)" and "d_records d' = rs"
  shows "same_owners (dir_abs d) (dir_abs d')"
  unfolding same_owners_def
proof
  fix sid
  show "map_option (\<lambda>(o', g, l). (o', g)) (dir_abs d sid)
      = map_option (\<lambda>(o', g, l). (o', g)) (dir_abs d' sid)"
  proof (cases "map_of (d_records d) sid")
    case None
    with peer_sweep_keys [OF assms(1)] have "map_of rs sid = None"
      by (metis list.set_map map_of_eq_None_iff)
    with None assms(2) show ?thesis by (simp add: dir_abs_def)
  next
    case (Some r)
    from peer_sweep_lookup [OF assms(1) Some] obtain r' ms where
      "peer_step ret ev now r = Inr (r', ms)" "map_of rs sid = Some r'" .
    with Some assms(2) show ?thesis
      by (auto simp: dir_abs_def abs_of_def dest: peer_step_id)
  qed
qed

lemma apply_peer_event_refines:
  assumes "apply_peer_event clock lid ev d = (d', out, res)"
  shows "same_owners (dir_abs d) (dir_abs d')"
  using assms
proof (cases rule: apply_peer_event_cases)
  case err
  then show ?thesis by (simp add: same_owners_def dir_abs_def)
next
  case ok
  then show ?thesis by (intro peer_sweep_same_owners) simp_all
qed

lemma purge_expired_lookup:
  assumes "records_ok ret (d_records d)" and "purge_expired clock na d = (d', out, res)"
  shows "map_of (d_records d') k = map_of (d_records d) k \<or>
    (map_of (d_records d') k = None \<and>
     (\<exists>r. map_of (d_records d) k = Some r \<and> sr_state r \<noteq> UP))"
proof -
  from purge_expired_eq [OF assms(2)] obtain now where
    d': "d' = d\<lparr>d_records := filter (\<lambda>(k, r). \<not> expired now r) (d_records d)\<rparr>" by blast
  have "distinct (map fst (d_records d))" using assms(1) by (simp add: records_ok_def)
  then show ?thesis
    using records_ok_lookup [OF assms(1), of k]
    by (auto simp: d' map_of_filter_value expired_def record_ok_def split: option.splits)
qed

lemma purge_expired_refines:
  assumes "dir_inv d" and "purge_expired clock na d = (d', out, res)"
  shows "abs_step (dir_abs d) (dir_abs d')"
proof (rule abs_forget)
  fix sid
  show "dir_abs d' sid = dir_abs d sid \<or>
    (dir_abs d' sid = None \<and> (\<exists>o' g. dir_abs d sid = Some (o', g, False)))"
    using purge_expired_lookup [of "d_retention_seconds d" d clock na d' out res sid] assms
    by (auto simp: dir_abs_def abs_of_def dir_inv_def)
qed

lemma dir_step_refines: "dir_step d d' \<Longrightarrow> dir_inv d \<Longrightarrow> abs_step (dir_abs d) (dir_abs d')"
proof (induction rule: dir_step.induct)
  case (add_listener ic l d d' out res)
  then have "dir_abs d' = dir_abs d"
    by (auto simp: add_lifecycle_listener_def dir_abs_def fun_eq_iff split: if_splits)
  then show ?case by (simp add: abs_skip)
next
  case (remove_listener l d d' out res)
  then have "dir_abs d' = dir_abs d"
    by (auto simp: remove_lifecycle_listener_def dir_abs_def fun_eq_iff split: if_splits)
  then show ?case by (simp add: abs_skip)
next
  case (subscribe hp u cb et sub fs d d' out res2)
  then have "dir_abs d' = dir_abs d"
    by (auto simp: register_event_notification_def Let_def dir_abs_def fun_eq_iff
        split: sum.split_asm)
  then show ?case by (simp add: abs_skip)
next
  case (unsubscribe rid d d' out res3)
  then have "dir_abs d' = dir_abs d"
    by (auto simp: unregister_event_notification_def dir_abs_def fun_eq_iff split: prod.splits)
  then show ?case by (simp add: abs_skip)
next
  case (register now lid rec peer d d' out res4)
  then show ?case
    by (cases res4) (metis register_service_err abs_skip, metis register_service_refines abs_register)
next
  case (deregister now lid sid rt gen d d' out res4)
  then show ?case
    by (cases res4)
      (metis deregister_service_err abs_skip, metis deregister_service_refines abs_deregister)
next
  case (peer_event clock lid ev d d' out res)
  then show ?case by (blast intro: abs_peer apply_peer_event_refines)
next
  case (purge clock na d d' out res)
  then show ?case by (blast intro: purge_expired_refines)
next
  case (resolve clock fil d d' out res5)
  then show ?case by (metis query_purges(1) purge_expired_refines)
next
  case (list_services clock ia d d' out res6)
  then show ?case by (metis query_purges(2) purge_expired_refines)
next
  case (generation_of clock sid d d' out res7)
  then show ?case by (metis query_purges(3) purge_expired_refines)
qed

subsection \<open>Fencing by generations\<close>

lemma py_eq_PStr [simp]: "py_eq (PStr s) v \<longleftrightarrow> v = PStr s"
  by (cases v) auto

text \<open>
  A step of the abstract directory never lowers the generation of a service it keeps, and a
  runtime keeps its service for as long as the generation stays.
\<close>

lemma abs_step_generation:
  assumes "abs_step m m'" and "m sid = Some (rt, g, l)" and "m' sid = Some (rt', g', l')"
  shows "g \<le> g' \<and> (g' = g \<longrightarrow> rt' = rt \<or> py_eq rt rt')"
  using assms
proof cases
  case abs_peer
  then have "map_option (\<lambda>(o', g, l). (o', g)) (m sid) = map_option (\<lambda>(o', g, l). (o', g)) (m' sid)"
    unfolding same_owners_def by (rule spec)
  with assms(2,3) show ?thesis by simp
next
  case (abs_forget)
  then show ?thesis using assms(2,3) by (metis option.distinct(1) option.inject prod.inject order_refl)
qed (auto simp: spec_register_def spec_deregister_def
    split: if_splits option.splits)

definition keeps_service :: "pyval \<Rightarrow> directory \<Rightarrow> directory \<Rightarrow> bool" where
  "keeps_service sid d d' \<longleftrightarrow> dir_step d d' \<and> map_of (d_records d') sid \<noteq> None"

lemma keeps_service_inv: "(keeps_service sid)\<^sup>*\<^sup>* d d' \<Longrightarrow> dir_inv d \<Longrightarrow> dir_inv d'"
  by (induction rule: rtranclp_induct) (auto simp: keeps_service_def intro: dir_step_inv)

lemma keeps_service_generation:
  assumes "(keeps_service sid)\<^sup>*\<^sup>* d d'" and "dir_inv d" and "map_of (d_records d) sid = Some r"
  shows "\<exists>r'. map_of (d_records d') sid = Some r' \<and> sr_generation r \<le> sr_generation r' \<and>
    (sr_generation r' = sr_generation r \<longrightarrow>
       (\<forall>s. sr_runtime_id r = PStr s \<longrightarrow> sr_runtime_id r' = PStr s))"
  using assms
proof (induction rule: rtranclp_induct)
  case base
  then show ?case by simp
next
  case (step d1 d2)
  then obtain r1 where r1: "map_of (d_records d1) sid = Some r1" "sr_generation r \<le> sr_generation r1"
    "sr_generation r1 = sr_generation r \<longrightarrow>
       (\<forall>s. sr_runtime_id r = PStr s \<longrightarrow> sr_runtime_id r1 = PStr s)" by blast
  from step(2) obtain r2 where r2: "map_of (d_records d2) sid = Some r2" and "dir_step d1 d2"
    by (auto simp: keeps_service_def)
  then have "abs_step (dir_abs d1) (dir_abs d2)"
    using dir_step_refines keeps_service_inv [OF step(1,4)] by blast
  from abs_step_generation [OF this, of sid "sr_runtime_id r1" "sr_generation r1" "sr_state r1 = UP"
      "sr_runtime_id r2" "sr_generation r2" "sr_state r2 = UP"] r1 r2
  show ?case by (auto simp: dir_abs_def abs_of_def)
qed

lemma init_directory_inv: "dir_inv (init_directory ret)"
  by (simp add: init_directory_def dir_inv_def records_ok_def registrations_ok_def)

lemma dir_reachable_inv: "dir_reachable ret d \<Longrightarrow> dir_inv d"
  by (induction rule: dir_reachable.induct) (auto intro: dir_step_inv init_directory_inv)

subsection \<open>A running example\<close>

text \<open>One service, registered by runtime \<open>rt1\<close> at peer \<open>ph1\<close>, and a successor on another peer.\<close>

definition demo_rec :: dict where
  "demo_rec = [(PStr ''service_id'', PStr ''svc''), (PStr ''runtime_id'', PStr ''rt1''),
     (PStr ''peer_handle'', PStr ''ph1''),
     (PStr ''api_bindings'', PList [PDict [(PStr ''binding_name'', PStr ''b'')]])]"

definition demo_rec2 :: dict where
  "demo_rec2 = [(PStr ''service_id'', PStr ''svc''), (PStr ''runtime_id'', PStr ''rt2''),
     (PStr ''peer_handle'', PStr ''ph2''),
     (PStr ''api_bindings'', PList [PDict [(PStr ''binding_name'', PStr ''b'')]])]"

definition demo_service :: "int \<Rightarrow> string \<Rightarrow> string \<Rightarrow> real \<Rightarrow> service_record" where
  "demo_service g rt ph t =
     \<lparr>sr_service_id = PStr ''svc'', sr_service_name = PStr ''svc'',
      sr_service_type = PStr ''defw.service'', sr_runtime_id = PStr rt, sr_peer_handle = PStr ph,
      sr_generation = g, sr_endpoint = [],
      sr_api_bindings = [[(PStr ''binding_name'', PStr ''b'')]], sr_selector = [],
      sr_properties = [], sr_capability = [], sr_qpm_type = PInt (-1),
      sr_qpm_capabilities = PInt (-1), sr_state = UP, sr_last_seen = t, sr_state_changed_at = t,
      sr_down_reason = PStr '''', sr_retention_deadline = None\<rparr>"

definition demo_dir :: directory where
  "demo_dir = (init_directory 300)\<lparr>d_records := [(PStr ''svc'', demo_service 1 ''rt1'' ''ph1'' 10)]\<rparr>"

lemmas register_eval = register_service_def build_record_def normalize_bindings_def
  record_value_def is_set_def py_mem_def py_or_def notify_lifecycle_def publish_service_event_def Let_def

lemma demo_register:
  "register_service 10 ''dir'' demo_rec [] (init_directory 300) =
     (demo_dir, [], Inr (demo_service 1 ''rt1'' ''ph1'' 10))"
  by (simp add: register_eval demo_rec_def demo_service_def init_directory_def demo_dir_def)

lemma demo_reachable: "dir_reachable 300 demo_dir"
  by (rule dir_reachable.step [OF dir_reachable.start dir_step.register [OF demo_register]])

subsection \<open>Ownership\<close>

text \<open>
  C5: in every state the directory can reach, by any sequence of its operations, there is one
  record per service id, stored under its own id, with generation at least 1, a runtime, a peer
  and a binding; a retention deadline is set exactly when the service is not up and lies the
  retention period after the last change of state; a deregistered service has no endpoint; and
  every event registration is filed under its own type and id.
\<close>
theorem dir_invariant: "dir_reachable ret d \<Longrightarrow> dir_inv d"
  by (rule dir_reachable_inv)

theorem dir_invariant_witness: "dir_inv demo_dir \<and> d_records demo_dir \<noteq> []"
  using dir_invariant [OF demo_reachable] by (simp add: demo_dir_def)


lemma demo_down:
  "deregister_service 20 ''dir'' (PStr ''svc'') (PStr ''rt1'') (PInt 1) demo_dir =
     (demo_dir\<lparr>d_records := [(PStr ''svc'', (demo_service 1 ''rt1'' ''ph1'' 10)
        \<lparr>sr_state := DEREGISTERED, sr_state_changed_at := 20, sr_retention_deadline := Some 320\<rparr>)]\<rparr>,
      [], Inr ((demo_service 1 ''rt1'' ''ph1'' 10)
        \<lparr>sr_state := DEREGISTERED, sr_state_changed_at := 20, sr_retention_deadline := Some 320\<rparr>))"
  by (simp add: deregister_service_def demo_dir_def init_directory_def demo_service_def Let_def
      notify_lifecycle_def publish_service_event_def)


text \<open>
  C11: a generation identifies one incarnation of a service. Along any run during which the
  directory keeps the service, its generation never decreases, and while it stays the same the
  owning runtime stays the same.
\<close>
theorem generation_identifies_owner:
  assumes "dir_reachable ret d" and "(keeps_service sid)\<^sup>*\<^sup>* d d'"
    and "map_of (d_records d) sid = Some r" and "map_of (d_records d') sid = Some r'"
    and "sr_runtime_id r = PStr s"
  shows "sr_generation r \<le> sr_generation r' \<and>
    (sr_generation r' = sr_generation r \<longrightarrow> sr_runtime_id r' = PStr s)"
  using keeps_service_generation [OF assms(2) dir_reachable_inv [OF assms(1)] assms(3)] assms(4,5)
  by auto

definition demo_dereg :: directory where
  "demo_dereg = demo_dir\<lparr>d_records := [(PStr ''svc'', (demo_service 1 ''rt1'' ''ph1'' 10)
     \<lparr>sr_state := DEREGISTERED, sr_state_changed_at := 20, sr_retention_deadline := Some 320\<rparr>)]\<rparr>"

definition demo_dir2 :: directory where
  "demo_dir2 = (init_directory 300)\<lparr>d_records := [(PStr ''svc'', demo_service 2 ''rt2'' ''ph2'' 30)]\<rparr>"

lemma demo_takeover:
  "register_service 30 ''dir'' demo_rec2 [] demo_dereg =
     (demo_dir2, [], Inr (demo_service 2 ''rt2'' ''ph2'' 30))"
  by (simp add: register_eval demo_rec2_def demo_service_def init_directory_def demo_dir_def
      demo_dereg_def demo_dir2_def)

lemma demo_keeps: "(keeps_service (PStr ''svc''))\<^sup>*\<^sup>* demo_dir demo_dir2"
proof -
  have "keeps_service (PStr ''svc'') demo_dir demo_dereg"
    using dir_step.deregister [OF demo_down] by (simp add: keeps_service_def demo_dereg_def)
  moreover have "keeps_service (PStr ''svc'') demo_dereg demo_dir2"
    using dir_step.register [OF demo_takeover] by (simp add: keeps_service_def demo_dir2_def)
  ultimately show ?thesis by (meson rtranclp.rtrancl_into_rtrancl rtranclp.rtrancl_refl)
qed

theorem generation_identifies_owner_witness:
  "sr_generation (demo_service 1 ''rt1'' ''ph1'' 10) \<le> sr_generation (demo_service 2 ''rt2'' ''ph2'' 30)"
  using generation_identifies_owner [OF demo_reachable demo_keeps,
      of "demo_service 1 ''rt1'' ''ph1'' 10" "demo_service 2 ''rt2'' ''ph2'' 30" "''rt1''"]
  by (simp add: demo_dir_def demo_dir2_def demo_service_def)

text \<open>
  C1: a restart fences the previous owner. Once a service that was not up has been registered
  again, a deregistration by the previous incarnation (its runtime and generation) is refused and
  changes nothing, in every later state in which the directory still keeps the service.
\<close>
theorem stale_owner_fenced:
  assumes "dir_reachable ret d" and "map_of (d_records d) (reg_sid rec) = Some c"
    and "sr_state c \<noteq> UP" and "register_service now lid rec peer d = (d', out, Inr r)"
    and "(keeps_service (reg_sid rec))\<^sup>*\<^sup>* d' d''"
  shows "deregister_service now' lid' (reg_sid rec) (sr_runtime_id c) (PInt (sr_generation c)) d'' =
    (d'', [], Inl (DEFwError ''stale deregistration request''))"
proof -
  note ok = register_service_ok [OF assms(4)]
  have r: "map_of (d_records d') (reg_sid rec) = Some r" by (simp add: ok(6))
  have "sr_generation r = sr_generation c + 1"
    using build_record_fields [OF ok(5)] assms(2,3) by (simp add: next_generation_def)
  moreover have "dir_inv d'"
    using register_service_inv [OF dir_reachable_inv [OF assms(1)] assms(4)] .
  from keeps_service_generation [OF assms(5) this r]
  obtain r'' where "map_of (d_records d'') (reg_sid rec) = Some r''"
    "sr_generation r \<le> sr_generation r''" by blast
  ultimately show ?thesis using ok(2) by (simp add: deregister_service_def)
qed

lemma demo_dereg_reachable: "dir_reachable 300 demo_dereg"
  using dir_reachable.step [OF demo_reachable dir_step.deregister [OF demo_down]]
  by (simp add: demo_dereg_def)

theorem stale_owner_fenced_witness:
  "deregister_service 40 ''dir'' (PStr ''svc'') (PStr ''rt1'') (PInt 1) demo_dir2 =
     (demo_dir2, [], Inl (DEFwError ''stale deregistration request''))"
  using stale_owner_fenced [OF demo_dereg_reachable _ _ demo_takeover rtranclp.rtrancl_refl,
      of "(demo_service 1 ''rt1'' ''ph1'' 10)\<lparr>sr_state := DEREGISTERED, sr_state_changed_at := 20,
            sr_retention_deadline := Some 320\<rparr>" 40 "''dir''"]
  by (simp add: demo_rec2_def py_or_def demo_dereg_def demo_service_def)

text \<open>
  C39: at most one live runtime owns a service id. A registration of a service that is up, by a
  different runtime, raises \<open>DEFwError\<close>, leaves the directory as it was and notifies nobody.
\<close>
theorem register_refuses_second_runtime:
  assumes "map_of (d_records d) (reg_sid rec) = Some c" and "sr_state c = UP"
    and "truthy (reg_sid rec)" and "hashable (reg_sid rec)"
    and "truthy (reg_rid rec peer)" and "truthy (reg_ph rec peer)"
    and "\<not> py_eq (sr_runtime_id c) (reg_rid rec peer)"
  shows "register_service now lid rec peer d =
    (d, [], Inl (DEFwError ''service_id already has a live runtime''))"
  using assms by (simp add: register_service_def Let_def)

theorem register_refuses_second_runtime_witness:
  "register_service 11 ''dir'' demo_rec2 [] demo_dir =
     (demo_dir, [], Inl (DEFwError ''service_id already has a live runtime''))"
  by (rule register_refuses_second_runtime [of _ _ "demo_service 1 ''rt1'' ''ph1'' 10"])
    (simp_all add: demo_rec2_def py_or_def demo_dir_def demo_service_def)

subsection \<open>Resolution\<close>

lemma record_bindings_Inr:
  "record_bindings filters r = Inr bs \<Longrightarrow>
     rb \<in> set bs \<longleftrightarrow> sr_state r = UP \<and> record_matches r filters = Inr True \<and>
       rb_service_record rb = r \<and> rb_latest_generation rb = sr_generation r \<and>
       rb_selected_binding rb \<in> set (sr_api_bindings r) \<and>
       binding_matches (rb_selected_binding rb) filters"
  by (cases rb) (auto simp: record_bindings_def ebind_Inr_iff filter_empty_conv split: if_splits)

lemma emap_set:
  "emap f xs = Inr ys \<Longrightarrow> y \<in> set ys \<longleftrightarrow> (\<exists>x \<in> set xs. f x = Inr y)"
  by (induction xs arbitrary: ys) (auto simp: ebind_Inr_iff)

lemma emap_total: "emap f xs = Inr ys \<Longrightarrow> x \<in> set xs \<Longrightarrow> \<exists>y. f x = Inr y"
  by (induction xs arbitrary: ys) (auto simp: ebind_Inr_iff)

text \<open>
  C13: resolution is sound and complete. The bindings \<open>resolve_services\<close> returns are exactly the
  matching bindings of the records that are up, not past their retention deadline and match the
  filters, each with its record and that record's current generation.
\<close>
theorem resolve_services_exact:
  assumes "resolve_services clock filters d = (d', out, Inr bs)"
  shows "rb \<in> set bs \<longleftrightarrow>
    (\<exists>k. (k, rb_service_record rb) \<in> set (d_records d)) \<and>
    sr_state (rb_service_record rb) = UP \<and> \<not> expired clock (rb_service_record rb) \<and>
    record_matches (rb_service_record rb) filters = Inr True \<and>
    rb_latest_generation rb = sr_generation (rb_service_record rb) \<and>
    rb_selected_binding rb \<in> set (sr_api_bindings (rb_service_record rb)) \<and>
    binding_matches (rb_selected_binding rb) filters"
proof -
  let ?rs = "filter (\<lambda>(k, r). \<not> expired clock r) (d_records d)"
  from assms obtain bss where bss: "emap (\<lambda>(k, r). record_bindings filters r) ?rs = Inr bss"
    and bs: "bs = concat bss"
    by (auto simp: resolve_services_def purge_expired_def Let_def ebind_Inr_iff)
  have tot: "\<exists>y. record_bindings filters r = Inr y" if "(k, r) \<in> set ?rs" for k r
    using emap_total [OF bss that] by simp
  have "rb \<in> set bs \<longleftrightarrow> (\<exists>k r ys. (k, r) \<in> set ?rs \<and> record_bindings filters r = Inr ys \<and> rb \<in> set ys)"
    using emap_set [OF bss] by (fastforce simp: bs)
  also have "\<dots> \<longleftrightarrow> (\<exists>k r. (k, r) \<in> set ?rs \<and> sr_state r = UP \<and> record_matches r filters = Inr True \<and>
       rb_service_record rb = r \<and> rb_latest_generation rb = sr_generation r \<and>
       rb_selected_binding rb \<in> set (sr_api_bindings r) \<and>
       binding_matches (rb_selected_binding rb) filters)"
    using record_bindings_Inr tot by blast
  finally show ?thesis by auto
qed

lemmas resolve_eval = resolve_services_def purge_expired_def expired_def record_bindings_def
  record_matches_def field_matches_def selector_has_def binding_matches_def record_value_def
  bits_match_def is_set_def py_mem_def py_or_def Let_def

lemma demo_resolve:
  "resolve_services 12 [] demo_dir = (demo_dir, [],
     Inr [\<lparr>rb_service_record = demo_service 1 ''rt1'' ''ph1'' 10,
           rb_selected_binding = [(PStr ''binding_name'', PStr ''b'')], rb_latest_generation = 1\<rparr>])"
  by (simp add: resolve_eval record_dict_def demo_dir_def init_directory_def demo_service_def
      notify_lifecycle_def)

theorem resolve_services_exact_witness:
  "record_matches (demo_service 1 ''rt1'' ''ph1'' 10) [] = Inr True"
  using resolve_services_exact [OF demo_resolve, of "\<lparr>rb_service_record = demo_service 1 ''rt1'' ''ph1'' 10,
           rb_selected_binding = [(PStr ''binding_name'', PStr ''b'')], rb_latest_generation = 1\<rparr>"]
  by simp

text \<open>
  C15: the capability test is a subset test on bits. For bit masks other than the wildcard \<open>-1\<close>,
  \<open>_bits_match\<close> accepts exactly when every bit that is requested is set in the record.
\<close>
theorem bits_match_subset:
  assumes "rb \<noteq> -1" and "qb \<noteq> -1"
  shows "bits_match (PInt rb) (PInt qb) \<longleftrightarrow> (\<forall>n. bit qb n \<longrightarrow> bit rb n)"
proof -
  have and_iff: "(qb AND rb) = qb \<longleftrightarrow> (\<forall>n. bit qb n \<longrightarrow> bit rb n)"
    by (auto simp: bit_eq_iff bit_and_iff)
  show ?thesis
    using assms and_iff [symmetric]
    by (auto simp: bits_match_def is_set_def py_mem_def)
qed

theorem bits_match_subset_witness: "bits_match (PInt 3) (PInt 3) \<and> \<not> bits_match (PInt 4) (PInt 1)"
proof -
  have "bit (1::int) 0" and "\<not> bit (4::int) 0" by simp_all
  then have "\<not> (\<forall>n. bit (1::int) n \<longrightarrow> bit (4::int) n)" by blast
  moreover have "bits_match (PInt 3) (PInt 3)" using bits_match_subset [of 3 3] by simp
  moreover have "bits_match (PInt 4) (PInt 1) \<longleftrightarrow> (\<forall>n. bit (1::int) n \<longrightarrow> bit (4::int) n)"
    by (rule bits_match_subset) simp_all
  ultimately show ?thesis by blast
qed

text \<open>A filter on the service id alone selects the bindings of that one service.\<close>

lemma record_value_dict_total: "\<exists>v. record_value (record_dict r) names = Inr v"
  by (cases "sr_properties r")
    (auto simp: record_value_def record_dict_def py_or_def split: option.splits)

definition by_id :: "string \<Rightarrow> dict" where
  "by_id s = [(PStr ''service_id'', PStr s)]"

lemma record_matches_by_id:
  assumes "s \<noteq> []" shows "record_matches r (by_id s) = Inr (sr_service_id r = PStr s)"
proof -
  obtain v w where "record_value (record_dict r) [''qpm_type''] = Inr v"
    "record_value (record_dict r) [''qpm_capabilities''] = Inr w"
    using record_value_dict_total by metis
  moreover have "py_eq (sr_service_id r) (PStr s) \<longleftrightarrow> sr_service_id r = PStr s"
    by (cases "sr_service_id r") auto
  moreover have "dget0 (record_dict r) ''service_id'' = sr_service_id r"
    by (simp add: record_dict_def)
  ultimately show ?thesis
    using assms by (simp add: record_matches_def by_id_def field_matches_def selector_has_def
        bits_match_def is_set_def py_mem_def py_or_def)
qed

lemma concat_select:
  "distinct (map fst rs) \<Longrightarrow>
     concat (map (\<lambda>(k, r). if k = a then f r else []) rs) = (case map_of rs a of None \<Rightarrow> [] | Some r \<Rightarrow> f r)"
proof (induction rs)
  case (Cons p rs)
  then show ?case
    by (cases p) (auto simp: map_of_eq_None_iff [symmetric] split: option.splits)
qed simp

lemma resolve_by_id:
  assumes "dir_inv d" and "s \<noteq> []"
  shows "\<exists>d' out. resolve_services clock (by_id s) d = (d', out, Inr
    (case map_of (d_records d) (PStr s) of None \<Rightarrow> []
     | Some r \<Rightarrow> if sr_state r \<noteq> UP then [] else
         map (\<lambda>b. \<lparr>rb_service_record = r, rb_selected_binding = b,
                  rb_latest_generation = sr_generation r\<rparr>) (sr_api_bindings r)))"
proof -
  let ?sel = "\<lambda>r. if sr_state r \<noteq> UP then [] else
     map (\<lambda>b. \<lparr>rb_service_record = r, rb_selected_binding = b,
              rb_latest_generation = sr_generation r\<rparr>) (sr_api_bindings r)"
  let ?rs = "filter (\<lambda>(k, r). \<not> expired clock r) (d_records d)"
  have recs: "records_ok (d_retention_seconds d) (d_records d)"
    using assms(1) by (simp add: dir_inv_def)
  have "emap (\<lambda>(k, r). record_bindings (by_id s) r) ?rs =
      Inr (map (\<lambda>(k, r). if k = PStr s then ?sel r else []) ?rs)"
  proof (rule emap_cong_Inr)
    fix p assume "p \<in> set ?rs"
    then obtain k r where p: "p = (k, r)" "sr_service_id r = k"
      using recs by (fastforce simp: records_ok_def list_all_iff record_ok_def)
    have "binding_matches b (by_id s)" for b
      by (simp add: binding_matches_def field_matches_def by_id_def)
    with p assms(2) show "(case p of (k, r) \<Rightarrow> record_bindings (by_id s) r) =
        Inr (case p of (k, r) \<Rightarrow> if k = PStr s then ?sel r else [])"
      by (simp add: record_bindings_def record_matches_by_id)
  qed
  moreover have "distinct (map fst ?rs)"
    using recs by (simp add: records_ok_def distinct_fst_filter)
  moreover have "(case map_of ?rs (PStr s) of None \<Rightarrow> [] | Some r \<Rightarrow> ?sel r)
      = (case map_of (d_records d) (PStr s) of None \<Rightarrow> [] | Some r \<Rightarrow> ?sel r)"
    using records_ok_lookup [OF recs, of "PStr s"] recs
    by (auto simp: map_of_filter_value records_ok_def record_ok_def expired_def split: option.splits)
  ultimately show ?thesis
    by (simp add: resolve_services_def purge_expired_def Let_def concat_select)
qed

text \<open>
  C14: registration and resolution agree. Right after a service registered under a string id, a
  query for that id returns exactly the registered bindings, with the record and the generation
  the registration returned.
\<close>
theorem register_then_resolve:
  assumes "dir_reachable ret d" and "register_service now lid rec peer d = (d', out, Inr r)"
    and "reg_sid rec = PStr s"
  shows "\<exists>d'' out'. resolve_services clock (by_id s) d' = (d'', out', Inr
    (map (\<lambda>b. \<lparr>rb_service_record = r, rb_selected_binding = b,
              rb_latest_generation = sr_generation r\<rparr>) (sr_api_bindings r)))"
proof -
  note ok = register_service_ok [OF assms(2)]
  have "dir_inv d'" using register_service_inv [OF dir_reachable_inv [OF assms(1)] assms(2)] .
  moreover have "s \<noteq> []" using ok(1) assms(3) by simp
  ultimately show ?thesis
    using resolve_by_id [of d' s clock] build_record_fields [OF ok(5)] assms(3) by (simp add: ok(6))
qed

theorem register_then_resolve_witness:
  "\<exists>d'' out'. resolve_services 11 (by_id ''svc'') demo_dir = (d'', out', Inr
    [\<lparr>rb_service_record = demo_service 1 ''rt1'' ''ph1'' 10,
      rb_selected_binding = [(PStr ''binding_name'', PStr ''b'')], rb_latest_generation = 1\<rparr>])"
  using register_then_resolve [OF dir_reachable.start demo_register, of "''svc''" 11]
  by (simp add: demo_rec_def py_or_def demo_service_def)

subsection \<open>Peer loss and recovery\<close>

abbreviation event_time :: "real \<Rightarrow> dict \<Rightarrow> pyval" where
  "event_time clock ev \<equiv> dget ev ''timestamp'' (PFloat clock)"

lemma peer_concerns_id:
  "sr_peer_handle r' = sr_peer_handle r \<Longrightarrow> sr_runtime_id r' = sr_runtime_id r \<Longrightarrow>
     peer_concerns ev r' = peer_concerns ev r"
  by (simp add: peer_concerns_def)

lemma peer_step_lost_not_up:
  assumes "peer_step ret ev now r = Inr (r', ns)" and "is_loss (dget0 ev ''event_type'')"
    and "py_num now = Some t" and "peer_concerns ev r'" and "sr_state r' = UP"
  shows "t < sr_last_seen r'"
  using assms(1)
proof (cases rule: peer_step_cases)
  case ignored
  with assms show ?thesis by auto
qed (use assms in \<open>auto simp: lost_record_def is_loss_def split: if_splits\<close>)

lemma records_ok_in: "records_ok ret rs \<Longrightarrow> (k, r) \<in> set rs \<Longrightarrow> map_of rs k = Some r"
  by (simp add: records_ok_def)

text \<open>
  C12: a lost peer's services stop resolving at once. After a \<open>PEER_LOST\<close> or \<open>PEER_REMOVED\<close> event
  was applied, no query returns a binding of a service at that peer and runtime, unless the
  service was seen after the event.
\<close>
theorem peer_loss_hides_services:
  assumes "dir_reachable ret d" and "apply_peer_event clock lid ev d = (d', out, Inr u)"
    and "is_loss (dget0 ev ''event_type'')" and "py_num (event_time clock ev) = Some t"
    and "resolve_services clock' filters d' = (d'', out', Inr bs)" and "rb \<in> set bs"
    and "peer_concerns ev (rb_service_record rb)"
  shows "t < sr_last_seen (rb_service_record rb)"
proof -
  let ?r = "rb_service_record rb"
  let ?rs = "filter (\<lambda>(k, r). \<not> expired clock' r) (d_records d')"
  from assms(5) obtain bss where "emap (\<lambda>(k, r). record_bindings filters r) ?rs = Inr bss"
    "bs = concat bss"
    by (auto simp: resolve_services_def purge_expired_def Let_def ebind_Inr_iff)
  with assms(6) emap_set [of "\<lambda>(k, r). record_bindings filters r" ?rs bss]
  obtain k r ys where "(k, r) \<in> set (d_records d')" "record_bindings filters r = Inr ys" "rb \<in> set ys"
    by fastforce
  with record_bindings_Inr have kr: "(k, ?r) \<in> set (d_records d')" "sr_state ?r = UP" by auto
  have "records_ok (d_retention_seconds d') (d_records d')"
    using apply_peer_event_inv [OF dir_reachable_inv [OF assms(1)] assms(2)]
    by (simp add: dir_inv_def)
  with kr have look: "map_of (d_records d') k = Some ?r" by (auto intro: records_ok_in)
  from assms(2) obtain rs ns where
    sw: "peer_sweep (d_retention_seconds d) ev (event_time clock ev) (d_records d) = Inr (rs, ns)"
    and "d_records d' = rs"
    by (cases rule: apply_peer_event_cases) auto
  with look have "map_of rs k = Some ?r" by simp
  from peer_sweep_lookup_back [OF sw this] obtain r0 ms where
    "peer_step (d_retention_seconds d) ev (event_time clock ev) r0 = Inr (?r, ms)" by metis
  from peer_step_lost_not_up [OF this assms(3,4,7) kr(2)] show ?thesis .
qed

definition demo_lost :: "real \<Rightarrow> dict" where
  "demo_lost t = [(PStr ''event_type'', PStr ''PEER_LOST''), (PStr ''peer_handle'', PStr ''ph1''),
     (PStr ''remote_runtime_id'', PStr ''rt1''), (PStr ''reason'', PStr ''heartbeat-timeout''),
     (PStr ''timestamp'', PFloat t)]"

definition demo_ready :: "real \<Rightarrow> dict" where
  "demo_ready t = [(PStr ''event_type'', PStr ''PEER_READY''), (PStr ''peer_handle'', PStr ''ph1''),
     (PStr ''timestamp'', PFloat t)]"

lemma demo_lost_fields [simp]:
  "is_loss (dget0 (demo_lost t) ''event_type'')" "py_num (event_time c (demo_lost t)) = Some t"
  "peer_concerns (demo_lost t) (demo_service g ''rt1'' ''ph1'' t')"
  "dget0 (demo_ready t) ''event_type'' = PStr ''PEER_READY''"
  "py_num (event_time c (demo_ready t)) = Some t"
  "peer_concerns (demo_ready t) (demo_service g ''rt1'' ''ph1'' t')"
  by (simp_all add: demo_lost_def demo_ready_def is_loss_def peer_concerns_def event_runtime_def
      py_or_def demo_service_def)

text \<open>An event older than what is known of the service: the loss at time 9 of a service of time 10.\<close>

lemma demo_late_loss: "apply_peer_event 50 ''dir'' (demo_lost 9) demo_dir = (demo_dir, [], Inr ())"
  by (simp add: apply_peer_event_def Let_def demo_dir_def init_directory_def peer_step_eq
      remove_subscriber_def) (simp add: demo_service_def)

theorem peer_loss_hides_services_witness:
  "9 < sr_last_seen (demo_service 1 ''rt1'' ''ph1'' 10)"
  using peer_loss_hides_services [OF demo_reachable demo_late_loss _ _ demo_resolve, of 9
      "\<lparr>rb_service_record = demo_service 1 ''rt1'' ''ph1'' 10,
        rb_selected_binding = [(PStr ''binding_name'', PStr ''b'')], rb_latest_generation = 1\<rparr>"]
  by simp

lemma apply_peer_event_lookup:
  assumes "apply_peer_event clock lid ev d = (d', out, Inr u)" and "map_of (d_records d) k = Some r"
  obtains r' ms where "peer_step (d_retention_seconds d) ev (event_time clock ev) r = Inr (r', ms)"
    and "map_of (d_records d') k = Some r'" and "d_retention_seconds d' = d_retention_seconds d"
  using assms(1)
proof (cases rule: apply_peer_event_cases)
  case (ok rs ns)
  from peer_sweep_lookup [OF ok(1) assms(2)] ok(3) that show ?thesis by auto
qed simp

text \<open>What a loss followed by a recovery leaves of a record, whatever its state was.\<close>

lemma loss_ready_record:
  assumes "map_of (d_records d) k = Some r"
    and "apply_peer_event c1 l1 ev1 d = (d1, out1, Inr u1)" and "is_loss (dget0 ev1 ''event_type'')"
    and "peer_concerns ev1 r" and "py_num (event_time c1 ev1) = Some t1" and "sr_last_seen r \<le> t1"
    and "apply_peer_event c2 l2 ev2 d1 = (d2, out2, Inr u2)"
    and "dget0 ev2 ''event_type'' = PStr ''PEER_READY''"
    and "peer_concerns ev2 r" and "py_num (event_time c2 ev2) = Some t2" and "t1 \<le> t2"
  shows "map_of (d_records d2) k =
    Some (ready_record t2 (lost_record (d_retention_seconds d) ev1 t1 r))"
proof -
  let ?l = "lost_record (d_retention_seconds d) ev1 t1 r"
  from apply_peer_event_lookup [OF assms(2,1)] obtain r1 ms1 where
    "peer_step (d_retention_seconds d) ev1 (event_time c1 ev1) r = Inr (r1, ms1)"
    "map_of (d_records d1) k = Some r1" by metis
  with assms(3-6) have l1: "map_of (d_records d1) k = Some ?l" by (simp add: peer_step_eq)
  have "peer_concerns ev2 ?l" using assms(9) by (simp add: lost_record_def peer_concerns_def)
  moreover from apply_peer_event_lookup [OF assms(7) l1] obtain r2 ms2 where
    "peer_step (d_retention_seconds d1) ev2 (event_time c2 ev2) ?l = Inr (r2, ms2)"
    "map_of (d_records d2) k = Some r2" by metis
  moreover have "sr_last_seen ?l = t1" "sr_state ?l \<in> {DOWN, TIMED_OUT}"
    by (simp_all add: lost_record_def)
  ultimately show ?thesis using assms(8,10,11) by (simp add: peer_step_eq is_loss_def)
qed

text \<open>
  a service survives a loss and recovery of its peer under the same identity. When the peer of
  a service that is up is lost and becomes ready again, the record is the one from before, same
  runtime, generation, bindings and endpoint, up again, with the recovery time as the time last
  seen and changed.
\<close>
theorem loss_then_ready_restores:
  assumes "dir_reachable ret d" and "map_of (d_records d) k = Some r" and "sr_state r = UP"
    and "apply_peer_event c1 l1 ev1 d = (d1, out1, Inr u1)" and "is_loss (dget0 ev1 ''event_type'')"
    and "peer_concerns ev1 r" and "py_num (event_time c1 ev1) = Some t1" and "sr_last_seen r \<le> t1"
    and "apply_peer_event c2 l2 ev2 d1 = (d2, out2, Inr u2)"
    and "dget0 ev2 ''event_type'' = PStr ''PEER_READY''"
    and "peer_concerns ev2 r" and "py_num (event_time c2 ev2) = Some t2" and "t1 \<le> t2"
  shows "map_of (d_records d2) k = Some (r\<lparr>sr_last_seen := t2, sr_state_changed_at := t2\<rparr>)"
proof -
  have r: "sr_down_reason r = PStr ''''" "sr_retention_deadline r = None"
    using dir_reachable_inv [OF assms(1)] assms(2,3)
    by (auto simp: dir_inv_def record_ok_def dest!: records_ok_lookup)
  show ?thesis
    using loss_ready_record [OF assms(2,4-13)] r assms(3)
    by (simp add: ready_record_def lost_record_def)
qed

definition demo_gone :: directory where
  "demo_gone = demo_dir\<lparr>d_records := [(PStr ''svc'', lost_record 300 (demo_lost 20) 20
     (demo_service 1 ''rt1'' ''ph1'' 10))]\<rparr>"

lemma demo_loss: "apply_peer_event 50 ''dir'' (demo_lost 20) demo_dir = (demo_gone, [], Inr ())"
  by (simp add: apply_peer_event_def Let_def demo_dir_def demo_gone_def init_directory_def peer_step_eq
      remove_subscriber_def peer_outputs_def notify_lifecycle_def publish_service_event_def)
    (simp add: demo_service_def)

lemma demo_recovery:
  "apply_peer_event 50 ''dir'' (demo_ready 30) demo_gone =
     (demo_dir\<lparr>d_records := [(PStr ''svc'', ready_record 30 (lost_record 300 (demo_lost 20) 20
        (demo_service 1 ''rt1'' ''ph1'' 10)))]\<rparr>, [], Inr ())"
proof -
  have "peer_concerns (demo_ready 30) (lost_record 300 (demo_lost 20) 20 (demo_service 1 ''rt1'' ''ph1'' 10))"
    by (simp add: peer_concerns_def lost_record_def demo_ready_def demo_service_def event_runtime_def
        py_or_def)
  moreover have "sr_last_seen (lost_record 300 (demo_lost 20) 20 (demo_service 1 ''rt1'' ''ph1'' 10)) = 20"
    "sr_state (lost_record 300 (demo_lost 20) 20 (demo_service 1 ''rt1'' ''ph1'' 10)) \<in> {DOWN, TIMED_OUT}"
    by (simp_all add: lost_record_def)
  ultimately show ?thesis
    by (simp add: apply_peer_event_def Let_def demo_gone_def demo_dir_def init_directory_def
        peer_step_eq is_loss_def peer_outputs_def notify_lifecycle_def publish_service_event_def)
qed

theorem loss_then_ready_restores_witness:
  "map_of (d_records (fst (apply_peer_event 50 ''dir'' (demo_ready 30) demo_gone))) (PStr ''svc'') =
     Some (demo_service 1 ''rt1'' ''ph1'' 30)"
  using loss_then_ready_restores [OF demo_reachable _ _ demo_loss _ _ _ _ demo_recovery,
      of "PStr ''svc''" "demo_service 1 ''rt1'' ''ph1'' 10" 20 30]
  by (simp add: demo_recovery) (simp add: demo_dir_def demo_service_def)

text \<open>
  a deregistration does not end an incarnation for good. When the peer of a deregistered service
  is lost and becomes ready again within the retention period, the directory marks the service up
  again in the same generation, without an endpoint, so that it is resolved although its owner
  deregistered it.
\<close>
theorem deregistered_service_revived:
  assumes "dir_reachable ret d" and "map_of (d_records d) k = Some r" and "sr_state r = DEREGISTERED"
    and "apply_peer_event c1 l1 ev1 d = (d1, out1, Inr u1)" and "is_loss (dget0 ev1 ''event_type'')"
    and "peer_concerns ev1 r" and "py_num (event_time c1 ev1) = Some t1" and "sr_last_seen r \<le> t1"
    and "apply_peer_event c2 l2 ev2 d1 = (d2, out2, Inr u2)"
    and "dget0 ev2 ''event_type'' = PStr ''PEER_READY''"
    and "peer_concerns ev2 r" and "py_num (event_time c2 ev2) = Some t2" and "t1 \<le> t2"
  shows "\<exists>r'. map_of (d_records d2) k = Some r' \<and> sr_state r' = UP \<and>
    sr_generation r' = sr_generation r \<and> sr_endpoint r' = []"
proof -
  have "sr_endpoint r = []"
    using dir_reachable_inv [OF assms(1)] assms(2,3)
    by (auto simp: dir_inv_def record_ok_def dest!: records_ok_lookup)
  then show ?thesis
    using loss_ready_record [OF assms(2,4-13)] by (simp add: ready_record_def lost_record_def)
qed

lemma demo_dereg_record:
  "d_records demo_dereg = [(PStr ''svc'', (demo_service 1 ''rt1'' ''ph1'' 10)
     \<lparr>sr_state := DEREGISTERED, sr_state_changed_at := 20, sr_retention_deadline := Some 320\<rparr>)]"
  by (simp add: demo_dereg_def)

lemma apply_peer_event_total:
  assumes "py_num (event_time clock ev) = Some t"
  shows "\<exists>d' out. apply_peer_event clock lid ev d = (d', out, Inr ())"
proof -
  have "\<exists>q. peer_step ret ev (event_time clock ev) r = Inr q" for ret r
    using assms by (simp add: peer_step_eq)
  then have "\<exists>q. peer_sweep ret ev (event_time clock ev) rs = Inr q" for ret rs
  proof (induction rs)
    case (Cons p rs)
    obtain k r where "p = (k, r)" by (cases p)
    moreover obtain a b where "peer_step ret ev (event_time clock ev) r = Inr (a, b)"
      using Cons.prems by (metis surj_pair)
    moreover obtain a' b' where "peer_sweep ret ev (event_time clock ev) rs = Inr (a', b')"
      using Cons by (metis surj_pair)
    ultimately show ?case by simp
  qed simp
  then obtain rs ns where
    "peer_sweep (d_retention_seconds d) ev (event_time clock ev) (d_records d) = Inr (rs, ns)"
    by (metis surj_pair)
  then show ?thesis by (simp add: apply_peer_event_def Let_def)
qed

theorem deregistered_service_revived_witness:
  "\<exists>d1 o1 d2 o2 r'. apply_peer_event 50 ''dir'' (demo_lost 30) demo_dereg = (d1, o1, Inr ()) \<and>
     apply_peer_event 50 ''dir'' (demo_ready 40) d1 = (d2, o2, Inr ()) \<and>
     map_of (d_records d2) (PStr ''svc'') = Some r' \<and> sr_state r' = UP"
proof -
  let ?r = "(demo_service 1 ''rt1'' ''ph1'' 10)\<lparr>sr_state := DEREGISTERED, sr_state_changed_at := 20,
     sr_retention_deadline := Some 320\<rparr>"
  obtain d1 o1 d2 o2 where s: "apply_peer_event 50 ''dir'' (demo_lost 30) demo_dereg = (d1, o1, Inr ())"
    "apply_peer_event 50 ''dir'' (demo_ready 40) d1 = (d2, o2, Inr ())"
    using apply_peer_event_total demo_lost_fields(2,5) by metis
  have "\<exists>r'. map_of (d_records d2) (PStr ''svc'') = Some r' \<and> sr_state r' = UP \<and>
      sr_generation r' = sr_generation ?r \<and> sr_endpoint r' = []"
    by (rule deregistered_service_revived [OF demo_dereg_reachable _ _ s(1) _ _ _ _ s(2)])
      (simp_all add: demo_dereg_record peer_concerns_id [of ?r "demo_service 1 ''rt1'' ''ph1'' 10"],
       simp_all add: demo_service_def)
  with s show ?thesis by blast
qed

text \<open>
  reordered peer events do no harm. An event older than everything known of the services it
  concerns changes no record and notifies nobody.
\<close>
theorem stale_peer_event_ignored:
  assumes "py_num (event_time clock ev) = Some t"
    and "\<And>k r. (k, r) \<in> set (d_records d) \<Longrightarrow> peer_concerns ev r \<Longrightarrow> t < sr_last_seen r"
  shows "\<exists>d'. apply_peer_event clock lid ev d = (d', [], Inr ()) \<and> d_records d' = d_records d"
proof -
  have "peer_sweep ret ev (event_time clock ev) rs = Inr (rs, [])"
    if "\<And>k r. (k, r) \<in> set rs \<Longrightarrow> peer_concerns ev r \<Longrightarrow> t < sr_last_seen r" for ret rs
    using that
  proof (induction rs)
    case (Cons p rs)
    obtain k r where p: "p = (k, r)" by (cases p)
    have "peer_step ret ev (event_time clock ev) r = Inr (r, [])"
      using Cons.prems [of k r] assms(1) by (simp add: p peer_step_eq)
    moreover have "peer_sweep ret ev (event_time clock ev) rs = Inr (rs, [])"
      using Cons.IH Cons.prems by (meson list.set_intros(2))
    ultimately show ?case by (simp add: p)
  qed simp
  then have "peer_sweep (d_retention_seconds d) ev (event_time clock ev) (d_records d) =
      Inr (d_records d, [])" using assms(2) by blast
  then show ?thesis by (simp add: apply_peer_event_def Let_def)
qed

theorem stale_peer_event_ignored_witness:
  "\<exists>d'. apply_peer_event 50 ''dir'' (demo_lost 9) demo_dir = (d', [], Inr ()) \<and>
     d_records d' = d_records demo_dir"
  by (rule stale_peer_event_ignored [where t = 9]) (auto simp: demo_dir_def demo_service_def)

subsection \<open>Event delivery\<close>

text \<open>The event registrations as a set of (event type, registration id, registration).\<close>

definition subscriptions :: "directory \<Rightarrow> (pyval \<times> string \<times> registration) set" where
  "subscriptions d = {(et, u, rg). \<exists>regs. (et, regs) \<in> set (d_event_registrations d) \<and> (u, rg) \<in> set regs}"

definition connected_event :: "string \<Rightarrow> service_record \<Rightarrow> service_event" where
  "connected_event lid r =
     \<lparr>se_event = SERVICE_CONNECTED, se_directory_runtime_id = lid, se_service_id = sr_service_id r,
      se_service_type = sr_service_type r, se_runtime_id = sr_runtime_id r,
      se_peer_handle = sr_peer_handle r, se_service_record = Some r, se_reason = None\<rparr>"

lemma subscriptions_lookup:
  "registrations_ok (d_event_registrations d) \<Longrightarrow>
     (et, u, rg) \<in> subscriptions d \<longleftrightarrow>
       (u, rg) \<in> set (case map_of (d_event_registrations d) et of None \<Rightarrow> [] | Some rs \<Rightarrow> rs)"
  by (auto simp: subscriptions_def registrations_ok_def split: option.splits
      dest: map_of_SomeD map_of_is_SomeI weak_map_of_SomeI)

lemma publish_connected:
  "EventPut cb e \<in> set (publish_service_event lid d SERVICE_CONNECTED r reason) \<longleftrightarrow>
     e = connected_event lid r \<and>
     (\<exists>u rg. (u, rg) \<in> set (case map_of (d_event_registrations d) SERVICE_CONNECTED of
                               None \<Rightarrow> [] | Some rs \<Rightarrow> rs) \<and>
        rg_callback rg = cb \<and> event_matches (rg_filters rg) r)"
  by (cases "map_of (d_event_registrations d) SERVICE_CONNECTED")
    (force simp: publish_service_event_def Let_def connected_event_def)+

text \<open>
  C10: connection events are announced exactly when a service comes up. A successful registration
  puts the \<open>SERVICE_CONNECTED\<close> event, with the stored record, to exactly the subscribers whose
  filters match, if the service was not already up, and to nobody otherwise.
\<close>
theorem register_publishes_connected:
  assumes "dir_reachable ret d" and "register_service now lid rec peer d = (d', out, Inr r)"
  shows "EventPut cb e \<in> set out \<longleftrightarrow>
    \<not> is_live (map_of (d_records d) (reg_sid rec)) \<and> e = connected_event lid r \<and>
    (\<exists>u rg. (SERVICE_CONNECTED, u, rg) \<in> subscriptions d \<and> rg_callback rg = cb \<and>
       event_matches (rg_filters rg) r)"
proof -
  note ok = register_service_ok [OF assms(2)]
  have regs: "registrations_ok (d_event_registrations d)"
    using dir_reachable_inv [OF assms(1)] by (simp add: dir_inv_def)
  have "EventPut cb e \<notin> set (notify_lifecycle d' a r b c x)" for a b c x
    by (auto simp: notify_lifecycle_def)
  moreover have "d_event_registrations d' = d_event_registrations d" by (simp add: ok(6))
  ultimately show ?thesis
    unfolding ok(8) by (simp add: publish_connected subscriptions_lookup [OF regs])
qed

definition demo_sub :: registration where
  "demo_sub = \<lparr>rg_registration_id = ''u1'', rg_event_type = SERVICE_CONNECTED,
     rg_subscriber_runtime_id = ''rt9'', rg_callback = PObj 7, rg_filters = by_id ''svc''\<rparr>"

definition demo_subscribed :: directory where
  "demo_subscribed = (init_directory 300)
     \<lparr>d_event_registrations := [(SERVICE_CONNECTED, [(''u1'', demo_sub)])]\<rparr>"

lemma demo_subscribe:
  "register_event_notification (\<lambda>cb. cb = PObj 7) ''u1'' (PObj 7) SERVICE_CONNECTED ''rt9''
     (PDict (by_id ''svc'')) (init_directory 300) = (demo_subscribed, [], Inr ''u1'')"
  by (simp add: register_event_notification_def check_registration_def py_or_def py_mem_def
      SERVICE_EVENT_TYPES_def SERVICE_EVENT_FILTERS_def SERVICE_CONNECTED_def by_id_def Let_def
      init_directory_def demo_subscribed_def demo_sub_def)

lemma demo_subscribed_reachable: "dir_reachable 300 demo_subscribed"
  by (rule dir_reachable.step [OF dir_reachable.start dir_step.subscribe [OF demo_subscribe]])

lemma demo_register_subscribed:
  "\<exists>out. register_service 10 ''dir'' demo_rec [] demo_subscribed =
     (demo_subscribed\<lparr>d_records := [(PStr ''svc'', demo_service 1 ''rt1'' ''ph1'' 10)]\<rparr>, out,
      Inr (demo_service 1 ''rt1'' ''ph1'' 10))"
  by (simp add: register_eval demo_rec_def demo_service_def init_directory_def demo_subscribed_def)

theorem register_publishes_connected_witness:
  "EventPut (PObj 7) (connected_event ''dir'' (demo_service 1 ''rt1'' ''ph1'' 10)) \<in>
     set (fst (snd (register_service 10 ''dir'' demo_rec [] demo_subscribed)))"
proof -
  obtain out where o: "register_service 10 ''dir'' demo_rec [] demo_subscribed =
     (demo_subscribed\<lparr>d_records := [(PStr ''svc'', demo_service 1 ''rt1'' ''ph1'' 10)]\<rparr>, out,
      Inr (demo_service 1 ''rt1'' ''ph1'' 10))" using demo_register_subscribed by blast
  have "(SERVICE_CONNECTED, ''u1'', demo_sub) \<in> subscriptions demo_subscribed"
    by (simp add: subscriptions_def demo_subscribed_def)
  moreover have "event_matches (rg_filters demo_sub) (demo_service 1 ''rt1'' ''ph1'' 10)"
    by (simp add: event_matches_def demo_sub_def by_id_def record_dict_def demo_service_def)
  moreover have "rg_callback demo_sub = PObj 7" "d_records demo_subscribed = []"
    by (simp_all add: demo_sub_def demo_subscribed_def init_directory_def)
  ultimately show ?thesis
    using register_publishes_connected [OF demo_subscribed_reachable o, of "PObj 7"
        "connected_event ''dir'' (demo_service 1 ''rt1'' ''ph1'' 10)"]
    by (auto simp: o is_live_def)
qed

text \<open>The same as a list, on which the proofs about single registrations run.\<close>

fun pairs :: "(pyval \<times> (string \<times> registration) list) list \<Rightarrow> (pyval \<times> string \<times> registration) list" where
  "pairs [] = []"
| "pairs ((et, regs) # rs) = map (Pair et) regs @ pairs rs"

lemma set_pairs: "(et, u, rg) \<in> set (pairs rs) \<longleftrightarrow> (\<exists>regs. (et, regs) \<in> set rs \<and> (u, rg) \<in> set regs)"
  by (induction rs rule: pairs.induct) auto

lemma subscriptions_pairs: "subscriptions d = set (pairs (d_event_registrations d))"
  by (auto simp: subscriptions_def set_pairs)

lemma pairs_filter:
  "pairs (filter (\<lambda>(et, regs). regs \<noteq> []) (map (\<lambda>(et, regs). (et, filter P regs)) rs)) =
     filter (\<lambda>(et, p). P p) (pairs rs)"
proof (induction rs rule: pairs.induct)
  case (2 et regs rs)
  have "filter (\<lambda>(et, p). P p) (map (Pair et) regs) = map (Pair et) (filter P regs)"
    by (simp add: filter_map comp_def)
  with 2 show ?case by (cases "filter P regs = []") simp_all
qed simp

text \<open>
  the registrations of a lost subscriber are dropped, and only those. After the loss of a
  runtime, the event registrations are the ones from before without that runtime's.
\<close>
theorem lost_subscriber_removed:
  assumes "apply_peer_event clock lid ev d = (d', out, res)"
    and "is_loss (dget0 ev ''event_type'')" and "event_runtime ev = PStr s" and "s \<noteq> []"
  shows "subscriptions d' = {(et, u, rg) \<in> subscriptions d. rg_subscriber_runtime_id rg \<noteq> s}"
proof -
  have "d_event_registrations d' = d_event_registrations (remove_subscriber (PStr s) d)"
    using assms(1) by (cases rule: apply_peer_event_cases) (simp_all add: drop_lost_def assms(2-4))
  then show ?thesis
    by (auto simp: subscriptions_pairs remove_subscriber_def pairs_filter)
qed

theorem lost_subscriber_removed_witness:
  "subscriptions demo_subscribed \<noteq> {} \<and>
   subscriptions (fst (apply_peer_event 50 ''dir''
     [(PStr ''event_type'', PStr ''PEER_LOST''), (PStr ''runtime_id'', PStr ''rt9'')]
     demo_subscribed)) = {}"
proof -
  let ?ev = "[(PStr ''event_type'', PStr ''PEER_LOST''), (PStr ''runtime_id'', PStr ''rt9'')]"
  have s: "subscriptions demo_subscribed = {(SERVICE_CONNECTED, ''u1'', demo_sub)}"
    by (auto simp: subscriptions_def demo_subscribed_def)
  obtain d' out res where "apply_peer_event 50 ''dir'' ?ev demo_subscribed = (d', out, res)"
    by (cases "apply_peer_event 50 ''dir'' ?ev demo_subscribed") auto
  with lost_subscriber_removed [OF this, of "''rt9''"] s show ?thesis
    by (simp add: is_loss_def event_runtime_def py_or_def demo_sub_def)
qed

lemma pairs_update:
  assumes "distinct (map fst rs)"
    and "u \<notin> fst ` set (case map_of rs et of None \<Rightarrow> [] | Some old \<Rightarrow> old)"
  shows "set (pairs (AList.update et (AList.update u rg
      (case map_of rs et of None \<Rightarrow> [] | Some old \<Rightarrow> old)) rs)) = insert (et, u, rg) (set (pairs rs))"
  using assms
proof (induction rs rule: pairs.induct)
  case (2 et' regs rs)
  have upd: "AList.update u rg xs = xs @ [(u, rg)]" if "u \<notin> fst ` set xs" for xs
    using that by (induction xs) auto
  show ?case
  proof (cases "et' = et")
    case True
    with 2(3) show ?thesis by (simp add: upd)
  next
    case False
    with 2 show ?thesis by auto
  qed
qed simp

lemma pop_registration_absent:
  "u \<notin> (\<lambda>(et, u, rg). u) ` set (pairs rs) \<Longrightarrow> pop_registration u rs = (rs, False)"
proof (induction u rs rule: pop_registration.induct)
  case (2 rid et regs rest)
  then have "map_of regs rid = None" "rid \<notin> (\<lambda>(et, u, rg). u) ` set (pairs rest)"
    by (force simp: map_of_eq_None_iff)+
  with 2(1) show ?case by simp
qed simp

text \<open>A registration id that occurs once is found and removed, and nothing else is.\<close>

lemma pop_registration_unique:
  assumes "(et, u, rg) \<in> set (pairs rs)"
    and "\<forall>et' rg'. (et', u, rg') \<in> set (pairs rs) \<longrightarrow> et' = et" and "distinct (map fst rs)"
  shows "\<exists>rs'. pop_registration u rs = (rs', True) \<and>
    set (pairs rs') = {(e, v, x) \<in> set (pairs rs). v \<noteq> u}"
  using assms
proof (induction u rs rule: pop_registration.induct)
  case (2 u et' regs rest)
  have rest: "\<forall>et'' rg'. (et'', u, rg') \<in> set (pairs rest) \<longrightarrow> et'' = et"
    using 2(3) unfolding pairs.simps set_append by blast
  show ?case
  proof (cases "map_of regs u")
    case None
    then have u: "\<forall>(v, x) \<in> set regs. v \<noteq> u" by (force simp: map_of_eq_None_iff)
    then have "(et, u, rg) \<in> set (pairs rest)" using 2(2) by auto
    then obtain rs' where rs': "pop_registration u rest = (rs', True)"
      "set (pairs rs') = {(e, v, x) \<in> set (pairs rest). v \<noteq> u}"
      using 2(1) [OF None _ rest] 2(4) by auto
    have "set (pairs ((et', regs) # rs')) = {(e, v, x) \<in> set (pairs ((et', regs) # rest)). v \<noteq> u}"
      using u rs'(2) by auto
    then show ?thesis using None rs'(1) by simp
  next
    case (Some x)
    then have ux: "(u, x) \<in> set regs" by (rule map_of_SomeD)
    then have "(et', u, x) \<in> set (pairs ((et', regs) # rest))" by simp
    with 2(3) have "et' = et" by blast
    with 2(4) have "\<forall>v y. (et, v, y) \<notin> set (pairs rest)" by (force simp: set_pairs)
    with rest have "\<forall>(et'', v, y) \<in> set (pairs rest). v \<noteq> u" by blast
    moreover have "set (AList.delete u regs) = {(v, y) \<in> set regs. v \<noteq> u}"
      by (auto simp: AList.delete_eq)
    ultimately have "set (pairs ((et', AList.delete u regs) # rest)) =
        {(e, v, x) \<in> set (pairs ((et', regs) # rest)). v \<noteq> u}" by auto
    then show ?thesis using Some by simp
  qed
qed simp

text \<open>
  C12: subscribing and unsubscribing are inverse. A registration with a fresh id adds exactly one
  subscription; unregistering its id returns \<open>True\<close> and restores the subscriptions from before, and
  unregistering it again returns \<open>False\<close> and changes nothing.
\<close>
theorem subscribe_unsubscribe:
  assumes "dir_reachable ret d" and "\<forall>(et', v, x) \<in> subscriptions d. v \<noteq> u"
    and "register_event_notification hp u cb et sub fs d = (d1, out, Inr rid)"
  shows "\<exists>rg d2. subscriptions d1 = insert (et, rid, rg) (subscriptions d) \<and>
    rg_callback rg = cb \<and> rg_subscriber_runtime_id rg = sub \<and>
    unregister_event_notification rid d1 = (d2, [], Inr True) \<and>
    subscriptions d2 = subscriptions d \<and>
    unregister_event_notification rid d2 = (d2, [], Inr False)"
proof -
  from register_event_notification_ok [OF assms(3)] obtain rg where
    rg: "rg_callback rg = cb" "rg_subscriber_runtime_id rg = sub" and rid: "rid = u" and
    d1: "d1 = d\<lparr>d_event_registrations := AList.update et
           (AList.update u rg (case map_of (d_event_registrations d) et of
                                 None \<Rightarrow> [] | Some rs \<Rightarrow> rs)) (d_event_registrations d)\<rparr>"
    by (metis registration.select_convs(3,4))
  have regs: "registrations_ok (d_event_registrations d)"
    using dir_reachable_inv [OF assms(1)] by (simp add: dir_inv_def)
  have "u \<notin> fst ` set (case map_of (d_event_registrations d) et of None \<Rightarrow> [] | Some old \<Rightarrow> old)"
    using assms(2) subscriptions_lookup [OF regs, of et u] by fastforce
  then have s1: "subscriptions d1 = insert (et, u, rg) (subscriptions d)"
    using regs by (simp add: d1 subscriptions_pairs pairs_update registrations_ok_def)
  have a: "distinct (map fst (d_event_registrations d1))"
    using regs by (simp add: d1 registrations_ok_def distinct_update)
  have b: "\<forall>et' x. (et', u, x) \<in> set (pairs (d_event_registrations d1)) \<longrightarrow> et' = et"
    using s1 assms(2) by (auto simp: subscriptions_pairs)
  have c: "(et, u, rg) \<in> set (pairs (d_event_registrations d1))"
    using s1 by (simp add: subscriptions_pairs [symmetric])
  from pop_registration_unique [OF c b a] obtain rs' where
    pop: "pop_registration u (d_event_registrations d1) = (rs', True)"
    "set (pairs rs') = {(e, v, x) \<in> set (pairs (d_event_registrations d1)). v \<noteq> u}"
    by blast
  have "{(et', v, x) \<in> subscriptions d1. v \<noteq> u} = subscriptions d"
    using s1 assms(2) by auto
  with pop have s2: "set (pairs rs') = subscriptions d" by (simp add: subscriptions_pairs)
  have "u \<notin> (\<lambda>(et, u, rg). u) ` set (pairs rs')" using pop(2) by auto
  then have again: "pop_registration u rs' = (rs', False)" by (rule pop_registration_absent)
  show ?thesis
    using rid rg s1 pop(1) s2 again
    by (intro exI [of _ rg] exI [of _ "d1\<lparr>d_event_registrations := rs'\<rparr>"])
      (simp add: unregister_event_notification_def subscriptions_pairs)
qed

theorem subscribe_unsubscribe_witness:
  "\<exists>d2. unregister_event_notification ''u1'' demo_subscribed = (d2, [], Inr True) \<and>
     subscriptions d2 = {}"
proof -
  have "subscriptions (init_directory 300) = {}" by (simp add: subscriptions_def init_directory_def)
  then show ?thesis using subscribe_unsubscribe [OF dir_reachable.start _ demo_subscribe] by auto
qed

subsection \<open>Retention\<close>

text \<open>
  retention forgets exactly the services that have been down for the retention period. A purge
  keeps, in their order, the services that are up and those whose last change of state is less
  than the retention period ago (a deadline of 0 is never reached), and drops all others.
\<close>
theorem purge_exact:
  assumes "dir_reachable ret d" and "now \<noteq> 0"
  shows "\<exists>out. purge_expired clock (Some now) d =
    (d\<lparr>d_records := filter (\<lambda>(k, r). sr_state r = UP \<or>
         now < sr_state_changed_at r + d_retention_seconds d \<or>
         sr_state_changed_at r + d_retention_seconds d = 0) (d_records d)\<rparr>, out, Inr ())"
proof -
  have "expired now r \<longleftrightarrow> \<not> (sr_state r = UP \<or> now < sr_state_changed_at r + d_retention_seconds d \<or>
      sr_state_changed_at r + d_retention_seconds d = 0)" if "(k, r) \<in> set (d_records d)" for k r
  proof -
    have "record_ok (d_retention_seconds d) k r"
      using dir_reachable_inv [OF assms(1)] that
      by (auto simp: dir_inv_def records_ok_def list_all_iff)
    then show ?thesis by (auto simp: record_ok_def expired_def)
  qed
  then have "filter (\<lambda>(k, r). \<not> expired now r) (d_records d) = filter (\<lambda>(k, r). sr_state r = UP \<or>
         now < sr_state_changed_at r + d_retention_seconds d \<or>
         sr_state_changed_at r + d_retention_seconds d = 0) (d_records d)"
    by (intro filter_cong) auto
  then show ?thesis using assms(2) by (simp add: purge_expired_def Let_def)
qed

theorem purge_exact_witness:
  "\<exists>out. purge_expired 0 (Some 400) demo_dereg = (demo_dereg\<lparr>d_records := []\<rparr>, out, Inr ())"
  using purge_exact [OF demo_dereg_reachable, of 400 0]
  by (simp add: demo_dereg_record) (simp add: demo_dereg_def demo_dir_def init_directory_def)

end
