(* ===== verification/Prefs.thy ===== *)
theory Prefs
  imports Py_Prelude
begin

section \<open>Preferences and log levels (\<open>python/infra/defw_common_def.py\<close>)\<close>

text \<open>
  The preferences of a runtime and the selection of the log messages that reach its log file. The
  custom log levels, the groups and the file handler are module-level state, kept in \<open>log_state\<close>;
  the preferences are a dictionary that starts out as the dictionary of defaults itself, not as a
  copy, so \<open>prefs\<close> records whether the two are still the same object. Of the module \<open>logging\<close> the
  model has what decides whether a message is written: the level of the root logger, its handlers,
  the level and the filters of the file handler, and the names of the standard levels. The
  preference file is read by the YAML library; its content is an argument.
\<close>

subsection \<open>Log levels\<close>

definition CRITICAL :: int where
  "CRITICAL = 50"

definition DEFW_LOG_LEVEL_CORE :: int where
  "DEFW_LOG_LEVEL_CORE = 30"

definition DEFW_LOG_LEVEL_WORKER :: int where
  "DEFW_LOG_LEVEL_WORKER = 31"

definition DEFW_LOG_LEVEL_SERVICE :: int where
  "DEFW_LOG_LEVEL_SERVICE = 32"

definition DEFW_LOG_LEVEL_APP :: int where
  "DEFW_LOG_LEVEL_APP = 33"

definition DEFW_LOG_LEVEL_RPC :: int where
  "DEFW_LOG_LEVEL_RPC = 34"

definition DEFW_LOG_LEVEL_STACKTRACE :: int where
  "DEFW_LOG_LEVEL_STACKTRACE = 35"

text \<open>The level constants of the module \<open>logging\<close>.\<close>

definition standard_level :: "string \<Rightarrow> int result" where
  "standard_level name =
     (case map_of [(''CRITICAL'', 50), (''FATAL'', 50), (''ERROR'', 40), (''WARNING'', 30), (''WARN'', 30),
                   (''INFO'', 20), (''DEBUG'', 10), (''NOTSET'', 0)] name of
        None \<Rightarrow> Inl PyAttributeError | Some n \<Rightarrow> Inr n)"

text \<open>
  A handler other than the file handler is known by a number. A filter is a pair of custom and
  standard levels.
\<close>

record file_handler =
  fh_level :: int
  fh_filters :: "(int list \<times> int list) list"

datatype log_handler = FileHandler | OtherHandler nat

record log_state =
  lg_levels :: "(string \<times> int) list"
  lg_level_names :: "int list"
  lg_groups :: "(string \<times> int list) list"
  lg_functions :: "(string \<times> int) list"
  lg_root_level :: int
  lg_handlers :: "log_handler list"
  lg_file :: "file_handler option"

definition add_seen :: "int \<Rightarrow> int list \<Rightarrow> int list" where
  "add_seen n resolved = (if n \<in> set resolved then resolved else resolved @ [n])"

fun resolve_tokens :: "log_state \<Rightarrow> string list \<Rightarrow> int list \<Rightarrow> int list result" where
  "resolve_tokens st [] resolved = Inr resolved"
| "resolve_tokens st (token # tokens) resolved =
     (let name = py_upper (py_strip token) in
      if py_strip token = [] then resolve_tokens st tokens resolved
      else case map_of (lg_groups st) name of
        Some levels \<Rightarrow> resolve_tokens st tokens (fold add_seen levels resolved)
      | None \<Rightarrow>
          (case map_of (lg_levels st) name of
             Some n \<Rightarrow> resolve_tokens st tokens (add_seen n resolved)
           | None \<Rightarrow> ebind (standard_level name) (\<lambda>n. resolve_tokens st tokens (add_seen n resolved))))"

text \<open>A truth value is an integer in Python.\<close>

definition resolve_log_levels :: "log_state \<Rightarrow> pyval \<Rightarrow> int list result" where
  "resolve_log_levels st level =
     (case level of
        PInt n \<Rightarrow> Inr [n]
      | PBool b \<Rightarrow> Inr [if b then 1 else 0]
      | PStr s \<Rightarrow>
          ebind (resolve_tokens st (split_on CHR '','' s) []) (\<lambda>resolved.
          if resolved = [] then Inl PyValueError else Inr resolved)
      | _ \<Rightarrow> Inl PyValueError)"

definition set_logging_level_helper :: "int list \<Rightarrow> log_state \<Rightarrow> log_state \<times> unit result" where
  "set_logging_level_helper levelnos st =
     (let standard_levels = filter (\<lambda>n. n \<notin> set (lg_level_names st)) levelnos;
          custom_levels = filter (\<lambda>n. n \<in> set (lg_level_names st)) levelnos;
          root_levels = (if levelnos = [] then [CRITICAL] else levelnos);
          lowest = foldr min (tl root_levels) (hd root_levels);
          st = st\<lparr>lg_handlers := [], lg_root_level := lowest\<rparr> in
      case lg_file st of
        None \<Rightarrow> (st, Inl PyAttributeError)
      | Some fh \<Rightarrow>
          (st\<lparr>lg_file := Some \<lparr>fh_level = lowest,
                fh_filters = (if custom_levels = [] then [] else [(custom_levels, standard_levels)])\<rparr>,
             lg_handlers := [FileHandler]\<rparr>, Inr ()))"

text \<open>\<open>SelectedLevelsFilter.filter\<close>.\<close>

definition filter_passes :: "log_state \<Rightarrow> int list \<times> int list \<Rightarrow> int \<Rightarrow> bool" where
  "filter_passes st f levelno =
     (if levelno \<in> set (fst f) then True
      else if levelno \<in> set (lg_level_names st) then False
      else case snd f of
        [] \<Rightarrow> levelno = CRITICAL
      | n # ns \<Rightarrow> levelno \<ge> foldr min ns n)"

text \<open>
  Whether a message of a level reaches the log file: the root logger is enabled for it, has the
  file handler, and the handler's level and its filters let it pass. \<open>custom_level_logger\<close> and the
  functions of the module \<open>logging\<close> both end here.
\<close>

definition written :: "log_state \<Rightarrow> int \<Rightarrow> bool" where
  "written st levelno \<longleftrightarrow> levelno \<ge> lg_root_level st \<and> FileHandler \<in> set (lg_handlers st) \<and>
     (case lg_file st of None \<Rightarrow> False
      | Some fh \<Rightarrow> levelno \<ge> fh_level fh \<and> list_all (\<lambda>f. filter_passes st f levelno) (fh_filters fh))"

definition add_logging_level :: "int \<Rightarrow> string \<Rightarrow> log_state \<Rightarrow> log_state" where
  "add_logging_level log_level level_name st =
     st\<lparr>lg_levels := AList.update (py_upper level_name) log_level (lg_levels st),
        lg_level_names := List.insert log_level (lg_level_names st),
        lg_functions := AList.update (py_lower level_name) log_level (lg_functions st)\<rparr>"

definition add_logging_group :: "string \<Rightarrow> string list \<Rightarrow> log_state \<Rightarrow> log_state \<times> unit result" where
  "add_logging_group group_name level_names st =
     (case emap (\<lambda>name. case map_of (lg_levels st) (py_upper name) of None \<Rightarrow> Inl PyKeyError | Some n \<Rightarrow> Inr n)
             level_names of
        Inl e \<Rightarrow> (st, Inl e)
      | Inr levels \<Rightarrow> (st\<lparr>lg_groups := AList.update (py_upper group_name) levels (lg_groups st)\<rparr>, Inr ()))"

definition setup_log_levels :: "log_state \<Rightarrow> log_state \<times> unit result" where
  "setup_log_levels st =
     add_logging_group ''DEFW_ALL''
       [''DEFW_CORE'', ''DEFW_WORKER'', ''DEFW_SERVICE'', ''DEFW_APP'', ''DEFW_RPC'', ''DEFW_STACKTRACE'']
       (add_logging_level DEFW_LOG_LEVEL_STACKTRACE ''DEFW_STACKTRACE''
       (add_logging_level DEFW_LOG_LEVEL_RPC ''DEFW_RPC''
       (add_logging_level DEFW_LOG_LEVEL_APP ''DEFW_APP''
       (add_logging_level DEFW_LOG_LEVEL_SERVICE ''DEFW_SERVICE''
       (add_logging_level DEFW_LOG_LEVEL_WORKER ''DEFW_WORKER''
       (add_logging_level DEFW_LOG_LEVEL_CORE ''DEFW_CORE'' st))))))"

subsection \<open>Preferences\<close>

text \<open>
  \<open>pf_own\<close> is \<open>None\<close> as long as \<open>global_pref\<close> is the object \<open>GLOBAL_PREF_DEF\<close>; otherwise it is what
  the preference file held.
\<close>

record prefs =
  pf_def :: dict
  pf_own :: "pyval option"
  pf_log :: log_state

definition GLOBAL_PREF_DEF :: "pyval \<Rightarrow> dict" where
  "GLOBAL_PREF_DEF which_vim =
     [(PStr ''editor'', which_vim), (PStr ''py_loglevel'', PStr ''critical''),
      (PStr ''halt_on_exception'', PBool False), (PStr ''RPC timeout'', PInt 300),
      (PStr ''num_intfs'', PInt 3), (PStr ''cmd verbosity'', PBool True),
      (PStr ''debug module reload'', PBool False)]"

definition global_pref :: "prefs \<Rightarrow> pyval" where
  "global_pref p = (case pf_own p of None \<Rightarrow> PDict (pf_def p) | Some v \<Rightarrow> v)"

text \<open>\<open>v[name] = x\<close> on a value that may not be a dictionary.\<close>

fun py_setitem :: "string \<Rightarrow> pyval \<Rightarrow> pyval \<Rightarrow> pyval result" where
  "py_setitem k x (PDict d) = Inr (PDict (dset k x d))"
| "py_setitem k x _ = Inl PyTypeError"

definition set_pref :: "string \<Rightarrow> pyval \<Rightarrow> prefs \<Rightarrow> prefs \<times> unit result" where
  "set_pref k x p =
     (case pf_own p of
        None \<Rightarrow> (p\<lparr>pf_def := dset k x (pf_def p)\<rparr>, Inr ())
      | Some v \<Rightarrow> (case py_setitem k x v of Inl e \<Rightarrow> (p, Inl e) | Inr w \<Rightarrow> (p\<lparr>pf_own := Some w\<rparr>, Inr ())))"

text \<open>\<open>set_logging_level(level, save=False)\<close>: a failure is logged.\<close>

definition apply_level :: "pyval \<Rightarrow> log_state \<Rightarrow> log_state \<times> unit result" where
  "apply_level level st =
     (case resolve_log_levels st level of
        Inl e \<Rightarrow> (st, Inl e)
      | Inr levels \<Rightarrow> set_logging_level_helper levels st)"

definition save_pref :: "prefs \<Rightarrow> prefs \<times> unit result" where
  "save_pref p =
     (case py_getitem (global_pref p) ''py_loglevel'' of
        Inl e \<Rightarrow> (p, Inl e)
      | Inr level \<Rightarrow> (p\<lparr>pf_log := fst (apply_level level (pf_log p))\<rparr>, Inr ()))"

definition set_logging_level :: "pyval \<Rightarrow> bool \<Rightarrow> prefs \<Rightarrow> prefs \<times> unit result" where
  "set_logging_level level save p =
     (let applied = apply_level level (pf_log p);
          p = p\<lparr>pf_log := fst applied\<rparr> in
      if \<not> save then (p, Inr ())
      else case snd applied of
        Inl _ \<Rightarrow> save_pref p
      | Inr _ \<Rightarrow> save_pref (fst (set_pref ''py_loglevel'' level p)))"

text \<open>An assignment to a preference followed by \<open>save_pref()\<close>.\<close>

definition set_and_save :: "string \<Rightarrow> pyval \<Rightarrow> prefs \<Rightarrow> prefs \<times> unit result" where
  "set_and_save k x p =
     (case set_pref k x p of (p', Inl e) \<Rightarrow> (p', Inl e) | (p', Inr _) \<Rightarrow> save_pref p')"

text \<open>\<open>which\<close> is the search in the \<open>PATH\<close>.\<close>

definition set_editor :: "(string \<Rightarrow> string option) \<Rightarrow> string \<Rightarrow> prefs \<Rightarrow> prefs \<times> unit result" where
  "set_editor which editor p =
     (case which editor of
        Some path \<Rightarrow> set_and_save ''editor'' (PStr path) p
      | None \<Rightarrow> save_pref p)"

definition set_halt_on_exception :: "pyval \<Rightarrow> prefs \<Rightarrow> prefs \<times> unit result" where
  "set_halt_on_exception exc p =
     (case exc of
        PBool b \<Rightarrow> set_and_save ''halt_on_exception'' (PBool b) p
      | _ \<Rightarrow> set_pref ''halt_on_exception'' (PBool False) p)"

definition set_rpc_timeout :: "pyval \<Rightarrow> prefs \<Rightarrow> prefs \<times> unit result" where
  "set_rpc_timeout timeout p = set_and_save ''RPC timeout'' timeout p"

definition get_rpc_timeout :: "prefs \<Rightarrow> pyval result" where
  "get_rpc_timeout p = py_getitem (global_pref p) ''RPC timeout''"

definition set_debug_module_reload :: "pyval \<Rightarrow> prefs \<Rightarrow> prefs \<times> unit result" where
  "set_debug_module_reload enable p = set_and_save ''debug module reload'' (PBool (truthy enable)) p"

definition get_debug_module_reload :: "prefs \<Rightarrow> pyval result" where
  "get_debug_module_reload p = py_getitem (global_pref p) ''debug module reload''"

definition set_cmd_verbosity :: "string \<Rightarrow> prefs \<Rightarrow> prefs \<times> unit result" where
  "set_cmd_verbosity v p = set_and_save ''cmd verbosity'' (PBool (py_upper v = ''ON'')) p"

definition is_cmd_verbosity :: "prefs \<Rightarrow> pyval result" where
  "is_cmd_verbosity p = py_getitem (global_pref p) ''cmd verbosity''"

text \<open>The loop that fills in the defaults, and \<open>load_pref\<close>: \<open>file\<close> is the content of the preference
  file if there is one, \<open>loglevel\<close> the variable \<open>DEFW_PY_LOGLEVEL\<close>.\<close>

fun fill_defaults :: "dict \<Rightarrow> pyval \<Rightarrow> pyval \<times> unit result" where
  "fill_defaults [] g = (g, Inr ())"
| "fill_defaults ((k, v) # defs) g =
     (case py_contains k g of
        Inl e \<Rightarrow> (g, Inl e)
      | Inr True \<Rightarrow> fill_defaults defs g
      | Inr False \<Rightarrow>
          (case g of PDict d \<Rightarrow> fill_defaults defs (PDict (AList.update k v d)) | _ \<Rightarrow> (g, Inl PyTypeError)))"

definition load_pref :: "pyval option \<Rightarrow> string option \<Rightarrow> prefs \<Rightarrow> prefs \<times> pyval result" where
  "load_pref file loglevel p =
     (let loaded = (case file of
            None \<Rightarrow> (p, Inr ())
          | Some g \<Rightarrow>
              if \<not> truthy g then (p\<lparr>pf_own := None\<rparr>, Inr ())
              else (case fill_defaults (pf_def p) g of (g', r) \<Rightarrow> (p\<lparr>pf_own := Some g'\<rparr>, r)));
          levelled = (case loaded of
            (p1, Inl e) \<Rightarrow> (p1, Inl e)
          | (p1, Inr _) \<Rightarrow> (case loglevel of None \<Rightarrow> (p1, Inr ()) | Some l \<Rightarrow> set_pref ''py_loglevel'' (PStr l) p1)) in
      case levelled of
        (p2, Inl e) \<Rightarrow> (p2, Inl e)
      | (p2, Inr _) \<Rightarrow> (case save_pref p2 of (p3, Inl e) \<Rightarrow> (p3, Inl e) | (p3, Inr _) \<Rightarrow> (p3, Inr (global_pref p3))))"

subsection \<open>What is written\<close>

lemma foldr_min_Min: "foldr min xs (x :: int) = Min (set (x # xs))"
  by (induction xs) (simp_all add: insert_commute)

lemma lowest_Min: "ls \<noteq> [] \<Longrightarrow> foldr min (tl ls) (hd ls) = Min (set (ls :: int list))"
  by (cases ls) (simp_all add: foldr_min_Min)

lemma resolve_log_levels_ne: "resolve_log_levels st level = Inr ls \<Longrightarrow> ls \<noteq> []"
  by (auto simp: resolve_log_levels_def ebind_Inr_iff split: pyval.splits if_splits)

text \<open>
  the meaning of a log selection. Once a selection resolved to levels, a message is written
  exactly if its level is not below the lowest selected one and, when the selection names custom
  levels, it has one of these or else is a standard message from the lowest selected standard level
  on (a critical one, if no standard level is selected).
\<close>
theorem log_selection:
  assumes "resolve_log_levels st level = Inr ls" and "lg_file st = Some fh"
  shows "snd (apply_level level st) = Inr () \<and>
    (written (fst (apply_level level st)) n \<longleftrightarrow> Min (set ls) \<le> n \<and>
       (set ls \<inter> set (lg_level_names st) = {} \<or> n \<in> set ls \<inter> set (lg_level_names st) \<or>
        n \<notin> set (lg_level_names st) \<and>
        (if set ls \<subseteq> set (lg_level_names st) then n = CRITICAL
         else Min (set ls - set (lg_level_names st)) \<le> n)))"
proof -
  let ?cs = "filter (\<lambda>n. n \<in> set (lg_level_names st)) ls"
    and ?ss = "filter (\<lambda>n. n \<notin> set (lg_level_names st)) ls"
  have ne: "ls \<noteq> []" by (rule resolve_log_levels_ne [OF assms(1)])
  have ss: "set ?ss = set ls - set (lg_level_names st)" by auto
  have pass: "filter_passes st' (?cs, ?ss) n \<longleftrightarrow>
      n \<in> set ls \<inter> set (lg_level_names st) \<or> n \<notin> set (lg_level_names st) \<and>
        (if set ls \<subseteq> set (lg_level_names st) then n = CRITICAL
         else Min (set ls - set (lg_level_names st)) \<le> n)"
    if "lg_level_names st' = lg_level_names st" for st'
  proof (cases ?ss)
    case Nil
    then have "set ls \<subseteq> set (lg_level_names st)" using ss by auto
    with Nil that show ?thesis by (simp add: filter_passes_def)
  next
    case (Cons m ms)
    then have "\<not> set ls \<subseteq> set (lg_level_names st)" using ss by auto
    moreover have "foldr min ms m = Min (set ls - set (lg_level_names st))"
      using ss unfolding Cons by (simp add: foldr_min_Min)
    ultimately show ?thesis using that Cons by (simp add: filter_passes_def)
  qed
  have "?cs = [] \<longleftrightarrow> set ls \<inter> set (lg_level_names st) = {}"
    by (auto simp: filter_empty_conv)
  then show ?thesis
    using ne assms by (auto simp: apply_level_def set_logging_level_helper_def Let_def written_def
        lowest_Min pass)
qed

definition fresh_log :: log_state where
  "fresh_log = \<lparr>lg_levels = [], lg_level_names = [], lg_groups = [], lg_functions = [],
     lg_root_level = 30, lg_handlers = [], lg_file = Some \<lparr>fh_level = 0, fh_filters = []\<rparr>\<rparr>"

text \<open>The state \<open>setup_log_levels\<close> leaves.\<close>

definition ready_log :: log_state where
  "ready_log = \<lparr>lg_levels = [(''DEFW_CORE'', 30), (''DEFW_WORKER'', 31), (''DEFW_SERVICE'', 32),
       (''DEFW_APP'', 33), (''DEFW_RPC'', 34), (''DEFW_STACKTRACE'', 35)],
     lg_level_names = [35, 34, 33, 32, 31, 30],
     lg_groups = [(''DEFW_ALL'', [30, 31, 32, 33, 34, 35])],
     lg_functions = [(''defw_core'', 30), (''defw_worker'', 31), (''defw_service'', 32),
       (''defw_app'', 33), (''defw_rpc'', 34), (''defw_stacktrace'', 35)],
     lg_root_level = 30, lg_handlers = [], lg_file = Some \<lparr>fh_level = 0, fh_filters = []\<rparr>\<rparr>"

lemma setup_log_levels_ready: "setup_log_levels fresh_log = (ready_log, Inr ())"
  by code_simp

theorem log_selection_witness:
  "written (fst (apply_level (PStr ''DEFW_RPC'') ready_log)) 34 \<and>
   \<not> written (fst (apply_level (PStr ''DEFW_RPC'') ready_log)) 35"
proof -
  have r: "resolve_log_levels ready_log (PStr ''DEFW_RPC'') = Inr [34]" by code_simp
  have f: "lg_file ready_log = Some \<lparr>fh_level = 0, fh_filters = []\<rparr>" by (simp add: ready_log_def)
  show ?thesis
    using log_selection [OF r f, of 34] log_selection [OF r f, of 35] by (simp add: ready_log_def)
qed

text \<open>
  C23: the selection \<open>warning\<close> loses errors. The level of \<open>DEFW_CORE\<close> is the level of standard
  warnings, so after \<open>setup_log_levels\<close> the selection is taken for a custom one: warnings and
  critical messages are written, error messages are not.
\<close>
theorem warning_loses_errors:
  "setup_log_levels fresh_log = (ready_log, Inr ()) \<and>
   written (fst (apply_level (PStr ''warning'') ready_log)) 30 \<and>
   \<not> written (fst (apply_level (PStr ''warning'') ready_log)) 40 \<and>
   written (fst (apply_level (PStr ''warning'') ready_log)) 50"
  by code_simp

subsection \<open>Complete and well-typed preferences\<close>

definition pref_keys :: "string list" where
  "pref_keys = [''editor'', ''py_loglevel'', ''halt_on_exception'', ''RPC timeout'', ''num_intfs'',
     ''cmd verbosity'', ''debug module reload'']"

definition bool_prefs :: "string list" where
  "bool_prefs = [''halt_on_exception'', ''cmd verbosity'', ''debug module reload'']"

definition is_bool :: "pyval \<Rightarrow> bool" where
  "is_bool v = (case v of PBool _ \<Rightarrow> True | _ \<Rightarrow> False)"

definition has_all_prefs :: "dict \<Rightarrow> bool" where
  "has_all_prefs d \<longleftrightarrow> (\<forall>k \<in> set pref_keys. map_of d (PStr k) \<noteq> None)"

definition well_typed :: "dict \<Rightarrow> bool" where
  "well_typed d \<longleftrightarrow> (\<forall>k \<in> set bool_prefs. \<forall>v. map_of d (PStr k) = Some v \<longrightarrow> is_bool v)"

definition pref_ok :: "prefs \<Rightarrow> bool" where
  "pref_ok p \<longleftrightarrow> has_all_prefs (pf_def p) \<and> well_typed (pf_def p) \<and>
     (\<exists>d. global_pref p = PDict d \<and> has_all_prefs d \<and> well_typed d)"

definition start_prefs :: "pyval \<Rightarrow> log_state \<Rightarrow> prefs" where
  "start_prefs which_vim st = \<lparr>pf_def = GLOBAL_PREF_DEF which_vim, pf_own = None, pf_log = st\<rparr>"

lemma start_prefs_ok: "pref_ok (start_prefs w st)"
  by (simp add: pref_ok_def start_prefs_def global_pref_def GLOBAL_PREF_DEF_def has_all_prefs_def
      well_typed_def pref_keys_def bool_prefs_def is_bool_def)

lemma has_all_prefs_dset: "has_all_prefs d \<Longrightarrow> has_all_prefs (dset k x d)"
  by (simp add: has_all_prefs_def dset_def)

lemma well_typed_dset: "well_typed d \<Longrightarrow> k \<in> set bool_prefs \<longrightarrow> is_bool x \<Longrightarrow> well_typed (dset k x d)"
  by (auto simp: well_typed_def dset_def split: if_splits)

lemma set_pref_ok:
  assumes "pref_ok p" and "k \<in> set bool_prefs \<longrightarrow> is_bool x"
  shows "\<exists>p'. set_pref k x p = (p', Inr ()) \<and> pref_ok p' \<and> py_getitem (global_pref p') k = Inr x \<and>
    (\<forall>j. j \<noteq> k \<longrightarrow> py_getitem (global_pref p') j = py_getitem (global_pref p) j)"
proof (cases "pf_own p")
  case None
  with assms show ?thesis
    by (simp add: set_pref_def pref_ok_def global_pref_def has_all_prefs_dset well_typed_dset dindex_def)
      (simp add: dset_def)
next
  case (Some v)
  with assms(1) obtain d where "v = PDict d" "has_all_prefs d" "well_typed d"
    by (auto simp: pref_ok_def global_pref_def)
  with assms Some show ?thesis
    by (simp add: set_pref_def pref_ok_def global_pref_def has_all_prefs_dset well_typed_dset dindex_def)
      (simp add: dset_def)
qed

lemma getitem_ok:
  assumes "pref_ok p" and "k \<in> set pref_keys"
  shows "\<exists>v. py_getitem (global_pref p) k = Inr v \<and> (k \<in> set bool_prefs \<longrightarrow> is_bool v)"
proof -
  from assms(1) obtain d where d: "global_pref p = PDict d" "has_all_prefs d" "well_typed d"
    by (auto simp: pref_ok_def)
  from d(2) assms(2) obtain v where v: "map_of d (PStr k) = Some v"
    by (auto simp: has_all_prefs_def)
  with d(3) have "k \<in> set bool_prefs \<longrightarrow> is_bool v" by (simp add: well_typed_def)
  with d(1) v show ?thesis by (simp add: dindex_def)
qed

lemma global_pref_log [simp]: "global_pref (p\<lparr>pf_log := st\<rparr>) = global_pref p"
  by (simp add: global_pref_def split: option.split)

lemma pref_ok_log [simp]: "pref_ok (p\<lparr>pf_log := st\<rparr>) = pref_ok p"
  by (simp add: pref_ok_def)

lemma save_pref_ok:
  assumes "pref_ok p"
  shows "\<exists>p'. save_pref p = (p', Inr ()) \<and> pref_ok p' \<and> global_pref p' = global_pref p"
proof -
  obtain v where "py_getitem (global_pref p) ''py_loglevel'' = Inr v"
    using getitem_ok [OF assms, of "''py_loglevel''"] by (auto simp: pref_keys_def)
  with assms show ?thesis by (simp add: save_pref_def)
qed

lemma set_and_save_ok:
  assumes "pref_ok p" and "k \<in> set bool_prefs \<longrightarrow> is_bool x"
  shows "\<exists>p'. set_and_save k x p = (p', Inr ()) \<and> pref_ok p' \<and> py_getitem (global_pref p') k = Inr x \<and>
    (\<forall>j. j \<noteq> k \<longrightarrow> py_getitem (global_pref p') j = py_getitem (global_pref p) j)"
proof -
  obtain p1 where p1: "set_pref k x p = (p1, Inr ())" "pref_ok p1" "py_getitem (global_pref p1) k = Inr x"
      "\<forall>j. j \<noteq> k \<longrightarrow> py_getitem (global_pref p1) j = py_getitem (global_pref p) j"
    using set_pref_ok [OF assms] by blast
  obtain p2 where "save_pref p1 = (p2, Inr ())" "pref_ok p2" "global_pref p2 = global_pref p1"
    using save_pref_ok [OF p1(2)] by blast
  with p1 show ?thesis by (simp add: set_and_save_def)
qed

lemma set_and_save_eq:
  "set_and_save k x p = (p', r) \<Longrightarrow> pref_ok p \<Longrightarrow> k \<in> set bool_prefs \<longrightarrow> is_bool x \<Longrightarrow> r = Inr () \<and> pref_ok p'"
  using set_and_save_ok [of p k x] by auto

lemma fill_defaults_ok:
  "\<exists>d'. fill_defaults defs (PDict d) = (PDict d', Inr ()) \<and>
     (\<forall>k. map_of d' k = (case map_of d k of None \<Rightarrow> map_of defs k | Some v \<Rightarrow> Some v))"
proof (induction defs arbitrary: d)
  case (Cons p defs)
  obtain a b where p: "p = (a, b)" by (cases p)
  show ?case
  proof (cases "map_of d a")
    case None
    obtain d' where "fill_defaults defs (PDict (AList.update a b d)) = (PDict d', Inr ())"
        "\<forall>k. map_of d' k = (case map_of (AList.update a b d) k of None \<Rightarrow> map_of defs k | Some v \<Rightarrow> Some v)"
      using Cons.IH by blast
    then show ?thesis using None by (auto simp: p split: option.splits)
  next
    case (Some v)
    obtain d' where "fill_defaults defs (PDict d) = (PDict d', Inr ())"
        "\<forall>k. map_of d' k = (case map_of d k of None \<Rightarrow> map_of defs k | Some v \<Rightarrow> Some v)"
      using Cons.IH by blast
    then show ?thesis using Some by (auto simp: p split: option.splits)
  qed
qed (simp split: option.splits)

lemma fill_defaults_pref_ok:
  assumes "pref_ok p" and "well_typed d" and "fill_defaults (pf_def p) (PDict d) = (g, r)"
  shows "r = Inr () \<and> pref_ok (p\<lparr>pf_own := Some g\<rparr>)"
proof -
  obtain d' where d': "fill_defaults (pf_def p) (PDict d) = (PDict d', Inr ())"
      "\<forall>k. map_of d' k = (case map_of d k of None \<Rightarrow> map_of (pf_def p) k | Some v \<Rightarrow> Some v)"
    using fill_defaults_ok by blast
  have "has_all_prefs d'" "well_typed d'"
    using assms(1,2) d'(2) by (auto simp: pref_ok_def has_all_prefs_def well_typed_def split: option.splits)
  with assms d'(1) show ?thesis by (auto simp: pref_ok_def global_pref_def)
qed

text \<open>The steps of the preferences: the setters, and loading a preference file that is a dictionary.\<close>

inductive pref_step :: "prefs \<Rightarrow> prefs \<times> unit result \<Rightarrow> bool" where
  "pref_step p (set_editor which editor p)"
| "pref_step p (set_halt_on_exception exc p)"
| "pref_step p (set_rpc_timeout timeout p)"
| "pref_step p (set_debug_module_reload enable p)"
| "pref_step p (set_cmd_verbosity v p)"
| "pref_step p (set_logging_level level save p)"
| "content = None \<or> content = Some (PDict d) \<and> well_typed d \<Longrightarrow> load_pref content loglevel p = (p', r) \<Longrightarrow>
     pref_step p (p', ebind r (\<lambda>_. Inr ()))"

inductive pref_reachable :: "prefs \<Rightarrow> bool" where
  "pref_reachable (start_prefs which_vim st)"
| "pref_reachable p \<Longrightarrow> pref_step p (p', r) \<Longrightarrow> pref_reachable p'"

lemma load_pref_ok:
  assumes "pref_ok p" and "content = None \<or> content = Some (PDict d) \<and> well_typed d"
    and "load_pref content loglevel p = (p', r)"
  shows "pref_ok p' \<and> r = Inr (global_pref p')"
proof -
  have "\<exists>p1. (case content of None \<Rightarrow> (p, Inr ()) | Some g \<Rightarrow>
        if \<not> truthy g then (p\<lparr>pf_own := None\<rparr>, Inr ())
        else (case fill_defaults (pf_def p) g of (g', r) \<Rightarrow> (p\<lparr>pf_own := Some g'\<rparr>, r))) = (p1, Inr ()) \<and> pref_ok p1"
  proof (cases content)
    case (Some g)
    with assms(2) have g: "g = PDict d" "well_typed d" by auto
    obtain g' r' where f: "fill_defaults (pf_def p) (PDict d) = (g', r')" by fastforce
    from fill_defaults_pref_ok [OF assms(1) g(2) f] assms(1) Some g f show ?thesis
      by (auto simp: pref_ok_def global_pref_def)
  qed (use assms(1) in auto)
  then obtain p1 where l: "(case content of None \<Rightarrow> (p, Inr ()) | Some g \<Rightarrow>
        if \<not> truthy g then (p\<lparr>pf_own := None\<rparr>, Inr ())
        else (case fill_defaults (pf_def p) g of (g', r) \<Rightarrow> (p\<lparr>pf_own := Some g'\<rparr>, r))) = (p1, Inr ())"
    and p1: "pref_ok p1" by blast
  have "\<exists>p2. (case loglevel of None \<Rightarrow> (p1, Inr ()) | Some l \<Rightarrow> set_pref ''py_loglevel'' (PStr l) p1)
      = (p2, Inr ()) \<and> pref_ok p2"
    using p1 set_pref_ok [OF p1, of "''py_loglevel''"]
    by (auto simp: bool_prefs_def split: option.splits)
  then obtain p2 where p2: "(case loglevel of None \<Rightarrow> (p1, Inr ())
      | Some l \<Rightarrow> set_pref ''py_loglevel'' (PStr l) p1) = (p2, Inr ())" "pref_ok p2" by blast
  from save_pref_ok [OF p2(2)] obtain p3 where "save_pref p2 = (p3, Inr ())" "pref_ok p3" by blast
  with assms(3) show ?thesis unfolding load_pref_def Let_def l using p2 by auto
qed

lemma set_logging_level_ok:
  assumes "pref_ok p"
  shows "\<exists>p'. set_logging_level level save p = (p', Inr ()) \<and> pref_ok p'"
proof -
  have sp: "\<exists>p'. save_pref q = (p', Inr ()) \<and> pref_ok p'" if "pref_ok q" for q
    using save_pref_ok [OF that] by blast
  have "\<exists>q. set_pref ''py_loglevel'' level (p\<lparr>pf_log := st\<rparr>) = (q, Inr ()) \<and> pref_ok q" for st
    using set_pref_ok [of "p\<lparr>pf_log := st\<rparr>" "''py_loglevel''" level] assms by (auto simp: bool_prefs_def)
  then have "pref_ok (fst (set_pref ''py_loglevel'' level (p\<lparr>pf_log := st\<rparr>)))" for st
    by (metis fst_conv)
  with assms sp show ?thesis
    by (simp add: set_logging_level_def Let_def split: sum.splits)
qed

lemma pref_step_ok:
  assumes "pref_step p (p', r)" and "pref_ok p"
  shows "r = Inr () \<and> pref_ok p'"
  using assms(1)
proof cases
  case (1 which editor)
  then show ?thesis
    using save_pref_ok [OF assms(2)] assms(2)
    by (auto simp: set_editor_def bool_prefs_def split: option.splits dest!: set_and_save_eq [OF sym])
next
  case (2 exc)
  then show ?thesis
    using assms(2) set_pref_ok [OF assms(2), of "''halt_on_exception''" "PBool False"]
    by (auto simp: set_halt_on_exception_def is_bool_def split: pyval.splits dest!: set_and_save_eq [OF sym])
next
  case (3 timeout)
  then show ?thesis
    using assms(2) by (auto simp: set_rpc_timeout_def bool_prefs_def dest!: set_and_save_eq [OF sym])
next
  case (4 enable)
  then show ?thesis
    using assms(2) by (auto simp: set_debug_module_reload_def is_bool_def dest!: set_and_save_eq [OF sym])
next
  case (5 v)
  then show ?thesis
    using assms(2) by (auto simp: set_cmd_verbosity_def is_bool_def dest!: set_and_save_eq [OF sym])
next
  case (6 level save)
  then show ?thesis using set_logging_level_ok [OF assms(2), of level save] by auto
next
  case (7 content d loglevel r')
  then show ?thesis using load_pref_ok [OF assms(2), of content d loglevel p' r'] by auto
qed



end
