(* ===== verification/Base64.thy ===== *)
theory Base64
  imports Py_Prelude
begin

section \<open>Base 64 (\<open>base64.b64encode\<close> and \<open>base64.b64decode\<close>)\<close>

text \<open>
  The two functions of Python's standard library that carry inline attachments. The encoder works
  on groups of three bytes; the decoder is the state machine of \<open>binascii.a2b_base64\<close> in its
  default, lenient mode: characters outside the alphabet are skipped, a complete pad sequence ends
  the input, and an incomplete group at the end raises \<open>binascii.Error\<close>, a \<open>ValueError\<close>. The
  interface \<open>codec\<close> states what a client relies on.
\<close>

definition b64_alphabet :: string where
  "b64_alphabet = ''ABCDEFGHIJKLMNOPQRSTUVWXYZabcdefghijklmnopqrstuvwxyz0123456789+/''"

definition b64_char :: "nat \<Rightarrow> char" where
  "b64_char i = b64_alphabet ! i"

fun index_of :: "char \<Rightarrow> string \<Rightarrow> nat \<Rightarrow> nat option" where
  "index_of c [] i = None"
| "index_of c (x # xs) i = (if x = c then Some i else index_of c xs (Suc i))"

definition b64_val :: "char \<Rightarrow> nat option" where
  "b64_val c = index_of c b64_alphabet 0"

fun b64_nats :: "nat list \<Rightarrow> string" where
  "b64_nats [] = ''''"
| "b64_nats [a] = [b64_char (a div 4), b64_char (a mod 4 * 16), CHR ''='', CHR ''='']"
| "b64_nats [a, b] =
     [b64_char (a div 4), b64_char (a mod 4 * 16 + b div 16), b64_char (b mod 16 * 4), CHR ''='']"
| "b64_nats (a # b # c # rest) =
     b64_char (a div 4) # b64_char (a mod 4 * 16 + b div 16) #
     b64_char (b mod 16 * 4 + c div 64) # b64_char (c mod 64) # b64_nats rest"

definition b64encode :: "byte list \<Rightarrow> string" where
  "b64encode bs = b64_nats (map unat bs)"

text \<open>The decoder's state: position in the group of four, bits left over, pads seen.\<close>

fun b64_scan :: "nat \<Rightarrow> nat \<Rightarrow> nat \<Rightarrow> string \<Rightarrow> nat list result" where
  "b64_scan q left pads [] = (if q = 0 then Inr [] else Inl PyValueError)"
| "b64_scan q left pads (c # cs) =
     (if c = CHR ''='' then
        (if 2 \<le> q \<and> 4 \<le> q + Suc pads then Inr []
         else b64_scan q left (if 2 \<le> q then Suc pads else pads) cs)
      else case b64_val c of
        None \<Rightarrow> b64_scan q left pads cs
      | Some v \<Rightarrow>
          if q = 0 then b64_scan 1 v 0 cs
          else if q = 1 then ebind (b64_scan 2 (v mod 16) 0 cs) (\<lambda>bs. Inr ((left * 4 + v div 16) # bs))
          else if q = 2 then ebind (b64_scan 3 (v mod 4) 0 cs) (\<lambda>bs. Inr ((left * 16 + v div 4) # bs))
          else ebind (b64_scan 0 0 0 cs) (\<lambda>bs. Inr ((left * 64 + v) # bs)))"

definition b64decode_str :: "string \<Rightarrow> byte list result" where
  "b64decode_str s =
     (if list_ex (\<lambda>c. 128 \<le> (of_char c :: nat)) s then Inl PyValueError
      else ebind (b64_scan 0 0 0 s) (\<lambda>ns. Inr (map of_nat ns)))"

text \<open>The argument is a string or a bytes object; anything else raises \<open>TypeError\<close>.\<close>

fun b64decode :: "pyval \<Rightarrow> byte list result" where
  "b64decode (PStr s) = b64decode_str s"
| "b64decode (PBytes bs) =
     ebind (b64_scan 0 0 0 (map (\<lambda>b. char_of (unat b)) bs)) (\<lambda>ns. Inr (map of_nat ns))"
| "b64decode (PBytearray bs) =
     ebind (b64_scan 0 0 0 (map (\<lambda>b. char_of (unat b)) bs)) (\<lambda>ns. Inr (map of_nat ns))"
| "b64decode _ = Inl PyTypeError"

subsection \<open>The interface\<close>

text \<open>A codec decodes what it encoded; then lists of encoded values decode element by element.\<close>

locale codec =
  fixes enc :: "'a \<Rightarrow> 'b" and dec :: "'b \<Rightarrow> 'a result"
  assumes dec_enc: "dec (enc x) = Inr x"
begin

lemma emap_dec_enc: "emap dec (map enc xs) = Inr xs"
  by (induction xs) (auto simp: dec_enc)

lemma enc_inject: "enc x = enc y \<longleftrightarrow> x = y"
  by (metis dec_enc sum.inject(2))

end

subsection \<open>The round trip\<close>

lemma b64_val_char_all:
  "list_all (\<lambda>i. b64_val (b64_char i) = Some i \<and> b64_char i \<noteq> CHR ''='' \<and>
     \<not> 128 \<le> (of_char (b64_char i) :: nat)) [0..<64]"
  by code_simp

lemma b64_val_char [simp]:
  assumes "i < 64"
  shows "b64_val (b64_char i) = Some i" and "b64_char i \<noteq> CHR ''=''"
    and "\<not> 128 \<le> (of_char (b64_char i) :: nat)"
  using b64_val_char_all assms by (auto simp: list_all_iff)

lemma six_bits:
  fixes a b c :: nat assumes "a < 256" "b < 256" "c < 256"
  shows "a div 4 < 64" "a mod 4 * 16 < 64" "a mod 4 * 16 + b div 16 < 64" "b mod 16 * 4 < 64"
    "b mod 16 * 4 + c div 64 < 64" "c mod 64 < 64"
  using assms by auto

lemma split_bits: "y < k \<Longrightarrow> (x * k + y) div k = x \<and> (x * k + y) mod k = (y :: nat)"
  by simp

lemma join_bits:
  fixes a b c :: nat assumes "a < 256" "b < 256" "c < 256"
  shows "(a div 4) * 4 + (a mod 4 * 16 + b div 16) div 16 = a"
    and "(a mod 4 * 16 + b div 16) mod 16 * 16 + (b mod 16 * 4 + c div 64) div 4 = b"
    and "(b mod 16 * 4 + c div 64) mod 4 * 64 + c mod 64 = c"
proof -
  have "b div 16 < 16" "c div 64 < 4" using assms by auto
  then show "(a div 4) * 4 + (a mod 4 * 16 + b div 16) div 16 = a"
    "(a mod 4 * 16 + b div 16) mod 16 * 16 + (b mod 16 * 4 + c div 64) div 4 = b"
    "(b mod 16 * 4 + c div 64) mod 4 * 64 + c mod 64 = c"
    by (simp_all only: split_bits div_mult_mod_eq)
qed

lemma scan_group:
  fixes a b c :: nat assumes "a < 256" "b < 256" "c < 256"
  shows "b64_scan 0 0 0 (b64_nats (a # b # c # rest)) =
    ebind (b64_scan 0 0 0 (b64_nats rest)) (\<lambda>bs. Inr (a # b # c # bs))"
  using six_bits [OF assms] join_bits [OF assms]
  by (cases "b64_scan 0 0 0 (b64_nats rest)") simp_all

lemma scan_nats: "list_all (\<lambda>n. n < 256) ns \<Longrightarrow> b64_scan 0 0 0 (b64_nats ns) = Inr ns"
proof (induction ns rule: b64_nats.induct)
  case (2 a)
  then have "(a div 4) * 4 + a mod 4 * 16 div 16 = a" by simp
  with 2 six_bits(1,2) [of a 0 0] show ?case by simp
next
  case (3 a b)
  then show ?case using six_bits(1,3,4) [of a b 0] join_bits(1,2) [of a b 0] by simp
next
  case (4 a b c rest)
  then show ?case by (simp only: scan_group list.pred_inject ebind_simps)
qed simp

lemma nats_ascii: "list_all (\<lambda>n. n < 256) ns \<Longrightarrow> \<not> list_ex (\<lambda>c. 128 \<le> (of_char c :: nat)) (b64_nats ns)"
proof (induction ns rule: b64_nats.induct)
  case (2 a)
  then show ?case using six_bits(1,2) [of a 0 0] by simp
next
  case (3 a b)
  then show ?case using six_bits(1,3,4) [of a b 0] by simp
next
  case (4 a b c rest)
  then show ?case using six_bits(1,3,5,6) [of a b c] by simp
qed simp

lemma b64decode_encode: "b64decode (PStr (b64encode bs)) = Inr bs"
proof -
  have "list_all (\<lambda>n. n < 256) (map unat bs)"
    using unsigned_less [where 'b = 8 and 'a = nat] by (auto simp: list_all_iff)
  then show ?thesis
    by (simp add: b64encode_def b64decode_str_def scan_nats nats_ascii comp_def)
qed

interpretation b64: codec "\<lambda>bs. PStr (b64encode bs)" b64decode
  by unfold_locales (rule b64decode_encode)

text \<open>Four characters carry three bytes, and a group is never split.\<close>

lemma b64_nats_length: "length (b64_nats ns) = 4 * ((length ns + 2) div 3)"
proof (induction ns rule: b64_nats.induct)
  case (4 a b c rest)
  have "(length rest + 3 + 2) div 3 = (length rest + 2) div 3 + 1" by simp
  with 4 show ?case by simp
qed simp_all

lemma b64encode_length: "length (b64encode bs) = 4 * ((length bs + 2) div 3)"
  by (simp add: b64encode_def b64_nats_length)

end
