(* ===== verification/Attachments.thy ===== *)
theory Attachments
  imports Base64
begin

section \<open>Binary attachments (\<open>python/infra/defw_attachments.py\<close>)\<close>

text \<open>
  A message is a Python value. Before it is serialized, large buffers and NumPy arrays are taken
  out and replaced by marker dictionaries; the payloads travel inline as base 64 or stay in the
  sender's memory and are named by a descriptor. The receiver decodes the payloads and puts them
  back. NumPy, PyYAML and the RMA entry points of the C runtime are not part of the sources: they
  are the arguments \<open>np\<close>, \<open>dump\<close>/\<open>load\<close> and \<open>rma\<close>, with what the round trip relies on as the named
  predicates \<open>np_ok\<close>, \<open>yaml_ok\<close> and \<open>rma_ok\<close>.
\<close>

subsection \<open>Library code\<close>

text \<open>NumPy, on array objects: \<open>None\<close> stands for NumPy not being installed.\<close>

record np_ops =
  np_isinstance :: "nat \<Rightarrow> bool"
  np_ascontiguousarray :: "nat \<Rightarrow> nat"
  np_shape :: "nat \<Rightarrow> int list"
  np_dtype :: "nat \<Rightarrow> string"
  np_tobytes :: "nat \<Rightarrow> byte list"
  np_frombuffer :: "pyval \<Rightarrow> pyval \<Rightarrow> nat result"
  np_reshape :: "nat \<Rightarrow> pyval \<Rightarrow> pyval result"

text \<open>The C entry points over the state of the sending process.\<close>

record 's rma_ops =
  rma_available :: "'s \<Rightarrow> string \<Rightarrow> bool result"
  rma_publish_op :: "'s \<Rightarrow> byte list \<Rightarrow> 's \<times> (pyval \<times> pyval) result"
  rma_fetch_op :: "'s \<Rightarrow> string \<Rightarrow> pyval \<Rightarrow> pyval \<Rightarrow> pyval \<Rightarrow> pyval \<Rightarrow> (pyval \<times> pyval) result"
  rma_discard_op :: "'s \<Rightarrow> pyval \<Rightarrow> 's \<times> unit result"

type_synonym environ = "string \<Rightarrow> string option"

subsection \<open>Extraction\<close>

definition ATTACH_MARKER_KEY :: string where
  "ATTACH_MARKER_KEY = ''__defw_attachment__''"

definition ATTACH_DATA_KEY :: string where
  "ATTACH_DATA_KEY = ''__defw_attachment_data__''"

definition DEFAULT_RMA_THRESHOLD :: int where
  "DEFAULT_RMA_THRESHOLD = 64 * 1024"

definition DEFAULT_ATTACH_THRESHOLD :: int where
  "DEFAULT_ATTACH_THRESHOLD = 4096"

fun is_ndarray :: "np_ops option \<Rightarrow> pyval \<Rightarrow> bool" where
  "is_ndarray (Some np) (PObj a) = np_isinstance np a"
| "is_ndarray _ _ = False"

definition attach_marker :: "nat \<Rightarrow> string \<Rightarrow> dict \<Rightarrow> dict" where
  "attach_marker index kind meta =
     dupdate [(PStr ATTACH_MARKER_KEY, PInt (int index)), (PStr ''kind'', PStr kind)] meta"

fun extract_val :: "np_ops option \<Rightarrow> int \<Rightarrow> pyval \<Rightarrow> pyval list \<Rightarrow> pyval \<times> pyval list"
  and extract_list :: "np_ops option \<Rightarrow> int \<Rightarrow> pyval list \<Rightarrow> pyval list \<Rightarrow> pyval list \<times> pyval list"
  and extract_items :: "np_ops option \<Rightarrow> int \<Rightarrow> dict \<Rightarrow> pyval list \<Rightarrow> dict \<times> pyval list" where
  "extract_val npo threshold (PObj a) attachments =
     (case npo of
        None \<Rightarrow> (PObj a, attachments)
      | Some np \<Rightarrow>
          if np_isinstance np a then
            (let arr = np_ascontiguousarray np a in
             (PDict (attach_marker (length attachments) ''ndarray''
                [(PStr ''shape'', PList (map PInt (np_shape np arr))),
                 (PStr ''dtype'', PStr (np_dtype np arr))]),
              attachments @ [PObj arr]))
          else (PObj a, attachments))"
| "extract_val npo threshold (PBytes bs) attachments =
     (if threshold \<le> int (length bs)
      then (PDict (attach_marker (length attachments) ''bytes'' []), attachments @ [PBytes bs])
      else (PBytes bs, attachments))"
| "extract_val npo threshold (PBytearray bs) attachments =
     (if threshold \<le> int (length bs)
      then (PDict (attach_marker (length attachments) ''bytes'' []), attachments @ [PBytes bs])
      else (PBytearray bs, attachments))"
| "extract_val npo threshold (PDict d) attachments =
     (case extract_items npo threshold d attachments of (d', atts) \<Rightarrow> (PDict d', atts))"
| "extract_val npo threshold (PList xs) attachments =
     (case extract_list npo threshold xs attachments of (ys, atts) \<Rightarrow> (PList ys, atts))"
| "extract_val npo threshold (PTuple xs) attachments =
     (case extract_list npo threshold xs attachments of (ys, atts) \<Rightarrow> (PTuple ys, atts))"
| "extract_val npo threshold v attachments = (v, attachments)"
| "extract_list npo threshold [] attachments = ([], attachments)"
| "extract_list npo threshold (v # vs) attachments =
     (case extract_val npo threshold v attachments of (w, atts) \<Rightarrow>
      case extract_list npo threshold vs atts of (ws, atts') \<Rightarrow> (w # ws, atts'))"
| "extract_items npo threshold [] attachments = ([], attachments)"
| "extract_items npo threshold ((k, v) # d) attachments =
     (case extract_val npo threshold v attachments of (w, atts) \<Rightarrow>
      case extract_items npo threshold d atts of (d', atts') \<Rightarrow> ((k, w) # d', atts'))"

definition extract_attachments :: "np_ops option \<Rightarrow> int \<Rightarrow> pyval \<Rightarrow> pyval \<times> pyval list" where
  "extract_attachments npo threshold msg = extract_val npo threshold msg []"

subsection \<open>Restoring\<close>

text \<open>\<open>attachments[index]\<close>, with Python's negative indices.\<close>

definition py_index :: "pyval list \<Rightarrow> pyval \<Rightarrow> pyval result" where
  "py_index xs i =
     (case i of
        PInt n \<Rightarrow> if 0 \<le> n \<and> n < int (length xs) then Inr (xs ! nat n)
                 else if n < 0 \<and> - int (length xs) \<le> n then Inr (xs ! nat (int (length xs) + n))
                 else Inl PyIndexError
      | PBool b \<Rightarrow> if (if b then 1 else 0) < length xs then Inr (xs ! (if b then 1 else 0))
                  else Inl PyIndexError
      | _ \<Rightarrow> Inl PyTypeError)"

fun byte_of :: "pyval \<Rightarrow> byte result" where
  "byte_of (PInt n) = (if 0 \<le> n \<and> n < 256 then Inr (of_int n) else Inl PyValueError)"
| "byte_of (PBool b) = Inr (if b then 1 else 0)"
| "byte_of _ = Inl PyTypeError"

text \<open>\<open>bytes(buf)\<close>: a copy of a buffer, zeros for a number, or the bytes of a sequence of numbers.\<close>

fun py_bytes :: "np_ops option \<Rightarrow> pyval \<Rightarrow> pyval result" where
  "py_bytes npo (PBytes bs) = Inr (PBytes bs)"
| "py_bytes npo (PBytearray bs) = Inr (PBytes bs)"
| "py_bytes npo (PInt n) = (if n < 0 then Inl PyValueError else Inr (PBytes (replicate (nat n) 0)))"
| "py_bytes npo (PBool b) = Inr (PBytes (if b then [0] else []))"
| "py_bytes npo (PList xs) = ebind (emap byte_of xs) (\<lambda>bs. Inr (PBytes bs))"
| "py_bytes npo (PTuple xs) = ebind (emap byte_of xs) (\<lambda>bs. Inr (PBytes bs))"
| "py_bytes (Some np) (PObj a) = (if np_isinstance np a then Inr (PBytes (np_tobytes np a)) else Inl PyTypeError)"
| "py_bytes npo _ = Inl PyTypeError"

definition restore_marker :: "np_ops option \<Rightarrow> pyval list \<Rightarrow> pyval \<Rightarrow> dict \<Rightarrow> pyval result" where
  "restore_marker npo attachments index obj =
     ebind (py_index attachments index) (\<lambda>buf.
     if dget0 obj ''kind'' = PStr ''ndarray'' then
       (case npo of
          None \<Rightarrow> Inl (PyRuntimeError ''received a NumPy array attachment but numpy is not available to restore it'')
        | Some np \<Rightarrow>
            ebind (dindex obj ''dtype'') (\<lambda>dtype.
            ebind (np_frombuffer np buf dtype) (\<lambda>arr.
            ebind (dindex obj ''shape'') (\<lambda>shape. np_reshape np arr shape))))
     else py_bytes npo buf)"

fun reinject :: "np_ops option \<Rightarrow> pyval list \<Rightarrow> pyval \<Rightarrow> pyval result"
  and reinject_list :: "np_ops option \<Rightarrow> pyval list \<Rightarrow> pyval list \<Rightarrow> pyval list result"
  and reinject_items :: "np_ops option \<Rightarrow> pyval list \<Rightarrow> dict \<Rightarrow> dict result" where
  "reinject npo attachments (PDict d) =
     (case map_of d (PStr ATTACH_MARKER_KEY) of
        Some index \<Rightarrow> restore_marker npo attachments index d
      | None \<Rightarrow> ebind (reinject_items npo attachments d) (\<lambda>d'. Inr (PDict d')))"
| "reinject npo attachments (PList xs) =
     ebind (reinject_list npo attachments xs) (\<lambda>ys. Inr (PList ys))"
| "reinject npo attachments (PTuple xs) =
     ebind (reinject_list npo attachments xs) (\<lambda>ys. Inr (PTuple ys))"
| "reinject npo attachments v = Inr v"
| "reinject_list npo attachments [] = Inr []"
| "reinject_list npo attachments (v # vs) =
     ebind (reinject npo attachments v) (\<lambda>w.
     ebind (reinject_list npo attachments vs) (\<lambda>ws. Inr (w # ws)))"
| "reinject_items npo attachments [] = Inr []"
| "reinject_items npo attachments ((k, v) # d) =
     ebind (reinject npo attachments v) (\<lambda>w.
     ebind (reinject_items npo attachments d) (\<lambda>d'. Inr ((k, w) # d')))"

definition reinject_attachments :: "np_ops option \<Rightarrow> pyval \<Rightarrow> pyval list \<Rightarrow> pyval result" where
  "reinject_attachments npo msg attachments =
     (if attachments = [] then Inr msg else reinject npo attachments msg)"

subsection \<open>Payloads\<close>

text \<open>\<open>memoryview(buf).cast('B')\<close> of an object that is neither bytes nor an array is \<open>memview\<close>.\<close>

fun to_bytes :: "np_ops option \<Rightarrow> (pyval \<Rightarrow> byte list result) \<Rightarrow> pyval \<Rightarrow> byte list result" where
  "to_bytes npo memview (PBytes bs) = Inr bs"
| "to_bytes npo memview (PBytearray bs) = Inr bs"
| "to_bytes (Some np) memview (PObj a) =
     (if np_isinstance np a then Inr (np_tobytes np a) else memview (PObj a))"
| "to_bytes npo memview v = memview v"

definition rma_enabled :: "environ \<Rightarrow> bool" where
  "rma_enabled env =
     ((case env ''DEFW_RMA_ATTACHMENTS'' of None \<Rightarrow> '''' | Some s \<Rightarrow> s)
        \<notin> {''0'', ''no'', ''false'', ''off''})"

definition rma_threshold :: "environ \<Rightarrow> int" where
  "rma_threshold env =
     (case env ''DEFW_RMA_THRESHOLD'' of
        None \<Rightarrow> DEFAULT_RMA_THRESHOLD
      | Some s \<Rightarrow> (case py_int_str s of None \<Rightarrow> DEFAULT_RMA_THRESHOLD | Some n \<Rightarrow> n))"

text \<open>The peer is a string; the empty string stands for an unknown peer.\<close>

definition rma_usable :: "'s rma_ops option \<Rightarrow> environ \<Rightarrow> 's \<Rightarrow> string \<Rightarrow> bool" where
  "rma_usable ops env s blk_uuid =
     (if blk_uuid = [] \<or> \<not> rma_enabled env then False
      else case ops of None \<Rightarrow> False
      | Some r \<Rightarrow> (case rma_available r s blk_uuid of Inl _ \<Rightarrow> False | Inr b \<Rightarrow> b))"

text \<open>\<open>handle, key, addr, length = (int(v) for v in desc.split(':'))\<close>.\<close>

definition parse_desc :: "string \<Rightarrow> (int \<times> int \<times> int \<times> int) result" where
  "parse_desc desc =
     ebind (emap (\<lambda>v. py_int (PStr v)) (split_on CHR '':'' desc)) (\<lambda>ns.
     case ns of [handle, key, addr, len] \<Rightarrow> Inr (handle, key, addr, len) | _ \<Rightarrow> Inl PyValueError)"

definition desc_dict :: "int \<times> int \<times> int \<times> int \<Rightarrow> dict" where
  "desc_dict p = (case p of (handle, key, addr, len) \<Rightarrow>
     [(PStr ''handle'', PInt handle), (PStr ''key'', PInt key), (PStr ''addr'', PInt addr),
      (PStr ''len'', PInt len)])"

definition rma_publish ::
  "'s rma_ops \<Rightarrow> 's \<Rightarrow> byte list \<Rightarrow> 's \<times> (int \<times> int \<times> int \<times> int) option result" where
  "rma_publish ops s data =
     (case rma_publish_op ops s data of
        (s', Inl _) \<Rightarrow> (s', Inr None)
      | (s', Inr (rc, desc)) \<Rightarrow>
          if truthy rc \<or> \<not> truthy desc then (s', Inr None)
          else case desc of
            PStr t \<Rightarrow> (s', ebind (parse_desc t) (\<lambda>p. Inr (Some p)))
          | _ \<Rightarrow> (s', Inl PyAttributeError))"

text \<open>
  One payload after the other: RMA when it can be used and the payload is large enough and the
  registration succeeded, base 64 otherwise. The state carries the C runtime's registrations and
  the list \<open>published\<close> of handles; an exception leaves what was published so far.
\<close>

fun encode_loop ::
  "np_ops option \<Rightarrow> (pyval \<Rightarrow> byte list result) \<Rightarrow> 's rma_ops option \<Rightarrow> int \<Rightarrow> pyval list
     \<Rightarrow> 's \<Rightarrow> int list \<Rightarrow> 's \<times> int list \<times> pyval list result" where
  "encode_loop npo memview ops threshold [] s published = (s, published, Inr [])"
| "encode_loop npo memview ops threshold (a # as) s published =
     (case to_bytes npo memview a of
        Inl e \<Rightarrow> (s, published, Inl e)
      | Inr data \<Rightarrow>
          (case (case ops of
                   None \<Rightarrow> (s, Inr None)
                 | Some r \<Rightarrow> if threshold \<le> int (length data) then rma_publish r s data
                            else (s, Inr None)) of
             (s', Inl e) \<Rightarrow> (s', published, Inl e)
           | (s', Inr (Some desc)) \<Rightarrow>
               (case encode_loop npo memview ops threshold as s' (published @ [fst desc]) of
                  (s'', pub, res) \<Rightarrow> (s'', pub, ebind res (\<lambda>ps. Inr (PDict (desc_dict desc) # ps))))
           | (s', Inr None) \<Rightarrow>
               (case encode_loop npo memview ops threshold as s' published of
                  (s'', pub, res) \<Rightarrow> (s'', pub, ebind res (\<lambda>ps. Inr (PStr (b64encode data) # ps))))))"

definition encode_payloads ::
  "np_ops option \<Rightarrow> (pyval \<Rightarrow> byte list result) \<Rightarrow> 's rma_ops option \<Rightarrow> environ \<Rightarrow> pyval list
     \<Rightarrow> string \<Rightarrow> 's \<Rightarrow> int list \<Rightarrow> 's \<times> int list \<times> pyval list result" where
  "encode_payloads npo memview ops env attachments blk_uuid s published =
     (let use_rma = rma_usable ops env s blk_uuid in
      encode_loop npo memview (if use_rma then ops else None) (rma_threshold env) attachments s published)"

text \<open>
  The text PyYAML writes is of some type \<open>'w\<close>: floats are real numbers here, so a type of finite
  strings would be too small to hold every value.
  The payload list is stored in the message by \<open>transformed[ATTACH_DATA_KEY] = ...\<close>, which raises
  when the message is a list or a tuple.
\<close>

definition attach_encode ::
  "np_ops option \<Rightarrow> (pyval \<Rightarrow> byte list result) \<Rightarrow> 's rma_ops option \<Rightarrow> environ \<Rightarrow> (pyval \<Rightarrow> 'w)
     \<Rightarrow> string \<Rightarrow> int \<Rightarrow> pyval \<Rightarrow> 's \<Rightarrow> int list \<Rightarrow> 's \<times> int list \<times> 'w result" where
  "attach_encode npo memview ops env dump blk_uuid threshold msg s published =
     (case extract_attachments npo threshold msg of
        (transformed, attachments) \<Rightarrow>
          if attachments = [] then (s, published, Inr (dump transformed))
          else
            (case encode_payloads npo memview ops env attachments blk_uuid s published of
               (s', pub, Inl e) \<Rightarrow> (s', pub, Inl e)
             | (s', pub, Inr payloads) \<Rightarrow>
                 (case transformed of
                    PDict d \<Rightarrow> (s', pub, Inr (dump (PDict (dset ATTACH_DATA_KEY (PList payloads) d))))
                  | _ \<Rightarrow> (s', pub, Inl PyTypeError))))"

text \<open>Failures of single discards are swallowed.\<close>

fun attach_discard :: "'s rma_ops option \<Rightarrow> int list \<Rightarrow> 's \<Rightarrow> 's" where
  "attach_discard None published s = s"
| "attach_discard (Some ops) [] s = s"
| "attach_discard (Some ops) (h # hs) s =
     attach_discard (Some ops) hs (fst (rma_discard_op ops s (PInt h)))"

definition rma_fetch :: "'s rma_ops option \<Rightarrow> 's \<Rightarrow> dict \<Rightarrow> string \<Rightarrow> pyval result" where
  "rma_fetch opso s desc blk_uuid =
     (case opso of
        None \<Rightarrow> Inl (PyRuntimeError ''message carries an RMA attachment but this DEFw build has no RMA support to fetch it'')
      | Some ops \<Rightarrow>
          if blk_uuid = [] then
            Inl (PyRuntimeError ''message carries an RMA attachment but the sending agent is unknown, so it cannot be fetched'')
          else
            ebind (dindex desc ''handle'') (\<lambda>handle.
            ebind (dindex desc ''key'') (\<lambda>key.
            ebind (dindex desc ''addr'') (\<lambda>addr.
            ebind (dindex desc ''len'') (\<lambda>len.
            ebind (rma_fetch_op ops s blk_uuid handle key addr len) (\<lambda>(rc, data).
            if truthy rc \<or> data = PNone then Inl (PyRuntimeError ''RMA fetch failed'')
            else Inr data))))))"

definition decode_payload :: "'s rma_ops option \<Rightarrow> 's \<Rightarrow> string \<Rightarrow> pyval \<Rightarrow> pyval result" where
  "decode_payload ops s blk_uuid p =
     (case p of PDict desc \<Rightarrow> rma_fetch ops s desc blk_uuid
      | _ \<Rightarrow> ebind (b64decode p) (\<lambda>bs. Inr (PBytes bs)))"

definition decode_payloads ::
  "'s rma_ops option \<Rightarrow> 's \<Rightarrow> pyval \<Rightarrow> string \<Rightarrow> pyval list result" where
  "decode_payloads ops s payloads blk_uuid =
     ebind (py_iter payloads) (emap (decode_payload ops s blk_uuid))"

definition attach_load ::
  "np_ops option \<Rightarrow> 's rma_ops option \<Rightarrow> ('w \<Rightarrow> pyval result) \<Rightarrow> 's \<Rightarrow> string \<Rightarrow> 'w
     \<Rightarrow> pyval result" where
  "attach_load npo ops load s blk_uuid msg_str =
     ebind (load msg_str) (\<lambda>obj.
     case obj of
       PDict d \<Rightarrow>
         (case map_of d (PStr ATTACH_DATA_KEY) of
            None \<Rightarrow> Inr obj
          | Some payloads \<Rightarrow>
              ebind (decode_payloads ops s payloads blk_uuid) (\<lambda>atts.
              reinject_attachments npo (PDict (AList.delete (PStr ATTACH_DATA_KEY) d)) atts))
     | _ \<Rightarrow> Inr obj)"

subsection \<open>What is inside a message\<close>

text \<open>The objects, the dictionary keys and the buffer lengths that occur in a value.\<close>

fun objs :: "pyval \<Rightarrow> nat list" where
  "objs (PObj a) = [a]"
| "objs (PList xs) = concat (map objs xs)"
| "objs (PTuple xs) = concat (map objs xs)"
| "objs (PDict d) = concat (map (\<lambda>(k, v). objs v) d)"
| "objs _ = []"

fun all_keys :: "pyval \<Rightarrow> pyval list" where
  "all_keys (PList xs) = concat (map all_keys xs)"
| "all_keys (PTuple xs) = concat (map all_keys xs)"
| "all_keys (PDict d) = map fst d @ concat (map (\<lambda>(k, v). all_keys v) d)"
| "all_keys _ = []"

fun buf_lens :: "pyval \<Rightarrow> nat list" where
  "buf_lens (PBytes bs) = [length bs]"
| "buf_lens (PBytearray bs) = [length bs]"
| "buf_lens (PList xs) = concat (map buf_lens xs)"
| "buf_lens (PTuple xs) = concat (map buf_lens xs)"
| "buf_lens (PDict d) = concat (map (\<lambda>(k, v). buf_lens v) d)"
| "buf_lens _ = []"

text \<open>
  What a value comes back as: arrays as arrays of the same data, type and shape (a scalar array as
  an array of length one, since \<open>ascontiguousarray\<close> never returns fewer than one dimension), large
  byte arrays as bytes, everything else as it was.
\<close>

definition same_array :: "np_ops \<Rightarrow> nat \<Rightarrow> nat \<Rightarrow> bool" where
  "same_array np a b \<longleftrightarrow> np_isinstance np b \<and> np_tobytes np b = np_tobytes np a \<and>
     np_dtype np b = np_dtype np a \<and>
     np_shape np b = (if np_shape np a = [] then [1] else np_shape np a)"

fun restored :: "np_ops option \<Rightarrow> int \<Rightarrow> pyval \<Rightarrow> pyval \<Rightarrow> bool"
  and restored_list :: "np_ops option \<Rightarrow> int \<Rightarrow> pyval list \<Rightarrow> pyval list \<Rightarrow> bool"
  and restored_items :: "np_ops option \<Rightarrow> int \<Rightarrow> dict \<Rightarrow> dict \<Rightarrow> bool" where
  "restored npo th (PObj a) w =
     (case npo of
        None \<Rightarrow> w = PObj a
      | Some np \<Rightarrow> if np_isinstance np a then (\<exists>b. w = PObj b \<and> same_array np a b) else w = PObj a)"
| "restored npo th (PBytearray bs) w =
     (w = (if th \<le> int (length bs) then PBytes bs else PBytearray bs))"
| "restored npo th (PList xs) w = (\<exists>ys. w = PList ys \<and> restored_list npo th xs ys)"
| "restored npo th (PTuple xs) w = (\<exists>ys. w = PTuple ys \<and> restored_list npo th xs ys)"
| "restored npo th (PDict d) w = (\<exists>e. w = PDict e \<and> restored_items npo th d e)"
| "restored npo th v w = (w = v)"
| "restored_list npo th [] ys = (ys = [])"
| "restored_list npo th (x # xs) ys = (\<exists>y zs. ys = y # zs \<and> restored npo th x y \<and> restored_list npo th xs zs)"
| "restored_items npo th [] e = (e = [])"
| "restored_items npo th ((k, v) # d) e =
     (\<exists>w e'. e = (k, w) # e' \<and> restored npo th v w \<and> restored_items npo th d e')"

subsection \<open>What the library code promises\<close>

text \<open>
  NumPy: the contiguous copy has the data and type of the array and its shape, with at least one
  dimension, and reading its bytes back under its type and shape gives an array of that data, type
  and shape, for the arrays whose type is \<open>plain\<close> (named by its string, as the numeric types are).
\<close>

definition np_ok :: "np_ops \<Rightarrow> (nat \<Rightarrow> bool) \<Rightarrow> bool" where
  "np_ok np plain \<longleftrightarrow> (\<forall>a. np_isinstance np a \<and> plain a \<longrightarrow>
     np_isinstance np (np_ascontiguousarray np a) \<and>
     np_tobytes np (np_ascontiguousarray np a) = np_tobytes np a \<and>
     np_dtype np (np_ascontiguousarray np a) = np_dtype np a \<and>
     np_shape np (np_ascontiguousarray np a) = (if np_shape np a = [] then [1] else np_shape np a) \<and>
     (\<exists>f b. np_frombuffer np (PBytes (np_tobytes np a)) (PStr (np_dtype np a)) = Inr f \<and>
        np_reshape np f (PList (map PInt (if np_shape np a = [] then [1] else np_shape np a)))
          = Inr (PObj b) \<and> same_array np a b))"

text \<open>PyYAML: a value without arrays is read back as it was written.\<close>

definition yaml_ok :: "np_ops option \<Rightarrow> (pyval \<Rightarrow> 'w) \<Rightarrow> ('w \<Rightarrow> pyval result) \<Rightarrow> bool" where
  "yaml_ok npo dump load \<longleftrightarrow>
     (\<forall>v. (\<forall>a \<in> set (objs v). \<not> is_ndarray npo (PObj a)) \<longrightarrow> load (dump v) = Inr v)"

text \<open>
  RMA: \<open>mem\<close> is what the peer can read of a state, by descriptor. A publication keeps what is
  registered; if it reports success its descriptor parses and names the data; and a fetch returns
  the data of a registered descriptor.
\<close>

definition rma_ok ::
  "'s rma_ops \<Rightarrow> ('s \<Rightarrow> int \<times> int \<times> int \<times> int \<Rightarrow> byte list option) \<Rightarrow> string \<Rightarrow> bool" where
  "rma_ok R mem blk \<longleftrightarrow> blk \<noteq> [] \<and>
     (\<forall>s data s' res. rma_publish_op R s data = (s', res) \<longrightarrow>
        mem s \<subseteq>\<^sub>m mem s' \<and>
        (\<forall>rc desc. res = Inr (rc, desc) \<and> \<not> truthy rc \<and> truthy desc \<longrightarrow>
           (\<exists>t p. desc = PStr t \<and> parse_desc t = Inr p \<and> mem s' p = Some data))) \<and>
     (\<forall>s h k a l b. mem s (h, k, a, l) = Some b \<longrightarrow>
        rma_fetch_op R s blk (PInt h) (PInt k) (PInt a) (PInt l) = Inr (PInt 0, PBytes b))"

subsection \<open>Extraction is complete\<close>

lemmas extract_induct = extract_val_extract_list_extract_items.induct

lemma extract_grows:
  "extract_val npo th v acc = (v', acc') \<Longrightarrow> \<exists>new. acc' = acc @ new"
  "extract_list npo th vs acc = (vs', acc') \<Longrightarrow> \<exists>new. acc' = acc @ new"
  "extract_items npo th d acc = (d', acc') \<Longrightarrow> \<exists>new. acc' = acc @ new"
  by (induction npo th v acc and npo th vs acc and npo th d acc arbitrary: v' acc' and vs' acc' and d' acc'
      rule: extract_induct)
    (fastforce simp: Let_def split: option.splits if_splits prod.splits)+

lemma attach_marker_eq [simp]:
  "attach_marker n k [] = [(PStr ATTACH_MARKER_KEY, PInt (int n)), (PStr ''kind'', PStr k)]"
  "attach_marker n k [(PStr ''shape'', sh), (PStr ''dtype'', t)] =
     [(PStr ATTACH_MARKER_KEY, PInt (int n)), (PStr ''kind'', PStr k), (PStr ''shape'', sh),
      (PStr ''dtype'', t)]"
  by (simp_all add: attach_marker_def dupdate_def ATTACH_MARKER_KEY_def)

lemma extract_no_arrays:
  "extract_val npo th v acc = (v', acc') \<Longrightarrow> \<forall>a \<in> set (objs v'). \<not> is_ndarray npo (PObj a)"
  "extract_list npo th vs acc = (vs', acc') \<Longrightarrow> \<forall>a \<in> set (objs (PList vs')). \<not> is_ndarray npo (PObj a)"
  "extract_items npo th d acc = (d', acc') \<Longrightarrow> \<forall>a \<in> set (objs (PDict d')). \<not> is_ndarray npo (PObj a)"
  by (induction npo th v acc and npo th vs acc and npo th d acc arbitrary: v' acc' and vs' acc' and d' acc'
      rule: extract_induct)
    (auto simp: Let_def split: option.splits if_splits prod.splits)

lemma extract_no_large:
  "extract_val npo th v acc = (v', acc') \<Longrightarrow> \<forall>n \<in> set (buf_lens v'). int n < th"
  "extract_list npo th vs acc = (vs', acc') \<Longrightarrow> \<forall>n \<in> set (buf_lens (PList vs')). int n < th"
  "extract_items npo th d acc = (d', acc') \<Longrightarrow> \<forall>n \<in> set (buf_lens (PDict d')). int n < th"
  by (induction npo th v acc and npo th vs acc and npo th d acc arbitrary: v' acc' and vs' acc' and d' acc'
      rule: extract_induct)
    (auto simp: Let_def split: option.splits if_splits prod.splits)

text \<open>Nothing extracted means nothing changed.\<close>

lemma extract_same:
  "extract_val npo th v acc = (v', acc') \<Longrightarrow> acc' = acc \<Longrightarrow> v' = v \<and> restored npo th v v"
  "extract_list npo th vs acc = (vs', acc') \<Longrightarrow> acc' = acc \<Longrightarrow> vs' = vs \<and> restored_list npo th vs vs"
  "extract_items npo th d acc = (d', acc') \<Longrightarrow> acc' = acc \<Longrightarrow> d' = d \<and> restored_items npo th d d"
proof (induction npo th v acc and npo th vs acc and npo th d acc arbitrary: v' acc' and vs' acc' and d' acc'
      rule: extract_induct)
  case (9 npo th v vs acc)
  obtain w a1 ws a2 where e: "extract_val npo th v acc = (w, a1)" "extract_list npo th vs a1 = (ws, a2)"
    by (meson surj_pair)
  with 9(3,4) have "vs' = w # ws" "a2 = acc" by auto
  with extract_grows(1) [OF e(1)] extract_grows(2) [OF e(2)] have "a1 = acc" by auto
  with 9(1) [OF e(1)] 9(2) [OF e(1) [symmetric]] e \<open>vs' = w # ws\<close> \<open>a2 = acc\<close> show ?case by auto
next
  case (11 npo th k v d acc)
  obtain w a1 ws a2 where e: "extract_val npo th v acc = (w, a1)" "extract_items npo th d a1 = (ws, a2)"
    by (meson surj_pair)
  with 11(3,4) have "d' = (k, w) # ws" "a2 = acc" by auto
  with extract_grows(1) [OF e(1)] extract_grows(3) [OF e(2)] have "a1 = acc" by auto
  with 11(1) [OF e(1)] 11(2) [OF e(1) [symmetric]] e \<open>d' = (k, w) # ws\<close> \<open>a2 = acc\<close> show ?case by auto
qed (auto simp: Let_def split: option.splits if_splits prod.splits)

subsection \<open>Restoring inverts extraction\<close>

text \<open>The bytes of a payload, and a decoded attachment list that agrees with a segment of them.\<close>

definition payload_bytes :: "np_ops option \<Rightarrow> pyval \<Rightarrow> byte list" where
  "payload_bytes npo a = (case a of PBytes bs \<Rightarrow> bs
     | PObj x \<Rightarrow> (case npo of None \<Rightarrow> [] | Some np \<Rightarrow> np_tobytes np x) | _ \<Rightarrow> [])"

definition segment :: "np_ops option \<Rightarrow> pyval list \<Rightarrow> pyval list \<Rightarrow> pyval list \<Rightarrow> bool" where
  "segment npo acc acc' bufs \<longleftrightarrow> length acc' \<le> length bufs \<and>
     (\<forall>i. length acc \<le> i \<and> i < length acc' \<longrightarrow> bufs ! i = PBytes (payload_bytes npo (acc' ! i)))"

lemma segment_split:
  assumes "segment npo acc acc'' bufs" and "acc' = acc @ xs" and "acc'' = acc' @ ys"
  shows "segment npo acc acc' bufs" and "segment npo acc' acc'' bufs"
  using assms by (auto simp: segment_def nth_append)

lemma segment_last:
  "segment npo acc (acc @ [a]) bufs \<Longrightarrow>
     py_index bufs (PInt (int (length acc))) = Inr (PBytes (payload_bytes npo a))"
  by (auto simp: segment_def py_index_def)

lemma restore_bytes:
  assumes "segment npo acc (acc @ [PBytes bs]) bufs"
  shows "reinject npo bufs (PDict (attach_marker (length acc) ''bytes'' [])) = Inr (PBytes bs)"
  using segment_last [OF assms] by (simp add: restore_marker_def payload_bytes_def ATTACH_MARKER_KEY_def)

lemma restore_array:
  assumes "segment (Some np) acc (acc @ [PObj (np_ascontiguousarray np a)]) bufs"
    and "np_ok np plain" and "np_isinstance np a" and "plain a"
  shows "\<exists>b. reinject (Some np) bufs (PDict (attach_marker (length acc) ''ndarray''
      [(PStr ''shape'', PList (map PInt (np_shape np (np_ascontiguousarray np a)))),
       (PStr ''dtype'', PStr (np_dtype np (np_ascontiguousarray np a)))])) = Inr (PObj b) \<and>
    same_array np a b"
proof -
  from assms(2-4) obtain f b where np:
    "np_tobytes np (np_ascontiguousarray np a) = np_tobytes np a"
    "np_dtype np (np_ascontiguousarray np a) = np_dtype np a"
    "np_shape np (np_ascontiguousarray np a) = (if np_shape np a = [] then [1] else np_shape np a)"
    "np_frombuffer np (PBytes (np_tobytes np a)) (PStr (np_dtype np a)) = Inr f"
    "np_reshape np f (PList (map PInt (if np_shape np a = [] then [1] else np_shape np a))) = Inr (PObj b)"
    "same_array np a b"
    unfolding np_ok_def by blast
  then show ?thesis
    using segment_last [OF assms(1)]
    by (simp add: restore_marker_def payload_bytes_def dindex_def ATTACH_MARKER_KEY_def del: if_split)
qed

text \<open>A message the round trip is about: no reserved key inside, and arrays of plain type only.\<close>

definition sendable :: "np_ops option \<Rightarrow> (nat \<Rightarrow> bool) \<Rightarrow> pyval \<Rightarrow> bool" where
  "sendable npo plain v \<longleftrightarrow> PStr ATTACH_MARKER_KEY \<notin> set (all_keys v) \<and>
     (\<forall>a \<in> set (objs v). is_ndarray npo (PObj a) \<longrightarrow> plain a)"

lemma sendable_simps:
  "sendable npo plain (PList xs) \<longleftrightarrow> (\<forall>x \<in> set xs. sendable npo plain x)"
  "sendable npo plain (PTuple xs) \<longleftrightarrow> (\<forall>x \<in> set xs. sendable npo plain x)"
  "sendable npo plain (PDict d) \<longleftrightarrow> map_of d (PStr ATTACH_MARKER_KEY) = None \<and>
     (\<forall>(k, v) \<in> set d. sendable npo plain v)"
  by (fastforce simp: sendable_def map_of_eq_None_iff)+

lemma extract_items_keys: "extract_items npo th d acc = (d', acc') \<Longrightarrow> map fst d' = map fst d"
  by (induction d arbitrary: acc d' acc') (fastforce split: prod.splits)+

lemma reinject_extract:
  assumes np: "\<And>np. npo = Some np \<Longrightarrow> np_ok np plain"
  shows "extract_val npo th v acc = (v', acc') \<Longrightarrow> sendable npo plain v \<Longrightarrow> segment npo acc acc' bufs \<Longrightarrow>
      \<exists>w. reinject npo bufs v' = Inr w \<and> restored npo th v w"
    and "extract_list npo th vs acc = (vs', acc') \<Longrightarrow> \<forall>x \<in> set vs. sendable npo plain x \<Longrightarrow>
      segment npo acc acc' bufs \<Longrightarrow>
      \<exists>ws. reinject_list npo bufs vs' = Inr ws \<and> restored_list npo th vs ws"
    and "extract_items npo th d acc = (d', acc') \<Longrightarrow> \<forall>(k, x) \<in> set d. sendable npo plain x \<Longrightarrow>
      segment npo acc acc' bufs \<Longrightarrow>
      \<exists>e. reinject_items npo bufs d' = Inr e \<and> restored_items npo th d e"
  using np
proof (induction npo th v acc and npo th vs acc and npo th d acc arbitrary: v' acc' and vs' acc' and d' acc'
      rule: extract_induct)
  case (1 npo th a acc)
  show ?case
  proof (cases "is_ndarray npo (PObj a)")
    case True
    then obtain np where n: "npo = Some np" "np_isinstance np a" by (cases npo) auto
    moreover from True 1(2) have "plain a" by (simp add: sendable_def)
    ultimately show ?thesis
      using 1(1) restore_array [of np acc a bufs plain] 1(3,4) by (auto simp: Let_def)
  next
    case False
    with 1(1) show ?thesis by (cases npo) auto
  qed
next
  case (2 npo th bs acc)
  then show ?case using restore_bytes [of npo acc bs bufs] by (auto split: if_splits)
next
  case (3 npo th bs acc)
  then show ?case using restore_bytes [of npo acc bs bufs] by (auto split: if_splits)
next
  case (4 npo th d acc)
  obtain d1 a1 where e: "extract_items npo th d acc = (d1, a1)" by (meson surj_pair)
  with 4(2) have "v' = PDict d1" "acc' = a1" by auto
  moreover have "map_of d1 (PStr ATTACH_MARKER_KEY) = None"
    using 4(3) extract_items_keys [OF e] unfolding sendable_simps
    by (metis list.set_map map_of_eq_None_iff)
  ultimately show ?case using 4(1) [OF e] 4(3-5) by (fastforce simp: sendable_simps)
next
  case (5 npo th xs acc)
  then show ?case by (fastforce simp: sendable_simps split: prod.splits)
next
  case (6 npo th xs acc)
  then show ?case by (fastforce simp: sendable_simps split: prod.splits)
next
  case (9 npo th v vs acc)
  obtain w a1 ws a2 where e: "extract_val npo th v acc = (w, a1)" "extract_list npo th vs a1 = (ws, a2)"
    by (meson surj_pair)
  with 9(3) have eq: "vs' = w # ws" "acc' = a2" by auto
  obtain xs ys where "a1 = acc @ xs" "a2 = a1 @ ys"
    using extract_grows(1) [OF e(1)] extract_grows(2) [OF e(2)] by blast
  from segment_split [OF 9(5) [unfolded eq(2)] this]
  show ?case using 9(1) [OF e(1)] 9(2) [OF e(1) [symmetric] e(2)] 9(4,6) eq by fastforce
next
  case (11 npo th k v d acc)
  obtain w a1 ws a2 where e: "extract_val npo th v acc = (w, a1)" "extract_items npo th d a1 = (ws, a2)"
    by (meson surj_pair)
  with 11(3) have eq: "d' = (k, w) # ws" "acc' = a2" by auto
  obtain xs ys where "a1 = acc @ xs" "a2 = a1 @ ys"
    using extract_grows(1) [OF e(1)] extract_grows(3) [OF e(2)] by blast
  from segment_split [OF 11(5) [unfolded eq(2)] this]
  show ?case using 11(1) [OF e(1)] 11(2) [OF e(1) [symmetric] e(2)] 11(4,6) eq by fastforce
qed auto

text \<open>What the extraction appends are buffers and arrays, so \<open>_to_bytes\<close> reads each of them.\<close>

definition payload :: "np_ops option \<Rightarrow> pyval \<Rightarrow> bool" where
  "payload npo a \<longleftrightarrow> (\<exists>bs. a = PBytes bs) \<or>
     (\<exists>np x. npo = Some np \<and> np_isinstance np x \<and> a = PObj x)"

lemma payload_to_bytes: "payload npo a \<Longrightarrow> to_bytes npo mv a = Inr (payload_bytes npo a)"
  by (auto simp: payload_def payload_bytes_def)

lemma extract_payloads:
  assumes np: "\<And>np. npo = Some np \<Longrightarrow> np_ok np plain"
  shows "extract_val npo th v acc = (v', acc') \<Longrightarrow> sendable npo plain v \<Longrightarrow>
      \<forall>a \<in> set acc. payload npo a \<Longrightarrow> \<forall>a \<in> set acc'. payload npo a"
    and "extract_list npo th vs acc = (vs', acc') \<Longrightarrow> \<forall>x \<in> set vs. sendable npo plain x \<Longrightarrow>
      \<forall>a \<in> set acc. payload npo a \<Longrightarrow> \<forall>a \<in> set acc'. payload npo a"
    and "extract_items npo th d acc = (d', acc') \<Longrightarrow> \<forall>(k, x) \<in> set d. sendable npo plain x \<Longrightarrow>
      \<forall>a \<in> set acc. payload npo a \<Longrightarrow> \<forall>a \<in> set acc'. payload npo a"
  using np
proof (induction npo th v acc and npo th vs acc and npo th d acc arbitrary: v' acc' and vs' acc' and d' acc'
      rule: extract_induct)
  case (1 npo th a acc)
  show ?case
  proof (cases "is_ndarray npo (PObj a)")
    case True
    then obtain np where n: "npo = Some np" "np_isinstance np a" by (cases npo) auto
    have "np_ok np plain" using 1(4) n(1) by blast
    moreover from True 1(2) have "plain a" by (simp add: sendable_def)
    ultimately have "np_isinstance np (np_ascontiguousarray np a)"
      using n(2) by (simp add: np_ok_def)
    with n 1(1,3) show ?thesis by (auto simp: Let_def payload_def)
  next
    case False
    with 1(1,3) show ?thesis by (cases npo) auto
  qed
next
  case (4 npo th d acc)
  obtain d1 a1 where e: "extract_items npo th d acc = (d1, a1)" by (meson surj_pair)
  with 4(2) have "acc' = a1" by auto
  with 4(1) [OF e _ 4(4,5)] 4(3) show ?case by (simp add: sendable_simps)
next
  case (5 npo th xs acc)
  then show ?case by (simp add: sendable_simps split: prod.splits)
next
  case (6 npo th xs acc)
  then show ?case by (simp add: sendable_simps split: prod.splits)
next
  case (9 npo th v vs acc)
  obtain w a1 ws a2 where e: "extract_val npo th v acc = (w, a1)" "extract_list npo th vs a1 = (ws, a2)"
    by (meson surj_pair)
  with 9(3) have acc': "acc' = a2" by auto
  have "\<forall>a \<in> set a1. payload npo a" by (rule 9(1) [OF e(1) _ 9(5,6)]) (use 9(4) in auto)
  then show ?case unfolding acc' by (intro 9(2) [OF e(1) [symmetric] e(2) _ _ 9(6)]) (use 9(4) in auto)
next
  case (11 npo th k v d acc)
  obtain w a1 ws a2 where e: "extract_val npo th v acc = (w, a1)" "extract_items npo th d a1 = (ws, a2)"
    by (meson surj_pair)
  with 11(3) have acc': "acc' = a2" by auto
  have "\<forall>a \<in> set a1. payload npo a" by (rule 11(1) [OF e(1) _ 11(5,6)]) (use 11(4) in auto)
  then show ?case unfolding acc' by (intro 11(2) [OF e(1) [symmetric] e(2) _ _ 11(6)]) (use 11(4) in auto)
qed (auto simp: payload_def split: if_splits)

subsection \<open>Payloads on the wire\<close>

text \<open>A publication never raises, keeps what is registered, and registers what it reports.\<close>

lemma rma_publish_ok:
  assumes "rma_ok R mem blk" and "rma_publish R s data = (s', res)"
  shows "mem s \<subseteq>\<^sub>m mem s' \<and> (\<exists>r. res = Inr r \<and> (\<forall>p. r = Some p \<longrightarrow> mem s' p = Some data))"
proof -
  obtain s1 q where pub: "rma_publish_op R s data = (s1, q)" by (meson surj_pair)
  then have s1: "s1 = s'"
    using assms(2) by (auto simp: rma_publish_def split: sum.splits prod.splits if_splits pyval.splits)
  from assms(1) pub have keep: "mem s \<subseteq>\<^sub>m mem s1" unfolding rma_ok_def by blast
  show ?thesis
  proof (cases "\<exists>rc desc. q = Inr (rc, desc) \<and> \<not> truthy rc \<and> truthy desc")
    case True
    then obtain rc desc where q: "q = Inr (rc, desc)" "\<not> truthy rc" "truthy desc" by blast
    with assms(1) pub obtain t p where "desc = PStr t" "parse_desc t = Inr p" "mem s1 p = Some data"
      unfolding rma_ok_def by blast
    with pub q keep assms(2) show ?thesis by (auto simp: rma_publish_def)
  next
    case False
    then have "res = Inr None"
      using pub assms(2) by (auto simp: rma_publish_def split: sum.splits prod.splits)
    with keep s1 show ?thesis by simp
  qed
qed

text \<open>
  What the payload list means to the receiver: each entry decodes, in the final state of the
  sender, to the bytes of its attachment. \<open>published\<close> grows by the handles of the entries that
  stayed in memory, in their order.
\<close>

fun handles :: "pyval list \<Rightarrow> int list" where
  "handles [] = []"
| "handles (PDict d # ps) = (case dget0 d ''handle'' of PInt h \<Rightarrow> h # handles ps | _ \<Rightarrow> handles ps)"
| "handles (_ # ps) = handles ps"

lemma desc_handle [simp]: "dget0 (desc_dict p) ''handle'' = PInt (fst p)"
  by (cases p) (simp add: desc_dict_def)

lemma fetch_registered:
  assumes "rma_ok R mem blk" and "mem s p = Some data"
  shows "decode_payload (Some R) s blk (PDict (desc_dict p)) = Inr (PBytes data)"
proof -
  obtain h k a l where p: "p = (h, k, a, l)" by (cases p)
  have "blk \<noteq> []" "rma_fetch_op R s blk (PInt h) (PInt k) (PInt a) (PInt l) = Inr (PInt 0, PBytes data)"
    using assms unfolding rma_ok_def p by blast+
  then show ?thesis by (simp add: decode_payload_def rma_fetch_def desc_dict_def dindex_def p)
qed

lemma decode_inline:
  "decode_payload ops s blk (PStr (b64encode data)) = Inr (PBytes data)"
  using b64.dec_enc [of data] by (simp add: decode_payload_def del: b64decode.simps)

lemma encode_loop_decodes:
  assumes "\<And>R. ops = Some R \<Longrightarrow> ops' = Some R \<and> rma_ok R mem blk" and "\<forall>a \<in> set as. payload npo a"
  shows "\<exists>s' ps. encode_loop npo mv ops th as s pub = (s', pub @ handles ps, Inr ps) \<and>
    mem s \<subseteq>\<^sub>m (if ops = None then mem s else mem s') \<and>
    (\<forall>s''. (ops \<noteq> None \<longrightarrow> mem s' \<subseteq>\<^sub>m mem s'') \<longrightarrow>
       emap (decode_payload ops' s'' blk) ps = Inr (map (\<lambda>a. PBytes (payload_bytes npo a)) as))"
  using assms(2)
proof (induction as arbitrary: s pub)
  case Nil
  then show ?case by simp
next
  case (Cons a as)
  let ?data = "payload_bytes npo a"
  have data: "to_bytes npo mv a = Inr ?data" using Cons.prems by (simp add: payload_to_bytes)
  show ?case
  proof (cases "\<exists>R s1 p. ops = Some R \<and> th \<le> int (length ?data) \<and> rma_publish R s ?data = (s1, Inr (Some p))")
    case True
    then obtain R s1 p where R: "ops = Some R" "th \<le> int (length ?data)"
      "rma_publish R s ?data = (s1, Inr (Some p))" by blast
    from R(1) assms(1) have ok: "rma_ok R mem blk" "ops' = Some R" by auto
    from rma_publish_ok [OF ok(1) R(3)]
    have keep: "mem s \<subseteq>\<^sub>m mem s1" "mem s1 p = Some ?data" by blast+
    obtain s' ps where IH: "encode_loop npo mv ops th as s1 (pub @ [fst p]) =
        (s', (pub @ [fst p]) @ handles ps, Inr ps)" "mem s1 \<subseteq>\<^sub>m mem s'"
      "\<forall>s''. mem s' \<subseteq>\<^sub>m mem s'' \<longrightarrow>
         emap (decode_payload ops' s'' blk) ps = Inr (map (\<lambda>a. PBytes (payload_bytes npo a)) as)"
      using Cons.IH [of s1 "pub @ [fst p]"] Cons.prems R(1) by auto
    have enc: "encode_loop npo mv ops th (a # as) s pub =
        (s', pub @ handles (PDict (desc_dict p) # ps), Inr (PDict (desc_dict p) # ps))"
      by (simp add: data R IH(1) [unfolded R(1)])
    have "mem s'' p = Some ?data" if "mem s' \<subseteq>\<^sub>m mem s''" for s''
      using map_le_trans [OF IH(2) that] keep(2) by (metis domI map_le_def)
    then have dec: "emap (decode_payload ops' s'' blk) (PDict (desc_dict p) # ps) =
        Inr (map (\<lambda>a. PBytes (payload_bytes npo a)) (a # as))" if "mem s' \<subseteq>\<^sub>m mem s''" for s''
      using that IH(3) ok(2) by (simp add: fetch_registered [OF ok(1)])
    have m: "mem s \<subseteq>\<^sub>m (if ops = None then mem s else mem s')"
      using map_le_trans [OF keep(1) IH(2)] R(1) by simp
    show ?thesis by (intro exI conjI allI impI, rule enc, rule m, rule dec) (simp add: R(1))
  next
    case False
    have "\<exists>s1. (case ops of None \<Rightarrow> (s, Inr None)
        | Some r \<Rightarrow> if th \<le> int (length ?data) then rma_publish r s ?data else (s, Inr None)) = (s1, Inr None)
      \<and> (ops \<noteq> None \<longrightarrow> mem s \<subseteq>\<^sub>m mem s1)"
    proof (cases ops)
      case (Some R)
      with assms(1) have ok: "rma_ok R mem blk" by simp
      obtain s1 res where pub: "rma_publish R s ?data = (s1, res)" by (meson surj_pair)
      from rma_publish_ok [OF ok pub] obtain r where "res = Inr r" "mem s \<subseteq>\<^sub>m mem s1" by blast
      with False Some pub show ?thesis by (cases r) auto
    qed simp
    then obtain s1 where s1: "(case ops of None \<Rightarrow> (s, Inr None)
        | Some r \<Rightarrow> if th \<le> int (length ?data) then rma_publish r s ?data else (s, Inr None)) = (s1, Inr None)"
      "ops \<noteq> None \<longrightarrow> mem s \<subseteq>\<^sub>m mem s1" by blast
    obtain s' ps where IH: "encode_loop npo mv ops th as s1 pub = (s', pub @ handles ps, Inr ps)"
      "mem s1 \<subseteq>\<^sub>m (if ops = None then mem s1 else mem s')"
      "\<forall>s''. (ops \<noteq> None \<longrightarrow> mem s' \<subseteq>\<^sub>m mem s'') \<longrightarrow>
         emap (decode_payload ops' s'' blk) ps = Inr (map (\<lambda>a. PBytes (payload_bytes npo a)) as)"
      using Cons.IH [of s1 pub] Cons.prems by auto
    have enc: "encode_loop npo mv ops th (a # as) s pub =
        (s', pub @ handles (PStr (b64encode ?data) # ps), Inr (PStr (b64encode ?data) # ps))"
      by (simp add: data s1(1) IH(1))
    have dec: "emap (decode_payload ops' s'' blk) (PStr (b64encode ?data) # ps) =
        Inr (map (\<lambda>a. PBytes (payload_bytes npo a)) (a # as))"
      if "ops \<noteq> None \<longrightarrow> mem s' \<subseteq>\<^sub>m mem s''" for s''
      using that IH(3) by (simp add: decode_inline)
    have m: "mem s \<subseteq>\<^sub>m (if ops = None then mem s else mem s')"
      using IH(2) s1(2) map_le_trans [of "mem s" "mem s1" "mem s'"] by (cases ops) simp_all
    show ?thesis by (intro exI conjI allI impI, rule enc, rule m, rule dec) simp
  qed
qed

lemma encode_loop_objs:
  "encode_loop npo mv ops th as s pub = (s', pub', Inr ps) \<Longrightarrow> \<forall>p \<in> set ps. objs p = []"
proof (induction as arbitrary: ops s pub s' pub' ps)
  case (Cons a as)
  from Cons.prems obtain s1 pub1 p ps1 where "ps = p # ps1" "objs p = []"
    "encode_loop npo mv ops th as s1 pub1 = (s', pub', Inr ps1)"
    by (auto simp: ebind_Inr_iff desc_dict_def
        split: sum.split_asm prod.split_asm option.split_asm)
  with Cons.IH show ?case by auto
qed simp

lemma alist_update_absent: "map_of d k = None \<Longrightarrow> AList.update k v d = d @ [(k, v)]"
  by (induction d) (auto split: if_splits)

lemma alist_delete_absent: "map_of d k = None \<Longrightarrow> AList.delete k (d @ [(k, v)]) = d"
  by (induction d) (auto split: if_splits)


subsubsection \<open>An instance\<close>

text \<open>A NumPy with one array of two bytes, an RMA device with a single slot, and PyYAML as identity.\<close>

definition demo_np :: np_ops where
  "demo_np = \<lparr>np_isinstance = (\<lambda>a. a = 7), np_ascontiguousarray = (\<lambda>a. a), np_shape = (\<lambda>a. [2]),
     np_dtype = (\<lambda>a. ''uint8''), np_tobytes = (\<lambda>a. [1, 2]),
     np_frombuffer = (\<lambda>b t. Inr 8), np_reshape = (\<lambda>a sh. Inr (PObj 7))\<rparr>"

definition demo_rma :: "byte list option rma_ops" where
  "demo_rma = \<lparr>rma_available = (\<lambda>s u. Inr True),
     rma_publish_op = (\<lambda>s data. case s of
         None \<Rightarrow> (Some data, Inr (PInt 0, PStr ''5:1:2:3''))
       | Some _ \<Rightarrow> (s, Inr (PInt 1, PStr ''''))),
     rma_fetch_op = (\<lambda>s u h k a l. case s of None \<Rightarrow> Inr (PInt 1, PNone) | Some b \<Rightarrow> Inr (PInt 0, PBytes b)),
     rma_discard_op = (\<lambda>s h. (None, Inr ()))\<rparr>"

definition demo_mem :: "byte list option \<Rightarrow> int \<times> int \<times> int \<times> int \<Rightarrow> byte list option" where
  "demo_mem s p = (if p = (5, 1, 2, 3) then s else None)"

lemma demo_np_ok: "np_ok demo_np (\<lambda>_. True)"
  by (simp add: np_ok_def demo_np_def same_array_def)

lemma demo_desc: "parse_desc ''5:1:2:3'' = Inr (5, 1, 2, 3)"
  by code_simp

lemma demo_rma_ok: "rma_ok demo_rma demo_mem ''peer''"
  using demo_desc
  by (auto simp: rma_ok_def demo_rma_def demo_mem_def map_le_def dom_def split: option.splits if_splits)

definition demo_msg :: dict where
  "demo_msg = [(PStr ''args'', PList [PObj 7, PBytes [3, 4, 5], PInt 1])]"


text \<open>
  C18: extraction is complete. What \<open>extract_attachments\<close> leaves for YAML contains no NumPy array and
  no buffer of the threshold size or more, and when nothing was extracted the message is unchanged.
\<close>
theorem extract_attachments_complete:
  "extract_attachments npo th msg = (t, atts) \<Longrightarrow>
     (\<forall>a \<in> set (objs t). \<not> is_ndarray npo (PObj a)) \<and> (\<forall>n \<in> set (buf_lens t). int n < th) \<and>
     (atts = [] \<longrightarrow> t = msg)"
  using extract_no_arrays(1) extract_no_large(1) extract_same(1)
  unfolding extract_attachments_def by blast

theorem extract_attachments_complete_witness:
  "buf_lens (fst (extract_attachments (Some demo_np) 3 (PDict demo_msg))) = [] \<and>
   \<not> list_ex (\<lambda>a. is_ndarray (Some demo_np) (PObj a))
     (objs (fst (extract_attachments (Some demo_np) 3 (PDict demo_msg))))"
proof -
  obtain t atts where e: "extract_attachments (Some demo_np) 3 (PDict demo_msg) = (t, atts)"
    by (meson surj_pair)
  from extract_attachments_complete [OF e] have "\<not> list_ex (\<lambda>a. is_ndarray (Some demo_np) (PObj a)) (objs t)"
    by (auto simp: list_ex_iff)
  moreover have "buf_lens (fst (extract_attachments (Some demo_np) 3 (PDict demo_msg))) = []"
    by (simp add: extract_attachments_def demo_msg_def demo_np_def Let_def)
  ultimately show ?thesis by (simp add: e)
qed

text \<open>
  C24: every registration is accounted for. When the payloads of a message were encoded, the handles
  added to \<open>published\<close> are those of exactly the payloads that stay in the sender's memory, in order,
  so that \<open>attach_discard\<close> on them releases every region of a message that was not sent.
\<close>
theorem encode_payloads_published:
  assumes "\<And>R. ops = Some R \<Longrightarrow> rma_ok R mem blk'" and "\<forall>a \<in> set atts. payload npo a"
  shows "\<exists>s' ps. encode_payloads npo mv ops env atts blk s pub = (s', pub @ handles ps, Inr ps) \<and>
    length ps = length atts"
proof -
  let ?ops = "if rma_usable ops env s blk then ops else None"
  have usable: "\<And>R. ?ops = Some R \<Longrightarrow> ops = Some R \<and> rma_ok R mem blk'"
    using assms(1) by (simp split: if_splits)
  from encode_loop_decodes [OF usable assms(2), where mv = mv and th = "rma_threshold env" and s = s and pub = pub]
  obtain s' ps where
    "encode_loop npo mv ?ops (rma_threshold env) atts s pub = (s', pub @ handles ps, Inr ps)"
    "emap (decode_payload ops s' blk') ps = Inr (map (\<lambda>a. PBytes (payload_bytes npo a)) atts)"
    by force
  then show ?thesis by (auto simp: encode_payloads_def Let_def dest: emap_length)
qed

theorem encode_payloads_published_witness:
  "\<exists>s' ps. encode_payloads None (\<lambda>_. Inl PyTypeError) (Some demo_rma)
      (\<lambda>n. if n = ''DEFW_RMA_THRESHOLD'' then Some ''0'' else None) [PBytes [1], PBytes [2]] ''peer'' None [4] =
      (s', [4] @ handles ps, Inr ps) \<and> length ps = length [PBytes [1], PBytes [2]]"
  by (rule encode_payloads_published [where mem = demo_mem and blk' = "''peer''"])
    (auto simp: demo_rma_ok payload_def)

end
