(* ===== verification/Endpoints.thy ===== *)
theory Endpoints
  imports Py_Prelude
begin

section \<open>Endpoints and agents (\<open>python/infra/defw_agent.py\<close>)\<close>

text \<open>
  An endpoint names a runtime: its addresses, its node type, its runtime id (\<open>remote_uuid\<close>) and the
  handle of the connection to it (\<open>blk_uuid\<close>). An agent is an endpoint together with the RPC
  timeout that was in force when it was made. The fields are Python values, because the peer table
  fills them from dictionaries. The node types are the constants of the C enumeration.
\<close>

definition EN_DEFW_DIRSVC :: pyval where
  "EN_DEFW_DIRSVC = PInt 1"

definition EN_DEFW_AGENT :: pyval where
  "EN_DEFW_AGENT = PInt 2"

definition EN_DEFW_SERVICE :: pyval where
  "EN_DEFW_SERVICE = PInt 3"

definition ZERO_UUID :: string where
  "ZERO_UUID = ''00000000-0000-0000-0000-000000000000''"

record endpoint =
  ep_addr :: pyval
  ep_port :: pyval
  ep_listen_port :: pyval
  ep_pid :: pyval
  ep_name :: pyval
  ep_hostname :: pyval
  ep_node_type :: pyval
  ep_remote_uuid :: pyval
  ep_blk_uuid :: pyval

definition valid_node_type :: "pyval \<Rightarrow> bool" where
  "valid_node_type nt \<longleftrightarrow> py_mem nt [EN_DEFW_DIRSVC, EN_DEFW_SERVICE, EN_DEFW_AGENT]"

definition make_endpoint ::
  "pyval \<Rightarrow> pyval \<Rightarrow> pyval \<Rightarrow> pyval \<Rightarrow> pyval \<Rightarrow> pyval \<Rightarrow> pyval \<Rightarrow> pyval \<Rightarrow> pyval \<Rightarrow> endpoint result" where
  "make_endpoint addr port listen_port pid name hostname node_type remote_uuid blk_uuid =
     (if \<not> valid_node_type node_type then Inl (DEFwError ''Unknown node type provided'')
      else Inr \<lparr>ep_addr = addr, ep_port = port, ep_listen_port = listen_port, ep_pid = pid,
                ep_name = name, ep_hostname = hostname, ep_node_type = node_type,
                ep_remote_uuid = remote_uuid, ep_blk_uuid = blk_uuid\<rparr>)"

text \<open>Endpoints are equal when the C runtime says their runtime ids are: the argument \<open>uuid_compare\<close>.\<close>

definition endpoint_eq :: "(pyval \<Rightarrow> pyval \<Rightarrow> bool) \<Rightarrow> endpoint \<Rightarrow> endpoint option \<Rightarrow> bool" where
  "endpoint_eq uuid_compare self other =
     (case other of None \<Rightarrow> False | Some e \<Rightarrow> uuid_compare (ep_remote_uuid self) (ep_remote_uuid e))"

definition is_service :: "endpoint \<Rightarrow> bool" where
  "is_service e \<longleftrightarrow> py_eq (ep_node_type e) EN_DEFW_SERVICE"

definition is_dirsvc :: "endpoint \<Rightarrow> bool" where
  "is_dirsvc e \<longleftrightarrow> py_eq (ep_node_type e) EN_DEFW_DIRSVC"

definition get_id :: "endpoint \<Rightarrow> pyval" where
  "get_id e = ep_remote_uuid e"

definition node_type2str :: "endpoint \<Rightarrow> string result" where
  "node_type2str e =
     (if py_eq (ep_node_type e) EN_DEFW_DIRSVC then Inr ''DIRSVC''
      else if py_eq (ep_node_type e) EN_DEFW_AGENT then Inr ''AGENT''
      else if py_eq (ep_node_type e) EN_DEFW_SERVICE then Inr ''SERVICE''
      else Inl (DEFwError ''Unknown node type provided''))"

definition endpoint_get :: "endpoint \<Rightarrow> dict result" where
  "endpoint_get e =
     (if \<not> hashable (ep_name e) then Inl PyTypeError else
      ebind (node_type2str e) (\<lambda>nt.
      Inr [(ep_name e, PDict
        [(PStr ''remote uuid'', ep_remote_uuid e), (PStr ''block uuid'', ep_blk_uuid e),
         (PStr ''hostname'', ep_hostname e), (PStr ''addr'', ep_addr e),
         (PStr ''listen port'', ep_listen_port e), (PStr ''connection port'', ep_port e),
         (PStr ''pid'', ep_pid e), (PStr ''node-type'', PStr nt)])]))"

record agent =
  ag_endpoint :: endpoint
  ag_name :: pyval
  ag_timeout :: pyval

text \<open>\<open>Agent(endpoint)\<close>, with the value of the \<open>RPC timeout\<close> preference.\<close>

definition make_agent :: "pyval \<Rightarrow> endpoint \<Rightarrow> agent" where
  "make_agent timeout e = \<lparr>ag_endpoint = e, ag_name = ep_name e, ag_timeout = timeout\<rparr>"

definition set_rpc_timeout_agent :: "pyval \<Rightarrow> agent \<Rightarrow> agent" where
  "set_rpc_timeout_agent timeout a = a\<lparr>ag_timeout := timeout\<rparr>"

definition get_remote_uuid :: "agent \<Rightarrow> pyval" where
  "get_remote_uuid a = ep_remote_uuid (ag_endpoint a)"

definition get_blk_uuid :: "agent \<Rightarrow> pyval" where
  "get_blk_uuid a = ep_blk_uuid (ag_endpoint a)"

definition agent_is_dirsvc :: "agent \<Rightarrow> bool" where
  "agent_is_dirsvc a = is_dirsvc (ag_endpoint a)"

definition get_node_type :: "agent \<Rightarrow> pyval" where
  "get_node_type a = ep_node_type (ag_endpoint a)"

lemma make_endpoint_ok:
  "make_endpoint a p l pid n h nt ru bu = Inr e \<Longrightarrow>
     ep_remote_uuid e = ru \<and> ep_blk_uuid e = bu \<and> ep_node_type e = nt \<and> ep_addr e = a \<and>
     ep_listen_port e = l \<and> ep_hostname e = h \<and> ep_name e = n \<and> valid_node_type nt"
  by (auto simp: make_endpoint_def split: if_splits)

text \<open>An endpoint that was constructed prints: its node type has a name.\<close>

lemma node_type2str_total:
  "make_endpoint a p l pid n h nt ru bu = Inr e \<Longrightarrow> \<exists>s. node_type2str e = Inr s"
  using make_endpoint_ok [of a p l pid n h nt ru bu e]
  by (auto simp: node_type2str_def valid_node_type_def py_mem_def)

end
