(* ===== verification/Peers.thy ===== *)
theory Peers
  imports Endpoints
begin

section \<open>The peer table (\<open>python/infra/defw_peers.py\<close>)\<close>

text \<open>
  The peer table follows the life-cycle events of the C runtime: it keeps one record per peer
  handle and the targets a connection was requested to, and it finds the agent for a target. A
  target is an \<open>Endpoint\<close> object, a dictionary or \<open>None\<close>. A peer record is a dictionary with fixed
  keys in the code; every record is created by a \<open>PEER_READY\<close> or \<open>PEER_DEGRADED\<close> event, which sets
  all of them, so it is the record type \<open>peer\<close>. The parent's name, host and port, which the C
  runtime reports, are the argument \<open>parent\<close>.
\<close>

datatype target = TNone | TDict dict | TObj endpoint

record peer =
  pr_peer_handle :: pyval
  pr_runtime_id :: pyval
  pr_endpoint :: dict
  pr_transport_context :: pyval
  pr_connection_direction :: pyval
  pr_is_self :: bool
  pr_last_seen :: pyval
  pr_node_type :: pyval
  pr_callable :: bool
  pr_loss_reason :: pyval

record peer_table =
  pt_peers :: "(pyval \<times> peer) list"
  pt_pending_targets :: "(pyval \<times> dict) list"

record parent_info =
  pi_name :: string
  pi_hostname :: string
  pi_port :: int

subsection \<open>Targets\<close>

text \<open>\<open>getattr(endpoint, attr, default)\<close> on an \<open>Endpoint\<close> object.\<close>

definition endpoint_attr :: "endpoint \<Rightarrow> string \<Rightarrow> pyval \<Rightarrow> pyval" where
  "endpoint_attr e attr v =
     (if attr = ''addr'' then ep_addr e
      else if attr = ''port'' then ep_port e
      else if attr = ''listen_port'' then ep_listen_port e
      else if attr = ''pid'' then ep_pid e
      else if attr = ''name'' then ep_name e
      else if attr = ''hostname'' then ep_hostname e
      else if attr = ''node_type'' then ep_node_type e
      else if attr = ''remote_uuid'' then ep_remote_uuid e
      else if attr = ''blk_uuid'' then ep_blk_uuid e
      else v)"

fun endpoint_value :: "target \<Rightarrow> string \<Rightarrow> pyval \<Rightarrow> pyval" where
  "endpoint_value (TDict d) attr v = dget d attr v"
| "endpoint_value (TObj e) attr v = endpoint_attr e attr v"
| "endpoint_value TNone attr v = v"

definition endpoint_signature :: "target \<Rightarrow> pyval option" where
  "endpoint_signature t =
     (if t = TNone \<or> t = TDict [] then None
      else Some (PTuple
        [endpoint_value t ''address'' (endpoint_value t ''addr'' (PStr '''')),
         endpoint_value t ''listen_port'' (PInt 0),
         endpoint_value t ''node_name'' (endpoint_value t ''name'' (PStr '''')),
         endpoint_value t ''hostname'' (PStr '''')]))"

definition endpoint_listen_port :: "target \<Rightarrow> int" where
  "endpoint_listen_port t =
     (case py_int (py_or (endpoint_value t ''listen_port'' (PInt 0)) (PInt 0)) of
        Inl _ \<Rightarrow> 0 | Inr n \<Rightarrow> n)"

definition endpoint_node_type :: "target \<Rightarrow> pyval" where
  "endpoint_node_type t = endpoint_value t ''node_type'' PNone"

definition endpoint_hostname :: "target \<Rightarrow> pyval" where
  "endpoint_hostname t =
     py_or (endpoint_value t ''hostname'' (PStr ''''))
       (endpoint_value t ''address'' (endpoint_value t ''addr'' (PStr '''')))"

definition endpoint_runtime_id :: "target \<Rightarrow> pyval" where
  "endpoint_runtime_id t =
     (let r0 = endpoint_value t ''remote_uuid'' (PStr '''');
          rid = (if truthy r0 then r0 else endpoint_value t ''runtime_id'' (PStr '''')) in
      if rid = PStr ZERO_UUID then PStr '''' else py_or rid (PStr ''''))"

subsection \<open>Connection targets\<close>

definition init_peers :: peer_table where
  "init_peers = \<lparr>pt_peers = [], pt_pending_targets = []\<rparr>"

definition endpoint_record :: "target \<Rightarrow> dict" where
  "endpoint_record t =
     [(PStr ''address'', endpoint_value t ''address'' (endpoint_value t ''addr'' (PStr ''''))),
      (PStr ''listen_port'', endpoint_value t ''listen_port'' (PInt 0)),
      (PStr ''node_name'', endpoint_value t ''node_name'' (endpoint_value t ''name'' (PStr ''''))),
      (PStr ''hostname'', endpoint_value t ''hostname'' (PStr '''')),
      (PStr ''pid'', endpoint_value t ''pid'' (PInt 0)),
      (PStr ''port'', endpoint_value t ''port'' (PInt 0)),
      (PStr ''node_type'', endpoint_value t ''node_type'' EN_DEFW_SERVICE),
      (PStr ''runtime_id'', endpoint_runtime_id t)]"

definition runtime_key :: "pyval \<Rightarrow> pyval" where
  "runtime_key rid = PTuple [PStr ''runtime'', rid]"

definition endpoint_key :: "pyval \<Rightarrow> pyval" where
  "endpoint_key sig = PTuple [PStr ''endpoint'', sig]"

text \<open>\<open>d[key] = v\<close> for a key that may not be hashable.\<close>

definition setitem :: "pyval \<Rightarrow> 'v \<Rightarrow> (pyval \<times> 'v) list \<Rightarrow> (pyval \<times> 'v) list result" where
  "setitem k v d = (if hashable k then Inr (AList.update k v d) else Inl PyTypeError)"

definition remember_connect_target ::
  "target \<Rightarrow> pyval \<Rightarrow> peer_table \<Rightarrow> peer_table \<times> unit result" where
  "remember_connect_target t direction pt =
     (let record = (if truthy direction then dset ''connection_direction'' direction (endpoint_record t)
                    else endpoint_record t);
          rid = endpoint_runtime_id t in
      case (if truthy rid then setitem (runtime_key rid) record (pt_pending_targets pt)
            else Inr (pt_pending_targets pt)) of
        Inl e \<Rightarrow> (pt, Inl e)
      | Inr pend \<Rightarrow>
          (case endpoint_signature t of
             None \<Rightarrow> (pt\<lparr>pt_pending_targets := pend\<rparr>, Inr ())
           | Some sig \<Rightarrow>
               (case setitem (endpoint_key sig) record pend of
                  Inl e \<Rightarrow> (pt\<lparr>pt_pending_targets := pend\<rparr>, Inl e)
                | Inr pend' \<Rightarrow> (pt\<lparr>pt_pending_targets := pend'\<rparr>, Inr ()))))"

text \<open>\<open>d.get(key, {})\<close>.\<close>

definition getitem0 :: "pyval \<Rightarrow> (pyval \<times> dict) list \<Rightarrow> dict result" where
  "getitem0 k d = (if hashable k then Inr (case map_of d k of None \<Rightarrow> [] | Some r \<Rightarrow> r) else Inl PyTypeError)"

definition pending_for :: "(pyval \<times> dict) list \<Rightarrow> pyval \<Rightarrow> dict \<Rightarrow> dict result" where
  "pending_for pend rid ep =
     ebind (if truthy rid then getitem0 (runtime_key rid) pend else Inr []) (\<lambda>p.
     if p \<noteq> [] then Inr p
     else case endpoint_signature (TDict ep) of
       None \<Rightarrow> Inr []
     | Some sig \<Rightarrow> getitem0 (endpoint_key sig) pend)"

subsection \<open>Events\<close>

definition infer_node_type :: "parent_info \<Rightarrow> dict \<Rightarrow> pyval" where
  "infer_node_type parent ep =
     (let node_name = dget ep ''node_name'' (PStr '''');
          hostname = dget ep ''hostname'' (PStr '''');
          listen_port = dget ep ''listen_port'' (PInt 0) in
      if pi_name parent \<noteq> [] \<and> pi_name parent \<noteq> ''None'' \<and> py_eq node_name (PStr (pi_name parent))
      then EN_DEFW_DIRSVC
      else if pi_hostname parent \<noteq> [] \<and> pi_hostname parent \<noteq> ''None'' \<and>
              py_eq hostname (PStr (pi_hostname parent)) \<and> py_eq listen_port (PInt (pi_port parent))
      then EN_DEFW_DIRSVC
      else PNone)"

text \<open>
  \<open>a < b\<close> for time stamps: numbers compare by value and strings by code points. (Python also orders
  two sequences; a time stamp is never one.)
\<close>

definition py_less :: "pyval \<Rightarrow> pyval \<Rightarrow> bool result" where
  "py_less a b =
     (case (py_num a, py_num b) of
        (Some x, Some y) \<Rightarrow> Inr (x < y)
      | _ \<Rightarrow> (case (a, b) of
                (PStr s, PStr t) \<Rightarrow> Inr (lexordp (<) (map (of_char :: char \<Rightarrow> nat) s) (map of_char t))
              | _ \<Rightarrow> Inl PyTypeError))"

text \<open>The endpoint values an event reports replace the known ones unless they are empty.\<close>

definition merge_endpoint :: "dict \<Rightarrow> dict \<Rightarrow> dict" where
  "merge_endpoint old new =
     dupdate old (filter (\<lambda>(k, v). \<not> py_mem v [PNone, PStr '''']) new)"

definition event_flags :: "dict \<Rightarrow> bool \<times> pyval \<Rightarrow> bool \<times> pyval" where
  "event_flags ev old =
     (let event_type = dget0 ev ''event_type'' in
      if event_type = PStr ''PEER_READY'' then (True, PStr '''')
      else if event_type = PStr ''PEER_DEGRADED'' then (True, dget ev ''reason'' (PStr ''''))
      else if event_type = PStr ''PEER_LOST'' then (False, dget ev ''reason'' (PStr ''''))
      else old)"

definition updated_peer ::
  "parent_info \<Rightarrow> dict \<Rightarrow> pyval \<Rightarrow> pyval \<Rightarrow> peer option \<Rightarrow> (pyval \<times> dict) list \<Rightarrow> peer result" where
  "updated_peer parent ev ph timestamp current pend =
     ebind (py_dict (py_or (dget0 ev ''endpoint'') (PDict []))) (\<lambda>ep0.
     let ep = (case current of None \<Rightarrow> ep0 | Some c \<Rightarrow> merge_endpoint (pr_endpoint c) ep0);
         event_rid = py_or (dget0 ev ''remote_runtime_id'') (PStr '''');
         rid0 = py_or event_rid (case current of None \<Rightarrow> PStr '''' | Some c \<Rightarrow> pr_runtime_id c) in
     ebind (pending_for pend rid0 ep) (\<lambda>pending.
     let rid = (if truthy rid0 then rid0 else dget pending ''runtime_id'' (PStr ''''));
         flags = event_flags ev (case current of None \<Rightarrow> (False, PStr '''')
                                 | Some c \<Rightarrow> (pr_callable c, pr_loss_reason c)) in
     Inr \<lparr>pr_peer_handle = ph,
          pr_runtime_id = rid,
          pr_endpoint = ep,
          pr_transport_context = py_or (dget0 ev ''transport_context'')
            (case current of None \<Rightarrow> PStr '''' | Some c \<Rightarrow> pr_transport_context c),
          pr_connection_direction = py_or (py_or (dget0 ev ''connection_direction'')
            (case current of None \<Rightarrow> PNone | Some c \<Rightarrow> pr_connection_direction c))
            (dget pending ''connection_direction'' (PStr '''')),
          pr_is_self = truthy (dget ev ''is_self'' (PBool False)),
          pr_last_seen = timestamp,
          pr_node_type = py_or (py_or (py_or (py_or (dget0 ev ''node_type'') (dget0 ep ''node_type''))
            (case current of None \<Rightarrow> PNone | Some c \<Rightarrow> pr_node_type c))
            (dget0 pending ''node_type'')) (infer_node_type parent ep),
          pr_callable = fst flags,
          pr_loss_reason = snd flags\<rparr>))"

definition apply_event ::
  "parent_info \<Rightarrow> real \<Rightarrow> dict \<Rightarrow> peer_table \<Rightarrow> peer_table \<times> peer option result" where
  "apply_event parent clock ev pt =
     (let ph = dget0 ev ''peer_handle'';
          event_type = dget0 ev ''event_type'';
          timestamp = dget ev ''timestamp'' (PFloat clock) in
      if \<not> truthy ph then (pt, Inr None)
      else if \<not> hashable ph then (pt, Inl PyTypeError)
      else
        (let current = map_of (pt_peers pt) ph in
         case (case current of None \<Rightarrow> Inr False | Some c \<Rightarrow> py_less timestamp (pr_last_seen c)) of
           Inl e \<Rightarrow> (pt, Inl e)
         | Inr True \<Rightarrow> (pt, Inr current)
         | Inr False \<Rightarrow>
             if event_type = PStr ''PEER_REMOVED'' then
               (pt\<lparr>pt_peers := AList.delete ph (pt_peers pt)\<rparr>, Inr current)
             else if current = None \<and> event_type \<notin> {PStr ''PEER_READY'', PStr ''PEER_DEGRADED''} then
               (pt, Inr None)
             else
               (case updated_peer parent ev ph timestamp current (pt_pending_targets pt) of
                  Inl e \<Rightarrow> (pt, Inl e)
                | Inr r \<Rightarrow> (pt\<lparr>pt_peers := AList.update ph r (pt_peers pt)\<rparr>, Inr (Some r)))))"

subsection \<open>Lookup\<close>

definition matches_transport_endpoint :: "peer \<Rightarrow> target \<Rightarrow> bool" where
  "matches_transport_endpoint r t =
     (let ep = TDict (pr_endpoint r);
          record_node_type = py_or (pr_node_type r) (endpoint_node_type ep) in
      if endpoint_listen_port ep \<noteq> endpoint_listen_port t then False
      else if endpoint_listen_port ep = 0 then False
      else if truthy (endpoint_node_type t) \<and> truthy record_node_type \<and>
              \<not> py_eq (endpoint_node_type t) record_node_type then False
      else truthy (endpoint_hostname t) \<and> truthy (endpoint_hostname ep) \<and>
           py_eq (endpoint_hostname t) (endpoint_hostname ep))"

definition sig_eq :: "pyval option \<Rightarrow> pyval option \<Rightarrow> bool" where
  "sig_eq a b = (case (a, b) of (None, None) \<Rightarrow> True | (Some x, Some y) \<Rightarrow> py_eq x y | _ \<Rightarrow> False)"

definition peer_matches :: "peer option \<Rightarrow> target \<Rightarrow> pyval \<Rightarrow> bool" where
  "peer_matches ro t direction =
     (case ro of
        None \<Rightarrow> False
      | Some r \<Rightarrow>
          if \<not> pr_callable r then False
          else if truthy direction \<and> \<not> py_eq (pr_connection_direction r) direction then False
          else if truthy (endpoint_runtime_id t) then py_eq (endpoint_runtime_id t) (pr_runtime_id r)
          else if endpoint_signature t \<noteq> None \<and>
                  \<not> sig_eq (endpoint_signature (TDict (pr_endpoint r))) (endpoint_signature t) \<and>
                  \<not> matches_transport_endpoint r t then False
          else True)"

definition find_record :: "peer_table \<Rightarrow> target \<Rightarrow> pyval \<Rightarrow> bool \<Rightarrow> peer option result" where
  "find_record pt t direction fallback =
     (let ph = endpoint_value t ''blk_uuid'' (PStr '''');
          scan = find (\<lambda>r. peer_matches (Some r) t direction) (map snd (pt_peers pt)) in
      if truthy ph \<and> ph \<noteq> PStr ZERO_UUID then
        (if \<not> hashable ph then Inl PyTypeError
         else if peer_matches (map_of (pt_peers pt) ph) t direction then Inr (map_of (pt_peers pt) ph)
         else if \<not> fallback then Inr None
         else Inr scan)
      else Inr scan)"

definition record_to_agent :: "pyval \<Rightarrow> peer \<Rightarrow> target \<Rightarrow> agent option result" where
  "record_to_agent timeout r t =
     (let ep = pr_endpoint r;
          node_type = py_or (pr_node_type r) (endpoint_value t ''node_type'' EN_DEFW_SERVICE);
          rid = py_or (pr_runtime_id r) (endpoint_value t ''remote_uuid'' (PStr '''')) in
      if \<not> truthy rid then Inr None
      else
        ebind (make_endpoint
          (py_or (dget0 ep ''address'') (endpoint_value t ''addr'' (PStr '''')))
          (dget ep ''port'' (endpoint_value t ''port'' (PInt 0)))
          (dget ep ''listen_port'' (endpoint_value t ''listen_port'' (PInt 0)))
          (dget ep ''pid'' (endpoint_value t ''pid'' (PInt 0)))
          (py_or (dget0 ep ''node_name'') (endpoint_value t ''name'' (PStr '''')))
          (py_or (dget0 ep ''hostname'') (endpoint_value t ''hostname'' (PStr '''')))
          node_type rid (pr_peer_handle r)) (\<lambda>e.
        Inr (Some (make_agent timeout e))))"

definition get_agent :: "pyval \<Rightarrow> peer_table \<Rightarrow> target \<Rightarrow> pyval \<Rightarrow> bool \<Rightarrow> agent option result" where
  "get_agent timeout pt t direction fallback =
     ebind (find_record pt t direction fallback) (\<lambda>ro.
     case ro of None \<Rightarrow> Inr None | Some r \<Rightarrow> record_to_agent timeout r t)"

definition get_dirsvc_agent :: "pyval \<Rightarrow> peer_table \<Rightarrow> agent option result" where
  "get_dirsvc_agent timeout pt =
     (case find (\<lambda>r. pr_callable r \<and> py_eq (pr_node_type r) EN_DEFW_DIRSVC) (map snd (pt_peers pt)) of
        None \<Rightarrow> Inr None
      | Some r \<Rightarrow> record_to_agent timeout r TNone)"

definition get_peer :: "peer_table \<Rightarrow> pyval \<Rightarrow> peer option result" where
  "get_peer pt ph = (if hashable ph then Inr (map_of (pt_peers pt) ph) else Inl PyTypeError)"

definition snapshot :: "peer_table \<Rightarrow> (pyval \<times> peer) list" where
  "snapshot pt = pt_peers pt"

text \<open>\<open>dump\<close> prints one agent after the other: the printed dictionaries.\<close>

definition dump_peers :: "pyval \<Rightarrow> peer_table \<Rightarrow> dict list result" where
  "dump_peers timeout pt =
     ebind (emap (\<lambda>(k, r).
       ebind (record_to_agent timeout r TNone) (\<lambda>ao.
       case ao of None \<Rightarrow> Inr [] | Some a \<Rightarrow> ebind (endpoint_get (ag_endpoint a)) (\<lambda>d. Inr [d])))
       (snapshot pt)) (\<lambda>ds. Inr (concat ds))"

subsection \<open>Well-formed tables\<close>

definition pt_inv :: "peer_table \<Rightarrow> bool" where
  "pt_inv pt \<longleftrightarrow> distinct (map fst (pt_peers pt)) \<and>
     (\<forall>(k, r) \<in> set (pt_peers pt). pr_peer_handle r = k \<and> truthy k \<and> hashable k)"

lemma updated_peer_fields:
  "updated_peer parent ev ph ts current pend = Inr r \<Longrightarrow>
     pr_peer_handle r = ph \<and> pr_last_seen r = ts \<and>
     (pr_callable r, pr_loss_reason r) = event_flags ev (case current of None \<Rightarrow> (False, PStr '''')
                                          | Some c \<Rightarrow> (pr_callable c, pr_loss_reason c))"
  by (auto simp: updated_peer_def Let_def ebind_Inr_iff)

text \<open>The outcomes of an event, with the record that was current.\<close>

lemma apply_event_cases:
  assumes "apply_event parent clock ev pt = (pt', res)"
  obtains (same) "pt' = pt"
  | (removed) ph where "ph = dget0 ev ''peer_handle''" "dget0 ev ''event_type'' = PStr ''PEER_REMOVED''"
      "pt' = pt\<lparr>pt_peers := AList.delete ph (pt_peers pt)\<rparr>"
  | (updated) ph r where "ph = dget0 ev ''peer_handle''" "truthy ph" "hashable ph"
      "case map_of (pt_peers pt) ph of None \<Rightarrow> True
       | Some c \<Rightarrow> py_less (dget ev ''timestamp'' (PFloat clock)) (pr_last_seen c) = Inr False"
      "updated_peer parent ev ph (dget ev ''timestamp'' (PFloat clock)) (map_of (pt_peers pt) ph)
         (pt_pending_targets pt) = Inr r"
      "pt' = pt\<lparr>pt_peers := AList.update ph r (pt_peers pt)\<rparr>" "res = Inr (Some r)"
proof -
  let ?ph = "dget0 ev ''peer_handle''" and ?ts = "dget ev ''timestamp'' (PFloat clock)"
  let ?cur = "map_of (pt_peers pt) ?ph"
  let ?old = "case ?cur of None \<Rightarrow> Inr False | Some c \<Rightarrow> py_less ?ts (pr_last_seen c)"
  show thesis
  proof (cases "truthy ?ph \<and> hashable ?ph \<and> ?old = Inr False")
    case False
    have "pt' = pt"
    proof (cases ?old)
      case (Inr b)
      with False assms show ?thesis by (cases b) (auto simp: apply_event_def Let_def split: if_splits)
    qed (use False assms in \<open>auto simp: apply_event_def Let_def split: if_splits\<close>)
    then show thesis by (rule same)
  next
    case True
    note ev = assms [unfolded apply_event_def Let_def] True
    consider "dget0 ev ''event_type'' = PStr ''PEER_REMOVED''"
      | "dget0 ev ''event_type'' \<noteq> PStr ''PEER_REMOVED''"
        "?cur = None \<and> dget0 ev ''event_type'' \<notin> {PStr ''PEER_READY'', PStr ''PEER_DEGRADED''}"
      | "dget0 ev ''event_type'' \<noteq> PStr ''PEER_REMOVED''"
        "\<not> (?cur = None \<and> dget0 ev ''event_type'' \<notin> {PStr ''PEER_READY'', PStr ''PEER_DEGRADED''})"
      by blast
    then show thesis
    proof cases
      case 1
      with ev show thesis by (intro removed) auto
    next
      case 2
      with ev show thesis by (intro same) simp
    next
      case 3
      show thesis
      proof (cases "updated_peer parent ev ?ph ?ts ?cur (pt_pending_targets pt)")
        case (Inl e)
        with ev 3 show thesis by (intro same) (simp split: if_splits)
      next
        case (Inr r)
        with ev 3 have "pt' = pt\<lparr>pt_peers := AList.update ?ph r (pt_peers pt)\<rparr>" "res = Inr (Some r)"
          by (simp_all split: if_splits)
        moreover have "case ?cur of None \<Rightarrow> True | Some c \<Rightarrow> py_less ?ts (pr_last_seen c) = Inr False"
          using True by (simp split: option.splits)
        ultimately show thesis using True Inr by (intro updated) simp_all
      qed
    qed
  qed
qed

lemma apply_event_inv:
  assumes "pt_inv pt" and "apply_event parent clock ev pt = (pt', res)"
  shows "pt_inv pt'"
  using assms(2)
proof (cases rule: apply_event_cases)
  case (removed ph)
  with assms(1) show ?thesis by (auto simp: pt_inv_def AList.delete_eq distinct_fst_filter)
next
  case (updated ph r)
  with assms(1) updated_peer_fields [OF updated(5)] show ?thesis
    by (auto simp: pt_inv_def distinct_update set_alist_update)
qed (simp add: assms(1))

lemma remember_frame: "remember_connect_target t dir pt = (pt', res) \<Longrightarrow> pt_peers pt' = pt_peers pt"
  by (auto simp: remember_connect_target_def Let_def split: sum.splits option.splits)

lemma remember_inv: "pt_inv pt \<Longrightarrow> remember_connect_target t dir pt = (pt', res) \<Longrightarrow> pt_inv pt'"
  by (simp add: pt_inv_def remember_frame)

inductive pt_step :: "peer_table \<Rightarrow> peer_table \<Rightarrow> bool" where
  remember: "remember_connect_target t dir pt = (pt', res) \<Longrightarrow> pt_step pt pt'"
| event: "apply_event parent clock ev pt = (pt', res2) \<Longrightarrow> pt_step pt pt'"

inductive_cases pt_stepE: "pt_step pt pt'"

inductive pt_reachable :: "peer_table \<Rightarrow> bool" where
  pt_start: "pt_reachable init_peers"
| pt_next: "pt_reachable pt \<Longrightarrow> pt_step pt pt' \<Longrightarrow> pt_reachable pt'"

lemma pt_reachable_inv: "pt_reachable pt \<Longrightarrow> pt_inv pt"
proof (induction rule: pt_reachable.induct)
  case pt_start
  then show ?case by (simp add: init_peers_def pt_inv_def)
next
  case (pt_next pt pt')
  from pt_next(2,3) show ?case
    by (blast elim: pt_stepE dest: remember_inv apply_event_inv)
qed

subsection \<open>Routing\<close>

lemma py_eq_truthy: "py_eq a b \<Longrightarrow> truthy a = truthy b"
  by (cases a; cases b) (auto split: if_splits)

lemma find_in: "find P xs = Some x \<Longrightarrow> x \<in> set xs \<and> P x"
  by (induction xs) (auto split: if_splits)

lemma pt_inv_lookup: "pt_inv pt \<Longrightarrow> r \<in> snd ` set (pt_peers pt) \<Longrightarrow> map_of (pt_peers pt) (pr_peer_handle r) = Some r"
  by (auto simp: pt_inv_def)

lemma find_record_sound:
  assumes "pt_inv pt" and "find_record pt t dir fb = Inr (Some r)"
  shows "map_of (pt_peers pt) (pr_peer_handle r) = Some r \<and> peer_matches (Some r) t dir"
proof -
  consider (ph) ph where "map_of (pt_peers pt) ph = Some r" "peer_matches (Some r) t dir"
    | (scan) "find (\<lambda>r. peer_matches (Some r) t dir) (map snd (pt_peers pt)) = Some r"
    using assms(2) by (auto simp: find_record_def Let_def split: if_splits)
  then show ?thesis
  proof cases
    case ph
    then show ?thesis using assms(1) by (force simp: pt_inv_def dest: map_of_SomeD)
  next
    case scan
    then show ?thesis using find_in [OF scan] pt_inv_lookup [OF assms(1)] by force
  qed
qed

lemma record_to_agent_ok:
  "record_to_agent timeout r t = Inr (Some a) \<Longrightarrow>
     get_blk_uuid a = pr_peer_handle r \<and>
     get_remote_uuid a = py_or (pr_runtime_id r) (endpoint_value t ''remote_uuid'' (PStr '''')) \<and>
     valid_node_type (get_node_type a)"
  by (auto simp: record_to_agent_def Let_def ebind_Inr_iff make_agent_def get_blk_uuid_def
      get_remote_uuid_def get_node_type_def dest!: make_endpoint_ok split: if_splits)

text \<open>
  C15: an agent is never routed to another runtime. When the peer table returns an agent for a
  target that names a runtime, the agent carries the handle of a peer the table knows, that peer is
  callable, runs exactly that runtime, and has the requested direction of connection.
\<close>
theorem get_agent_routes_to_runtime:
  assumes "pt_reachable pt" and "get_agent timeout pt t dir fb = Inr (Some a)"
    and "truthy (endpoint_runtime_id t)"
  shows "\<exists>r. map_of (pt_peers pt) (get_blk_uuid a) = Some r \<and> pr_callable r \<and>
    get_remote_uuid a = pr_runtime_id r \<and> py_eq (endpoint_runtime_id t) (get_remote_uuid a) \<and>
    (truthy dir \<longrightarrow> py_eq (pr_connection_direction r) dir)"
proof -
  from assms(2) obtain r where r: "find_record pt t dir fb = Inr (Some r)"
    "record_to_agent timeout r t = Inr (Some a)"
    by (auto simp: get_agent_def ebind_Inr_iff split: option.splits)
  from find_record_sound [OF pt_reachable_inv [OF assms(1)] r(1)]
  have m: "map_of (pt_peers pt) (pr_peer_handle r) = Some r" "peer_matches (Some r) t dir" by auto
  then have "pr_callable r" "py_eq (endpoint_runtime_id t) (pr_runtime_id r)"
    "truthy dir \<longrightarrow> py_eq (pr_connection_direction r) dir"
    using assms(3) by (auto simp: peer_matches_def split: if_splits)
  moreover from this assms(3) have "truthy (pr_runtime_id r)" using py_eq_truthy by blast
  ultimately show ?thesis
    using record_to_agent_ok [OF r(2)] m(1) by (simp add: py_or_def)
qed

subsubsection \<open>A running example\<close>

definition demo_parent :: parent_info where
  "demo_parent = \<lparr>pi_name = '''', pi_hostname = '''', pi_port = 0\<rparr>"

definition demo_event :: "string \<Rightarrow> string \<Rightarrow> real \<Rightarrow> dict" where
  "demo_event ty rid t =
     [(PStr ''event_type'', PStr ty), (PStr ''peer_handle'', PStr ''h1''),
      (PStr ''remote_runtime_id'', PStr rid), (PStr ''node_type'', EN_DEFW_SERVICE),
      (PStr ''endpoint'', PDict [(PStr ''hostname'', PStr ''host'')]), (PStr ''timestamp'', PFloat t)]"

definition demo_peer :: "string \<Rightarrow> real \<Rightarrow> bool \<Rightarrow> peer" where
  "demo_peer rid t c = \<lparr>pr_peer_handle = PStr ''h1'', pr_runtime_id = PStr rid,
     pr_endpoint = [(PStr ''hostname'', PStr ''host'')], pr_transport_context = PStr '''',
     pr_connection_direction = PStr '''', pr_is_self = False, pr_last_seen = PFloat t,
     pr_node_type = EN_DEFW_SERVICE, pr_callable = c, pr_loss_reason = PStr ''''\<rparr>"

definition demo_peers :: "string \<Rightarrow> real \<Rightarrow> bool \<Rightarrow> peer_table" where
  "demo_peers rid t c = \<lparr>pt_peers = [(PStr ''h1'', demo_peer rid t c)], pt_pending_targets = []\<rparr>"

lemmas event_eval = apply_event_def updated_peer_def pending_for_def getitem0_def endpoint_signature_def
  runtime_key_def endpoint_key_def event_flags_def merge_endpoint_def dupdate_def py_less_def py_mem_def
  py_or_def infer_node_type_def demo_event_def demo_peer_def demo_peers_def demo_parent_def Let_def

lemma demo_ready_event:
  "apply_event demo_parent 0 (demo_event ''PEER_READY'' ''r1'' 1) init_peers =
     (demo_peers ''r1'' 1 True, Inr (Some (demo_peer ''r1'' 1 True)))"
  by (simp add: event_eval init_peers_def EN_DEFW_SERVICE_def)

lemma demo_lost_event:
  "apply_event demo_parent 0 (demo_event ''PEER_LOST'' ''r1'' 2) (demo_peers ''r1'' 1 True) =
     (demo_peers ''r1'' 2 False, Inr (Some (demo_peer ''r1'' 2 False)))"
  by (simp add: event_eval EN_DEFW_SERVICE_def)

lemma demo_peers_reachable: "pt_reachable (demo_peers ''r1'' 1 True)"
  by (rule pt_reachable.pt_next [OF pt_reachable.pt_start pt_step.event [OF demo_ready_event]])

definition demo_target :: target where
  "demo_target = TDict [(PStr ''runtime_id'', PStr ''r1'')]"

lemma demo_get_agent:
  "\<exists>a. get_agent (PInt 300) (demo_peers ''r1'' 1 True) demo_target PNone False = Inr (Some a)"
  by (simp add: get_agent_def find_record_def demo_target_def peer_matches_def endpoint_runtime_id_def
      record_to_agent_def make_endpoint_def valid_node_type_def EN_DEFW_SERVICE_def EN_DEFW_DIRSVC_def
      py_mem_def py_or_def demo_peers_def demo_peer_def ZERO_UUID_def Let_def)

theorem get_agent_routes_to_runtime_witness:
  "\<exists>a r. get_agent (PInt 300) (demo_peers ''r1'' 1 True) demo_target PNone False = Inr (Some a) \<and>
     map_of (pt_peers (demo_peers ''r1'' 1 True)) (get_blk_uuid a) = Some r \<and> pr_callable r"
proof -
  obtain a where a: "get_agent (PInt 300) (demo_peers ''r1'' 1 True) demo_target PNone False = Inr (Some a)"
    using demo_get_agent by blast
  have "truthy (endpoint_runtime_id demo_target)"
    by (simp add: endpoint_runtime_id_def demo_target_def ZERO_UUID_def py_or_def)
  from get_agent_routes_to_runtime [OF demo_peers_reachable a this] a show ?thesis by blast
qed

text \<open>
  C25: a lost peer is not called any more. After a \<open>PEER_LOST\<close> event that is not older than what is
  known of the peer, the table holds a record that is not callable with the reported reason, and
  looking the peer up by its handle finds no agent.
\<close>
theorem peer_lost_not_found:
  assumes "dget0 ev ''event_type'' = PStr ''PEER_LOST''"
    and "apply_event parent clock ev pt = (pt', Inr (Some r))" and "pt' \<noteq> pt"
    and "endpoint_value t ''blk_uuid'' (PStr '''') = dget0 ev ''peer_handle''"
    and "dget0 ev ''peer_handle'' \<noteq> PStr ZERO_UUID"
  shows "map_of (pt_peers pt') (dget0 ev ''peer_handle'') = Some r \<and> \<not> pr_callable r \<and>
    pr_loss_reason r = dget ev ''reason'' (PStr '''') \<and>
    get_agent timeout pt' t dir False = Inr None"
  using assms(2)
proof (cases rule: apply_event_cases)
  case (updated ph r')
  then have "\<not> pr_callable r" "pr_loss_reason r = dget ev ''reason'' (PStr '''')"
    using updated_peer_fields [OF updated(5)] assms(1) by (auto simp: event_flags_def)
  with updated assms(4,5) show ?thesis
    by (simp add: get_agent_def find_record_def peer_matches_def)
qed (use assms in auto)

theorem peer_lost_not_found_witness:
  "get_agent (PInt 300) (demo_peers ''r1'' 2 False) (TDict [(PStr ''blk_uuid'', PStr ''h1'')]) PNone False
     = Inr None"
  using peer_lost_not_found [OF _ demo_lost_event, of "TDict [(PStr ''blk_uuid'', PStr ''h1'')]"
      "PInt 300" PNone]
  by (simp add: demo_event_def ZERO_UUID_def demo_peers_def demo_peer_def)

text \<open>
  the table remembers where it connected to. When a target with a runtime id was remembered
  and the first event of a new peer reports the same address, port, name and host but no runtime
  id, the peer's record gets the target's runtime id and direction of connection.
\<close>
theorem remembered_target_names_peer:
  assumes "remember_connect_target t dir pt = (pt1, Inr ())" and "truthy dir"
    and "endpoint_signature t = Some sig" and "endpoint_signature (TDict ep) = Some sig"
    and "dget0 ev ''endpoint'' = PDict ep" and "ep \<noteq> []"
    and "\<not> truthy (dget0 ev ''remote_runtime_id'')" and "\<not> truthy (dget0 ev ''connection_direction'')"
    and "map_of (pt_peers pt) (dget0 ev ''peer_handle'') = None"
    and "apply_event parent clock ev pt1 = (pt2, Inr (Some r))"
  shows "pr_runtime_id r = endpoint_runtime_id t \<and> pr_connection_direction r = dir"
proof -
  let ?rec = "dset ''connection_direction'' dir (endpoint_record t)"
  have pend: "map_of (pt_pending_targets pt1) (endpoint_key sig) = Some ?rec" "hashable (endpoint_key sig)"
    using assms(1-3)
    by (auto simp: remember_connect_target_def Let_def setitem_def split: if_splits sum.splits)
  have none: "map_of (pt_peers pt1) (dget0 ev ''peer_handle'') = None"
    using remember_frame [OF assms(1)] assms(9) by simp
  have "updated_peer parent ev (dget0 ev ''peer_handle'') (dget ev ''timestamp'' (PFloat clock)) None
      (pt_pending_targets pt1) = Inr r"
    using assms(10) none by (auto simp: apply_event_def Let_def split: if_splits sum.splits)
  moreover have "dget ?rec ''runtime_id'' (PStr '''') = endpoint_runtime_id t"
    "dget ?rec ''connection_direction'' (PStr '''') = dir"
    by (simp_all add: endpoint_record_def)
  moreover have "pending_for (pt_pending_targets pt1) (PStr '''') ep = Inr ?rec"
    using pend assms(4) by (simp add: pending_for_def getitem0_def dset_def endpoint_record_def)
  ultimately show ?thesis
    using assms(5-8) by (auto simp: updated_peer_def Let_def py_or_def)
qed

definition demo_remembered :: peer_table where
  "demo_remembered = fst (remember_connect_target
     (TDict [(PStr ''hostname'', PStr ''host''), (PStr ''runtime_id'', PStr ''r7'')]) (PStr ''OUTBOUND'') init_peers)"

theorem remembered_target_names_peer_witness:
  "\<exists>pt2 r. apply_event demo_parent 0 (demo_event ''PEER_READY'' '''' 1) demo_remembered = (pt2, Inr (Some r)) \<and>
     pr_runtime_id r = PStr ''r7''"
proof -
  let ?t = "TDict [(PStr ''hostname'', PStr ''host''), (PStr ''runtime_id'', PStr ''r7'')]"
  have rem: "remember_connect_target ?t (PStr ''OUTBOUND'') init_peers = (demo_remembered, Inr ())"
    by (simp add: demo_remembered_def remember_connect_target_def setitem_def endpoint_runtime_id_def
        endpoint_signature_def endpoint_key_def runtime_key_def ZERO_UUID_def py_or_def Let_def)
  have pend: "pt_peers demo_remembered = []" using remember_frame [OF rem] by (simp add: init_peers_def)
  obtain pt2 r where ev: "apply_event demo_parent 0 (demo_event ''PEER_READY'' '''' 1) demo_remembered =
      (pt2, Inr (Some r))"
    using pend by (simp add: event_eval EN_DEFW_SERVICE_def)
  have "pr_runtime_id r = endpoint_runtime_id ?t \<and> pr_connection_direction r = PStr ''OUTBOUND''"
    by (rule remembered_target_names_peer [OF rem _ _ _ _ _ _ _ _ ev,
          where ep = "[(PStr ''hostname'', PStr ''host'')]"
            and sig = "PTuple [PStr '''', PInt 0, PStr '''', PStr ''host'']"])
      (simp_all add: endpoint_signature_def demo_event_def init_peers_def)
  with ev show ?thesis by (simp add: endpoint_runtime_id_def ZERO_UUID_def py_or_def)
qed

end
