(* ===== verification/Rpc.thy ===== *)
theory Rpc
  imports Py_Prelude
begin

section \<open>RPC messages, timing and trace context\<close>

text \<open>
  What a call carries and what is measured about it: the RPC envelopes and the timing statistics of
  \<open>python/infra/defw_common_def.py\<close> and the trace context of \<open>python/infra/defw_trace.py\<close>. The wall
  clock is an argument, and time stamps are reals. The trace hooks belong to whoever traces: a hook
  is a function that works on a state \<open>'h\<close> of its own and may raise.
\<close>

subsection \<open>Trace context (\<open>defw_trace.py\<close>)\<close>

definition CARRIER_KEY :: string where
  "CARRIER_KEY = ''trace_context''"

text \<open>
  The inject hook gets an empty carrier and returns it filled, the attach hook gets a received
  carrier and returns a token, and the detach hook gets the token.
\<close>

record 'h trace_hooks =
  th_inject :: "(dict \<Rightarrow> 'h \<Rightarrow> 'h \<times> dict \<times> unit result) option"
  th_attach :: "(pyval \<Rightarrow> 'h \<Rightarrow> 'h \<times> pyval result) option"
  th_detach :: "(pyval \<Rightarrow> 'h \<Rightarrow> 'h \<times> unit result) option"

definition set_hooks ::
  "(dict \<Rightarrow> 'h \<Rightarrow> 'h \<times> dict \<times> unit result) option \<Rightarrow> (pyval \<Rightarrow> 'h \<Rightarrow> 'h \<times> pyval result) option
     \<Rightarrow> (pyval \<Rightarrow> 'h \<Rightarrow> 'h \<times> unit result) option \<Rightarrow> 'h trace_hooks" where
  "set_hooks i a d = \<lparr>th_inject = i, th_attach = a, th_detach = d\<rparr>"

definition clear_hooks :: "'h trace_hooks" where
  "clear_hooks = \<lparr>th_inject = None, th_attach = None, th_detach = None\<rparr>"

definition hooks_registered :: "'h trace_hooks \<Rightarrow> bool" where
  "hooks_registered th \<longleftrightarrow> th_inject th \<noteq> None \<or> th_attach th \<noteq> None"

definition trace_inject :: "'h trace_hooks \<Rightarrow> 'h \<Rightarrow> 'h \<times> dict" where
  "trace_inject th h =
     (case th_inject th of
        None \<Rightarrow> (h, [])
      | Some hook \<Rightarrow>
          (case hook [] h of
             (h', _, Inl _) \<Rightarrow> (h', [])
           | (h', carrier, Inr _) \<Rightarrow> (h', carrier)))"

definition trace_attach :: "'h trace_hooks \<Rightarrow> pyval \<Rightarrow> 'h \<Rightarrow> 'h \<times> pyval" where
  "trace_attach th carrier h =
     (case th_attach th of
        None \<Rightarrow> (h, PNone)
      | Some hook \<Rightarrow>
          if \<not> truthy carrier then (h, PNone)
          else (case hook carrier h of (h', Inl _) \<Rightarrow> (h', PNone) | (h', Inr token) \<Rightarrow> (h', token)))"

definition trace_detach :: "'h trace_hooks \<Rightarrow> pyval \<Rightarrow> 'h \<Rightarrow> 'h" where
  "trace_detach th token h =
     (case th_detach th of
        None \<Rightarrow> h
      | Some hook \<Rightarrow> if token = PNone then h else fst (hook token h))"

lemma trace_untraced [simp]:
  "trace_inject clear_hooks h = (h, [])"
  "trace_attach clear_hooks c h = (h, PNone)"
  "trace_detach clear_hooks t h = h"
  by (simp_all add: trace_inject_def trace_attach_def trace_detach_def clear_hooks_def)

lemma trace_attach_no_context [simp]: "\<not> truthy c \<Longrightarrow> trace_attach th c h = (h, PNone)"
  by (simp add: trace_attach_def split: option.splits)

lemma trace_detach_none [simp]: "trace_detach th PNone h = h"
  by (simp add: trace_detach_def split: option.splits)

subsection \<open>Timing statistics (\<open>RPCMetrics\<close>)\<close>

record timing =
  tm_window :: "real list"
  tm_avg :: real
  tm_min :: real
  tm_max :: real
  tm_total :: nat

record rpc_metrics =
  mt_window_size :: nat
  mt_rsp :: timing
  mt_req :: timing
  mt_method :: "(string \<times> timing) list"

definition sys_maxsize :: int where
  "sys_maxsize = 2 ^ 63 - 1"

definition new_timing :: timing where
  "new_timing = \<lparr>tm_window = [], tm_avg = 0, tm_min = of_int sys_maxsize, tm_max = 0, tm_total = 0\<rparr>"

definition init_metrics :: "nat \<Rightarrow> rpc_metrics" where
  "init_metrics window_size =
     \<lparr>mt_window_size = window_size, mt_rsp = new_timing, mt_req = new_timing, mt_method = []\<rparr>"

text \<open>\<open>append\<close> on a \<open>deque(maxlen=n)\<close>: the oldest elements make room.\<close>

definition deque_append :: "nat \<Rightarrow> 'a \<Rightarrow> 'a list \<Rightarrow> 'a list" where
  "deque_append n x w = (let w' = w @ [x] in drop (length w' - n) w')"

text \<open>\<open>a - b\<close> on numbers.\<close>

definition py_sub :: "pyval \<Rightarrow> pyval \<Rightarrow> real result" where
  "py_sub a b = (case (py_num a, py_num b) of (Some x, Some y) \<Rightarrow> Inr (x - y) | _ \<Rightarrow> Inl PyTypeError)"

definition add_rtt :: "nat \<Rightarrow> real \<Rightarrow> timing \<Rightarrow> timing" where
  "add_rtt n rtt db =
     (let w = deque_append n rtt (tm_window db) in
      \<lparr>tm_window = w,
       tm_avg = (if 0 < length w then sum_list w / real (length w) else tm_avg db),
       tm_min = (if rtt < tm_min db then rtt else tm_min db),
       tm_max = (if rtt > tm_max db then rtt else tm_max db),
       tm_total = tm_total db + 1\<rparr>)"

definition add_timing_locked :: "nat \<Rightarrow> pyval \<Rightarrow> pyval \<Rightarrow> timing \<Rightarrow> timing result" where
  "add_timing_locked n send_time recv_time db =
     ebind (py_sub recv_time send_time) (\<lambda>rtt. Inr (add_rtt n rtt db))"

definition add_rpc_req_time :: "pyval \<Rightarrow> pyval \<Rightarrow> rpc_metrics \<Rightarrow> rpc_metrics result" where
  "add_rpc_req_time send_time recv_time mt =
     ebind (add_timing_locked (mt_window_size mt) send_time recv_time (mt_req mt)) (\<lambda>db.
     Inr (mt\<lparr>mt_req := db\<rparr>))"

definition add_rpc_rsp_time :: "pyval \<Rightarrow> pyval \<Rightarrow> rpc_metrics \<Rightarrow> rpc_metrics result" where
  "add_rpc_rsp_time send_time recv_time mt =
     ebind (add_timing_locked (mt_window_size mt) send_time recv_time (mt_rsp mt)) (\<lambda>db.
     Inr (mt\<lparr>mt_rsp := db\<rparr>))"

definition add_method_time :: "pyval \<Rightarrow> pyval \<Rightarrow> string \<Rightarrow> rpc_metrics \<Rightarrow> rpc_metrics \<times> unit result" where
  "add_method_time start_time end_time mname mt =
     (let db = (case map_of (mt_method mt) mname of None \<Rightarrow> new_timing | Some db \<Rightarrow> db) in
      case add_timing_locked (mt_window_size mt) start_time end_time db of
        Inl e \<Rightarrow> (mt\<lparr>mt_method := AList.update mname db (mt_method mt)\<rparr>, Inl e)
      | Inr db' \<Rightarrow> (mt\<lparr>mt_method := AList.update mname db' (mt_method mt)\<rparr>, Inr ()))"

text \<open>The statistics as functions of the whole history of round-trip times.\<close>

definition last_n :: "nat \<Rightarrow> 'a list \<Rightarrow> 'a list" where
  "last_n n xs = drop (length xs - n) xs"

definition mean :: "real list \<Rightarrow> real" where
  "mean xs = (if xs = [] then 0 else sum_list xs / real (length xs))"

definition timing_of :: "nat \<Rightarrow> real list \<Rightarrow> timing" where
  "timing_of n xs =
     \<lparr>tm_window = last_n n xs, tm_avg = mean (last_n n xs),
      tm_min = Min (insert (of_int sys_maxsize) (set xs)), tm_max = Max (insert 0 (set xs)),
      tm_total = length xs\<rparr>"

lemma last_n_snoc: "last_n n (last_n n xs @ [x]) = last_n n (xs @ [x])"
  by (cases "length xs \<le> n") (auto simp: last_n_def Suc_diff_le)

lemma last_n_Nil_iff: "last_n n xs = [] \<longleftrightarrow> n = 0 \<or> xs = []"
  by (cases xs; cases n) (auto simp: last_n_def)

lemma add_rtt_timing_of: "add_rtt n x (timing_of n xs) = timing_of n (xs @ [x])"
proof -
  have w: "deque_append n x (last_n n xs) = last_n n (xs @ [x])"
    using last_n_snoc [of n xs x] by (simp add: deque_append_def last_n_def Let_def)
  have mm: "Min (insert a (insert x (set xs))) = min x (Min (insert a (set xs)))"
    "Max (insert a (insert x (set xs))) = max x (Max (insert a (set xs)))" for a :: real
    by (subst insert_commute, rule Min_insert Max_insert, simp, simp)+
  have mn: "min x m = (if x < m then x else m)" "max x m = (if m < x then x else m)" for m :: real
    by (simp_all add: min_def max_def)
  have "last_n n xs = []" if "last_n n (xs @ [x]) = []"
    using that by (simp add: last_n_Nil_iff)
  then show ?thesis
    by (simp add: add_rtt_def timing_of_def w Let_def mm [unfolded mn] mean_def
        del: Min_insert Max_insert Min_gr_iff Max_less_iff)
qed

text \<open>
  C34: the incremental statistics are the statistics of the history. After any sequence of messages
  the window holds the last \<open>n\<close> round-trip times, the average is their mean, the extremes range over
  all round-trip times since the start, and the total counts them.
\<close>
theorem metrics_are_of_history:
  "foldl (\<lambda>acc (send, recv). ebind acc (add_timing_locked n (PFloat send) (PFloat recv)))
     (Inr new_timing) msgs = Inr (timing_of n (map (\<lambda>(send, recv). recv - send) msgs))"
proof (induction msgs rule: rev_induct)
  case Nil
  then show ?case by (simp add: new_timing_def timing_of_def last_n_def mean_def)
next
  case (snoc p msgs)
  then show ?case
    by (cases p) (simp add: add_timing_locked_def py_sub_def add_rtt_timing_of)
qed

lemma mean_bounds:
  assumes "xs \<noteq> []" and "\<And>x. x \<in> set xs \<Longrightarrow> a \<le> x \<and> x \<le> b"
  shows "a \<le> mean xs \<and> mean xs \<le> b"
proof -
  have "real (length xs) * a \<le> sum_list xs \<and> sum_list xs \<le> real (length xs) * b"
    using assms(2) by (induction xs) (auto simp: algebra_simps intro: add_mono)
  then show ?thesis using assms(1) by (simp add: mean_def field_simps)
qed

text \<open>
  C21: bounds. The window never holds more than \<open>n\<close> times, and once a time was recorded the average
  lies between the minimum and the maximum that are reported with it.
\<close>
theorem metrics_bounds:
  assumes "foldl (\<lambda>db x. add_rtt n x db) new_timing xs = db" and "0 < n" and "xs \<noteq> []"
  shows "length (tm_window db) \<le> n \<and> tm_min db \<le> tm_avg db \<and> tm_avg db \<le> tm_max db"
proof -
  have "foldl (\<lambda>db x. add_rtt n x db) new_timing xs = timing_of n xs" for xs
  proof (induction xs rule: rev_induct)
    case Nil
    then show ?case by (simp add: new_timing_def timing_of_def last_n_def mean_def)
  qed (simp add: add_rtt_timing_of)
  then have db: "db = timing_of n xs" using assms(1) by simp
  have "tm_min db \<le> x \<and> x \<le> tm_max db" if "x \<in> set (last_n n xs)" for x
    using that in_set_dropD [of x _ xs] by (auto simp: db timing_of_def last_n_def)
  with mean_bounds [of "last_n n xs" "tm_min db" "tm_max db"] assms(2,3) show ?thesis
    by (auto simp: db timing_of_def last_n_Nil_iff) (simp add: last_n_def)
qed

theorem metrics_bounds_witness:
  "tm_min (add_rtt 2 3 new_timing) \<le> tm_avg (add_rtt 2 3 new_timing)"
  using metrics_bounds [of 2 "[3]" "add_rtt 2 3 new_timing"] by simp

subsection \<open>Messages\<close>

definition get_rpc_rsp_base :: dict where
  "get_rpc_rsp_base =
     [(PStr ''dst'', PNone), (PStr ''src'', PNone), (PStr ''type'', PStr ''results''), (PStr ''rc'', PNone),
      (PStr ''statistics'', PDict [(PStr ''send_time'', PNone)])]"

definition get_rpc_req_base :: dict where
  "get_rpc_req_base =
     [(PStr ''src'', PNone), (PStr ''dst'', PNone), (PStr ''type'', PNone), (PStr ''script'', PNone),
      (PStr ''class'', PNone), (PStr ''method'', PNone), (PStr ''function'', PNone),
      (PStr ''parameters'', PDict [(PStr ''args'', PNone), (PStr ''kwargs'', PNone)]),
      (PStr ''statistics'', PDict [(PStr ''send_time'', PNone)])]"

text \<open>The statistics entry of a message that is sent at time \<open>now\<close>.\<close>

definition sent_statistics :: "real \<Rightarrow> pyval" where
  "sent_statistics now = PDict [(PStr ''send_time'', PFloat now), (PStr ''recv_time'', PInt 0)]"

text \<open>
  The dictionary under \<open>'rpc'\<close>, the only key of a message. The code fills the nested dictionaries
  key by key; here they are written as they end up.
\<close>

definition populate_rpc_req ::
  "pyval \<Rightarrow> pyval \<Rightarrow> pyval \<Rightarrow> pyval \<Rightarrow> pyval \<Rightarrow> pyval \<Rightarrow> pyval \<Rightarrow> pyval list \<Rightarrow> dict \<Rightarrow> dict \<Rightarrow> real \<Rightarrow> dict" where
  "populate_rpc_req src dst req_type module_name cname mname class_id args kwargs carrier now =
     dset ''statistics'' (sent_statistics now)
     (dset CARRIER_KEY (PDict carrier)
     (dset ''parameters'' (PDict [(PStr ''args'', PTuple args), (PStr ''kwargs'', PDict kwargs)])
     (dset ''class_id'' class_id
     (dset ''method'' mname
     (dset ''class'' cname
     (dset ''module'' module_name
     (dset ''type'' req_type
     (dset ''dst'' dst
     (dset ''src'' src get_rpc_req_base)))))))))"

definition populate_rpc_rsp :: "pyval \<Rightarrow> pyval \<Rightarrow> pyval \<Rightarrow> pyval \<Rightarrow> real \<Rightarrow> dict" where
  "populate_rpc_rsp src dst rc exception now =
     (let rpc = dset ''dst'' dst (dset ''src'' src get_rpc_rsp_base);
          rpc = (if truthy exception
                 then dset ''exception'' exception (dset ''type'' (PStr ''exception'') rpc)
                 else dset ''type'' (PStr ''response'') rpc) in
      dset ''statistics'' (sent_statistics now) (dset ''rc'' rc rpc))"

text \<open>The message itself.\<close>

definition rpc_msg :: "dict \<Rightarrow> pyval" where
  "rpc_msg rpc = PDict [(PStr ''rpc'', PDict rpc)]"

lemma dindex_dset [simp]: "dindex (dset k v d) k' = (if k = k' then Inr v else dindex d k')"
  by (simp add: dindex_def dset_def)

lemma dindex_Cons [simp]: "dindex ((PStr a, x) # d) k = (if a = k then Inr x else dindex d k)"
  by (simp add: dindex_def)

lemma dindex_Nil [simp]: "dindex [] k = Inl PyKeyError"
  by (simp add: dindex_def)

lemma py_getitem_rpc_msg [simp]: "py_getitem (rpc_msg rpc) ''rpc'' = Inr (PDict rpc)"
  by (simp add: rpc_msg_def)

lemma populate_rpc_req_fields [simp]:
  fixes src dst ty m c mn cid args kw carrier now
  defines "r \<equiv> populate_rpc_req src dst ty m c mn cid args kw carrier now"
  shows "dindex r ''src'' = Inr src" "dindex r ''dst'' = Inr dst" "dindex r ''type'' = Inr ty"
    "dindex r ''module'' = Inr m" "dindex r ''class'' = Inr c" "dindex r ''method'' = Inr mn"
    "dindex r ''class_id'' = Inr cid" "dindex r ''statistics'' = Inr (sent_statistics now)"
    "dindex r ''parameters'' = Inr (PDict [(PStr ''args'', PTuple args), (PStr ''kwargs'', PDict kw)])"
    "dget0 r CARRIER_KEY = PDict carrier" "dindex r ''function'' = Inr PNone"
    "map_of r (PStr ''req-uuid'') = None"
  by (simp_all add: r_def populate_rpc_req_def CARRIER_KEY_def get_rpc_req_base_def)
    (simp add: dset_def)

lemma populate_rpc_rsp_fields [simp]:
  fixes src dst rc x now
  defines "r \<equiv> populate_rpc_rsp src dst rc x now"
  shows "dindex r ''src'' = Inr src" "dindex r ''dst'' = Inr dst" "dindex r ''rc'' = Inr rc"
    "dindex r ''type'' = Inr (PStr (if truthy x then ''exception'' else ''response''))"
    "dindex r ''exception'' = (if truthy x then Inr x else Inl PyKeyError)"
    "dindex r ''statistics'' = Inr (sent_statistics now)"
    "map_of r (PStr ''req-uuid'') = None"
  by (simp_all add: r_def populate_rpc_rsp_def Let_def get_rpc_rsp_base_def)
    (simp add: dset_def)

end
