(* ===== verification/Workers.thy ===== *)
theory Workers
  imports Attachments Peers Rpc
begin

section \<open>The worker thread (\<open>python/infra/defw_workers.py\<close>)\<close>

text \<open>
  One worker thread takes the events of the C runtime from its queue: incoming requests and
  responses, completed connections, the life cycle of peers, and the shutdown. A caller that waits
  for a response is a \<open>work_request\<close> with a queue of its own, registered in \<open>req_db\<close> under its uuid.

  The state \<open>worker\<close> has the registered uuids (\<open>req_db\<close>), all request objects by their uuid (a waiting
  caller keeps its object after it left \<open>req_db\<close>), the recorded peer events, the listeners, the
  binding of the directory service and the peer table. Handling one event is one step. Threads the
  worker spawns, callbacks it makes and events it puts into the queue of a request are also listed
  as \<open>effect\<close>s, in order. Waiting is a loop over polls of the request's queue. The C runtime and its
  state \<open>'s\<close> are the arguments collected in \<open>transport\<close>.
\<close>

subsection \<open>The C runtime\<close>

definition EN_DEFW_RC_OK :: int where
  "EN_DEFW_RC_OK = 0"

definition EN_DEFW_RC_IN_PROGRESS :: int where
  "EN_DEFW_RC_IN_PROGRESS = -20"

definition EN_DEFW_RC_NOT_STARTED :: int where
  "EN_DEFW_RC_NOT_STARTED = -25"

definition EN_DEFW_RC_NO_LISTENER :: int where
  "EN_DEFW_RC_NO_LISTENER = -26"

definition EN_DEFW_RC_MAX :: int where
  "EN_DEFW_RC_MAX = -27"

definition rc_strings :: "string list" where
  "rc_strings =
     [''RC_OK'', ''RC_FAIL'', ''RC_SYSTEM_ERROR'', ''RC_BAD_VERSION'', ''RC_SOCKET_FAIL'', ''RC_BIND_FAIL'',
      ''RC_LISTEN_FAIL'', ''RC_CLIENT_CLOSED'', ''RC_ERR_THREAD_START'', ''RC_AGENT_NOT_FOUND'',
      ''RC_PY_IMPORT_FAIL'', ''RC_PY_SCRIPT_FAIL'', ''RC_RPC_FAIL'', ''RC_OOM'', ''RC_BAD_PARAM'',
      ''RC_BAD_ADDR'', ''RC_MISSING_PARAM'', ''RC_TIMEOUT'', ''RC_LOG_CREATION_FAILURE'',
      ''RC_PROTO_ERROR'', ''RC_IN_PROGRESS'', ''RC_BAD_UUID'', ''RC_NO_DATA_ON_SOCKET'', ''RC_KEEP_DATA'',
      ''RC_UNKNOWN_MESSAGE'', ''RC_NOT_STARTED'', ''RC_NO_LISTENER'']"

text \<open>\<open>None\<close> is a read outside the table, which a positive code would give.\<close>

definition defw_rc2str :: "int \<Rightarrow> string option" where
  "defw_rc2str rc =
     (if rc \<le> EN_DEFW_RC_MAX then Some ''BAD RC''
      else if 0 \<le> - rc \<and> nat (- rc) < length rc_strings then Some (rc_strings ! nat (- rc))
      else None)"

text \<open>
  The serialisers of \<open>Attachments\<close> with their arguments, the two send functions and the connect
  function (its first argument tells \<open>defw_connect_to_service\<close> from \<open>defw_connect_to_client\<close>).
\<close>

record ('s, 'w) transport =
  tp_np :: "np_ops option"
  tp_memview :: "pyval \<Rightarrow> byte list result"
  tp_rma :: "'s rma_ops option"
  tp_env :: environ
  tp_dump :: "pyval \<Rightarrow> 'w"
  tp_load :: "'w \<Rightarrow> pyval result"
  tp_send_req :: "pyval \<Rightarrow> pyval \<Rightarrow> 'w \<Rightarrow> 's \<Rightarrow> 's \<times> int"
  tp_send_rsp :: "pyval \<Rightarrow> pyval \<Rightarrow> 'w \<Rightarrow> 's \<Rightarrow> 's \<times> int"
  tp_connect :: "bool \<Rightarrow> endpoint \<Rightarrow> pyval \<Rightarrow> 's \<Rightarrow> 's \<times> int"

text \<open>A connection handle is a string or \<open>None\<close>.\<close>

definition blk_str :: "pyval \<Rightarrow> string" where
  "blk_str v = (case v of PStr s \<Rightarrow> s | _ \<Rightarrow> [])"

subsection \<open>Events\<close>

datatype worker_event =
    IncomingRequest pyval pyval
  | IncomingResponse pyval pyval
  | ConnComplete pyval int
  | ShutdownEvent
  | PeerLifecycle dict

text \<open>
  The first argument of a message event is the uuid of the sender, the second the loaded message;
  the first of a completed connection is the uuid of the request.
\<close>

fun ev_type :: "worker_event \<Rightarrow> int" where
  "ev_type (IncomingRequest _ _) = 1"
| "ev_type (IncomingResponse _ _) = 2"
| "ev_type (ConnComplete _ _) = 3"
| "ev_type ShutdownEvent = 4"
| "ev_type (PeerLifecycle _) = 5"

text \<open>\<open>WorkerEvent(...)\<close>. An absent or empty message is \<open>None\<close>.\<close>

definition make_event ::
  "('s, 'w) transport \<Rightarrow> 's \<Rightarrow> int \<Rightarrow> int \<Rightarrow> pyval \<Rightarrow> 'w option \<Rightarrow> dict \<Rightarrow> worker_event result" where
  "make_event tp s ty connect_status uuid msg peer_event =
     (if ty \<notin> {1, 2, 3, 4, 5} then Inl (DEFwError ''Bad WorkerEvent type'')
      else if ty = 3 then Inr (ConnComplete uuid connect_status)
      else if ty = 5 then Inr (PeerLifecycle peer_event)
      else
        ebind (case msg of None \<Rightarrow> Inr PNone
               | Some m \<Rightarrow> attach_load (tp_np tp) (tp_rma tp) (tp_load tp) s (blk_str uuid) m) (\<lambda>msg_yaml.
        Inr (if ty = 1 then IncomingRequest uuid msg_yaml
             else if ty = 2 then IncomingResponse uuid msg_yaml
             else ShutdownEvent)))"

definition event_name :: "int \<Rightarrow> string" where
  "event_name ty =
     (if ty = 1 then ''EVENT_INCOMING_REQUEST''
      else if ty = 2 then ''EVENT_INCOMING_RESPONSE''
      else if ty = 3 then ''EVENT_CONN_COMPLETE''
      else if ty = 4 then ''EVENT_SHUTDOWN''
      else if ty = 5 then ''EVENT_PEER_LIFECYCLE''
      else ''UNKNOWN_WORKEREVENT'')"

definition type2str_events :: "int list \<Rightarrow> string" where
  "type2str_events we = join_on '','' (map event_name we)"

subsection \<open>Requests\<close>

definition WR_SEND_MSG :: int where
  "WR_SEND_MSG = 1"

definition WR_CONNECT :: int where
  "WR_CONNECT = 2"

text \<open>
  The message is the dictionary under its key \<open>'rpc'\<close>. A request that does not block has no queue.
\<close>

record work_request =
  wr_type :: int
  wr_uuid :: pyval
  wr_deadline :: real
  wr_connect_status :: int
  wr_remote_uuid :: pyval
  wr_blk_uuid :: pyval
  wr_msg :: dict
  wr_ep :: "endpoint option"
  wr_expected_events :: "int list"
  wr_blocking :: bool
  wr_queue :: "worker_event list option"

definition make_request ::
  "pyval \<Rightarrow> real \<Rightarrow> real \<Rightarrow> int \<Rightarrow> pyval \<Rightarrow> pyval \<Rightarrow> dict \<Rightarrow> endpoint option \<Rightarrow> bool \<Rightarrow> work_request result" where
  "make_request uuid now timeout ty remote_uuid blk_uuid msg ep blocking =
     (if ty \<noteq> WR_SEND_MSG \<and> ty \<noteq> WR_CONNECT then Inl (DEFwError ''Bad Request type'')
      else
        (let send = (ty = WR_SEND_MSG) in
         Inr \<lparr>wr_type = ty, wr_uuid = uuid, wr_deadline = now + timeout, wr_connect_status = -1,
           wr_remote_uuid = (if send then remote_uuid else PNone),
           wr_blk_uuid = (if send then blk_uuid else PNone),
           wr_msg = (if \<not> send then []
                     else if map_of msg (PStr ''req-uuid'') \<noteq> None then msg
                     else dset ''req-uuid'' uuid msg),
           wr_ep = (if send then None else ep),
           wr_expected_events = (if send then [2] else [3]),
           wr_blocking = blocking,
           wr_queue = (if blocking then Some [] else None)\<rparr>))"

definition type2str_request :: "int \<Rightarrow> string" where
  "type2str_request ty =
     (if ty = WR_SEND_MSG then ''WR_SEND_SMG''
      else if ty = WR_CONNECT then ''WR_CONNECT''
      else ''UNKNOWN_WORKREQUEST'')"

text \<open>
  One round of the loop of \<open>wait\<close>: whether the system was up, what the queue gave within the second,
  and the time after it.
\<close>

record poll =
  pl_up :: bool
  pl_event :: "worker_event option"
  pl_now :: real

datatype wait_result = WaitNone | WaitStatus int | WaitMsg pyval

text \<open>The loop, from time \<open>t\<close>; \<open>None\<close> means that it is still waiting after the given rounds.\<close>

fun wait_loop :: "real \<Rightarrow> int list \<Rightarrow> real \<Rightarrow> poll list \<Rightarrow> wait_result result option" where
  "wait_loop deadline expected t [] =
     (if t < deadline then None else Some (Inl (DEFwCommError ''Response timed out'')))"
| "wait_loop deadline expected t (p # ps) =
     (if \<not> t < deadline then Some (Inl (DEFwCommError ''Response timed out''))
      else if \<not> pl_up p then Some (Inr WaitNone)
      else case pl_event p of
        None \<Rightarrow> wait_loop deadline expected (pl_now p) ps
      | Some (ConnComplete _ status) \<Rightarrow>
          (case expected of
             [] \<Rightarrow> Some (Inl PyIndexError)
           | ev # _ \<Rightarrow>
               if ev = 3 then
                 (let remaining = remove1 ev expected in
                  if remaining = [] then Some (Inr (WaitStatus status))
                  else wait_loop deadline remaining (pl_now p) ps)
               else Some (Inl (DEFwCommError ''expected CONN_COMPLETE'')))
      | Some ShutdownEvent \<Rightarrow> Some (Inr WaitNone)
      | Some (PeerLifecycle _) \<Rightarrow> Some (Inl (DEFwCommError ''Peer disconnected during request''))
      | Some (IncomingRequest _ msg) \<Rightarrow> Some (Inr (WaitMsg msg))
      | Some (IncomingResponse _ msg) \<Rightarrow> Some (Inr (WaitMsg msg)))"

definition wait :: "work_request \<Rightarrow> real \<Rightarrow> poll list \<Rightarrow> wait_result result option" where
  "wait wr now polls =
     (if wr_queue wr = None then Some (Inr WaitNone)
      else wait_loop (wr_deadline wr) (wr_expected_events wr) now polls)"

subsection \<open>The state of the worker\<close>

record worker =
  wk_req_db :: "pyval list"
  wk_requests :: "(pyval \<times> work_request) list"
  wk_peer_events :: "dict list"
  wk_listeners :: "pyval list"
  wk_dirsvc :: pyval
  wk_binding_runtime_id :: pyval
  wk_binding_peer_handle :: pyval
  wk_peers :: peer_table

definition init_worker :: worker where
  "init_worker = \<lparr>wk_req_db = [], wk_requests = [], wk_peer_events = [], wk_listeners = [],
     wk_dirsvc = PNone, wk_binding_runtime_id = PNone, wk_binding_peer_handle = PNone,
     wk_peers = init_peers\<rparr>"

datatype effect =
    QueuePut pyval worker_event
  | SpawnRpc pyval pyval
  | SpawnApplyPeerEvent dict
  | SpawnBind peer
  | CallListener pyval dict

definition add_work_request :: "work_request \<Rightarrow> worker \<Rightarrow> worker" where
  "add_work_request wr st =
     (if wr_uuid wr \<in> set (wk_req_db st) then st else st\<lparr>wk_req_db := wk_req_db st @ [wr_uuid wr]\<rparr>)"

definition remove_work_request :: "work_request \<Rightarrow> worker \<Rightarrow> worker" where
  "remove_work_request wr st = st\<lparr>wk_req_db := removeAll (wr_uuid wr) (wk_req_db st)\<rparr>"

text \<open>\<open>wr.queue.put(we)\<close> on the request with a uuid.\<close>

definition put_queue :: "pyval \<Rightarrow> worker_event \<Rightarrow> worker \<Rightarrow> worker result" where
  "put_queue u we st =
     (case map_of (wk_requests st) u of
        None \<Rightarrow> Inl PyKeyError
      | Some wr \<Rightarrow>
          (case wr_queue wr of
             None \<Rightarrow> Inl PyAttributeError
           | Some q \<Rightarrow>
               Inr (st\<lparr>wk_requests := AList.update u (wr\<lparr>wr_queue := Some (q @ [we])\<rparr>) (wk_requests st)\<rparr>)))"

text \<open>Listeners must be callable: \<open>is_callable\<close> is Python's \<open>callable\<close>.\<close>

definition add_peer_event_listener :: "(pyval \<Rightarrow> bool) \<Rightarrow> pyval \<Rightarrow> worker \<Rightarrow> worker \<times> pyval result" where
  "add_peer_event_listener is_callable listener st =
     (if \<not> is_callable listener then (st, Inl (DEFwError ''Peer lifecycle listener is not callable''))
      else if py_mem listener (wk_listeners st) then (st, Inr listener)
      else (st\<lparr>wk_listeners := wk_listeners st @ [listener]\<rparr>, Inr listener))"

fun remove_first :: "pyval \<Rightarrow> pyval list \<Rightarrow> pyval list" where
  "remove_first v [] = []"
| "remove_first v (x # xs) = (if py_eq x v then xs else x # remove_first v xs)"

definition remove_peer_event_listener :: "pyval \<Rightarrow> worker \<Rightarrow> worker" where
  "remove_peer_event_listener listener st = st\<lparr>wk_listeners := remove_first listener (wk_listeners st)\<rparr>"

definition is_dirsvc_peer_event :: "dict \<Rightarrow> bool" where
  "is_dirsvc_peer_event event = py_eq (dget0 event ''node_type'') EN_DEFW_DIRSVC"

definition notify_peer_event_listeners :: "dict \<Rightarrow> worker \<Rightarrow> effect list" where
  "notify_peer_event_listeners event st = map (\<lambda>l. CallListener l event) (wk_listeners st)"

definition is_lost :: "dict \<Rightarrow> bool" where
  "is_lost event \<longleftrightarrow> dget0 event ''event_type'' \<in> {PStr ''PEER_LOST'', PStr ''PEER_REMOVED''}"

text \<open>\<open>me_dirsvc\<close> is \<open>me.is_dirsvc()\<close>.\<close>

definition is_ready_dirsvc_peer :: "bool \<Rightarrow> dict \<Rightarrow> peer option \<Rightarrow> bool" where
  "is_ready_dirsvc_peer me_dirsvc event peer_record =
     (if dget0 event ''event_type'' \<noteq> PStr ''PEER_READY'' then False
      else if me_dirsvc then False
      else case peer_record of
        None \<Rightarrow> False
      | Some r \<Rightarrow>
          if \<not> pr_callable r then False
          else if \<not> py_eq (pr_node_type r) EN_DEFW_DIRSVC then False
          else truthy (pr_runtime_id r) \<and> \<not> py_eq (pr_runtime_id r) (PStr ZERO_UUID))"

definition is_disconnected_dirsvc_peer :: "bool \<Rightarrow> dict \<Rightarrow> bool" where
  "is_disconnected_dirsvc_peer me_dirsvc event =
     (if \<not> is_lost event then False
      else if me_dirsvc then False
      else py_eq (dget0 event ''node_type'') EN_DEFW_DIRSVC)"

definition dirsvc_peer_still_ready :: "peer_table \<Rightarrow> peer option \<Rightarrow> bool result" where
  "dirsvc_peer_still_ready pt peer_record =
     (case peer_record of
        None \<Rightarrow> Inr False
      | Some r \<Rightarrow>
          ebind (get_peer pt (pr_peer_handle r)) (\<lambda>cur.
          case cur of
            None \<Rightarrow> Inr False
          | Some c \<Rightarrow>
              if \<not> pr_callable c then Inr False
              else if \<not> py_eq (pr_node_type c) EN_DEFW_DIRSVC then Inr False
              else if \<not> py_eq (pr_runtime_id c) (pr_runtime_id r) then Inr False
              else Inr True))"

definition peer_endpoint :: "peer \<Rightarrow> endpoint result" where
  "peer_endpoint r =
     (let ep = pr_endpoint r in
      make_endpoint (dget ep ''address'' (PStr '''')) (dget ep ''port'' (PInt 0))
        (dget ep ''listen_port'' (PInt 0)) (dget ep ''pid'' (PInt 0)) (dget ep ''node_name'' (PStr ''''))
        (dget ep ''hostname'' (PStr '''')) (pr_node_type r) (pr_runtime_id r) (pr_peer_handle r))"

subsection \<open>Lost peers\<close>

text \<open>\<open>rp\<close> is \<open>str\<close> on values other than strings and integers.\<close>

definition work_request_targets_peer :: "(pyval \<Rightarrow> string) \<Rightarrow> work_request \<Rightarrow> dict \<Rightarrow> bool" where
  "work_request_targets_peer rp wr event =
     (if wr_type wr \<noteq> WR_SEND_MSG then False
      else
        (let remote_uuid = py_or (dget0 event ''remote_runtime_id'') (PStr '''');
             peer_handle = py_or (dget0 event ''peer_handle'') (PStr '''');
             blk_uuid = PStr (py_str rp (py_or (wr_blk_uuid wr) (PStr ''''))) in
         if truthy remote_uuid \<and> \<not> py_eq (PStr (py_str rp (wr_remote_uuid wr))) remote_uuid then False
         else \<not> truthy peer_handle \<or> py_mem blk_uuid [PStr '''', PStr ZERO_UUID, peer_handle]))"

definition targets :: "(pyval \<Rightarrow> string) \<Rightarrow> dict \<Rightarrow> worker \<Rightarrow> pyval \<Rightarrow> bool" where
  "targets rp event st u =
     (case map_of (wk_requests st) u of None \<Rightarrow> False | Some wr \<Rightarrow> work_request_targets_peer rp wr event)"

text \<open>The failed requests that have a queue get the event.\<close>

fun put_failed :: "worker_event \<Rightarrow> pyval list \<Rightarrow> worker \<Rightarrow> worker \<times> effect list" where
  "put_failed we [] st = (st, [])"
| "put_failed we (u # us) st =
     (case put_queue u we st of
        Inl _ \<Rightarrow> put_failed we us st
      | Inr st' \<Rightarrow> (case put_failed we us st' of (st'', es) \<Rightarrow> (st'', QueuePut u we # es)))"

definition fail_pending_peer_requests ::
  "(pyval \<Rightarrow> string) \<Rightarrow> dict \<Rightarrow> worker \<Rightarrow> worker \<times> effect list" where
  "fail_pending_peer_requests rp event st =
     (if \<not> is_lost event then (st, [])
      else
        (let failed = filter (targets rp event st) (wk_req_db st) in
         put_failed (PeerLifecycle event) failed
           (st\<lparr>wk_req_db := filter (\<lambda>u. \<not> targets rp event st u) (wk_req_db st)\<rparr>)))"

definition clear_dirsvc_peer :: "bool \<Rightarrow> dict \<Rightarrow> worker \<Rightarrow> worker" where
  "clear_dirsvc_peer me_dirsvc event st =
     (if \<not> is_disconnected_dirsvc_peer me_dirsvc event then st
      else
        (let runtime_id = py_or (dget0 event ''remote_runtime_id'') (PStr '''');
             peer_handle = py_or (dget0 event ''peer_handle'') (PStr '''') in
         if truthy (wk_binding_runtime_id st) \<and> truthy runtime_id \<and>
            \<not> py_eq (wk_binding_runtime_id st) runtime_id then st
         else if truthy (wk_binding_peer_handle st) \<and> truthy peer_handle \<and>
            \<not> py_eq (wk_binding_peer_handle st) peer_handle then st
         else st\<lparr>wk_dirsvc := PNone, wk_binding_runtime_id := PNone, wk_binding_peer_handle := PNone\<rparr>))"

subsection \<open>Binding the directory service\<close>

text \<open>
  \<open>bind_dirsvc_peer\<close> runs in a thread of its own: up to the construction of the remote API, which is
  a blocking call to the peer, and from its return on. \<open>api_loaded\<close> says that the directory service
  API is among the loaded ones, \<open>up\<close> that the system is up, in which case an exception is passed on.
\<close>

datatype bind_action = BindDone | BindRaise exc | BindConstruct endpoint

definition bind_error :: "bool \<Rightarrow> exc \<Rightarrow> bind_action" where
  "bind_error up e = (if up then BindRaise e else BindDone)"

definition bind_begin :: "bool \<Rightarrow> bool \<Rightarrow> bool \<Rightarrow> peer \<Rightarrow> worker \<Rightarrow> bind_action" where
  "bind_begin me_dirsvc api_loaded up r st =
     (if me_dirsvc then BindDone
      else
        (let runtime_id = py_or (pr_runtime_id r) (PStr '''');
             peer_handle = py_or (pr_peer_handle r) (PStr '''') in
         if truthy (wk_dirsvc st) \<and> py_eq (wk_binding_runtime_id st) runtime_id \<and>
            py_eq (wk_binding_peer_handle st) peer_handle then BindDone
         else if \<not> api_loaded then bind_error up (DEFwNotFound ''Directory service API not loaded'')
         else
           (case dirsvc_peer_still_ready (wk_peers st) (Some r) of
              Inl e \<Rightarrow> bind_error up e
            | Inr False \<Rightarrow> BindDone
            | Inr True \<Rightarrow>
                (case peer_endpoint r of
                   Inl e \<Rightarrow> bind_error up e
                 | Inr ep \<Rightarrow> BindConstruct ep))))"

text \<open>\<open>constructed\<close> is the outcome of the constructor.\<close>

definition bind_end :: "bool \<Rightarrow> pyval result \<Rightarrow> peer \<Rightarrow> worker \<Rightarrow> worker \<times> bind_action" where
  "bind_end up constructed r st =
     (case constructed of
        Inl e \<Rightarrow> (st, bind_error up e)
      | Inr obj \<Rightarrow>
          (case dirsvc_peer_still_ready (wk_peers st) (Some r) of
             Inl e \<Rightarrow> (st, bind_error up e)
           | Inr False \<Rightarrow> (st, BindDone)
           | Inr True \<Rightarrow>
               (st\<lparr>wk_dirsvc := obj, wk_binding_runtime_id := py_or (pr_runtime_id r) (PStr ''''),
                   wk_binding_peer_handle := py_or (pr_peer_handle r) (PStr '''')\<rparr>, BindDone)))"

subsection \<open>Handling an event\<close>

text \<open>What the handlers read besides the state.\<close>

record worker_env =
  we_me_dirsvc :: bool
  we_parent :: parent_info
  we_str :: "pyval \<Rightarrow> string"

definition handle_peer_event :: "worker_env \<Rightarrow> real \<Rightarrow> dict \<Rightarrow> worker \<Rightarrow> worker \<times> effect list \<times> unit result" where
  "handle_peer_event env clock event st =
     (case apply_event (we_parent env) clock event (wk_peers st) of
        (pt, Inl e) \<Rightarrow> (st\<lparr>wk_peers := pt\<rparr>, [], Inl e)
      | (pt, Inr peer_record) \<Rightarrow>
          (case fail_pending_peer_requests (we_str env) event
                  (st\<lparr>wk_peers := pt, wk_peer_events := wk_peer_events st @ [event]\<rparr>) of
             (st1, es) \<Rightarrow>
               (let st2 = clear_dirsvc_peer (we_me_dirsvc env) event st1;
                    bind = (case peer_record of
                        None \<Rightarrow> []
                      | Some r \<Rightarrow> if is_ready_dirsvc_peer (we_me_dirsvc env) event peer_record
                                  then [SpawnBind r] else []) in
                (st2, SpawnApplyPeerEvent event # es @ bind @ notify_peer_event_listeners event st2, Inr ()))))"

text \<open>The uuid of the request a response answers: \<open>msg_yaml['rpc']['req-uuid']\<close>, used as a key.\<close>

definition response_uuid :: "pyval \<Rightarrow> pyval result" where
  "response_uuid msg =
     ebind (py_getitem msg ''rpc'') (\<lambda>rpc.
     ebind (py_getitem rpc ''req-uuid'') (\<lambda>u.
     if hashable u then Inr u else Inl PyTypeError))"

fun put_all :: "worker_event \<Rightarrow> pyval list \<Rightarrow> worker \<Rightarrow> worker \<times> effect list \<times> unit result" where
  "put_all we [] st = (st, [], Inr ())"
| "put_all we (u # us) st =
     (case put_queue u we st of
        Inl e \<Rightarrow> (st, [], Inl e)
      | Inr st' \<Rightarrow> (case put_all we us st' of (st'', es, r) \<Rightarrow> (st'', QueuePut u we # es, r)))"

text \<open>
  One round of \<open>handle\<close>. The result is the exception that ends the thread, or whether the event was
  the shutdown.
\<close>

definition handle_event :: "worker_env \<Rightarrow> real \<Rightarrow> worker_event \<Rightarrow> worker \<Rightarrow> worker \<times> effect list \<times> bool result" where
  "handle_event env clock we st =
     (case we of
        IncomingRequest uuid msg \<Rightarrow> (st, [SpawnRpc msg uuid], Inr False)
      | IncomingResponse uuid msg \<Rightarrow>
          (case response_uuid msg of
             Inl _ \<Rightarrow> (st, [], Inr False)
           | Inr u \<Rightarrow>
               if u \<notin> set (wk_req_db st) then (st, [], Inr False)
               else
                 (let st1 = st\<lparr>wk_req_db := removeAll u (wk_req_db st)\<rparr> in
                  case put_queue u we st1 of
                    Inl _ \<Rightarrow> (st1, [], Inr False)
                  | Inr st2 \<Rightarrow> (st2, [QueuePut u we], Inr False)))
      | ConnComplete u status \<Rightarrow>
          if u \<notin> set (wk_req_db st) then (st, [], Inr False)
          else
            (case put_queue u we st of
               Inl _ \<Rightarrow> (st, [], Inr False)
             | Inr st1 \<Rightarrow> (st1, [QueuePut u we], Inr False))
      | PeerLifecycle event \<Rightarrow>
          (case handle_peer_event env clock event st of
             (st1, es, Inl e) \<Rightarrow> (st1, es, Inl e)
           | (st1, es, Inr _) \<Rightarrow> (st1, es, Inr False))
      | ShutdownEvent \<Rightarrow>
          (case put_all we (wk_req_db st) st of
             (st1, es, Inl e) \<Rightarrow> (st1, es, Inl e)
           | (st1, es, Inr _) \<Rightarrow> (st1, es, Inr True)))"

text \<open>The loop: the events of the queue until the shutdown or an exception.\<close>

fun handle_loop :: "worker_env \<Rightarrow> (real \<times> worker_event) list \<Rightarrow> worker \<Rightarrow> worker \<times> effect list \<times> bool result" where
  "handle_loop env [] st = (st, [], Inr False)"
| "handle_loop env ((clock, we) # wes) st =
     (case handle_event env clock we st of
        (st1, es, Inr False) \<Rightarrow> (case handle_loop env wes st1 of (st2, es', r) \<Rightarrow> (st2, es @ es', r))
      | (st1, es, r) \<Rightarrow> (st1, es, r))"

subsection \<open>What the C runtime calls\<close>

text \<open>Each puts an event into the worker's queue, or nothing; \<open>put_request\<close> and \<open>put_response\<close> swallow
  a message that does not load.\<close>

definition put_shutdown :: "worker_event list" where
  "put_shutdown = [ShutdownEvent]"

definition put_request :: "('s, 'w) transport \<Rightarrow> 's \<Rightarrow> 'w option \<Rightarrow> pyval \<Rightarrow> worker_event list" where
  "put_request tp s msg uuid =
     (case make_event tp s 1 EN_DEFW_RC_OK uuid msg [] of Inl _ \<Rightarrow> [] | Inr we \<Rightarrow> [we])"

definition put_response :: "('s, 'w) transport \<Rightarrow> 's \<Rightarrow> 'w option \<Rightarrow> pyval \<Rightarrow> worker_event list" where
  "put_response tp s msg uuid =
     (case make_event tp s 2 EN_DEFW_RC_OK uuid msg [] of Inl _ \<Rightarrow> [] | Inr we \<Rightarrow> [we])"

text \<open>\<open>parse\<close> is the constructor \<open>uuid.UUID\<close>.\<close>

definition put_connect_complete :: "(string \<Rightarrow> pyval result) \<Rightarrow> int \<Rightarrow> string \<Rightarrow> worker_event list result" where
  "put_connect_complete parse status uuid_str = ebind (parse uuid_str) (\<lambda>u. Inr [ConnComplete u status])"

definition PEER_EVENT_TYPES :: "string list" where
  "PEER_EVENT_TYPES = [''PEER_READY'', ''PEER_DEGRADED'', ''PEER_LOST'', ''PEER_REMOVED'']"

definition put_peer_event :: "dict \<Rightarrow> worker_event list result" where
  "put_peer_event event =
     (if \<not> hashable (dget0 event ''event_type'') then Inl PyTypeError
      else if dget0 event ''event_type'' \<notin> PStr ` set PEER_EVENT_TYPES then Inl (DEFwError ''Bad peer event type'')
      else if map_of event (PStr ''peer_handle'') = None then
        Inl (DEFwError ''Peer lifecycle event missing peer_handle'')
      else Inr [PeerLifecycle event])"

definition get_peer_events :: "worker \<Rightarrow> dict list" where
  "get_peer_events st = wk_peer_events st"

subsection \<open>Sending\<close>

text \<open>A message is serialised for the peer; the registrations of its attachments are collected.\<close>

definition encode_msg :: "('s, 'w) transport \<Rightarrow> work_request \<Rightarrow> 's \<Rightarrow> 's \<times> int list \<times> 'w result" where
  "encode_msg tp wr s =
     attach_encode (tp_np tp) (tp_memview tp) (tp_rma tp) (tp_env tp) (tp_dump tp)
       (blk_str (wr_blk_uuid wr)) DEFAULT_ATTACH_THRESHOLD (rpc_msg (wr_msg wr)) s []"

definition send_rsp :: "('s, 'w) transport \<Rightarrow> work_request \<Rightarrow> 's \<Rightarrow> 's \<times> int result" where
  "send_rsp tp wr s =
     (case encode_msg tp wr s of
        (s1, published, Inl e) \<Rightarrow> (s1, Inl e)
      | (s1, published, Inr msg) \<Rightarrow>
          (case tp_send_rsp tp (wr_remote_uuid wr) (wr_blk_uuid wr) msg s1 of
             (s2, rc) \<Rightarrow> (if rc \<noteq> 0 \<and> published \<noteq> [] then attach_discard (tp_rma tp) published s2 else s2, Inr rc)))"

text \<open>\<open>Waiting\<close>: the caller goes on with \<^const>\<open>wait\<close>. \<open>Returned rc\<close>: the pair \<open>(rc, None)\<close>.\<close>

datatype sent = Waiting | Returned int

definition send_req :: "('s, 'w) transport \<Rightarrow> work_request \<Rightarrow> worker \<times> 's \<Rightarrow> (worker \<times> 's) \<times> sent result" where
  "send_req tp wr = (\<lambda>(st, s).
     let st1 = (if wr_blocking wr then add_work_request wr st else st) in
     case encode_msg tp wr s of
       (s1, published, Inl e) \<Rightarrow> ((st1, s1), Inl e)
     | (s1, published, Inr msg) \<Rightarrow>
         (case tp_send_req tp (wr_remote_uuid wr) (wr_blk_uuid wr) msg s1 of
            (s2, rc) \<Rightarrow>
              if rc \<noteq> 0 then
                ((st1, if published \<noteq> [] then attach_discard (tp_rma tp) published s2 else s2),
                 Inl (DEFwCommError ''Sending failed''))
              else ((st1, s2), Inr (if wr_blocking wr then Waiting else Returned rc))))"

definition connect_failure_message :: "(pyval \<Rightarrow> string) \<Rightarrow> endpoint \<Rightarrow> int \<Rightarrow> string option" where
  "connect_failure_message rp ep rc =
     (case defw_rc2str rc of
        None \<Rightarrow> None
      | Some rcs \<Rightarrow>
          Some (''Failed to connect to '' @ py_str rp (ep_name ep) @ '' at '' @
            py_str rp (py_or (ep_hostname ep) (ep_addr ep)) @ '':'' @ py_str rp (ep_listen_port ep) @ '': '' @ rcs @
            (if rc = EN_DEFW_RC_NOT_STARTED then
               ''. DEFw is not started in this process: run it under defwp or defw-python, not a plain python3''
             else if rc = EN_DEFW_RC_NO_LISTENER then
               ''. This process has no DEFw listener: set DEFW_LISTEN_PORT to a free port''
             else '''')))"

definition CONNECTION_OUTBOUND :: pyval where
  "CONNECTION_OUTBOUND = PStr ''OUTBOUND''"

definition connect_to_agent ::
  "(pyval \<Rightarrow> string) \<Rightarrow> ('s, 'w) transport \<Rightarrow> work_request \<Rightarrow> endpoint \<Rightarrow> worker \<times> 's \<Rightarrow> (worker \<times> 's) \<times> sent result" where
  "connect_to_agent rp tp wr ep = (\<lambda>(st, s).
     let st1 = (if wr_blocking wr then add_work_request wr st else st) in
     case remember_connect_target (TObj ep) CONNECTION_OUTBOUND (wk_peers st1) of
       (pt, Inl e) \<Rightarrow> ((st1\<lparr>wk_peers := pt\<rparr>, s), Inl e)
     | (pt, Inr _) \<Rightarrow>
         (case tp_connect tp (is_service ep) ep (wr_uuid wr) s of
            (s1, rc) \<Rightarrow>
              (let st2 = st1\<lparr>wk_peers := pt\<rparr> in
               if rc \<noteq> 0 \<and> rc \<noteq> EN_DEFW_RC_IN_PROGRESS then
                 ((if wr_blocking wr then remove_work_request wr st2 else st2, s1),
                  Inl (DEFwError (case connect_failure_message rp ep rc of None \<Rightarrow> [] | Some m \<Rightarrow> m)))
               else ((st2, s1), Inr (if wr_blocking wr then Waiting else Returned rc)))))"

text \<open>A round of the waiting caller takes the first event of the request's queue.\<close>

definition take_event :: "pyval \<Rightarrow> worker \<Rightarrow> worker \<times> worker_event option" where
  "take_event u st =
     (case map_of (wk_requests st) u of
        None \<Rightarrow> (st, None)
      | Some wr \<Rightarrow>
          (case wr_queue wr of
             Some (we # q) \<Rightarrow>
               (st\<lparr>wk_requests := AList.update u (wr\<lparr>wr_queue := Some q\<rparr>) (wk_requests st)\<rparr>, Some we)
           | _ \<Rightarrow> (st, None)))"

definition new_request :: "work_request \<Rightarrow> worker \<Rightarrow> worker" where
  "new_request wr st = st\<lparr>wk_requests := AList.update (wr_uuid wr) wr (wk_requests st)\<rparr>"

subsection \<open>Waiting comes to an end\<close>

text \<open>A round decides when it reaches the deadline or takes an event other than a completed connection.\<close>

definition decides :: "real \<Rightarrow> poll \<Rightarrow> bool" where
  "decides deadline p \<longleftrightarrow> deadline \<le> pl_now p \<or>
     (case pl_event p of None \<Rightarrow> False | Some (ConnComplete _ _) \<Rightarrow> False | Some _ \<Rightarrow> True)"

lemma wait_loop_late: "d \<le> t \<Longrightarrow> wait_loop d e t ps = Some (Inl (DEFwCommError ''Response timed out''))"
  by (cases ps) auto

lemma wait_loop_ends:
  "\<exists>p \<in> set polls. decides d p \<Longrightarrow> \<exists>r. wait_loop d expected t polls = Some r"
proof (induction d expected t polls rule: wait_loop.induct)
  case (2 d expected t q ps)
  show ?case
  proof (cases "t < d \<and> pl_up q")
    case True
    have tail: "\<exists>r. wait_loop d e (pl_now q) ps = Some r"
      if "\<exists>p \<in> set ps. decides d p \<Longrightarrow> \<exists>r. wait_loop d e (pl_now q) ps = Some r"
        "pl_event q = None \<or> (\<exists>u s. pl_event q = Some (ConnComplete u s))" for e
    proof (cases "d \<le> pl_now q")
      case False
      with that(2) "2.prems" have "\<exists>p \<in> set ps. decides d p" by (auto simp: decides_def)
      then show ?thesis by (rule that(1))
    qed (simp add: wait_loop_late)
    show ?thesis
    proof (cases "pl_event q")
      case None
      with True "2.IH"(1) tail [of expected] show ?thesis by simp
    next
      case (Some we)
      with True "2.IH"(2) tail [of "remove1 3 expected"] show ?thesis
        by (cases we; cases expected) (auto simp: Let_def)
    qed
  qed auto
qed simp

text \<open>
  C29: \<open>wait\<close> terminates. It has returned or raised by the first round that ends at or after the
  deadline, whatever the queue gave before.
\<close>
theorem wait_returns:
  assumes "p \<in> set polls" and "wr_deadline wr \<le> pl_now p"
  shows "\<exists>r. wait wr t polls = Some r"
proof -
  have "\<exists>p \<in> set polls. decides (wr_deadline wr) p" using assms by (auto simp: decides_def)
  from wait_loop_ends [OF this] show ?thesis by (simp add: wait_def)
qed

definition demo_request :: work_request where
  "demo_request = \<lparr>wr_type = 1, wr_uuid = PStr ''u1'', wr_deadline = 5, wr_connect_status = -1,
     wr_remote_uuid = PStr ''r1'', wr_blk_uuid = PStr ''b1'', wr_msg = [(PStr ''req-uuid'', PStr ''u1'')],
     wr_ep = None, wr_expected_events = [2], wr_blocking = True, wr_queue = Some []\<rparr>"

theorem wait_returns_witness:
  "\<exists>r. wait demo_request 0 [\<lparr>pl_up = True, pl_event = None, pl_now = 1\<rparr>,
     \<lparr>pl_up = True, pl_event = None, pl_now = 6\<rparr>] = Some r"
  by (rule wait_returns [of "\<lparr>pl_up = True, pl_event = None, pl_now = 6\<rparr>"]) (simp_all add: demo_request_def)

subsection \<open>Queues\<close>

definition queue_of :: "pyval \<Rightarrow> worker \<Rightarrow> worker_event list option" where
  "queue_of u st = (case map_of (wk_requests st) u of None \<Rightarrow> None | Some wr \<Rightarrow> wr_queue wr)"

definition known :: "worker \<Rightarrow> pyval set" where
  "known st = fst ` set (wk_requests st)"

text \<open>Every registered request exists and has a queue.\<close>

definition wk_inv :: "worker \<Rightarrow> bool" where
  "wk_inv st \<longleftrightarrow> distinct (wk_req_db st) \<and> (\<forall>u \<in> set (wk_req_db st). queue_of u st \<noteq> None)"

text \<open>Events only go to queues: the requests that exist, and whether they have a queue, stay.\<close>

definition same_requests :: "worker \<Rightarrow> worker \<Rightarrow> bool" where
  "same_requests st st' \<longleftrightarrow> known st' = known st \<and> (\<forall>u. queue_of u st' = None \<longleftrightarrow> queue_of u st = None)"

lemma same_requests_refl [simp]: "same_requests st st"
  by (simp add: same_requests_def)

lemma same_requests_trans: "same_requests a b \<Longrightarrow> same_requests b c \<Longrightarrow> same_requests a c"
  by (simp add: same_requests_def)

lemma queue_of_frame [simp]:
  "queue_of u (st\<lparr>wk_req_db := x\<rparr>) = queue_of u st" "queue_of u (st\<lparr>wk_peers := p\<rparr>) = queue_of u st"
  "queue_of u (st\<lparr>wk_peer_events := e\<rparr>) = queue_of u st" "queue_of u (st\<lparr>wk_listeners := l\<rparr>) = queue_of u st"
  "queue_of u (st\<lparr>wk_dirsvc := d, wk_binding_runtime_id := r, wk_binding_peer_handle := h\<rparr>) = queue_of u st"
  by (simp_all add: queue_of_def)

lemma known_frame [simp]:
  "known (st\<lparr>wk_req_db := x\<rparr>) = known st" "known (st\<lparr>wk_peers := p\<rparr>) = known st"
  "known (st\<lparr>wk_peer_events := e\<rparr>) = known st" "known (st\<lparr>wk_listeners := l\<rparr>) = known st"
  "known (st\<lparr>wk_dirsvc := d, wk_binding_runtime_id := r, wk_binding_peer_handle := h\<rparr>) = known st"
  by (simp_all add: known_def)

lemma known_queue: "queue_of u st \<noteq> None \<Longrightarrow> u \<in> known st"
  by (force simp: queue_of_def known_def split: option.splits dest: map_of_SomeD)

lemma keys_alist_update: "fst ` set (AList.update k v d) = insert k (fst ` set d)"
  by (induction d) auto

lemma put_queue_Inr:
  assumes "put_queue u we st = Inr st'"
  shows "\<exists>q. queue_of u st = Some q \<and> (\<forall>v. queue_of v st' = (if v = u then Some (q @ [we]) else queue_of v st)) \<and>
    known st' = known st \<and> wk_req_db st' = wk_req_db st"
proof -
  from assms obtain wr q where w: "map_of (wk_requests st) u = Some wr" "wr_queue wr = Some q"
      "st' = st\<lparr>wk_requests := AList.update u (wr\<lparr>wr_queue := Some (q @ [we])\<rparr>) (wk_requests st)\<rparr>"
    by (auto simp: put_queue_def split: option.splits)
  moreover have "u \<in> known st" using w by (intro known_queue) (simp add: queue_of_def)
  ultimately show ?thesis by (auto simp: queue_of_def known_def keys_alist_update)
qed

lemma put_queue_same: "put_queue u we st = Inr st' \<Longrightarrow> same_requests st st' \<and> wk_req_db st' = wk_req_db st"
  by (drule put_queue_Inr, elim exE conjE, simp add: same_requests_def)

lemma put_queue_ok: "queue_of u st \<noteq> None \<Longrightarrow> \<exists>st'. put_queue u we st = Inr st'"
  by (auto simp: put_queue_def queue_of_def split: option.splits)

lemma put_failed_same: "put_failed we us st = (st', es) \<Longrightarrow> same_requests st st' \<and> wk_req_db st' = wk_req_db st"
proof (induction we us st arbitrary: st' es rule: put_failed.induct)
  case (2 we u us st)
  show ?case
  proof (cases "put_queue u we st")
    case (Inl e)
    with "2.IH"(1) [OF Inl, of st' es] "2.prems" show ?thesis by simp
  next
    case (Inr st1)
    obtain st2 es2 where s2: "put_failed we us st1 = (st2, es2)" by (cases "put_failed we us st1")
    with Inr "2.prems" have "st' = st2" by simp
    with "2.IH"(2) [OF Inr s2] put_queue_same [OF Inr] show ?thesis
      by (metis same_requests_trans)
  qed
qed simp

lemma put_failed_queue:
  "put_failed we us st = (st', es) \<Longrightarrow> distinct us \<Longrightarrow>
     queue_of v st' = (if v \<in> set us then map_option (\<lambda>q. q @ [we]) (queue_of v st) else queue_of v st)"
proof (induction we us st arbitrary: st' es rule: put_failed.induct)
  case (2 we u us st)
  show ?case
  proof (cases "put_queue u we st")
    case (Inl e)
    then have "queue_of u st = None" using put_queue_ok [of u st we] by (cases "queue_of u st") auto
    with Inl "2.IH"(1) [OF Inl, of st' es] "2.prems" show ?thesis by simp
  next
    case (Inr st1)
    obtain st2 es2 where s2: "put_failed we us st1 = (st2, es2)" by (cases "put_failed we us st1")
    from put_queue_Inr [OF Inr] obtain q where "queue_of u st = Some q"
        "\<forall>v. queue_of v st1 = (if v = u then Some (q @ [we]) else queue_of v st)" by blast
    with "2.IH"(2) [OF Inr s2] "2.prems" Inr s2 show ?thesis by simp
  qed
qed simp

lemma put_all_ok:
  assumes "\<forall>u \<in> set us. queue_of u st \<noteq> None"
  shows "\<exists>st' es. put_all we us st = (st', es, Inr ()) \<and> es = map (\<lambda>u. QueuePut u we) us \<and>
    same_requests st st' \<and> wk_req_db st' = wk_req_db st \<and>
    (distinct us \<longrightarrow> (\<forall>v. queue_of v st' = (if v \<in> set us then map_option (\<lambda>q. q @ [we]) (queue_of v st) else queue_of v st)))"
  using assms
proof (induction us arbitrary: st)
  case (Cons u us)
  then obtain st1 where s1: "put_queue u we st = Inr st1" using put_queue_ok [of u st we] by auto
  from put_queue_same [OF s1] have "\<forall>u \<in> set us. queue_of u st1 \<noteq> None"
    using Cons.prems by (auto simp: same_requests_def)
  from Cons.IH [OF this] obtain st2 es2 where s2: "put_all we us st1 = (st2, es2, Inr ())"
    "es2 = map (\<lambda>u. QueuePut u we) us" "same_requests st1 st2" "wk_req_db st2 = wk_req_db st1"
    "distinct us \<longrightarrow> (\<forall>v. queue_of v st2 = (if v \<in> set us then map_option (\<lambda>q. q @ [we]) (queue_of v st1) else queue_of v st1))"
    by blast
  from put_queue_Inr [OF s1] obtain q where q: "queue_of u st = Some q"
    "\<forall>v. queue_of v st1 = (if v = u then Some (q @ [we]) else queue_of v st)" by blast
  have "put_all we (u # us) st = (st2, map (\<lambda>u. QueuePut u we) (u # us), Inr ())"
    using s1 s2(1,2) by simp
  moreover have "same_requests st st2" "wk_req_db st2 = wk_req_db st"
    using put_queue_same [OF s1] s2(3,4) by (auto intro: same_requests_trans)
  moreover have "distinct (u # us) \<longrightarrow> (\<forall>v. queue_of v st2 =
      (if v \<in> set (u # us) then map_option (\<lambda>q. q @ [we]) (queue_of v st) else queue_of v st))"
    using s2(5) q by simp
  ultimately show ?case by blast
qed simp

text \<open>The number of responses among the events an effect list puts into the queue of a request.\<close>

fun is_answer :: "pyval \<Rightarrow> effect \<Rightarrow> bool" where
  "is_answer u (QueuePut v (IncomingResponse _ _)) = (u = v)"
| "is_answer u _ = False"

definition answers :: "pyval \<Rightarrow> effect list \<Rightarrow> nat" where
  "answers u es = length (filter (is_answer u) es)"

lemma answers_simps [simp]:
  "answers u [] = 0" "answers u (e # es) = (if is_answer u e then Suc (answers u es) else answers u es)"
  "answers u (es @ es') = answers u es + answers u es'"
  by (simp_all add: answers_def)

lemma answers_put_failed: "put_failed (PeerLifecycle ev) us st = (st', es) \<Longrightarrow> answers u es = 0"
  by (induction us arbitrary: st es) (auto split: sum.splits prod.splits)

lemma answers_listeners [simp]: "answers u (notify_peer_event_listeners ev st) = 0"
  by (simp add: notify_peer_event_listeners_def answers_def comp_def)

lemma answers_shutdown [simp]: "answers u (map (\<lambda>u. QueuePut u ShutdownEvent) us) = 0"
  by (induction us) auto

lemma clear_dirsvc_frame [simp]:
  "wk_requests (clear_dirsvc_peer me ev st) = wk_requests st"
  "wk_req_db (clear_dirsvc_peer me ev st) = wk_req_db st"
  "wk_listeners (clear_dirsvc_peer me ev st) = wk_listeners st"
  "wk_peers (clear_dirsvc_peer me ev st) = wk_peers st"
  by (simp_all add: clear_dirsvc_peer_def Let_def)

lemma queue_of_clear [simp]: "queue_of u (clear_dirsvc_peer me ev st) = queue_of u st"
  by (simp add: queue_of_def)

lemma known_clear [simp]: "known (clear_dirsvc_peer me ev st) = known st"
  by (simp add: known_def)

text \<open>Handling an event shrinks \<open>req_db\<close>, and answers a registered request at most once.\<close>

definition answers_registered :: "worker \<Rightarrow> effect list \<Rightarrow> worker \<Rightarrow> bool" where
  "answers_registered st es st' \<longleftrightarrow> same_requests st st' \<and> (\<exists>P. wk_req_db st' = filter P (wk_req_db st)) \<and>
     (\<forall>u. answers u es = 0 \<or> answers u es = 1 \<and> u \<in> set (wk_req_db st) \<and> u \<notin> set (wk_req_db st'))"

lemma filter_self: "\<exists>P. xs = filter P xs"
  by (rule exI [of _ "\<lambda>_. True"]) simp

lemma fail_pending_answers:
  "fail_pending_peer_requests rp ev st = (st', es) \<Longrightarrow>
     same_requests st st' \<and> (\<exists>P. wk_req_db st' = filter P (wk_req_db st)) \<and> (\<forall>u. answers u es = 0)"
  by (auto simp: fail_pending_peer_requests_def Let_def answers_put_failed same_requests_def
      split: if_splits dest!: put_failed_same) (rule filter_self)

lemma handle_peer_event_answers:
  assumes "handle_peer_event env clock ev st = (st', es, r)"
  shows "answers_registered st es st' \<and> (\<forall>e. r = Inl e \<longrightarrow> snd (apply_event (we_parent env) clock ev (wk_peers st)) = Inl e)"
proof -
  obtain pt res where a: "apply_event (we_parent env) clock ev (wk_peers st) = (pt, res)"
    by (cases "apply_event (we_parent env) clock ev (wk_peers st)")
  show ?thesis
  proof (cases res)
    case (Inl e)
    with assms a show ?thesis
      by (auto simp: handle_peer_event_def answers_registered_def same_requests_def intro: exI [of _ "\<lambda>_. True"])
  next
    case (Inr pr)
    let ?st0 = "st\<lparr>wk_peers := pt, wk_peer_events := wk_peer_events st @ [ev]\<rparr>"
    obtain st1 es1 where f: "fail_pending_peer_requests (we_str env) ev ?st0 = (st1, es1)"
      by (cases "fail_pending_peer_requests (we_str env) ev ?st0")
    from assms have "st' = clear_dirsvc_peer (we_me_dirsvc env) ev st1" "r = Inr ()" "answers u es = answers u es1" for u
      by (auto simp: handle_peer_event_def a Inr f Let_def split: option.splits)
    with fail_pending_answers [OF f] show ?thesis
      by (auto simp: answers_registered_def same_requests_def)
  qed
qed

lemma handle_event_answers:
  assumes "wk_inv st" and "handle_event env clock we st = (st', es, r)"
  shows "answers_registered st es st' \<and>
    (\<forall>e. r = Inl e \<longrightarrow> (\<exists>ev. we = PeerLifecycle ev \<and> snd (apply_event (we_parent env) clock ev (wk_peers st)) = Inl e))"
proof (cases we)
  case (IncomingRequest v msg)
  with assms(2) show ?thesis by (auto simp: handle_event_def answers_registered_def filter_self)
next
  case (IncomingResponse v msg)
  show ?thesis
  proof (cases "\<exists>u. response_uuid msg = Inr u \<and> u \<in> set (wk_req_db st)")
    case False
    with assms(2) IncomingResponse show ?thesis
      by (auto simp: handle_event_def answers_registered_def filter_self split: sum.splits)
  next
    case True
    then obtain u where u: "response_uuid msg = Inr u" "u \<in> set (wk_req_db st)" by blast
    let ?st1 = "st\<lparr>wk_req_db := removeAll u (wk_req_db st)\<rparr>"
    have "queue_of u ?st1 \<noteq> None" using assms(1) u(2) by (simp add: wk_inv_def)
    then obtain st2 where s2: "put_queue u we ?st1 = Inr st2" using put_queue_ok by blast
    with assms(2) IncomingResponse u have "st' = st2" "es = [QueuePut u we]" "r = Inr False"
      by (simp_all add: handle_event_def Let_def)
    with put_queue_same [OF s2] u IncomingResponse show ?thesis
      by (auto simp: answers_registered_def same_requests_def removeAll_filter_not_eq)
  qed
next
  case (ConnComplete u status)
  with assms(2) show ?thesis
    by (auto simp: handle_event_def answers_registered_def filter_self split: if_splits sum.splits dest!: put_queue_same)
next
  case ShutdownEvent
  have "\<forall>u \<in> set (wk_req_db st). queue_of u st \<noteq> None" using assms(1) by (simp add: wk_inv_def)
  from put_all_ok [OF this, of we] assms(2) ShutdownEvent show ?thesis
    by (auto simp: handle_event_def answers_registered_def filter_self)
next
  case (PeerLifecycle ev)
  obtain st1 es1 r1 where h: "handle_peer_event env clock ev st = (st1, es1, r1)"
    by (cases "handle_peer_event env clock ev st")
  with handle_peer_event_answers [OF h] assms(2) PeerLifecycle show ?thesis
    by (auto simp: handle_event_def split: sum.splits)
qed

lemma wk_inv_known: "wk_inv st \<Longrightarrow> u \<notin> known st \<Longrightarrow> u \<notin> set (wk_req_db st)"
  using known_queue [of u st] by (auto simp: wk_inv_def)

lemma wk_inv_shrink:
  "wk_inv st \<Longrightarrow> same_requests st st' \<Longrightarrow> wk_req_db st' = filter P (wk_req_db st) \<Longrightarrow> wk_inv st'"
  by (auto simp: wk_inv_def same_requests_def)

subsection \<open>Runs\<close>

text \<open>
  The steps of the worker with the effects they have: a request with a new uuid is created and sent
  or connected, an event is handled, a waiting caller takes an event, listeners and the binding of
  the directory service change.
\<close>

inductive wk_step :: "worker_env \<Rightarrow> ('s, 'w) transport \<Rightarrow> worker \<Rightarrow> effect list \<Rightarrow> worker \<Rightarrow> bool" for env tp where
  step_send: "u \<notin> known st \<Longrightarrow> make_request u now timeout WR_SEND_MSG ru bu msg None b = Inr wr \<Longrightarrow>
    send_req tp wr (new_request wr st, s) = ((st', s'), res) \<Longrightarrow> wk_step env tp st [] st'"
| step_connect: "u \<notin> known st \<Longrightarrow> make_request u now timeout WR_CONNECT PNone PNone [] (Some ep) b = Inr wr \<Longrightarrow>
    connect_to_agent (we_str env) tp wr ep (new_request wr st, s) = ((st', s'), res) \<Longrightarrow> wk_step env tp st [] st'"
| step_handle: "handle_event env clock we st = (st', es, r) \<Longrightarrow> wk_step env tp st es st'"
| step_take: "take_event u st = (st', ev) \<Longrightarrow> wk_step env tp st [] st'"
| step_listen: "add_peer_event_listener is_callable l st = (st', lr) \<Longrightarrow> wk_step env tp st [] st'"
| step_unlisten: "wk_step env tp st [] (remove_peer_event_listener l st)"
| step_bind: "bind_end up c pr st = (st', act) \<Longrightarrow> wk_step env tp st [] st'"

inductive wk_run :: "worker_env \<Rightarrow> ('s, 'w) transport \<Rightarrow> effect list \<Rightarrow> worker \<Rightarrow> bool" for env tp where
  run_start: "wk_run env tp [] init_worker"
| run_step: "wk_run env tp es st \<Longrightarrow> wk_step env tp st es' st' \<Longrightarrow> wk_run env tp (es @ es') st'"

lemma make_request_fields:
  "make_request u now timeout ty ru bu msg ep b = Inr wr \<Longrightarrow>
     wr_uuid wr = u \<and> wr_blocking wr = b \<and> wr_queue wr = (if b then Some [] else None) \<and> wr_type wr = ty"
  by (auto simp: make_request_def Let_def split: if_splits)

lemma send_req_worker:
  "send_req tp wr (st, s) = ((st', s'), res) \<Longrightarrow> st' = (if wr_blocking wr then add_work_request wr st else st)"
  by (auto simp: send_req_def Let_def split: prod.splits sum.splits if_splits)

lemma connect_worker:
  "connect_to_agent rp tp wr ep (st, s) = ((st', s'), res) \<Longrightarrow>
     wk_requests st' = wk_requests st \<and>
     (wk_req_db st' = wk_req_db (if wr_blocking wr then add_work_request wr st else st) \<or>
      wk_req_db st' = removeAll (wr_uuid wr) (wk_req_db (add_work_request wr st)))"
  by (auto simp: connect_to_agent_def Let_def remove_work_request_def add_work_request_def
      split: prod.splits sum.splits if_splits)

text \<open>What holds after a run: answered requests are no longer registered, and unknown ones were never answered.\<close>

definition run_inv :: "effect list \<Rightarrow> worker \<Rightarrow> bool" where
  "run_inv es st \<longleftrightarrow> wk_inv st \<and> (\<forall>u. answers u es \<le> 1 \<and>
     (u \<in> set (wk_req_db st) \<or> u \<notin> known st \<longrightarrow> answers u es = 0))"

lemma run_inv_new:
  assumes "run_inv es st" and "u \<notin> known st"
    and "known st' = insert u (known st)" and "\<And>v. v \<noteq> u \<Longrightarrow> queue_of v st' = queue_of v st"
    and "distinct (wk_req_db st')" and "set (wk_req_db st') \<subseteq> insert u (set (wk_req_db st))"
    and "u \<in> set (wk_req_db st') \<Longrightarrow> queue_of u st' \<noteq> None"
  shows "run_inv es st'"
proof -
  have "queue_of v st' \<noteq> None" if "v \<in> set (wk_req_db st')" for v
    using assms that by (cases "v = u") (auto simp: run_inv_def wk_inv_def)
  with assms show ?thesis by (auto simp: run_inv_def wk_inv_def)
qed

lemma new_request_facts [simp]:
  "known (new_request wr st) = insert (wr_uuid wr) (known st)"
  "queue_of v (new_request wr st) = (if v = wr_uuid wr then wr_queue wr else queue_of v st)"
  "wk_req_db (new_request wr st) = wk_req_db st"
  by (simp_all add: known_def queue_of_def new_request_def keys_alist_update)

lemma add_work_request_facts [simp]:
  "known (add_work_request wr st) = known st" "queue_of v (add_work_request wr st) = queue_of v st"
  "wk_requests (add_work_request wr st) = wk_requests st"
  "distinct (wk_req_db st) \<Longrightarrow> distinct (wk_req_db (add_work_request wr st))"
  "set (wk_req_db (add_work_request wr st)) = insert (wr_uuid wr) (set (wk_req_db st))"
  by (auto simp: known_def queue_of_def add_work_request_def)

lemma run_inv_same:
  "run_inv es st \<Longrightarrow> wk_requests st' = wk_requests st \<Longrightarrow> wk_req_db st' = wk_req_db st \<Longrightarrow> run_inv es st'"
  by (simp add: run_inv_def wk_inv_def queue_of_def known_def)

lemma run_inv_handle:
  assumes "run_inv es st" and "handle_event env clock we st = (st', es', r)"
  shows "run_inv (es @ es') st'"
proof -
  from assms(1) have inv: "wk_inv st" by (simp add: run_inv_def)
  have "answers_registered st es' st'" using handle_event_answers [OF inv assms(2)] by (rule conjunct1)
  then obtain P where same: "same_requests st st'" and db: "wk_req_db st' = filter P (wk_req_db st)"
    and an: "\<forall>u. answers u es' = 0 \<or> answers u es' = 1 \<and> u \<in> set (wk_req_db st) \<and> u \<notin> set (wk_req_db st')"
    unfolding answers_registered_def by (elim conjE exE) (rule that)
  have "wk_inv st'" by (rule wk_inv_shrink [OF inv same db])
  moreover have "answers u (es @ es') \<le> 1 \<and>
      (u \<in> set (wk_req_db st') \<or> u \<notin> known st' \<longrightarrow> answers u (es @ es') = 0)" for u
  proof -
    have "u \<in> set (wk_req_db st) \<Longrightarrow> u \<in> known st"
      using inv by (intro known_queue) (simp add: wk_inv_def)
    with spec [OF an, of u] assms(1) same db show ?thesis by (auto simp: run_inv_def same_requests_def)
  qed
  ultimately show ?thesis by (simp add: run_inv_def)
qed

lemma take_event_facts:
  assumes "take_event u st = (st', ev)"
  shows "same_requests st st' \<and> wk_req_db st' = wk_req_db st"
proof (cases ev)
  case None
  with assms have "st' = st" by (auto simp: take_event_def split: option.splits list.splits)
  then show ?thesis by simp
next
  case (Some we)
  with assms obtain wr q where w: "map_of (wk_requests st) u = Some wr" "wr_queue wr = Some (we # q)"
      "st' = st\<lparr>wk_requests := AList.update u (wr\<lparr>wr_queue := Some q\<rparr>) (wk_requests st)\<rparr>"
    by (auto simp: take_event_def split: option.splits list.splits)
  moreover have "u \<in> known st" using w by (intro known_queue) (simp add: queue_of_def)
  ultimately show ?thesis by (auto simp: same_requests_def queue_of_def known_def keys_alist_update)
qed

lemma run_inv_known: "run_inv es st \<Longrightarrow> u \<notin> known st \<Longrightarrow> u \<notin> set (wk_req_db st)"
  by (simp add: run_inv_def wk_inv_known)

lemma run_inv_step:
  assumes "run_inv es st" and "wk_step env tp st es' st'"
  shows "run_inv (es @ es') st'"
  using assms(2)
proof cases
  case (step_send u now timeout ru bu msg b wr s s' res)
  have "run_inv es st'"
    by (rule run_inv_new [OF assms(1) step_send(2)])
      (use assms(1) send_req_worker [OF step_send(4)] make_request_fields [OF step_send(3)]
          run_inv_known [OF assms(1) step_send(2)]
        in \<open>auto simp: run_inv_def wk_inv_def split: if_splits\<close>)
  with step_send(1) show ?thesis by simp
next
  case (step_connect u now timeout ep b wr s s' res)
  note f = connect_worker [OF step_connect(4)] make_request_fields [OF step_connect(3)]
  have q: "queue_of v st' = queue_of v (new_request wr st)" "known st' = known (new_request wr st)" for v
    using f(1) by (simp_all add: queue_of_def known_def)
  have "run_inv es st'"
    by (rule run_inv_new [OF assms(1) step_connect(2)])
      (use assms(1) f q run_inv_known [OF assms(1) step_connect(2)] in \<open>auto simp: run_inv_def wk_inv_def distinct_removeAll split: if_splits\<close>)
  with step_connect(1) show ?thesis by simp
next
  case (step_handle clock we r)
  then show ?thesis using run_inv_handle [OF assms(1)] by blast
next
  case (step_take u ev)
  with take_event_facts [OF step_take(2)] assms(1) show ?thesis
    by (auto simp: run_inv_def wk_inv_def same_requests_def)
next
  case (step_listen is_callable l lr)
  then show ?thesis
    using run_inv_same [OF assms(1), of st'] by (auto simp: add_peer_event_listener_def split: if_splits)
next
  case (step_unlisten l)
  then show ?thesis
    using run_inv_same [OF assms(1), of st'] by (simp add: remove_peer_event_listener_def)
next
  case (step_bind up c pr act)
  then show ?thesis
    using run_inv_same [OF assms(1), of st'] by (auto simp: bind_end_def split: sum.splits bool.splits)
qed

lemma wk_run_inv: "wk_run env tp es st \<Longrightarrow> run_inv es st"
proof (induction rule: wk_run.induct)
  case run_start
  then show ?case by (simp add: run_inv_def wk_inv_def init_worker_def)
qed (rule run_inv_step)

subsection \<open>Properties of the worker\<close>

lemma handle_event_matched:
  assumes "handle_event env clock we st = (st', es, r)" and "QueuePut u (IncomingResponse v msg) \<in> set es"
  shows "response_uuid msg = Inr u"
proof -
  have pf: "QueuePut u (IncomingResponse v msg) \<notin> set es'" if "put_failed (PeerLifecycle ev) us s0 = (s1, es')" for ev us s0 s1 es'
    using that by (induction us arbitrary: s0 es') (auto split: sum.splits prod.splits)
  have pa: "QueuePut u (IncomingResponse v msg) \<notin> set es'" if "put_all ShutdownEvent us s0 = (s1, es', r')" for us s0 s1 es' r'
    using that by (induction us arbitrary: s0 es') (auto split: sum.splits prod.splits)
  from assms pf pa show ?thesis
    by (auto simp: handle_event_def handle_peer_event_def fail_pending_peer_requests_def Let_def
        notify_peer_event_listeners_def split: worker_event.splits sum.splits if_splits prod.splits option.splits)
qed

text \<open>
  C8: responses are matched and delivered once. In every run of the worker the queue of a request
  gets at most one response, and only one that carries the uuid of the request; a second response
  with the same uuid, a late one and one for an unknown request are dropped.
\<close>
theorem response_at_most_once:
  assumes "wk_run env tp es st"
  shows "answers u es \<le> 1 \<and> (\<forall>v msg. QueuePut u (IncomingResponse v msg) \<in> set es \<longrightarrow> response_uuid msg = Inr u)"
proof -
  have "response_uuid msg = Inr u" if "QueuePut u (IncomingResponse v msg) \<in> set es" for v msg
    using assms that
    by (induction rule: wk_run.induct) (auto elim!: wk_step.cases dest: handle_event_matched)
  with wk_run_inv [OF assms] show ?thesis by (auto simp: run_inv_def)
qed

definition demo_transport :: "(unit, pyval) transport" where
  "demo_transport = \<lparr>tp_np = None, tp_memview = (\<lambda>_. Inl PyTypeError), tp_rma = None, tp_env = (\<lambda>_. None),
     tp_dump = (\<lambda>v. v), tp_load = Inr, tp_send_req = (\<lambda>_ _ _ s. (s, 0)), tp_send_rsp = (\<lambda>_ _ _ s. (s, 0)),
     tp_connect = (\<lambda>_ _ _ s. (s, 0))\<rparr>"

definition demo_env :: worker_env where
  "demo_env = \<lparr>we_me_dirsvc = False, we_parent = \<lparr>pi_name = [], pi_hostname = [], pi_port = 0\<rparr>, we_str = (\<lambda>_. [])\<rparr>"

definition demo_worker :: worker where
  "demo_worker = init_worker\<lparr>wk_req_db := [PStr ''u1''], wk_requests := [(PStr ''u1'', demo_request)]\<rparr>"

definition demo_response :: worker_event where
  "demo_response = IncomingResponse (PStr ''b1'') (rpc_msg [(PStr ''req-uuid'', PStr ''u1'')])"

lemma demo_worker_run: "wk_run demo_env demo_transport [] demo_worker"
proof -
  have m: "make_request (PStr ''u1'') 0 5 WR_SEND_MSG (PStr ''r1'') (PStr ''b1'') [] None True = Inr demo_request"
    by (simp add: make_request_def WR_SEND_MSG_def demo_request_def Let_def dset_def)
  have "send_req demo_transport demo_request (new_request demo_request init_worker, ()) = ((demo_worker, ()), Inr Waiting)"
    by (simp add: send_req_def encode_msg_def attach_encode_def extract_attachments_def demo_request_def
        demo_transport_def demo_worker_def new_request_def init_worker_def add_work_request_def rpc_msg_def
        DEFAULT_ATTACH_THRESHOLD_def Let_def)
  from wk_step.step_send [OF _ m this] have "wk_step demo_env demo_transport init_worker [] demo_worker"
    by (simp add: known_def init_worker_def)
  from run_step [OF run_start this] show ?thesis by simp
qed

theorem response_at_most_once_witness:
  "\<exists>es st. wk_run demo_env demo_transport es st \<and> es = [QueuePut (PStr ''u1'') demo_response] \<and>
     answers (PStr ''u1'') es \<le> 1"
proof -
  obtain st' where "handle_event demo_env 0 demo_response demo_worker = (st', [QueuePut (PStr ''u1'') demo_response], Inr False)"
    by (simp add: handle_event_def demo_response_def demo_worker_def response_uuid_def put_queue_def
        demo_request_def rpc_msg_def Let_def)
  from run_step [OF demo_worker_run step_handle [OF this]]
  have "wk_run demo_env demo_transport [QueuePut (PStr ''u1'') demo_response] st'" by simp
  with response_at_most_once [OF this, of "PStr ''u1''"] show ?thesis by blast
qed

text \<open>
  C9: the worker thread survives. In every reachable state the handling of an event raises only if
  the event is a life-cycle event and the peer table raises on it; in particular the shutdown always
  finds a queue for every registered request.
\<close>
theorem worker_survives:
  assumes "wk_run env tp es st" and "handle_event env clock we st = (st', es', Inl e)"
  shows "\<exists>ev. we = PeerLifecycle ev \<and> snd (apply_event (we_parent env) clock ev (wk_peers st)) = Inl e"
proof -
  have "wk_inv st" using wk_run_inv [OF assms(1)] by (simp add: run_inv_def)
  from handle_event_answers [OF this assms(2)] show ?thesis by blast
qed

theorem worker_survives_witness:
  "\<exists>ev. PeerLifecycle [(PStr ''peer_handle'', PList [PInt 1])] = PeerLifecycle ev \<and>
     snd (apply_event (we_parent demo_env) 0 ev (wk_peers demo_worker)) = Inl PyTypeError"
proof -
  obtain st' es' where "handle_event demo_env 0 (PeerLifecycle [(PStr ''peer_handle'', PList [PInt 1])]) demo_worker
      = (st', es', Inl PyTypeError)"
    by (simp add: handle_event_def handle_peer_event_def apply_event_def Let_def)
  from worker_survives [OF demo_worker_run this] show ?thesis .
qed

text \<open>
  C10: the shutdown wakes everyone. Handling the shutdown event ends the loop without an exception and
  appends it to the queue of every registered request, and a caller that polls such a queue returns.
\<close>
theorem shutdown_wakes_waiters:
  assumes "wk_run env tp es st"
  shows "\<exists>st' es'. handle_event env clock ShutdownEvent st = (st', es', Inr True) \<and>
    (\<forall>u \<in> set (wk_req_db st). \<exists>q. queue_of u st' = Some (q @ [ShutdownEvent]) \<and>
       (\<forall>wr polls t. map pl_event polls = map Some (q @ [ShutdownEvent]) \<longrightarrow> (\<exists>r. wait wr t polls = Some r)))"
proof -
  have inv: "distinct (wk_req_db st)" "\<forall>u \<in> set (wk_req_db st). queue_of u st \<noteq> None"
    using wk_run_inv [OF assms] by (auto simp: run_inv_def wk_inv_def)
  from put_all_ok [OF inv(2), of ShutdownEvent] inv(1) obtain st' es' where
    p: "put_all ShutdownEvent (wk_req_db st) st = (st', es', Inr ())"
      "\<forall>v. queue_of v st' = (if v \<in> set (wk_req_db st) then map_option (\<lambda>q. q @ [ShutdownEvent]) (queue_of v st) else queue_of v st)"
    by blast
  have ends: "\<exists>r. wait wr t polls = Some r" if "map pl_event polls = map Some (q @ [ShutdownEvent])" for q wr polls t
  proof -
    have "Some ShutdownEvent \<in> set (map pl_event polls)" unfolding that by simp
    then obtain p where "p \<in> set polls" "pl_event p = Some ShutdownEvent" by force
    then have "\<exists>p \<in> set polls. decides (wr_deadline wr) p"
      by (intro bexI [of _ p]) (simp_all add: decides_def)
    from wait_loop_ends [OF this] show ?thesis by (simp add: wait_def)
  qed
  have "\<exists>q. queue_of u st' = Some (q @ [ShutdownEvent])" if "u \<in> set (wk_req_db st)" for u
    using that inv(2) p(2) by auto
  moreover have "handle_event env clock ShutdownEvent st = (st', es', Inr True)"
    using p(1) by (simp add: handle_event_def)
  ultimately show ?thesis using ends by meson
qed

theorem shutdown_wakes_waiters_witness:
  "\<exists>st' es' q. handle_event demo_env 0 ShutdownEvent demo_worker = (st', es', Inr True) \<and>
     queue_of (PStr ''u1'') st' = Some (q @ [ShutdownEvent])"
  using shutdown_wakes_waiters [OF demo_worker_run, of 0]
  by (auto simp: demo_worker_def)

text \<open>
  C4: a lost peer releases its callers. When the loss of a peer is handled, every registered request
  that targets the peer is removed and finds the loss in its queue, where \<open>wait\<close> raises on it; every
  other registered request stays registered and its queue is untouched.
\<close>
theorem lost_peer_releases_waiters:
  assumes "wk_run env tp es st" and "is_lost ev"
    and "handle_event env clock (PeerLifecycle ev) st = (st', es', Inr b)" and "u \<in> set (wk_req_db st)"
  shows "if targets (we_str env) ev st u
    then u \<notin> set (wk_req_db st') \<and> queue_of u st' = map_option (\<lambda>q. q @ [PeerLifecycle ev]) (queue_of u st)
    else u \<in> set (wk_req_db st') \<and> queue_of u st' = queue_of u st"
proof -
  obtain pt res where a: "apply_event (we_parent env) clock ev (wk_peers st) = (pt, res)"
    by (cases "apply_event (we_parent env) clock ev (wk_peers st)")
  let ?st0 = "st\<lparr>wk_peers := pt, wk_peer_events := wk_peer_events st @ [ev]\<rparr>"
  let ?db = "filter (\<lambda>u. \<not> targets (we_str env) ev st u) (wk_req_db st)"
  have t: "targets (we_str env) ev ?st0 = targets (we_str env) ev st"
    by (simp add: targets_def fun_eq_iff)
  obtain st1 es1 where f: "put_failed (PeerLifecycle ev) (filter (targets (we_str env) ev st) (wk_req_db st))
      (?st0\<lparr>wk_req_db := ?db\<rparr>) = (st1, es1)" by fastforce
  then have fp: "fail_pending_peer_requests (we_str env) ev ?st0 = (st1, es1)"
    using assms(2) by (simp add: fail_pending_peer_requests_def t Let_def)
  from assms(3) a fp have st': "st' = clear_dirsvc_peer (we_me_dirsvc env) ev st1"
    by (cases res) (auto simp: handle_event_def handle_peer_event_def Let_def)
  have "distinct (wk_req_db st)" using wk_run_inv [OF assms(1)] by (simp add: run_inv_def wk_inv_def)
  with put_failed_queue [OF f, of u] put_failed_same [OF f] assms(4) show ?thesis
    by (simp add: st')
qed

definition demo_loss :: dict where
  "demo_loss = [(PStr ''event_type'', PStr ''PEER_LOST''), (PStr ''peer_handle'', PStr ''b1''),
     (PStr ''remote_runtime_id'', PStr ''r1'')]"

theorem lost_peer_releases_waiters_witness:
  "\<exists>st' es'. handle_event demo_env 0 (PeerLifecycle demo_loss) demo_worker = (st', es', Inr False) \<and>
     PStr ''u1'' \<notin> set (wk_req_db st') \<and> queue_of (PStr ''u1'') st' = Some [PeerLifecycle demo_loss]"
proof -
  have "snd (snd (handle_event demo_env 0 (PeerLifecycle demo_loss) demo_worker)) = Inr False"
    by (simp add: handle_event_def handle_peer_event_def apply_event_def Let_def demo_loss_def demo_worker_def
        init_worker_def init_peers_def split: prod.splits)
  then obtain st' es' where h: "handle_event demo_env 0 (PeerLifecycle demo_loss) demo_worker = (st', es', Inr False)"
    by (metis prod.collapse)
  have "targets (we_str demo_env) demo_loss demo_worker (PStr ''u1'')"
    by (simp add: targets_def demo_worker_def work_request_targets_peer_def demo_request_def demo_loss_def
        WR_SEND_MSG_def py_or_def py_mem_def Let_def)
  moreover have "is_lost demo_loss" by (simp add: is_lost_def demo_loss_def)
  moreover have "PStr ''u1'' \<in> set (wk_req_db demo_worker)" "queue_of (PStr ''u1'') demo_worker = Some []"
    by (simp_all add: demo_worker_def queue_of_def demo_request_def)
  ultimately show ?thesis
    using h lost_peer_releases_waiters [OF demo_worker_run _ h, of "PStr ''u1''"] by auto
qed

text \<open>
  the directory service is bound to a live peer only, and unbound when it is lost. A binding that
  is made names a peer that the table holds as a callable directory service with that runtime; and
  once the loss of the bound directory service is handled, there is no binding.
\<close>
theorem dirsvc_binding_live:
  assumes "is_lost ev" and "is_dirsvc_peer_event ev" and "\<not> we_me_dirsvc env"
    and "dget0 ev ''remote_runtime_id'' = wk_binding_runtime_id st \<or> \<not> truthy (dget0 ev ''remote_runtime_id'')"
    and "dget0 ev ''peer_handle'' = wk_binding_peer_handle st"
    and "py_eq (wk_binding_runtime_id st) (wk_binding_runtime_id st)"
    and "py_eq (wk_binding_peer_handle st) (wk_binding_peer_handle st)"
    and "handle_event env clock (PeerLifecycle ev) st = (st1, es, Inr b)"
  shows "wk_dirsvc st1 = PNone \<and>
    (\<forall>up obj r st2 act. bind_end up (Inr obj) r st1 = (st2, act) \<and> wk_dirsvc st2 \<noteq> PNone \<longrightarrow>
       (\<exists>cur. map_of (pt_peers (wk_peers st1)) (pr_peer_handle r) = Some cur \<and> pr_callable cur \<and>
          py_eq (pr_node_type cur) EN_DEFW_DIRSVC \<and> py_eq (pr_runtime_id cur) (pr_runtime_id r)))"
proof -
  have pf: "wk_dirsvc s1 = wk_dirsvc s0 \<and> wk_binding_runtime_id s1 = wk_binding_runtime_id s0 \<and>
      wk_binding_peer_handle s1 = wk_binding_peer_handle s0" if "put_failed we us s0 = (s1, es)" for we us s0 s1 es
    using that
  proof (induction us arbitrary: s0 es)
    case (Cons u us)
    then show ?case by (auto simp: put_queue_def split: sum.splits prod.splits option.splits)
  qed simp
  have "wk_dirsvc st1 = PNone"
    using assms by (auto simp: handle_event_def handle_peer_event_def fail_pending_peer_requests_def
        clear_dirsvc_peer_def is_disconnected_dirsvc_peer_def is_dirsvc_peer_event_def Let_def py_or_def
        split: prod.splits sum.splits dest!: pf)
  then show ?thesis
    by (auto simp: bind_end_def dirsvc_peer_still_ready_def get_peer_def ebind_def
        split: sum.splits bool.splits option.splits if_splits)
qed

definition demo_bound :: worker where
  "demo_bound = init_worker\<lparr>wk_dirsvc := PObj 3, wk_binding_runtime_id := PStr ''r1'', wk_binding_peer_handle := PStr ''b1''\<rparr>"

definition demo_dirsvc_loss :: dict where
  "demo_dirsvc_loss = (PStr ''node_type'', PInt 1) # demo_loss"

theorem dirsvc_binding_live_witness:
  "wk_dirsvc demo_bound = PObj 3 \<and>
   wk_dirsvc (fst (handle_event demo_env 0 (PeerLifecycle demo_dirsvc_loss) demo_bound)) = PNone"
proof -
  have "snd (snd (handle_event demo_env 0 (PeerLifecycle demo_dirsvc_loss) demo_bound)) = Inr False"
    by (simp add: handle_event_def handle_peer_event_def apply_event_def Let_def demo_dirsvc_loss_def demo_loss_def
        demo_bound_def init_worker_def init_peers_def split: prod.splits)
  then obtain st' es' where h: "handle_event demo_env 0 (PeerLifecycle demo_dirsvc_loss) demo_bound = (st', es', Inr False)"
    by (metis prod.collapse)
  have "wk_dirsvc st' = PNone"
    by (rule dirsvc_binding_live [OF _ _ _ _ _ _ _ h, THEN conjunct1])
      (simp_all add: is_lost_def is_dirsvc_peer_event_def demo_dirsvc_loss_def demo_loss_def demo_bound_def
        demo_env_def EN_DEFW_DIRSVC_def)
  with h show ?thesis by (simp add: demo_bound_def)
qed

end
