(* ===== verification/Class_Registry.thy ===== *)
theory Class_Registry
  imports Py_Prelude
begin

section \<open>Remote objects (\<open>python/infra/defw_common_def.py\<close>)\<close>

text \<open>
  The tables a runtime keeps of the objects that remote callers use: \<open>global_class_db\<close> from the
  caller's class id to the object, \<open>global_singleton_db\<close> from a service's key to its shared object,
  and \<open>global_singleton_alias_db\<close> from class ids to the keys of the shared objects they stand for.
  Each operation runs under its lock and is one step. Objects are Python values; the key of a
  singleton is \<open>module:class\<close>. A class id is whatever the
  caller sent, which an attempt to use as a key shows to be hashable.
\<close>

record registry =
  rg_class_db :: "(pyval \<times> pyval) list"
  rg_singleton_db :: "(string \<times> pyval) list"
  rg_alias_db :: "(pyval \<times> string) list"

definition init_registry :: registry where
  "init_registry = \<lparr>rg_class_db = [], rg_singleton_db = [], rg_alias_db = []\<rparr>"

definition add_to_class_db :: "pyval \<Rightarrow> pyval \<Rightarrow> registry \<Rightarrow> registry \<times> unit result" where
  "add_to_class_db obj cid g =
     (if map_of (rg_class_db g) cid \<noteq> None
      then (g, Inl (DEFwError ''Duplicate class_id. Contention in timing''))
      else (g\<lparr>rg_class_db := AList.update cid obj (rg_class_db g)\<rparr>, Inr ()))"

definition has_class_entry :: "pyval \<Rightarrow> registry \<Rightarrow> bool" where
  "has_class_entry cid g = (map_of (rg_class_db g) cid \<noteq> None)"

definition get_class_from_db :: "pyval \<Rightarrow> registry \<Rightarrow> pyval result" where
  "get_class_from_db cid g =
     (case map_of (rg_class_db g) cid of
        Some obj \<Rightarrow> Inr obj
      | None \<Rightarrow> Inl (DEFwNotFound ''no class_id in database''))"

definition del_entry_from_class_db :: "pyval \<Rightarrow> registry \<Rightarrow> registry" where
  "del_entry_from_class_db cid g =
     (if map_of (rg_class_db g) cid \<noteq> None
      then g\<lparr>rg_class_db := AList.delete cid (rg_class_db g),
             rg_alias_db := AList.delete cid (rg_alias_db g)\<rparr>
      else g)"

definition get_singleton_key :: "string \<Rightarrow> string \<Rightarrow> string" where
  "get_singleton_key module_name class_name = module_name @ '':'' @ class_name"

text \<open>\<open>factory()\<close> is called under the lock, only if the key is new: its outcome is the argument.\<close>

definition get_or_create_singleton_instance ::
  "string \<Rightarrow> string \<Rightarrow> pyval result \<Rightarrow> registry \<Rightarrow> registry \<times> pyval result" where
  "get_or_create_singleton_instance module_name class_name factory g =
     (let key = get_singleton_key module_name class_name in
      case map_of (rg_singleton_db g) key of
        Some obj \<Rightarrow> (g, Inr obj)
      | None \<Rightarrow>
          (case factory of
             Inl e \<Rightarrow> (g, Inl e)
           | Inr obj \<Rightarrow> (g\<lparr>rg_singleton_db := AList.update key obj (rg_singleton_db g)\<rparr>, Inr obj)))"

definition alias_ids :: "string \<Rightarrow> registry \<Rightarrow> pyval list" where
  "alias_ids key g = map fst (filter (\<lambda>(cid, k). k = key) (rg_alias_db g))"

definition evict_singleton_instance :: "string \<Rightarrow> string \<Rightarrow> registry \<Rightarrow> registry \<times> pyval option" where
  "evict_singleton_instance module_name class_name g =
     (let key = get_singleton_key module_name class_name;
          aliases = alias_ids key g in
      (g\<lparr>rg_singleton_db := AList.delete key (rg_singleton_db g),
         rg_alias_db := fold AList.delete aliases (rg_alias_db g),
         rg_class_db := fold AList.delete aliases (rg_class_db g)\<rparr>,
       map_of (rg_singleton_db g) key))"

text \<open>
  The directory service, when there is one, is told first; \<open>dereg\<close> is the outcome of that call, and
  a failure is only logged. The result says whether the call was made.
\<close>

definition shutdown_service_instance ::
  "bool \<Rightarrow> string \<Rightarrow> string \<Rightarrow> unit result \<Rightarrow> registry \<Rightarrow> registry \<times> bool \<times> pyval option" where
  "shutdown_service_instance has_dirsvc module_name class_name dereg g =
     (case evict_singleton_instance module_name class_name g of (g', obj) \<Rightarrow> (g', has_dirsvc, obj))"

definition bind_singleton_alias ::
  "pyval \<Rightarrow> string \<Rightarrow> string \<Rightarrow> pyval \<Rightarrow> registry \<Rightarrow> registry \<times> unit result" where
  "bind_singleton_alias cid module_name class_name obj g =
     (if map_of (rg_class_db g) cid \<noteq> None
      then (g, Inl (DEFwError ''Duplicate class_id. Contention in timing''))
      else (g\<lparr>rg_class_db := AList.update cid obj (rg_class_db g),
              rg_alias_db := AList.update cid (get_singleton_key module_name class_name) (rg_alias_db g)\<rparr>,
            Inr ()))"

definition is_singleton_alias :: "pyval \<Rightarrow> registry \<Rightarrow> bool" where
  "is_singleton_alias cid g = (map_of (rg_alias_db g) cid \<noteq> None)"

subsection \<open>The interface\<close>

text \<open>
  What the dispatcher relies on: a table of objects by id in which an added object is found until
  it is deleted, and other ids are not affected.
\<close>

locale object_table =
  fixes has :: "'i \<Rightarrow> 's \<Rightarrow> bool"
    and find_obj :: "'i \<Rightarrow> 's \<Rightarrow> pyval result"
    and add :: "pyval \<Rightarrow> 'i \<Rightarrow> 's \<Rightarrow> 's \<times> unit result"
    and del :: "'i \<Rightarrow> 's \<Rightarrow> 's"
  assumes find_has: "(\<exists>x. find_obj i s = Inr x) \<longleftrightarrow> has i s"
    and add_new: "\<not> has i s \<Longrightarrow> \<exists>s'. add x i s = (s', Inr ()) \<and> find_obj i s' = Inr x \<and>
      (\<forall>j. j \<noteq> i \<longrightarrow> find_obj j s' = find_obj j s)"
    and add_dup: "has i s \<Longrightarrow> \<exists>e. add x i s = (s, Inl e)"
    and del_gone: "\<not> has i (del i s)"
    and del_other: "j \<noteq> i \<Longrightarrow> find_obj j (del i s) = find_obj j s"
begin

lemma add_then_del: "\<not> has i s \<Longrightarrow> add x i s = (s', r) \<Longrightarrow> j \<noteq> i \<Longrightarrow> find_obj j (del i s') = find_obj j s"
  using add_new [of i s x] del_other by fastforce

lemma add_twice: "\<not> has i s \<Longrightarrow> add x i s = (s', r) \<Longrightarrow> \<exists>e. add y i s' = (s', Inl e)"
  using add_new [of i s x] add_dup find_has by (metis prod.inject)

lemma del_idem_has: "has j (del i s) \<longleftrightarrow> j \<noteq> i \<and> has j s"
  using del_gone del_other find_has by metis

lemma add_has: "\<not> has i s \<Longrightarrow> add x i s = (s', r) \<Longrightarrow> has j s' \<longleftrightarrow> j = i \<or> has j s"
  using add_new [of i s x] find_has by (metis prod.inject)

end

interpretation class_db: object_table has_class_entry get_class_from_db add_to_class_db del_entry_from_class_db
proof
  fix i s x
  assume "\<not> has_class_entry i s"
  then show "\<exists>s'. add_to_class_db x i s = (s', Inr ()) \<and> get_class_from_db i s' = Inr x \<and>
      (\<forall>j. j \<noteq> i \<longrightarrow> get_class_from_db j s' = get_class_from_db j s)"
    by (auto simp: has_class_entry_def add_to_class_db_def get_class_from_db_def)
qed (auto simp: has_class_entry_def add_to_class_db_def get_class_from_db_def
    del_entry_from_class_db_def split: option.splits)

subsection \<open>Singletons and their aliases\<close>

definition reg_ok :: "(pyval \<times> pyval) list \<Rightarrow> (string \<times> pyval) list \<Rightarrow> (pyval \<times> string) list \<Rightarrow> bool" where
  "reg_ok cs ss as \<longleftrightarrow> distinct (map fst cs) \<and> distinct (map fst ss) \<and> distinct (map fst as) \<and>
     fst ` set as \<subseteq> fst ` set cs"

definition reg_inv :: "registry \<Rightarrow> bool" where
  "reg_inv g \<longleftrightarrow> reg_ok (rg_class_db g) (rg_singleton_db g) (rg_alias_db g)"

lemma map_of_fold_delete: "map_of (fold AList.delete ks d) k = (if k \<in> set ks then None else map_of d k)"
  by (induction ks arbitrary: d) auto

lemma keys_update: "fst ` set (AList.update k v d) = insert k (fst ` set d)"
  by (induction d) auto

lemma keys_delete: "fst ` set (AList.delete k d) = fst ` set d - {k}"
  by (induction d) auto

lemma keys_fold_delete: "fst ` set (fold AList.delete ks d) = fst ` set d - set ks"
  by (induction ks arbitrary: d) (auto simp: keys_delete)

lemma distinct_fold_delete: "distinct (map fst d) \<Longrightarrow> distinct (map fst (fold AList.delete ks d))"
  by (induction ks arbitrary: d) (auto simp: distinct_delete)

lemma alias_ids_iff:
  "distinct (map fst (rg_alias_db g)) \<Longrightarrow> cid \<in> set (alias_ids key g) \<longleftrightarrow> map_of (rg_alias_db g) cid = Some key"
  by (force simp: alias_ids_def)

lemma reg_ok_ops:
  assumes "reg_ok cs ss as"
  shows "reg_ok (AList.update k x cs) ss as"
    and "reg_ok (AList.update k x cs) ss (AList.update k key as)"
    and "reg_ok cs (AList.update key x ss) as"
    and "reg_ok (AList.delete k cs) ss (AList.delete k as)"
    and "reg_ok (fold AList.delete ks cs) (AList.delete key ss) (fold AList.delete ks as)"
  using assms unfolding reg_ok_def
  by (simp_all add: keys_update keys_delete keys_fold_delete distinct_update distinct_delete
      distinct_fold_delete subset_insertI2 insert_mono Diff_mono)

inductive reg_step :: "registry \<Rightarrow> registry \<Rightarrow> bool" where
  reg_add: "add_to_class_db obj cid g = (g', res) \<Longrightarrow> reg_step g g'"
| reg_del: "reg_step g (del_entry_from_class_db cid g)"
| reg_create: "get_or_create_singleton_instance m c factory g = (g', res1) \<Longrightarrow> reg_step g g'"
| reg_evict: "evict_singleton_instance m c g = (g', res2) \<Longrightarrow> reg_step g g'"
| reg_bind: "bind_singleton_alias cid m c obj g = (g', res) \<Longrightarrow> reg_step g g'"

inductive reg_reachable :: "registry \<Rightarrow> bool" where
  reg_start: "reg_reachable init_registry"
| reg_next: "reg_reachable g \<Longrightarrow> reg_step g g' \<Longrightarrow> reg_reachable g'"

lemma reg_step_inv: "reg_step g g' \<Longrightarrow> reg_inv g \<Longrightarrow> reg_inv g'"
  by (induction rule: reg_step.induct)
    (auto simp: reg_inv_def add_to_class_db_def del_entry_from_class_db_def Let_def
      get_or_create_singleton_instance_def bind_singleton_alias_def evict_singleton_instance_def
      reg_ok_ops split: if_split_asm option.split_asm sum.split_asm)

lemma reg_reachable_inv: "reg_reachable g \<Longrightarrow> reg_inv g"
proof (induction rule: reg_reachable.induct)
  case reg_start
  then show ?case by (simp add: init_registry_def reg_inv_def reg_ok_def)
next
  case (reg_next g g')
  then show ?case by (blast intro: reg_step_inv)
qed

text \<open>
  C26: shutting a singleton service down cuts off every caller. After the eviction the shared object
  is gone, no class id stands for it any more, every class id that did is unknown, and all other
  entries of the three tables are as they were.
\<close>
theorem evict_removes_aliases:
  assumes "reg_reachable g" and "evict_singleton_instance m c g = (g', obj)"
  shows "obj = map_of (rg_singleton_db g) (get_singleton_key m c) \<and>
    map_of (rg_singleton_db g') (get_singleton_key m c) = None \<and>
    (\<forall>cid. map_of (rg_class_db g') cid =
       (if map_of (rg_alias_db g) cid = Some (get_singleton_key m c) then None
        else map_of (rg_class_db g) cid)) \<and>
    (\<forall>cid. map_of (rg_alias_db g') cid \<noteq> Some (get_singleton_key m c))"
proof -
  have d: "distinct (map fst (rg_alias_db g))"
    using reg_reachable_inv [OF assms(1)] by (simp add: reg_inv_def reg_ok_def)
  have "obj = map_of (rg_singleton_db g) (get_singleton_key m c)"
    and "g' = g\<lparr>rg_singleton_db := AList.delete (get_singleton_key m c) (rg_singleton_db g),
      rg_alias_db := fold AList.delete (alias_ids (get_singleton_key m c) g) (rg_alias_db g),
      rg_class_db := fold AList.delete (alias_ids (get_singleton_key m c) g) (rg_class_db g)\<rparr>"
    using assms(2) by (simp_all add: evict_singleton_instance_def Let_def)
  then show ?thesis by (simp add: map_of_fold_delete alias_ids_iff [OF d])
qed

definition demo_reg :: registry where
  "demo_reg = \<lparr>rg_class_db = [(PStr ''c1'', PObj 1)], rg_singleton_db = [(''m:K'', PObj 1)],
     rg_alias_db = [(PStr ''c1'', ''m:K'')]\<rparr>"

lemma demo_reg_reachable: "reg_reachable demo_reg"
proof -
  have "get_or_create_singleton_instance ''m'' ''K'' (Inr (PObj 1)) init_registry =
      (init_registry\<lparr>rg_singleton_db := [(''m:K'', PObj 1)]\<rparr>, Inr (PObj 1))"
    by (simp add: get_or_create_singleton_instance_def init_registry_def get_singleton_key_def)
  then have "reg_reachable (init_registry\<lparr>rg_singleton_db := [(''m:K'', PObj 1)]\<rparr>)"
    by (rule reg_next [OF reg_start reg_create])
  moreover have "bind_singleton_alias (PStr ''c1'') ''m'' ''K'' (PObj 1)
      (init_registry\<lparr>rg_singleton_db := [(''m:K'', PObj 1)]\<rparr>) = (demo_reg, Inr ())"
    by (simp add: bind_singleton_alias_def init_registry_def demo_reg_def get_singleton_key_def)
  ultimately show ?thesis by (blast intro: reg_next reg_bind)
qed

theorem evict_removes_aliases_witness:
  "map_of (rg_class_db (fst (evict_singleton_instance ''m'' ''K'' demo_reg))) (PStr ''c1'') = None \<and>
   snd (evict_singleton_instance ''m'' ''K'' demo_reg) = Some (PObj 1)"
  using evict_removes_aliases [OF demo_reg_reachable, of "''m''" "''K''"]
  by (cases "evict_singleton_instance ''m'' ''K'' demo_reg")
    (simp add: demo_reg_def get_singleton_key_def)

text \<open>
  Whatever runs between, short of evicting the service itself, keeps its shared object.
\<close>

inductive reg_step_keep :: "string \<Rightarrow> registry \<Rightarrow> registry \<Rightarrow> bool" for key where
  keep_other: "reg_step g g' \<Longrightarrow> map_of (rg_singleton_db g') key \<noteq> None \<Longrightarrow> reg_step_keep key g g'"

lemma reg_step_singleton:
  "reg_step g g' \<Longrightarrow> map_of (rg_singleton_db g) key = Some obj \<Longrightarrow>
     map_of (rg_singleton_db g') key \<noteq> None \<Longrightarrow> map_of (rg_singleton_db g') key = Some obj"
  by (induction rule: reg_step.induct)
    (auto simp: add_to_class_db_def del_entry_from_class_db_def get_or_create_singleton_instance_def
      bind_singleton_alias_def evict_singleton_instance_def Let_def
      split: if_splits option.splits sum.splits)

lemma reg_run_singleton:
  "(reg_step_keep key)\<^sup>*\<^sup>* g g' \<Longrightarrow> map_of (rg_singleton_db g) key = Some obj \<Longrightarrow>
     map_of (rg_singleton_db g') key = Some obj"
  by (induction rule: rtranclp_induct) (auto elim!: reg_step_keep.cases dest: reg_step_singleton)

text \<open>
  a service is a singleton. Two requests for the shared object of a service return the same
  object, whatever the second request's factory would have made, after any run of the registry
  that never left the service without its object.
\<close>
theorem singleton_shared:
  assumes "get_or_create_singleton_instance m c f1 g = (g1, Inr x)"
    and "(reg_step_keep (get_singleton_key m c))\<^sup>*\<^sup>* g1 g2"
  shows "get_or_create_singleton_instance m c f2 g2 = (g2, Inr x)"
proof -
  have "map_of (rg_singleton_db g1) (get_singleton_key m c) = Some x"
    using assms(1) by (auto simp: get_or_create_singleton_instance_def Let_def
        split: option.splits sum.splits)
  from reg_run_singleton [OF assms(2) this] show ?thesis
    by (simp add: get_or_create_singleton_instance_def Let_def)
qed

theorem singleton_shared_witness:
  "get_or_create_singleton_instance ''m'' ''K'' (Inr (PObj 2)) demo_reg = (demo_reg, Inr (PObj 1))"
  by (rule singleton_shared [OF _ rtranclp.rtrancl_refl, of _ _ "Inr (PObj 3)" demo_reg])
    (simp add: get_or_create_singleton_instance_def demo_reg_def get_singleton_key_def Let_def)

text \<open>Keys of different services differ, as class names are identifiers.\<close>

lemma last_colon:
  assumes "CHR '':'' \<notin> set c"
  shows "rev (takeWhile (\<lambda>x. x \<noteq> CHR '':'') (rev (m @ '':'' @ c))) = c"
proof -
  have "takeWhile (\<lambda>x. x \<noteq> CHR '':'') (rev c @ CHR '':'' # rev m) = rev c"
    using assms by (subst takeWhile_append2) auto
  then show ?thesis by simp
qed

lemma get_singleton_key_inject:
  assumes "CHR '':'' \<notin> set c1" and "CHR '':'' \<notin> set c2"
  shows "get_singleton_key m1 c1 = get_singleton_key m2 c2 \<longleftrightarrow> m1 = m2 \<and> c1 = c2"
proof
  assume "get_singleton_key m1 c1 = get_singleton_key m2 c2"
  then have eq: "m1 @ '':'' @ c1 = m2 @ '':'' @ c2" by (simp add: get_singleton_key_def)
  then have "c1 = c2" using last_colon [OF assms(1), of m1] last_colon [OF assms(2), of m2] by simp
  with eq show "m1 = m2 \<and> c1 = c2" by simp
qed simp

end
