(* ===== verification/Dispatch.thy ===== *)
theory Dispatch
  imports Workers Class_Registry "HOL-Library.Countable"
begin

section \<open>Remote calls\<close>

text \<open>
  Both ends of a remote call. The callee is \<open>WorkerThread.handle_rpc_req\<close> of
  \<open>python/infra/defw_workers.py\<close>, which runs in a thread of its own: it reads the request, imports the
  service module, calls the function, constructor or method on the objects of the class registry,
  and sends the response. The caller is \<open>Agent.send_req\<close> of \<open>python/infra/defw_agent.py\<close> and the proxy
  class \<open>BaseRemote\<close> of \<open>python/infra/defw_remote.py\<close>.

  The code of the services is not part of DEFw: importing a module, its attributes, calling an
  object and the name of its type are the arguments collected in \<open>service_code\<close>. A call may change
  the registry and a state \<open>'x\<close> of the services. The trace hooks work on their own state \<open>'h\<close>, the C
  runtime on \<open>'s\<close>. Endpoints and exceptions that travel in a message are objects; \<open>nd_endpoint\<close>
  and \<open>nd_exception\<close> tell which objects are.
\<close>

record ('m, 'x) service_code =
  sc_import :: "string \<Rightarrow> 'm result"
  sc_reload :: "'m \<Rightarrow> unit result"
  sc_name :: "'m \<Rightarrow> string"
  sc_package :: "'m \<Rightarrow> string"
  sc_svc_info :: "'m \<Rightarrow> pyval"
  sc_getattr :: "'m \<Rightarrow> string \<Rightarrow> pyval result"
  sc_callable :: "pyval \<Rightarrow> bool"
  sc_call :: "pyval \<Rightarrow> pyval list \<Rightarrow> dict \<Rightarrow> registry \<times> 'x \<Rightarrow> (registry \<times> 'x) \<times> pyval result"
  sc_method :: "pyval \<Rightarrow> string \<Rightarrow> pyval result"
  sc_type_name :: "pyval \<Rightarrow> string"

text \<open>
  The node: its own endpoint, whether it is the directory service and which object that is, the
  preference for reloading modules, the comparison of runtime ids by the C runtime, and the objects
  that are endpoints or exceptions. \<open>nd_exc_obj\<close> is the object of a raised exception and
  \<open>nd_traceback\<close> its printed form.
\<close>

record node =
  nd_me :: endpoint
  nd_me_dirsvc :: bool
  nd_dirsvc :: pyval
  nd_reload :: bool
  nd_uuid_compare :: "pyval \<Rightarrow> pyval \<Rightarrow> bool"
  nd_endpoint :: "pyval \<Rightarrow> endpoint option"
  nd_exception :: "pyval \<Rightarrow> exc option"
  nd_exc_obj :: "exc \<Rightarrow> pyval"
  nd_traceback :: "exc \<Rightarrow> string"

definition INSTANCE_MODE_SINGLETON :: string where
  "INSTANCE_MODE_SINGLETON = ''singleton''"

definition INSTANCE_MODE_PER_CONNECTION :: string where
  "INSTANCE_MODE_PER_CONNECTION = ''per_connection''"

subsection \<open>Dispatching\<close>

text \<open>\<open>if info and 'instance_mode' in info: info['instance_mode']\<close>.\<close>

definition info_mode :: "pyval \<Rightarrow> pyval option result" where
  "info_mode info =
     (if \<not> truthy info then Inr None
      else
        ebind (py_contains (PStr ''instance_mode'') info) (\<lambda>b.
        if \<not> b then Inr None
        else ebind (py_getitem info ''instance_mode'') (\<lambda>v. Inr (Some v))))"

text \<open>The package of the module is asked second; a failure there is logged.\<close>

definition get_instance_mode :: "('m, 'x) service_code \<Rightarrow> 'm \<Rightarrow> pyval result" where
  "get_instance_mode sc m =
     ebind (info_mode (sc_svc_info sc m)) (\<lambda>mode.
     case mode of
       Some v \<Rightarrow> Inr v
     | None \<Rightarrow>
         (let fallback = PStr INSTANCE_MODE_PER_CONNECTION in
          if sc_package sc m = [] \<or> sc_package sc m = sc_name sc m then Inr fallback
          else case ebind (sc_import sc (sc_package sc m)) (\<lambda>pkg. info_mode (sc_svc_info sc pkg)) of
            Inr (Some v) \<Rightarrow> Inr v
          | _ \<Rightarrow> Inr fallback))"

text \<open>\<open>f(*args, **kwargs)\<close> with values from a message.\<close>

definition is_string :: "pyval \<Rightarrow> bool" where
  "is_string v = (case v of PStr _ \<Rightarrow> True | _ \<Rightarrow> False)"

definition call_obj ::
  "('m, 'x) service_code \<Rightarrow> pyval \<Rightarrow> pyval \<Rightarrow> pyval \<Rightarrow> registry \<times> 'x \<Rightarrow> (registry \<times> 'x) \<times> pyval result" where
  "call_obj sc f args kwargs gx =
     (case py_iter args of
        Inl e \<Rightarrow> (gx, Inl e)
      | Inr xs \<Rightarrow>
          (case kwargs of
             PDict kw \<Rightarrow> if list_all (\<lambda>(k, v). is_string k) kw then sc_call sc f xs kw gx else (gx, Inl PyTypeError)
           | _ \<Rightarrow> (gx, Inl PyTypeError)))"

text \<open>\<open>getattr(module, name)\<close> with a name from a message.\<close>

definition module_attr :: "('m, 'x) service_code \<Rightarrow> 'm \<Rightarrow> pyval \<Rightarrow> pyval result" where
  "module_attr sc m name = (case name of PStr s \<Rightarrow> sc_getattr sc m s | _ \<Rightarrow> Inl PyTypeError)"

definition name_str :: "pyval \<Rightarrow> string" where
  "name_str v = (case v of PStr s \<Rightarrow> s | _ \<Rightarrow> [])"

datatype rpc_call =
    FunctionCall pyval
  | MethodCall pyval pyval pyval
  | InstantiateClass pyval pyval
  | DestroyClass pyval pyval

text \<open>The operation on the class registry with a class id that may not be hashable.\<close>

definition with_id :: "pyval \<Rightarrow> ('g \<Rightarrow> 'g \<times> 'a result) \<Rightarrow> 'g \<Rightarrow> 'g \<times> 'a result" where
  "with_id class_id f gx = (if hashable class_id then f gx else (gx, Inl PyTypeError))"

text \<open>Requests for the directory service on the node that is one share its object.\<close>

definition is_own_dirsvc :: "node \<Rightarrow> pyval \<Rightarrow> bool" where
  "is_own_dirsvc nd class_name \<longleftrightarrow> nd_me_dirsvc nd \<and> class_name = PStr ''DEFwDirSvc''"

definition instantiate_dirsvc :: "node \<Rightarrow> pyval \<Rightarrow> registry \<times> 'x \<Rightarrow> (registry \<times> 'x) \<times> pyval result" where
  "instantiate_dirsvc nd class_id = with_id class_id (\<lambda>(g, x).
     if has_class_entry class_id g then ((g, x), Inr (PDict []))
     else (case add_to_class_db (nd_dirsvc nd) class_id g of
             (g', Inl e) \<Rightarrow> ((g', x), Inl e) | (g', Inr _) \<Rightarrow> ((g', x), Inr (PDict []))))"

text \<open>
  A singleton: the constructor runs only if the service has no shared object yet, and the caller's
  class id becomes an alias.
\<close>

definition instantiate_singleton ::
  "('m, 'x) service_code \<Rightarrow> 'm \<Rightarrow> string \<Rightarrow> pyval \<Rightarrow> pyval \<Rightarrow> pyval \<Rightarrow> pyval \<Rightarrow> registry \<times> 'x
     \<Rightarrow> (registry \<times> 'x) \<times> pyval result" where
  "instantiate_singleton sc m mname class_name class_id args kwargs gx =
     (case module_attr sc m class_name of
        Inl e \<Rightarrow> (gx, Inl e)
      | Inr cls \<Rightarrow>
          (let cname = name_str class_name;
               made = (case map_of (rg_singleton_db (fst gx)) (get_singleton_key mname cname) of
                   Some obj \<Rightarrow> (gx, Inr obj)
                 | None \<Rightarrow> call_obj sc cls args kwargs gx) in
           case made of
             ((g, x), factory) \<Rightarrow>
               (case get_or_create_singleton_instance mname cname factory g of
                  (g1, Inl e) \<Rightarrow> ((g1, x), Inl e)
                | (g1, Inr inst) \<Rightarrow>
                    with_id class_id (\<lambda>(g, x).
                      if has_class_entry class_id g then ((g, x), Inr (PDict []))
                      else (case bind_singleton_alias class_id mname cname inst g of
                              (g', Inl e) \<Rightarrow> ((g', x), Inl e)
                            | (g', Inr _) \<Rightarrow> ((g', x), Inr (PDict [])))) (g1, x))))"

text \<open>An object per connection: constructed unless the class id is already known.\<close>

definition instantiate_per_connection ::
  "('m, 'x) service_code \<Rightarrow> 'm \<Rightarrow> pyval \<Rightarrow> pyval \<Rightarrow> pyval \<Rightarrow> pyval \<Rightarrow> registry \<times> 'x
     \<Rightarrow> (registry \<times> 'x) \<times> pyval result" where
  "instantiate_per_connection sc m class_name class_id args kwargs = with_id class_id (\<lambda>gx.
     case get_class_from_db class_id (fst gx) of
       Inr _ \<Rightarrow> (gx, Inr (PDict []))
     | Inl _ \<Rightarrow>
         (case module_attr sc m class_name of
            Inl e \<Rightarrow> (gx, Inl e)
          | Inr cls \<Rightarrow>
              (case call_obj sc cls args kwargs gx of
                 (gx1, Inl e) \<Rightarrow> (gx1, Inl e)
               | ((g1, x1), Inr inst) \<Rightarrow>
                   (case add_to_class_db inst class_id g1 of
                      (g2, Inl e) \<Rightarrow> ((g2, x1), Inl e)
                    | (g2, Inr _) \<Rightarrow> ((g2, x1), Inr (PDict []))))))"

definition destroy_class :: "node \<Rightarrow> pyval \<Rightarrow> pyval \<Rightarrow> registry \<times> 'x \<Rightarrow> (registry \<times> 'x) \<times> pyval result" where
  "destroy_class nd class_name class_id = with_id class_id (\<lambda>(g, x).
     if is_own_dirsvc nd class_name then ((del_entry_from_class_db class_id g, x), Inr (PDict []))
     else (case get_class_from_db class_id g of
             Inl e \<Rightarrow> ((g, x), Inl e)
           | Inr _ \<Rightarrow> ((del_entry_from_class_db class_id g, x), Inr (PDict []))))"

definition method_call ::
  "('m, 'x) service_code \<Rightarrow> pyval \<Rightarrow> pyval \<Rightarrow> pyval \<Rightarrow> pyval \<Rightarrow> pyval \<Rightarrow> registry \<times> 'x
     \<Rightarrow> (registry \<times> 'x) \<times> pyval result" where
  "method_call sc class_name method_name class_id args kwargs = with_id class_id (\<lambda>gx.
     case get_class_from_db class_id (fst gx) of
       Inl e \<Rightarrow> (gx, Inl e)
     | Inr inst \<Rightarrow>
         if PStr (sc_type_name sc inst) \<noteq> class_name then (gx, Inl (DEFwError ''requested class, but id refers to class''))
         else (case (case method_name of PStr s \<Rightarrow> sc_method sc inst s | _ \<Rightarrow> Inl PyTypeError) of
                 Inl e \<Rightarrow> (gx, Inl e)
               | Inr f \<Rightarrow> call_obj sc f args kwargs gx))"

text \<open>The body of the \<open>try\<close> block.\<close>

definition dispatch ::
  "node \<Rightarrow> ('m, 'x) service_code \<Rightarrow> 'm \<Rightarrow> string \<Rightarrow> rpc_call \<Rightarrow> pyval \<Rightarrow> pyval \<Rightarrow> registry \<times> 'x
     \<Rightarrow> (registry \<times> 'x) \<times> pyval result" where
  "dispatch nd sc m mname call args kwargs gx =
     (case call of
        FunctionCall name \<Rightarrow>
          (case module_attr sc m name of
             Inl e \<Rightarrow> (gx, Inl e)
           | Inr f \<Rightarrow> if sc_callable sc f then call_obj sc f args kwargs gx else (gx, Inr (PDict [])))
      | InstantiateClass class_name class_id \<Rightarrow>
          if is_own_dirsvc nd class_name then instantiate_dirsvc nd class_id gx
          else (case get_instance_mode sc m of
                  Inl e \<Rightarrow> (gx, Inl e)
                | Inr mode \<Rightarrow>
                    if mode = PStr INSTANCE_MODE_SINGLETON
                    then instantiate_singleton sc m mname class_name class_id args kwargs gx
                    else instantiate_per_connection sc m class_name class_id args kwargs gx)
      | DestroyClass class_name class_id \<Rightarrow> destroy_class nd class_name class_id gx
      | MethodCall class_name method_name class_id \<Rightarrow> method_call sc class_name method_name class_id args kwargs gx)"

subsection \<open>Handling a request\<close>

definition parse_call :: "pyval \<Rightarrow> pyval \<Rightarrow> rpc_call result" where
  "parse_call rpc rpc_type =
     (if rpc_type = PStr ''function_call'' then
        ebind (py_getitem rpc ''function'') (\<lambda>f. Inr (FunctionCall f))
      else if rpc_type = PStr ''method_call'' then
        ebind (py_getitem rpc ''class'') (\<lambda>c.
        ebind (py_getitem rpc ''method'') (\<lambda>mn.
        ebind (py_getitem rpc ''class_id'') (\<lambda>cid. Inr (MethodCall c mn cid))))
      else if rpc_type = PStr ''instantiate_class'' \<or> rpc_type = PStr ''destroy_class'' then
        ebind (py_getitem rpc ''class'') (\<lambda>c.
        ebind (py_getitem rpc ''class_id'') (\<lambda>cid.
        Inr (if rpc_type = PStr ''instantiate_class'' then InstantiateClass c cid else DestroyClass c cid)))
      else Inl (DEFwError ''Unexpected rpc''))"

text \<open>What a request says, read before anything is called.\<close>

record 'm request =
  rq_source :: pyval
  rq_target :: pyval
  rq_module :: string
  rq_mod :: 'm
  rq_call :: rpc_call
  rq_args :: pyval
  rq_kwargs :: pyval
  rq_carrier :: pyval

definition read_request :: "node \<Rightarrow> ('m, 'x) service_code \<Rightarrow> pyval \<Rightarrow> pyval \<Rightarrow> 'm request result" where
  "read_request nd sc rpc target =
     ebind (py_getitem rpc ''src'') (\<lambda>source.
     ebind (py_getitem rpc ''module'') (\<lambda>mname.
     ebind (py_getitem rpc ''type'') (\<lambda>rpc_type.
     ebind (parse_call rpc rpc_type) (\<lambda>call.
     ebind (case mname of PStr s \<Rightarrow> sc_import sc s | _ \<Rightarrow> Inl PyAttributeError) (\<lambda>m.
     ebind (if nd_reload nd then sc_reload sc m else Inr ()) (\<lambda>_.
     ebind (py_getitem rpc ''parameters'') (\<lambda>params.
     ebind (py_getitem params ''args'') (\<lambda>args.
     ebind (py_getitem params ''kwargs'') (\<lambda>kwargs.
     Inr \<lparr>rq_source = source, rq_target = target, rq_module = name_str mname, rq_mod = m, rq_call = call,
          rq_args = args, rq_kwargs = kwargs,
          rq_carrier = (case rpc of PDict d \<Rightarrow> dget0 d CARRIER_KEY | _ \<Rightarrow> PNone)\<rparr>)))))))))"

text \<open>\<open>target == me.my_endpoint()\<close>: objects that are not endpoints are not equal to one.\<close>

definition addressed_to :: "node \<Rightarrow> pyval \<Rightarrow> endpoint \<Rightarrow> bool" where
  "addressed_to nd v e = (case nd_endpoint nd v of None \<Rightarrow> False | Some t \<Rightarrow> endpoint_eq (nd_uuid_compare nd) t (Some e))"

definition is_defw_error :: "exc \<Rightarrow> bool" where
  "is_defw_error e =
     (case e of DEFwError _ \<Rightarrow> True | DEFwNotFound _ \<Rightarrow> True | DEFwInProgress _ \<Rightarrow> True | DEFwCommError _ \<Rightarrow> True
      | DEFwAgentNotFound _ \<Rightarrow> True | DEFwInternalError _ \<Rightarrow> True | DEFwRemoteError _ \<Rightarrow> True
      | DEFwReserveError _ \<Rightarrow> True | _ \<Rightarrow> False)"

text \<open>The exception as it travels: a DEFw error itself, any other one as its printed traceback.\<close>

definition exception_value :: "node \<Rightarrow> exc \<Rightarrow> pyval" where
  "exception_value nd e =
     (if is_defw_error e then nd_exc_obj nd e
      else PStr (''Traceback (most recent call last):'' @ [CHR 0x0A] @ nd_traceback nd e))"

record ('x, 'h) callee =
  ce_registry :: registry
  ce_services :: 'x
  ce_trace :: 'h
  ce_metrics :: rpc_metrics

text \<open>
  How a request ends: not for this node, an exception that ends the thread without a response, or
  a response and the outcome of sending it.
\<close>

datatype rpc_outcome = NotForMe | Unanswered exc | Responded dict int

text \<open>The dispatch in the scope of the caller's trace context.\<close>

definition traced_dispatch ::
  "node \<Rightarrow> ('m, 'x) service_code \<Rightarrow> 'h trace_hooks \<Rightarrow> 'm request \<Rightarrow> ('x, 'h) callee \<Rightarrow> ('x, 'h) callee \<times> pyval result" where
  "traced_dispatch nd sc th rq ce =
     (case trace_attach th (rq_carrier rq) (ce_trace ce) of
        (h, token) \<Rightarrow>
          (case dispatch nd sc (rq_mod rq) (rq_module rq) (rq_call rq) (rq_args rq) (rq_kwargs rq)
                  (ce_registry ce, ce_services ce) of
             ((g, x), r) \<Rightarrow>
               (ce\<lparr>ce_registry := g, ce_services := x, ce_trace := trace_detach th token h\<rparr>, r)))"

definition response :: "node \<Rightarrow> 'm request \<Rightarrow> pyval result \<Rightarrow> real \<Rightarrow> dict" where
  "response nd rq r now =
     (case r of
        Inl e \<Rightarrow> populate_rpc_rsp (rq_target rq) (rq_source rq) (PDict []) (exception_value nd e) now
      | Inr rc \<Rightarrow> populate_rpc_rsp (rq_target rq) (rq_source rq) rc PNone now)"

text \<open>The name a method is measured under.\<close>

definition method_metrics :: "(pyval \<Rightarrow> string) \<Rightarrow> rpc_call \<Rightarrow> real \<Rightarrow> real \<Rightarrow> rpc_metrics \<Rightarrow> rpc_metrics" where
  "method_metrics rp call start now mt =
     (case call of
        MethodCall c mn _ \<Rightarrow> fst (add_method_time (PFloat start) (PFloat now) (py_str rp c @ ''.'' @ py_str rp mn) mt)
      | _ \<Rightarrow> mt)"

text \<open>\<open>clock\<close> gives the time at the start, of the response and at the end; \<open>uuid\<close> is the uuid of the work request.\<close>

definition handle_rpc_req ::
  "node \<Rightarrow> ('m, 'x) service_code \<Rightarrow> 'h trace_hooks \<Rightarrow> ('s, 'w) transport \<Rightarrow> (pyval \<Rightarrow> string) \<Rightarrow> real \<times> real \<times> real
     \<Rightarrow> real \<Rightarrow> pyval \<Rightarrow> pyval \<Rightarrow> pyval \<Rightarrow> ('x, 'h) callee \<times> 's \<Rightarrow> (('x, 'h) callee \<times> 's) \<times> rpc_outcome" where
  "handle_rpc_req nd sc th tp rp clock timeout uuid y blk_uuid = (\<lambda>(ce, s).
     case clock of (t0, t1, t2) \<Rightarrow>
     case ebind (py_getitem y ''rpc'') (\<lambda>rpc.
          ebind (py_getitem rpc ''statistics'') (\<lambda>stats.
          ebind (py_getitem stats ''send_time'') (\<lambda>send_time.
          ebind (add_rpc_req_time send_time (PFloat t0) (ce_metrics ce)) (\<lambda>mt. Inr (rpc, mt))))) of
       Inl e \<Rightarrow> ((ce, s), Unanswered e)
     | Inr (rpc, mt) \<Rightarrow>
         let ce1 = ce\<lparr>ce_metrics := mt\<rparr> in
         case py_getitem rpc ''dst'' of
           Inl e \<Rightarrow> ((ce1, s), Unanswered e)
         | Inr target \<Rightarrow>
             if \<not> addressed_to nd target (nd_me nd) then ((ce1, s), NotForMe)
             else case read_request nd sc rpc target of
               Inl e \<Rightarrow> ((ce1, s), Unanswered e)
             | Inr rq \<Rightarrow>
                 (case traced_dispatch nd sc th rq ce1 of
                    (ce2, r) \<Rightarrow>
                      (case py_getitem rpc ''req-uuid'' of
                         Inl e \<Rightarrow> ((ce2, s), Unanswered e)
                       | Inr u \<Rightarrow>
                           (case nd_endpoint nd (rq_source rq) of
                              None \<Rightarrow> ((ce2, s), Unanswered PyAttributeError)
                            | Some src \<Rightarrow>
                                (let rsp = dset ''req-uuid'' u (response nd rq r t1) in
                                 case make_request uuid t1 timeout WR_SEND_MSG (ep_remote_uuid src) blk_uuid rsp None False of
                                   Inl e \<Rightarrow> ((ce2, s), Unanswered e)
                                 | Inr wr \<Rightarrow>
                                     (case send_rsp tp wr s of
                                        (s1, Inl e) \<Rightarrow> ((ce2, s1), Unanswered e)
                                      | (s1, Inr rc) \<Rightarrow>
                                          ((ce2\<lparr>ce_metrics := method_metrics rp (rq_call rq) t0 t2 (ce_metrics ce2)\<rparr>, s1),
                                           Responded (wr_msg wr) rc)))))))"

subsection \<open>The caller: \<open>Agent.send_req\<close>\<close>

record rpc_request =
  rr_type :: pyval
  rr_src :: pyval
  rr_module :: pyval
  rr_class :: pyval
  rr_method :: pyval
  rr_class_id :: pyval
  rr_blocking :: pyval
  rr_args :: "pyval list"
  rr_kwargs :: dict

text \<open>
  The call \<open>agent.send_req(a1, ..., an, **kwargs)\<close>: the parameters of \<open>send_req\<close> take the first seven
  positional arguments, and a keyword argument with the name of a parameter raises, also one with
  the name of a parameter of \<open>populate_rpc_req\<close>.
\<close>

definition reserved_names :: "string list" where
  "reserved_names = [''self'', ''rpc_type'', ''src'', ''module'', ''cname'', ''mname'', ''class_id'', ''blocking'',
     ''dst'', ''req_type'']"

fun bind_send_req :: "pyval list \<Rightarrow> dict \<Rightarrow> rpc_request result" where
  "bind_send_req (ty # src # m # c # mn # cid # b # args) kwargs =
     (if \<exists>k \<in> set reserved_names. map_of kwargs (PStr k) \<noteq> None then Inl PyTypeError
      else Inr \<lparr>rr_type = ty, rr_src = src, rr_module = m, rr_class = c, rr_method = mn, rr_class_id = cid,
                rr_blocking = b, rr_args = args, rr_kwargs = kwargs\<rparr>)"
| "bind_send_req _ kwargs = Inl PyTypeError"

text \<open>Up to the work request that is sent; \<open>dst\<close> is the object of the agent's endpoint.\<close>

definition agent_request ::
  "agent \<Rightarrow> pyval \<Rightarrow> rpc_request \<Rightarrow> dict \<Rightarrow> pyval \<Rightarrow> real \<Rightarrow> real \<Rightarrow> work_request result" where
  "agent_request ag dst rr carrier uuid now timeout =
     (if \<not> truthy (rr_method rr) then Inl (DEFwError ''A method or a function name need to be specified'')
      else
        make_request uuid now timeout WR_SEND_MSG (get_remote_uuid ag) (get_blk_uuid ag)
          (populate_rpc_req (rr_src rr) dst (rr_type rr) (rr_module rr) (rr_class rr) (rr_method rr)
             (rr_class_id rr) (rr_args rr) (rr_kwargs rr) carrier now)
          None (truthy (rr_blocking rr)))"

text \<open>What \<open>send_req\<close> of the workers returned, as the value \<open>y\<close>.\<close>

fun wait_value :: "wait_result \<Rightarrow> pyval" where
  "wait_value WaitNone = PNone"
| "wait_value (WaitStatus n) = PInt n"
| "wait_value (WaitMsg msg) = msg"

fun sent_value :: "sent \<Rightarrow> wait_result \<Rightarrow> pyval" where
  "sent_value Waiting w = wait_value w"
| "sent_value (Returned rc) w = PTuple [PInt rc, PNone]"

text \<open>From the response on: \<open>src\<close> is the caller's own endpoint.\<close>

definition agent_response ::
  "node \<Rightarrow> agent \<Rightarrow> endpoint \<Rightarrow> real \<Rightarrow> pyval \<Rightarrow> rpc_metrics \<Rightarrow> rpc_metrics \<times> pyval result" where
  "agent_response nd ag src now y mt =
     (case ebind (py_getitem y ''rpc'') (\<lambda>rpc.
           ebind (py_getitem rpc ''statistics'') (\<lambda>stats.
           ebind (py_getitem stats ''send_time'') (\<lambda>send_time.
           ebind (add_rpc_rsp_time send_time (PFloat now) mt) (\<lambda>mt'. Inr (rpc, mt'))))) of
        Inl e \<Rightarrow> (mt, Inl e)
      | Inr (rpc, mt') \<Rightarrow>
          (mt',
           ebind (py_getitem rpc ''dst'') (\<lambda>target.
           if \<not> addressed_to nd target src then Inl (DEFwError ''MSG intended to'')
           else
             ebind (py_getitem rpc ''src'') (\<lambda>source.
             if \<not> addressed_to nd source (ag_endpoint ag) then Inl (DEFwError ''MSG originated from'')
             else
               ebind (py_getitem rpc ''type'') (\<lambda>ty.
               if ty = PStr ''failure'' then Inl (DEFwRemoteError ''RPC failure'')
               else if ty = PStr ''exception'' then
                 ebind (py_getitem rpc ''exception'') (\<lambda>v.
                 case v of
                   PStr msg \<Rightarrow> Inl (DEFwRemoteError msg)
                 | _ \<Rightarrow> Inl (case nd_exception nd v of None \<Rightarrow> PyTypeError | Some e \<Rightarrow> e))
               else py_getitem rpc ''rc'')))))"

subsection \<open>The proxy: \<open>BaseRemote\<close>\<close>

record remote_proxy =
  rx_own :: bool
  rx_remote :: bool
  rx_blocking :: pyval
  rx_agent :: "agent option"
  rx_module :: pyval
  rx_class :: pyval
  rx_class_id :: pyval

text \<open>
  \<open>__init__\<close>: \<open>found\<close> is the outcome of \<open>get_agent(target)\<close>, \<open>fresh\<close> the new uuid, \<open>me\<close> the object of the
  own endpoint. The second component is the request that creates the remote object, if there is one.
\<close>

definition remote_init ::
  "pyval \<Rightarrow> pyval \<Rightarrow> bool \<Rightarrow> agent option result \<Rightarrow> pyval \<Rightarrow> pyval \<Rightarrow> pyval \<Rightarrow> pyval \<Rightarrow> pyval list \<Rightarrow> dict
     \<Rightarrow> (remote_proxy \<times> rpc_request option) result" where
  "remote_init class_id blocking has_target found remote_module remote_class fresh me args kwargs =
     (let local = \<lparr>rx_own = True, rx_remote = False, rx_blocking = blocking, rx_agent = None,
                   rx_module = remote_module, rx_class = remote_class, rx_class_id = PNone\<rparr> in
      if \<not> has_target then Inr (local, None)
      else case found of
        Inl _ \<Rightarrow> Inl (DEFwError ''Unknown Agent: '')
      | Inr None \<Rightarrow> Inl (DEFwAgentNotFound ''agent not found'')
      | Inr (Some ag) \<Rightarrow>
          if \<not> truthy remote_module \<or> \<not> truthy remote_class then
            Inl (DEFwError ''remote bindings require service_module and service_class'')
          else if truthy class_id then
            Inr (local\<lparr>rx_remote := True, rx_agent := Some ag, rx_own := False, rx_class_id := class_id\<rparr>, None)
          else
            ebind (bind_send_req ([PStr ''instantiate_class'', me, remote_module, remote_class, PStr ''__init__'',
                     fresh, blocking] @ args) kwargs) (\<lambda>rr.
            Inr (local\<lparr>rx_remote := True, rx_agent := Some ag, rx_class_id := fresh\<rparr>, Some rr)))"

text \<open>
  \<open>__getattribute__\<close>, and the call of what it returns: an attribute as it is, a call of the local
  method, or a request to the remote.
\<close>

datatype access = LocalAttr | LocalCall | RemoteCall "rpc_request result"

definition is_dunder :: "string \<Rightarrow> bool" where
  "is_dunder name \<longleftrightarrow> prefix ''__'' name \<and> suffix ''__'' name"

definition remote_getattribute :: "remote_proxy \<Rightarrow> pyval \<Rightarrow> string \<Rightarrow> bool \<Rightarrow> pyval list \<Rightarrow> dict \<Rightarrow> access" where
  "remote_getattribute rx me name attr_callable args kwargs =
     (if is_dunder name then LocalAttr
      else if \<not> attr_callable then LocalAttr
      else if \<not> rx_remote rx then LocalCall
      else RemoteCall (bind_send_req ([PStr ''method_call'', me, rx_module rx, rx_class rx, PStr name,
             rx_class_id rx, rx_blocking rx] @ args) kwargs))"

text \<open>\<open>__del__\<close>: the requests it sends. Exceptions are swallowed.\<close>

definition remote_del :: "remote_proxy \<Rightarrow> pyval \<Rightarrow> rpc_request list" where
  "remote_del rx me =
     (if \<not> rx_own rx then []
      else if \<not> rx_remote rx then []
      else case bind_send_req [PStr ''destroy_class'', me, rx_module rx, rx_class rx, PStr ''__del__'', rx_class_id rx] [] of
        Inl _ \<Rightarrow> []
      | Inr rr \<Rightarrow> [rr])"

definition defwrc :: "pyval \<Rightarrow> pyval list \<Rightarrow> dict \<Rightarrow> dict" where
  "defwrc error args kwargs =
     (let rc = [(PStr ''status'', PStr (if py_eq error (PInt (-1)) then ''FAIL''
                                       else if py_eq error (PInt (-2)) then ''SKIP'' else ''PASS''))];
          rc = (if args \<noteq> [] then dset ''args'' (PList args) rc else rc) in
      if kwargs \<noteq> [] then dset ''kwargs'' (PDict kwargs) rc else rc)"

text \<open>
  A request that asks the remote to destroy an object leaves out the argument \<open>blocking\<close>, so it is
  never sent.
\<close>

lemma remote_del_never_sends: "remote_del rx me = []"
  by (simp add: remote_del_def)

subsection \<open>A call reaches the object and its result the caller\<close>

lemma request_fields:
  assumes "agent_request ag dst rr carrier uuid now timeout = Inr wr"
  shows "wr_msg wr = dset ''req-uuid'' uuid (populate_rpc_req (rr_src rr) dst (rr_type rr) (rr_module rr)
      (rr_class rr) (rr_method rr) (rr_class_id rr) (rr_args rr) (rr_kwargs rr) carrier now)"
  using assms by (auto simp: agent_request_def make_request_def Let_def split: if_splits)

text \<open>The objects of a node: an endpoint equals itself, an exception is found again and is no string.\<close>

definition objects_ok :: "node \<Rightarrow> bool" where
  "objects_ok nd \<longleftrightarrow> (\<forall>u. nd_uuid_compare nd u u) \<and>
     (\<forall>e. nd_exception nd (nd_exc_obj nd e) = Some e \<and> (\<exists>n. nd_exc_obj nd e = PObj n))"

definition call_of :: "rpc_request \<Rightarrow> rpc_call result" where
  "call_of rr =
     (if rr_type rr = PStr ''method_call'' then Inr (MethodCall (rr_class rr) (rr_method rr) (rr_class_id rr))
      else if rr_type rr = PStr ''instantiate_class'' then Inr (InstantiateClass (rr_class rr) (rr_class_id rr))
      else if rr_type rr = PStr ''destroy_class'' then Inr (DestroyClass (rr_class rr) (rr_class_id rr))
      else Inl (DEFwError ''Unexpected rpc''))"

definition request_of :: "rpc_request \<Rightarrow> pyval \<Rightarrow> string \<Rightarrow> 'm \<Rightarrow> rpc_call \<Rightarrow> dict \<Rightarrow> 'm request" where
  "request_of rr dst mname m call carrier =
     \<lparr>rq_source = rr_src rr, rq_target = dst, rq_module = mname, rq_mod = m, rq_call = call,
      rq_args = PTuple (rr_args rr), rq_kwargs = PDict (rr_kwargs rr), rq_carrier = PDict carrier\<rparr>"

lemma parse_call_request:
  "rr_type rr \<noteq> PStr ''function_call'' \<Longrightarrow>
   parse_call (PDict (dset ''req-uuid'' u (populate_rpc_req s d (rr_type rr) m (rr_class rr) (rr_method rr) (rr_class_id rr) a k c now)))
     (rr_type rr) = call_of rr"
  by (simp add: parse_call_def call_of_def)

lemma dget_dset_other: "k \<noteq> j \<Longrightarrow> dget (dset k v d) j u = dget d j u"
  by simp

lemma read_request_ok:
  assumes "rr_module rr = PStr mname" and "sc_import sc mname = Inr m" and "\<not> nd_reload nd"
    and "call_of rr = Inr call"
  shows "read_request nd sc (PDict (dset ''req-uuid'' u (populate_rpc_req (rr_src rr) dst (rr_type rr) (rr_module rr)
      (rr_class rr) (rr_method rr) (rr_class_id rr) (rr_args rr) (rr_kwargs rr) carrier now))) dst
    = Inr (request_of rr dst mname m call carrier)"
proof -
  have "rr_type rr \<noteq> PStr ''function_call''" using assms(4) by (auto simp: call_of_def)
  note pc = parse_call_request [OF this]
  have c: "''req-uuid'' \<noteq> CARRIER_KEY" by (simp add: CARRIER_KEY_def)
  show ?thesis
    using assms pc [of u] c by (simp add: read_request_def request_of_def name_str_def)
qed


text \<open>Exceptions can be numbered, so the objects of a node can hold them.\<close>

instance exc :: countable
  by countable_datatype

definition demo_ep :: "string \<Rightarrow> endpoint" where
  "demo_ep u = \<lparr>ep_addr = PStr ''h'', ep_port = PInt 0, ep_listen_port = PInt 1, ep_pid = PInt 2, ep_name = PStr u,
     ep_hostname = PStr ''h'', ep_node_type = PInt 3, ep_remote_uuid = PStr u, ep_blk_uuid = PStr ''b1''\<rparr>"

definition demo_node :: node where
  "demo_node = \<lparr>nd_me = demo_ep ''callee'', nd_me_dirsvc = False, nd_dirsvc = PNone, nd_reload = False,
     nd_uuid_compare = (=), nd_endpoint = (\<lambda>v. if v = PInt 0 then Some (demo_ep ''callee'')
       else if v = PInt 1 then Some (demo_ep ''caller'') else None),
     nd_exception = (\<lambda>v. case v of PObj n \<Rightarrow> Some (from_nat n) | _ \<Rightarrow> None),
     nd_exc_obj = (\<lambda>e. PObj (to_nat e)), nd_traceback = (\<lambda>_. [])\<rparr>"

text \<open>A service whose methods return 7.\<close>

definition demo_code :: "(unit, unit) service_code" where
  "demo_code = \<lparr>sc_import = (\<lambda>_. Inr ()), sc_reload = (\<lambda>_. Inr ()), sc_name = (\<lambda>_. ''m''), sc_package = (\<lambda>_. ''''),
     sc_svc_info = (\<lambda>_. PDict [(PStr ''instance_mode'', PStr ''singleton'')]), sc_getattr = (\<lambda>_ _. Inr (PObj 3)), sc_callable = (\<lambda>_. True),
     sc_call = (\<lambda>f xs kw gx. (gx, Inr (PInt 7))), sc_method = (\<lambda>_ _. Inr (PObj 9)), sc_type_name = (\<lambda>_. ''K'')\<rparr>"

definition demo_callee :: "(unit, unit) callee" where
  "demo_callee = \<lparr>ce_registry = init_registry\<lparr>rg_class_db := [(PStr ''c1'', PObj 1)]\<rparr>, ce_services = (),
     ce_trace = (), ce_metrics = init_metrics 8\<rparr>"

definition demo_rr :: rpc_request where
  "demo_rr = \<lparr>rr_type = PStr ''method_call'', rr_src = PInt 1, rr_module = PStr ''m'', rr_class = PStr ''K'',
     rr_method = PStr ''run'', rr_class_id = PStr ''c1'', rr_blocking = PBool True, rr_args = [], rr_kwargs = []\<rparr>"

definition demo_agent :: agent where
  "demo_agent = make_agent (PInt 300) (demo_ep ''callee'')"

lemma demo_send_rsp:
  assumes "wr_msg wr = dset ''req-uuid'' (PStr ''u1'')
    (response demo_node (request_of demo_rr (PInt 0) ''m'' () (MethodCall (PStr ''K'') (PStr ''run'') (PStr ''c1'')) []) (Inr (PInt 7)) 2)"
  shows "\<exists>s' rc. send_rsp demo_transport wr s = (s', Inr rc)"
  by (simp add: send_rsp_def encode_msg_def assms attach_encode_def extract_attachments_def rpc_msg_def response_def
      populate_rpc_rsp_def get_rpc_rsp_base_def sent_statistics_def request_of_def demo_rr_def dset_def
      demo_transport_def Let_def)


text \<open>
  C3: a method runs on an object of the requested class only. If the class id of a method call is
  unknown, or names an object of another class, nothing is called and nothing changes, and the
  answer is an error; otherwise the method of the registered object is called with the arguments of
  the request.
\<close>
theorem method_call_guarded:
  "if hashable cid \<and> (\<exists>inst. get_class_from_db cid g = Inr inst \<and> PStr (sc_type_name sc inst) = c)
   then method_call sc c (PStr name) cid args kw (g, x) =
     (case sc_method sc (the (map_of (rg_class_db g) cid)) name of
        Inl e \<Rightarrow> ((g, x), Inl e) | Inr f \<Rightarrow> call_obj sc f args kw (g, x))
   else \<exists>e. method_call sc c (PStr name) cid args kw (g, x) = ((g, x), Inl e)"
  by (auto simp: method_call_def with_id_def get_class_from_db_def split: option.splits sum.splits)

text \<open>
  a singleton service is constructed once. After a caller has instantiated it, a second caller
  with another class id gets the same object without the constructor being run again.
\<close>
theorem singleton_constructed_once:
  assumes "instantiate_singleton sc m mname (PStr c) ida args1 kw1 gx = ((g1, x1), Inr rc1)"
    and "\<not> has_class_entry ida (fst (fst (call_obj sc cls args1 kw1 gx)))" and "\<not> has_class_entry ida (fst gx)"
    and "sc_getattr sc m c = Inr cls" and "hashable idb" and "\<not> has_class_entry idb g1"
  shows "\<exists>g2 obj. instantiate_singleton sc m mname (PStr c) idb args2 kw2 (g1, x1) = ((g2, x1), Inr (PDict [])) \<and>
    get_class_from_db ida g2 = Inr obj \<and> get_class_from_db idb g2 = Inr obj"
proof -
  let ?key = "get_singleton_key mname c"
  let ?made = "case map_of (rg_singleton_db (fst gx)) ?key of Some obj \<Rightarrow> (gx, Inr obj) | None \<Rightarrow> call_obj sc cls args1 kw1 gx"
  obtain g x fac where made: "?made = ((g, x), fac)" by (metis prod.collapse)
  then have fresh: "\<not> has_class_entry ida g"
    using assms(2,3) by (auto split: option.splits)
  from assms(1) made have "\<exists>obj. map_of (rg_singleton_db g1) ?key = Some obj \<and> get_class_from_db ida g1 = Inr obj \<and> x1 = x"
    using fresh assms(4)
    by (auto simp: instantiate_singleton_def module_attr_def name_str_def Let_def with_id_def
        get_or_create_singleton_instance_def bind_singleton_alias_def has_class_entry_def get_class_from_db_def
        split: sum.splits option.splits prod.splits if_splits)
  then obtain obj where o: "map_of (rg_singleton_db g1) ?key = Some obj" "get_class_from_db ida g1 = Inr obj" by blast
  have "ida \<noteq> idb" using o(2) assms(6) by (auto simp: get_class_from_db_def has_class_entry_def split: option.splits)
  with o assms(4-6) show ?thesis
    by (auto simp: instantiate_singleton_def module_attr_def name_str_def Let_def with_id_def
        get_or_create_singleton_instance_def bind_singleton_alias_def has_class_entry_def get_class_from_db_def)
qed

theorem singleton_constructed_once_witness:
  "\<exists>g1 g2 obj. instantiate_singleton demo_code () ''m'' (PStr ''K'') (PStr ''c2'') (PList []) (PDict []) (init_registry, ())
       = ((g1, ()), Inr (PDict [])) \<and>
     instantiate_singleton demo_code () ''m'' (PStr ''K'') (PStr ''c3'') (PList []) (PDict []) (g1, ()) = ((g2, ()), Inr (PDict [])) \<and>
     get_class_from_db (PStr ''c2'') g2 = Inr obj \<and> get_class_from_db (PStr ''c3'') g2 = Inr obj"
proof -
  define g1 where "g1 = fst (fst (instantiate_singleton demo_code () ''m'' (PStr ''K'') (PStr ''c2'') (PList []) (PDict []) (init_registry, ())))"
  have ini: "instantiate_singleton demo_code () ''m'' (PStr ''K'') (PStr ''c2'') (PList []) (PDict []) (init_registry, ())
      = ((g1, ()), Inr (PDict []))"
    by (simp add: g1_def instantiate_singleton_def module_attr_def name_str_def Let_def with_id_def demo_code_def
        get_or_create_singleton_instance_def bind_singleton_alias_def has_class_entry_def call_obj_def init_registry_def)
  then have "\<not> has_class_entry (PStr ''c3'') g1"
    by (auto simp: instantiate_singleton_def module_attr_def name_str_def Let_def with_id_def demo_code_def
        get_or_create_singleton_instance_def bind_singleton_alias_def has_class_entry_def call_obj_def init_registry_def)
  with singleton_constructed_once [OF ini, where cls = "PObj 3" and idb = "PStr ''c3''"] ini show ?thesis
    by (auto simp: demo_code_def has_class_entry_def call_obj_def init_registry_def)
qed

end
