(* ===== verification/Dirsvc.thy ===== *)
theory Dirsvc
  imports Directory Peers
begin

section \<open>The directory service (\<open>python/services/svc_dirsvc/svc_dirsvc.py\<close>)\<close>

text \<open>
  The service that runtimes call to announce what they offer. It finds the caller in the peer table,
  asks it for the advertisements of its services (\<open>BaseAgentAPI.query\<close> of
  \<open>python/infra/defw_agent_baseapi.py\<close>, also modelled) and enters one record per advertisement into the
  directory. Its own table \<open>dv_services\<close> has an entry per runtime it registered. The proxy for the
  caller and what it answers are remote calls; their outcomes are arguments. \<open>rp\<close> is \<open>str\<close> on values
  other than strings and integers.
\<close>

record svc_entry =
  en_agent :: agent
  en_api :: pyval
  en_info :: pyval
  en_context :: "pyval option"

record dirsvc =
  dv_services :: "(pyval \<times> svc_entry) list"
  dv_directory :: directory

definition init_dirsvc :: "real \<Rightarrow> dirsvc" where
  "init_dirsvc retention = \<lparr>dv_services = [], dv_directory = init_directory retention\<rparr>"

subsection \<open>Advertisements\<close>

text \<open>
  \<open>BaseAgentAPI.query\<close> on the side of the caller: the name of each service module and, for each of
  its classes, what \<open>c(start=False).query()\<close> gives. An exception ends the loop over the classes.
\<close>

fun class_adverts :: "pyval result list \<Rightarrow> pyval list" where
  "class_adverts [] = []"
| "class_adverts (Inl e # qs) = []"
| "class_adverts (Inr adv # qs) = adv # class_adverts qs"

fun agent_query :: "bool \<Rightarrow> pyval result \<Rightarrow> (pyval result \<times> pyval result list) list \<Rightarrow> pyval list result" where
  "agent_query me_dirsvc own [] = Inr []"
| "agent_query me_dirsvc own ((name, qs) # mods) =
     ebind name (\<lambda>n.
     ebind (if n = PStr ''Directory Service''
            then (if me_dirsvc then ebind own (\<lambda>adv. Inr [adv]) else Inr [])
            else Inr (class_adverts qs)) (\<lambda>advs.
     ebind (agent_query me_dirsvc own mods) (\<lambda>rest. Inr (advs @ rest))))"

text \<open>The methods of the class \<open>BaseAgentAPI\<close>; any other attribute raises.\<close>

definition agent_api_methods :: "string list" where
  "agent_api_methods = [''query'']"

definition agent_api_attr :: "string \<Rightarrow> unit result" where
  "agent_api_attr name = (if name \<in> set agent_api_methods then Inr () else Inl PyAttributeError)"

subsection \<open>Records\<close>

definition live_agent_ids :: "peer_table \<Rightarrow> pyval list result" where
  "live_agent_ids pt =
     emap (\<lambda>r. if hashable (pr_runtime_id r) then Inr (pr_runtime_id r) else Inl PyTypeError)
       (filter (\<lambda>r. pr_callable r \<and> truthy (pr_runtime_id r)) (map snd (snapshot pt)))"

definition prune_db :: "pyval list \<Rightarrow> (pyval \<times> 'e) list \<Rightarrow> (pyval \<times> 'e) list" where
  "prune_db current_ids db = filter (\<lambda>(agent_id, e). agent_id \<in> set current_ids) db"

definition svc_endpoint_record :: "endpoint \<Rightarrow> dict" where
  "svc_endpoint_record ep =
     [(PStr ''address'', ep_addr ep), (PStr ''listen_port'', ep_listen_port ep), (PStr ''node_name'', ep_name ep),
      (PStr ''hostname'', ep_hostname ep), (PStr ''pid'', ep_pid ep)]"

text \<open>
  What the advertisement and the context say: id, name, type, bindings, selector, properties,
  capability and the two numbers of a quantum platform. The context comes first.
\<close>

definition directory_fields ::
  "(pyval \<Rightarrow> string) \<Rightarrow> endpoint \<Rightarrow> pyval \<Rightarrow> pyval
     \<Rightarrow> (pyval \<times> pyval \<times> pyval \<times> dict list \<times> pyval \<times> dict \<times> dict \<times> pyval \<times> pyval) result" where
  "directory_fields rp ep advertisement context =
     (case advertisement of
        PDict adv \<Rightarrow>
          (let ctx = (case context of PDict c \<Rightarrow> c | _ \<Rightarrow> []);
               service_name = py_or (dget0 ctx ''service_name'') (dget0 adv ''service_name'') in
           if \<not> truthy service_name then Inl (DEFwError ''Service metadata missing service_name'')
           else
             ebind (py_dict (py_or (dget0 ctx ''properties'') (PDict []))) (\<lambda>props0.
             ebind (py_dict (py_or (dget0 adv ''properties'') (PDict []))) (\<lambda>props1.
             ebind (py_dict (py_or (py_or (dget0 ctx ''capability'') (dget0 adv ''capability'')) (PDict []))) (\<lambda>capability.
             let props2 = dupdate props0 props1;
                 qpm_type = dget ctx ''qpm_type'' (dget adv ''qpm_type'' (dget props2 ''qpm_type'' (PInt (-1))));
                 qpm_capabilities = dget ctx ''qpm_capabilities''
                   (dget adv ''qpm_capabilities'' (dget props2 ''qpm_capabilities'' (PInt (-1))));
                 props3 = (if \<not> py_eq qpm_type (PInt (-1)) then dsetdefault ''qpm_type'' qpm_type props2 else props2);
                 props = (if \<not> py_eq qpm_capabilities (PInt (-1))
                          then dsetdefault ''qpm_capabilities'' qpm_capabilities props3 else props3);
                 service_id = py_or (py_or (py_or (dget0 ctx ''service_id'') (dget0 adv ''service_id''))
                   (dget0 props ''service_id''))
                   (PStr (py_str rp service_name @ '':'' @ py_str rp (ep_hostname ep) @ '':'' @ py_str rp (ep_name ep)));
                 selector = py_or (py_or (py_or (dget0 ctx ''selector'') (dget0 adv ''selector'')) (dget0 props ''selector''))
                   (PDict [(PStr ''resources'', PList [service_name])]);
                 service_type = (if dget0 ctx ''service_type'' \<noteq> PNone then dget0 ctx ''service_type''
                   else dget adv ''service_type'' (dget props ''service_type'' (PStr ''defw.service'')));
                 api_bindings = py_or (dget0 ctx ''api_bindings'') (dget0 adv ''api_bindings'') in
             if \<not> truthy api_bindings then Inl (DEFwError ''Service metadata missing api_bindings'')
             else
               ebind (ebind (py_iter api_bindings) (emap py_dict)) (\<lambda>bs.
               Inr (service_id, service_name, service_type, bs, selector, props, capability, qpm_type, qpm_capabilities))))))
      | _ \<Rightarrow> Inl (DEFwError ''Service query must return metadata dictionaries''))"

definition directory_record :: "(pyval \<Rightarrow> string) \<Rightarrow> endpoint \<Rightarrow> pyval \<Rightarrow> pyval \<Rightarrow> dict result" where
  "directory_record rp ep advertisement context =
     ebind (directory_fields rp ep advertisement context)
       (\<lambda>(service_id, service_name, service_type, bs, selector, props, capability, qpm_type, qpm_capabilities).
       Inr [(PStr ''service_id'', service_id), (PStr ''service_name'', service_name),
            (PStr ''service_type'', service_type), (PStr ''runtime_id'', ep_remote_uuid ep),
            (PStr ''peer_handle'', ep_blk_uuid ep), (PStr ''endpoint'', PDict (svc_endpoint_record ep)),
            (PStr ''api_bindings'', PList (map PDict bs)), (PStr ''selector'', selector),
            (PStr ''properties'', PDict props), (PStr ''capability'', PDict capability),
            (PStr ''qpm_type'', qpm_type), (PStr ''qpm_capabilities'', qpm_capabilities)])"

subsection \<open>Operations\<close>

text \<open>The loop over the advertisements: what was registered stays when a later one raises.\<close>

fun register_adverts ::
  "(pyval \<Rightarrow> string) \<Rightarrow> real \<Rightarrow> string \<Rightarrow> endpoint \<Rightarrow> pyval \<Rightarrow> pyval list \<Rightarrow> directory \<Rightarrow> service_record list dir_op" where
  "register_adverts rp now local_id ep context [] d = (d, [], Inr [])"
| "register_adverts rp now local_id ep context (adv # advs) d =
     (case directory_record rp ep adv context of
        Inl e \<Rightarrow> (d, [], Inl e)
      | Inr rec \<Rightarrow>
          (case register_service now local_id rec [] d of
             (d1, out, Inl e) \<Rightarrow> (d1, out, Inl e)
           | (d1, out, Inr r) \<Rightarrow>
               (case register_adverts rp now local_id ep context advs d1 of
                  (d2, out2, res) \<Rightarrow> (d2, out @ out2, ebind res (\<lambda>rs. Inr (r # rs))))))"

text \<open>\<open>again\<close> is the outcome of a second query of the caller, made when the first gave nothing.\<close>

definition register_directory_entries ::
  "(pyval \<Rightarrow> string) \<Rightarrow> real \<Rightarrow> string \<Rightarrow> pyval result \<Rightarrow> pyval \<Rightarrow> pyval \<Rightarrow> dirsvc
     \<Rightarrow> dirsvc \<times> dir_out list \<times> service_record list result" where
  "register_directory_entries rp now local_id again agent_id context dv =
     (case map_of (dv_services dv) agent_id of
        None \<Rightarrow> (dv, [], Inr [])
      | Some entry \<Rightarrow>
          (case (if truthy (en_info entry) then Inr (en_info entry) else again) of
             Inl e \<Rightarrow> (dv, [], Inl e)
           | Inr info \<Rightarrow>
               (let dv1 = dv\<lparr>dv_services := AList.update agent_id (entry\<lparr>en_info := info\<rparr>) (dv_services dv)\<rparr> in
                case py_iter (py_or info (PList [])) of
                  Inl e \<Rightarrow> (dv1, [], Inl e)
                | Inr advs \<Rightarrow>
                    (case register_adverts rp now local_id (ag_endpoint (en_agent entry)) context advs (dv_directory dv1) of
                       (d', out, res) \<Rightarrow> (dv1\<lparr>dv_directory := d'\<rparr>, out, res)))))"

text \<open>
  \<open>__register\<close>. \<open>api\<close> is the outcome of the constructor of the proxy, \<open>answer\<close> of its query; \<open>timeout\<close>
  is the RPC timeout an agent is made with.
\<close>

definition register_agent ::
  "pyval \<Rightarrow> peer_table \<Rightarrow> endpoint \<Rightarrow> pyval \<Rightarrow> pyval result \<Rightarrow> pyval result \<Rightarrow> dirsvc \<Rightarrow> dirsvc \<times> unit result" where
  "register_agent timeout pt ep context api answer dv =
     (case live_agent_ids pt of
        Inl e \<Rightarrow> (dv, Inl e)
      | Inr current_ids \<Rightarrow>
          (let dv1 = dv\<lparr>dv_services := prune_db current_ids (dv_services dv)\<rparr> in
           case get_agent timeout pt (TObj ep) PNone False of
             Inl e \<Rightarrow> (dv1, Inl e)
           | Inr None \<Rightarrow> (dv1, Inl (DEFwAgentNotFound ''Registration from an unknown client''))
           | Inr (Some ag) \<Rightarrow>
               (case ebind api (\<lambda>a. ebind answer (\<lambda>adv. Inr (a, adv))) of
                  Inl e \<Rightarrow> (dv1, Inl e)
                | Inr (a, adv) \<Rightarrow>
                    if \<not> hashable (get_id ep) then (dv1, Inl PyTypeError)
                    else
                      (let old = (case map_of (dv_services dv1) (get_id ep) of None \<Rightarrow> None | Some e \<Rightarrow> en_context e);
                           entry = \<lparr>en_agent = ag, en_api = a, en_info = adv,
                                    en_context = (if context \<noteq> PNone then Some context else old)\<rparr> in
                       (dv1\<lparr>dv_services := AList.update (get_id ep) entry (dv_services dv1)\<rparr>, Inr ())))))"

definition svc_register_service ::
  "(pyval \<Rightarrow> string) \<Rightarrow> real \<Rightarrow> string \<Rightarrow> pyval \<Rightarrow> peer_table \<Rightarrow> endpoint \<Rightarrow> pyval \<Rightarrow> pyval result \<Rightarrow> pyval result
     \<Rightarrow> pyval result \<Rightarrow> dirsvc \<Rightarrow> dirsvc \<times> dir_out list \<times> service_record list result" where
  "svc_register_service rp now local_id timeout pt ep context api answer again dv =
     (case register_agent timeout pt ep context api answer dv of
        (dv1, Inl e) \<Rightarrow> (dv1, [], Inl e)
      | (dv1, Inr _) \<Rightarrow> register_directory_entries rp now local_id again (get_id ep) context dv1)"

text \<open>The loop of \<open>deregister\<close> over the records of the runtime.\<close>

fun deregister_all :: "real \<Rightarrow> string \<Rightarrow> pyval \<Rightarrow> service_record list \<Rightarrow> directory \<Rightarrow> unit dir_op" where
  "deregister_all now local_id agent_id [] d = (d, [], Inr ())"
| "deregister_all now local_id agent_id (r # rs) d =
     (if \<not> py_eq (sr_runtime_id r) agent_id then deregister_all now local_id agent_id rs d
      else case deregister_service now local_id (sr_service_id r) (sr_runtime_id r) (PInt (sr_generation r)) d of
        (d1, out, Inl e) \<Rightarrow> (d1, out, Inl e)
      | (d1, out, Inr _) \<Rightarrow>
          (case deregister_all now local_id agent_id rs d1 of (d2, out2, res) \<Rightarrow> (d2, out @ out2, res)))"

text \<open>\<open>unregister\<close> is the outcome the remote call would have.\<close>

definition svc_deregister ::
  "real \<Rightarrow> string \<Rightarrow> endpoint \<Rightarrow> unit result \<Rightarrow> dirsvc \<Rightarrow> dirsvc \<times> dir_out list \<times> unit result" where
  "svc_deregister now local_id ep unregister dv =
     (let agent_id = get_id ep in
      if \<not> hashable agent_id then (dv, [], Inl PyTypeError)
      else if map_of (dv_services dv) agent_id = None then (dv, [], Inl (DEFwAgentNotFound ''agent not found''))
      else case ebind (agent_api_attr ''unregister'') (\<lambda>_. unregister) of
        Inl e \<Rightarrow> (dv, [], Inl e)
      | Inr _ \<Rightarrow>
          (case query now True (dv_directory dv) of
             (d1, out1, Inl e) \<Rightarrow> (dv\<lparr>dv_directory := d1\<rparr>, out1, Inl e)
           | (d1, out1, Inr records) \<Rightarrow>
               (case deregister_all now local_id agent_id records d1 of
                  (d2, out2, Inl e) \<Rightarrow> (dv\<lparr>dv_directory := d2\<rparr>, out1 @ out2, Inl e)
                | (d2, out2, Inr _) \<Rightarrow>
                    (\<lparr>dv_services = AList.delete agent_id (dv_services dv), dv_directory = d2\<rparr>, out1 @ out2, Inr ()))))"

text \<open>The operations that go to the directory as they are.\<close>

definition svc_resolve_services :: "real \<Rightarrow> dict \<Rightarrow> dirsvc \<Rightarrow> dirsvc \<times> dir_out list \<times> resolved_binding list result" where
  "svc_resolve_services now filters dv =
     (case resolve_services now filters (dv_directory dv) of (d, out, res) \<Rightarrow> (dv\<lparr>dv_directory := d\<rparr>, out, res))"

definition svc_deregister_service ::
  "real \<Rightarrow> string \<Rightarrow> pyval \<Rightarrow> pyval \<Rightarrow> pyval \<Rightarrow> dirsvc \<Rightarrow> dirsvc \<times> dir_out list \<times> service_record result" where
  "svc_deregister_service now local_id sid rid gen dv =
     (case deregister_service now local_id sid rid gen (dv_directory dv) of
        (d, out, res) \<Rightarrow> (dv\<lparr>dv_directory := d\<rparr>, out, res))"

definition svc_get_service_generation :: "real \<Rightarrow> pyval \<Rightarrow> dirsvc \<Rightarrow> dirsvc \<times> dir_out list \<times> int option result" where
  "svc_get_service_generation now sid dv =
     (case get_service_generation now sid (dv_directory dv) of (d, out, res) \<Rightarrow> (dv\<lparr>dv_directory := d\<rparr>, out, res))"

text \<open>\<open>callback\<close> is the outcome of the constructor of the proxy of the subscriber's queue.\<close>

definition svc_register_event_notification ::
  "(pyval \<Rightarrow> bool) \<Rightarrow> string \<Rightarrow> pyval result \<Rightarrow> endpoint \<Rightarrow> pyval \<Rightarrow> pyval \<Rightarrow> dirsvc
     \<Rightarrow> dirsvc \<times> dir_out list \<times> string result" where
  "svc_register_event_notification has_put uuid callback ep event_type filters dv =
     (case callback of
        Inl e \<Rightarrow> (dv, [], Inl e)
      | Inr cb \<Rightarrow>
          (case register_event_notification has_put uuid cb event_type
                  (case get_id ep of PStr s \<Rightarrow> s | _ \<Rightarrow> []) filters (dv_directory dv) of
             (d, out, res) \<Rightarrow> (dv\<lparr>dv_directory := d\<rparr>, out, res)))"

definition svc_unregister_event_notification :: "string \<Rightarrow> dirsvc \<Rightarrow> dirsvc \<times> dir_out list \<times> bool result" where
  "svc_unregister_event_notification rid dv =
     (case unregister_event_notification rid (dv_directory dv) of (d, out, res) \<Rightarrow> (dv\<lparr>dv_directory := d\<rparr>, out, res))"

text \<open>What the directory service advertises of itself; the arguments are the module and the class name.\<close>

definition svc_query :: "string \<Rightarrow> string \<Rightarrow> dict" where
  "svc_query module_name class_name =
     [(PStr ''service_name'', PStr ''DEFwDirSvc''), (PStr ''service_type'', PStr ''defw.dirsvc''),
      (PStr ''api_bindings'', PList [PDict
        [(PStr ''binding_name'', PStr ''directory''), (PStr ''client_module'', PStr ''api_dirsvc''),
         (PStr ''client_class'', PStr ''DEFwDirSvc''), (PStr ''service_module'', PStr module_name),
         (PStr ''service_class'', PStr class_name), (PStr ''version'', PInt 1)]]),
      (PStr ''selector'', PDict [(PStr ''resources'', PList [PStr ''DEFwDirSvc''])]),
      (PStr ''properties'', PDict [(PStr ''description'', PStr ''DEFw Directory Service'')]),
      (PStr ''capability'', PDict [(PStr ''type'', PInt 1), (PStr ''caps'', PInt 1),
        (PStr ''description'', PStr ''directory service'')])]"

subsection \<open>Registration binds the caller\<close>

lemma directory_record_ids:
  "directory_record rp ep adv context = Inr rec \<Longrightarrow>
     dget0 rec ''runtime_id'' = ep_remote_uuid ep \<and> dget0 rec ''peer_handle'' = ep_blk_uuid ep"
  by (auto simp: directory_record_def ebind_Inr_iff)

text \<open>Every record that is returned comes from one registration.\<close>

lemma register_adverts_each:
  "register_adverts rp now lid ep context advs d = (d', out, Inr rs) \<Longrightarrow> r \<in> set rs \<Longrightarrow>
     \<exists>adv rec d0 out0 d1. directory_record rp ep adv context = Inr rec \<and> register_service now lid rec [] d0 = (d1, out0, Inr r)"
proof (induction advs arbitrary: d out rs)
  case (Cons adv advs)
  obtain rec where rec: "directory_record rp ep adv context = Inr rec"
    using Cons.prems(1) by (cases "directory_record rp ep adv context") auto
  obtain d1 out1 res1 where g: "register_service now lid rec [] d = (d1, out1, res1)"
    by (cases "register_service now lid rec [] d")
  obtain r1 where r1: "res1 = Inr r1" using Cons.prems(1) rec g by (cases res1) auto
  obtain d2 out2 res2 where a: "register_adverts rp now lid ep context advs d1 = (d2, out2, res2)"
    by (cases "register_adverts rp now lid ep context advs d1")
  obtain rs2 where rs2: "res2 = Inr rs2" "rs = r1 # rs2" "d2 = d'"
    using Cons.prems(1) rec g r1 a by (cases res2) auto
  show ?case
  proof (cases "r = r1")
    case True
    with rec g r1 show ?thesis by blast
  next
    case False
    with Cons.prems(2) rs2(2) have "r \<in> set rs2" by simp
    from Cons.IH [OF a [unfolded rs2(1,3)] this] show ?thesis .
  qed
qed simp

lemma register_adverts_ids:
  assumes "register_adverts rp now lid ep context advs d = (d', out, Inr rs)" and "r \<in> set rs"
  shows "sr_runtime_id r = ep_remote_uuid ep \<and> sr_peer_handle r = ep_blk_uuid ep \<and> sr_state r = UP \<and> truthy (sr_peer_handle r)"
proof -
  from register_adverts_each [OF assms] obtain adv rec d0 out0 d1 where
    s: "directory_record rp ep adv context = Inr rec" "register_service now lid rec [] d0 = (d1, out0, Inr r)" by blast
  note ok = register_service_ok [OF s(2)]
  have "reg_rid rec [] = ep_remote_uuid ep" "reg_ph rec [] = ep_blk_uuid ep"
    using ok(3,4) directory_record_ids [OF s(1)] by (auto simp: py_or_def split: if_splits)
  with build_record_fields [OF ok(5)] ok(4) show ?thesis by simp
qed

lemma register_agent_ok:
  assumes "register_agent timeout pt ep context api answer dv = (dv1, Inr ())"
  shows "\<exists>ag entry. get_agent timeout pt (TObj ep) PNone False = Inr (Some ag) \<and>
    map_of (dv_services dv1) (get_id ep) = Some entry \<and> en_agent entry = ag \<and> dv_directory dv1 = dv_directory dv"
  using assms by (auto simp: register_agent_def Let_def split: sum.splits option.splits if_splits prod.splits)

text \<open>
  C17: a registration is bound to the caller. When \<open>register_service\<close> returns records, the caller was
  found in the peer table as a callable peer, and every record is up and carries the runtime id of
  the caller and the handle of that peer, whatever the advertisements claim.
\<close>
theorem registration_binds_caller:
  assumes "pt_inv pt" and "svc_register_service rp now lid timeout pt ep context api answer again dv = (dv', out, Inr rs)"
    and "truthy (endpoint_runtime_id (TObj ep))" and "r \<in> set rs"
  shows "\<exists>peer. map_of (pt_peers pt) (sr_peer_handle r) = Some peer \<and> pr_callable peer \<and>
    sr_runtime_id r = pr_runtime_id peer \<and> py_eq (endpoint_runtime_id (TObj ep)) (sr_runtime_id r) \<and> sr_state r = UP"
proof -
  from assms(2) obtain dv1 where ra: "register_agent timeout pt ep context api answer dv = (dv1, Inr ())"
    and de: "register_directory_entries rp now lid again (get_id ep) context dv1 = (dv', out, Inr rs)"
    by (auto simp: svc_register_service_def split: prod.splits sum.splits)
  from register_agent_ok [OF ra] obtain ag entry where ag: "get_agent timeout pt (TObj ep) PNone False = Inr (Some ag)"
    "map_of (dv_services dv1) (get_id ep) = Some entry" "en_agent entry = ag" by blast
  from de ag obtain advs d0 d1 where
    "register_adverts rp now lid (ag_endpoint ag) context advs d0 = (d1, out, Inr rs)"
    by (auto simp: register_directory_entries_def Let_def split: sum.splits if_splits prod.splits)
  from register_adverts_ids [OF this assms(4)]
  have r: "sr_runtime_id r = get_remote_uuid ag" "sr_peer_handle r = get_blk_uuid ag" "sr_state r = UP"
    by (simp_all add: get_remote_uuid_def get_blk_uuid_def)
  from ag(1) obtain peer where f: "find_record pt (TObj ep) PNone False = Inr (Some peer)"
    and a: "record_to_agent timeout peer (TObj ep) = Inr (Some ag)"
    by (auto simp: get_agent_def ebind_Inr_iff split: option.splits)
  from find_record_sound [OF assms(1) f] have p: "map_of (pt_peers pt) (pr_peer_handle peer) = Some peer"
    "peer_matches (Some peer) (TObj ep) PNone" by auto
  from p(2) assms(3) have m: "pr_callable peer" "py_eq (endpoint_runtime_id (TObj ep)) (pr_runtime_id peer)"
    by (auto simp: peer_matches_def split: if_splits)
  have "truthy (pr_runtime_id peer)"
    using py_eq_truthy [OF m(2)] assms(3) by simp
  with record_to_agent_ok [OF a] have "get_remote_uuid ag = pr_runtime_id peer" "get_blk_uuid ag = pr_peer_handle peer"
    by (simp_all add: py_or_def)
  with r p(1) m show ?thesis by auto
qed

definition demo_svc_peer :: peer where
  "demo_svc_peer = \<lparr>pr_peer_handle = PStr ''b1'', pr_runtime_id = PStr ''r1'', pr_endpoint = [(PStr ''node_name'', PStr ''n'')],
     pr_transport_context = PStr '''', pr_connection_direction = PStr '''', pr_is_self = False, pr_last_seen = PInt 1,
     pr_node_type = EN_DEFW_SERVICE, pr_callable = True, pr_loss_reason = PStr ''''\<rparr>"

definition demo_svc_peers :: peer_table where
  "demo_svc_peers = \<lparr>pt_peers = [(PStr ''b1'', demo_svc_peer)], pt_pending_targets = []\<rparr>"

definition demo_service_ep :: endpoint where
  "demo_service_ep = \<lparr>ep_addr = PStr ''h'', ep_port = PInt 0, ep_listen_port = PInt 1, ep_pid = PInt 2, ep_name = PStr ''n'',
     ep_hostname = PStr ''h'', ep_node_type = EN_DEFW_SERVICE, ep_remote_uuid = PStr ''r1'', ep_blk_uuid = PStr ''b1''\<rparr>"

definition demo_advert :: pyval where
  "demo_advert = PDict [(PStr ''service_name'', PStr ''S''), (PStr ''runtime_id'', PStr ''forged''),
     (PStr ''api_bindings'', PList [PDict [(PStr ''binding_name'', PStr ''x'')]])]"

definition demo_registered :: "dirsvc \<times> dir_out list \<times> service_record list result" where
  "demo_registered = svc_register_service (\<lambda>_. []) 1 ''d'' (PInt 300) demo_svc_peers demo_service_ep PNone (Inr (PObj 1))
     (Inr (PList [demo_advert])) (Inr (PList [])) (init_dirsvc 300)"

lemma demo_registered_one: "\<exists>dv out r. demo_registered = (dv, out, Inr [r])"
proof -
  have ag: "get_agent (PInt 300) demo_svc_peers (TObj demo_service_ep) PNone False
      = Inr (Some (make_agent (PInt 300) (demo_service_ep\<lparr>ep_addr := PStr ''h''\<rparr>)))"
    by (simp add: get_agent_def find_record_def demo_svc_peers_def demo_svc_peer_def demo_service_ep_def peer_matches_def
        endpoint_attr_def endpoint_runtime_id_def ZERO_UUID_def record_to_agent_def py_or_def make_endpoint_def
        valid_node_type_def py_mem_def EN_DEFW_DIRSVC_def EN_DEFW_SERVICE_def EN_DEFW_AGENT_def Let_def)
  have live: "live_agent_ids demo_svc_peers = Inr [PStr ''r1'']"
    by (simp add: live_agent_ids_def snapshot_def demo_svc_peers_def demo_svc_peer_def)
  show ?thesis
    by (simp add: demo_registered_def svc_register_service_def register_agent_def live ag [unfolded demo_service_ep_def] Let_def prune_db_def
        init_dirsvc_def get_id_def demo_service_ep_def register_directory_entries_def directory_record_def
        directory_fields_def demo_advert_def py_or_def make_agent_def dupdate_def register_service_def
        build_record_def record_value_def is_set_def py_mem_def normalize_bindings_def init_directory_def
        notify_lifecycle_def publish_service_event_def)
qed

theorem registration_binds_caller_witness:
  "\<exists>dv out r peer. demo_registered = (dv, out, Inr [r]) \<and> map_of (pt_peers demo_svc_peers) (sr_peer_handle r) = Some peer \<and>
     sr_runtime_id r = pr_runtime_id peer"
proof -
  obtain dv out r where d: "demo_registered = (dv, out, Inr [r])" using demo_registered_one by blast
  have "pt_inv demo_svc_peers" by (simp add: pt_inv_def demo_svc_peers_def demo_svc_peer_def)
  moreover have "truthy (endpoint_runtime_id (TObj demo_service_ep))"
    by (simp add: endpoint_runtime_id_def demo_service_ep_def endpoint_attr_def ZERO_UUID_def py_or_def Let_def)
  ultimately show ?thesis
    using registration_binds_caller [OF _ d [unfolded demo_registered_def], of r] d by auto
qed


end
