(* ===== verification/Polling.thy ===== *)
theory Polling
  imports Main Complex_Main
begin

section \<open>Loops that poll until a deadline\<close>

text \<open>
  The code waits in one way: until a time is reached it looks at some state, returns when it finds
  what it looks for, and sleeps otherwise. The interface states this contract for a loop over the
  polls it makes, each with its time and the state it sees; the components interpret it with their
  own loops.
\<close>

locale polling =
  fixes poll_loop :: "(real \<times> 's) list \<Rightarrow> 'r option"
    and in_time :: "real \<Rightarrow> bool"
    and look :: "'s \<Rightarrow> 'r option"
    and late :: 'r
  assumes poll_Nil: "poll_loop [] = None"
    and poll_Cons: "poll_loop ((t, s) # ps) =
      (if \<not> in_time t then Some late else case look s of Some r \<Rightarrow> Some r | None \<Rightarrow> poll_loop ps)"
begin

text \<open>The loop returns exactly if a poll is late or finds something.\<close>

lemma poll_returns: "(\<exists>r. poll_loop ps = Some r) \<longleftrightarrow> (\<exists>(t, s) \<in> set ps. \<not> in_time t \<or> look s \<noteq> None)"
  by (induction ps) (auto simp: poll_Nil poll_Cons split: option.splits)

lemma poll_late: "(t, s) \<in> set ps \<Longrightarrow> \<not> in_time t \<Longrightarrow> \<exists>r. poll_loop ps = Some r"
  by (subst poll_returns) blast

text \<open>What it returns was found in time, by the first poll that found anything, or it is the late answer.\<close>

lemma poll_result:
  "poll_loop ps = Some r \<Longrightarrow> r = late \<or> (\<exists>(t, s) \<in> set ps. in_time t \<and> look s = Some r)"
  by (induction ps) (auto simp: poll_Nil poll_Cons split: if_splits option.splits)

lemma poll_first:
  "\<forall>(t, s) \<in> set ps. in_time t \<and> look s = None \<Longrightarrow> in_time t \<Longrightarrow> look s = Some r \<Longrightarrow> poll_loop (ps @ (t, s) # qs) = Some r"
  by (induction ps) (auto simp: poll_Cons)

end

end
