(* ===== verification/Connect.thy ===== *)
theory Connect
  imports Workers Dirsvc Polling
begin

section \<open>Connecting to services (\<open>python/infra/defw.py\<close>)\<close>

text \<open>
  How a client gets from a resolved binding of the directory to a connected endpoint: the endpoint is
  rebuilt from the service record, an agent for it is looked up in the peer table, and if there is
  none a connection is requested and the peer table is polled until the peer is bound. The polls of
  a loop are a list of the times and the states it sees; \<open>None\<close> as the result of a loop means that it
  goes on after them.
\<close>

definition defw_get_agent :: "pyval \<Rightarrow> peer_table \<Rightarrow> endpoint \<Rightarrow> pyval \<Rightarrow> bool \<Rightarrow> agent option result" where
  "defw_get_agent timeout pt ep direction fallback = get_agent timeout pt (TObj ep) direction fallback"

definition zero_blk_endpoint :: "endpoint \<Rightarrow> endpoint result" where
  "zero_blk_endpoint ep =
     make_endpoint (ep_addr ep) (ep_port ep) (ep_listen_port ep) (ep_pid ep) (ep_name ep) (ep_hostname ep)
       (ep_node_type ep) (ep_remote_uuid ep) (PStr ZERO_UUID)"

definition find_bound_agent :: "pyval \<Rightarrow> peer_table \<Rightarrow> endpoint \<Rightarrow> agent option result" where
  "find_bound_agent timeout pt ep =
     ebind (get_agent timeout pt (TObj ep) PNone False) (\<lambda>ao.
     case ao of
       Some a \<Rightarrow> Inr (Some a)
     | None \<Rightarrow> get_agent timeout pt (TObj ep) CONNECTION_OUTBOUND True)"

fun wait_for_bound_agent :: "pyval \<Rightarrow> real \<Rightarrow> endpoint \<Rightarrow> (real \<times> peer_table) list \<Rightarrow> agent option result option" where
  "wait_for_bound_agent timeout deadline ep [] = None"
| "wait_for_bound_agent timeout deadline ep ((t, pt) # polls) =
     (if \<not> t < deadline then Some (Inr None)
      else case find_bound_agent timeout pt ep of
        Inl e \<Rightarrow> Some (Inl e)
      | Inr (Some a) \<Rightarrow> Some (Inr (Some a))
      | Inr None \<Rightarrow> wait_for_bound_agent timeout deadline ep polls)"

text \<open>
  What one endpoint of \<open>connect_to_services\<close> meets: the peer table, the outcome of the connection
  request (\<open>connect_to_agent\<close>, whose value is not used), the deadline of the wait and its polls.
\<close>

record connect_env =
  cn_peers :: peer_table
  cn_connect :: "unit result"
  cn_deadline :: real
  cn_polls :: "(real \<times> peer_table) list"

definition connect_endpoint :: "pyval \<Rightarrow> endpoint \<Rightarrow> connect_env \<Rightarrow> endpoint result option" where
  "connect_endpoint timeout ep env =
     (case find_bound_agent timeout (cn_peers env) ep of
        Inl e \<Rightarrow> Some (Inl e)
      | Inr (Some a) \<Rightarrow> Some (Inr (ag_endpoint a))
      | Inr None \<Rightarrow>
          (case ebind (zero_blk_endpoint ep) (\<lambda>cep. ebind (cn_connect env) (\<lambda>_. Inr cep)) of
             Inl e \<Rightarrow> Some (Inl e)
           | Inr cep \<Rightarrow>
               (case wait_for_bound_agent timeout (cn_deadline env) cep (cn_polls env) of
                  None \<Rightarrow> None
                | Some (Inl e) \<Rightarrow> Some (Inl e)
                | Some (Inr None) \<Rightarrow> Some (Inl (DEFwAgentNotFound ''Connection completed without a bound peer''))
                | Some (Inr (Some a)) \<Rightarrow> Some (Inr (ag_endpoint a)))))"

fun connect_to_services :: "pyval \<Rightarrow> (endpoint \<times> connect_env) list \<Rightarrow> endpoint list result option" where
  "connect_to_services timeout [] = Some (Inr [])"
| "connect_to_services timeout ((ep, env) # eps) =
     (case connect_endpoint timeout ep env of
        None \<Rightarrow> None
      | Some (Inl e) \<Rightarrow> Some (Inl e)
      | Some (Inr bound) \<Rightarrow>
          (case connect_to_services timeout eps of
             None \<Rightarrow> None
           | Some (Inl e) \<Rightarrow> Some (Inl e)
           | Some (Inr rest) \<Rightarrow> Some (Inr (bound # rest))))"

text \<open>\<open>v.get(name)\<close> on a value that may not be a dictionary.\<close>

fun py_get0 :: "pyval \<Rightarrow> string \<Rightarrow> pyval result" where
  "py_get0 (PDict d) k = Inr (dget0 d k)"
| "py_get0 _ k = Inl PyAttributeError"

text \<open>The endpoint a service record names.\<close>

definition binding_endpoint :: "dict \<Rightarrow> endpoint result" where
  "binding_endpoint record =
     ebind (if truthy (dget0 record ''peer_handle'') then Inr (dget0 record ''peer_handle'')
            else ebind (py_get0 (py_or (dget0 record ''transport_binding'') (PDict [])) ''peer_handle'') (\<lambda>h.
              Inr (py_or h (PStr ZERO_UUID)))) (\<lambda>peer_handle.
     ebind (if truthy (dget0 record ''node_type'') then Inr (dget0 record ''node_type'')
            else py_get0 (py_or (dget0 record ''endpoint'') (PDict [])) ''node_type'') (\<lambda>nt0.
     let node_type = (if nt0 \<noteq> PNone then nt0
           else if py_eq (dget0 record ''service_type'') (PStr ''defw.dirsvc'') then EN_DEFW_DIRSVC else EN_DEFW_SERVICE) in
     ebind (dindex record ''endpoint'') (\<lambda>ep.
     ebind (py_getitem ep ''address'') (\<lambda>address.
     ebind (py_getitem ep ''listen_port'') (\<lambda>listen_port.
     ebind (py_getitem ep ''pid'') (\<lambda>pid.
     ebind (py_getitem ep ''node_name'') (\<lambda>node_name.
     ebind (py_getitem ep ''hostname'') (\<lambda>hostname.
     ebind (dindex record ''runtime_id'') (\<lambda>runtime_id.
     make_endpoint address (PInt 0) listen_port pid node_name hostname node_type runtime_id peer_handle)))))))))"

text \<open>
  \<open>connect_to_binding\<close>: the proxy is constructed with the bound endpoint and the names of the service's
  module and class. \<open>client\<close> is the outcome of importing the client module, looking the client class
  up in it and constructing it.
\<close>

definition connect_to_binding ::
  "pyval \<Rightarrow> (pyval \<Rightarrow> pyval \<Rightarrow> endpoint \<Rightarrow> pyval \<Rightarrow> pyval \<Rightarrow> pyval result) \<Rightarrow> dict \<Rightarrow> connect_env
     \<Rightarrow> pyval result option" where
  "connect_to_binding timeout client resolved env =
     (case ebind (dindex resolved ''service_record'') (\<lambda>record.
           ebind (dindex resolved ''selected_binding'') (\<lambda>binding.
           ebind (py_items record) (\<lambda>rd. ebind (binding_endpoint rd) (\<lambda>ep. Inr (binding, ep))))) of
        Inl e \<Rightarrow> Some (Inl e)
      | Inr (binding, ep) \<Rightarrow>
          (case connect_to_services timeout [(ep, env)] of
             None \<Rightarrow> None
           | Some (Inl e) \<Rightarrow> Some (Inl e)
           | Some (Inr bound) \<Rightarrow>
               Some (ebind (py_getitem binding ''client_module'') (\<lambda>cm.
                     ebind (py_getitem binding ''client_class'') (\<lambda>cc.
                     ebind (py_get0 binding ''service_module'') (\<lambda>sm.
                     ebind (py_get0 binding ''service_class'') (\<lambda>sc.
                     client cm cc (case bound of [] \<Rightarrow> ep | b # _ \<Rightarrow> b) sm sc)))))))"

text \<open>\<open>wait_dirsvc\<close> looks once a second whether the directory service is bound.\<close>

fun wait_dirsvc_loop :: "real \<Rightarrow> nat \<Rightarrow> bool list \<Rightarrow> bool option" where
  "wait_dirsvc_loop timeout waited [] = (if real waited < timeout then None else Some False)"
| "wait_dirsvc_loop timeout waited (bound # polls) =
     (if \<not> real waited < timeout then Some False
      else if bound then Some True
      else wait_dirsvc_loop timeout (waited + 1) polls)"

definition wait_dirsvc :: "real \<Rightarrow> bool \<Rightarrow> bool list \<Rightarrow> bool option" where
  "wait_dirsvc timeout bound polls = (if bound then Some True else wait_dirsvc_loop timeout 0 polls)"

subsection \<open>What connecting gives\<close>

lemma wait_dirsvc_total: "timeout \<le> real (length polls) \<Longrightarrow> \<exists>r. wait_dirsvc timeout bound polls = Some r"
proof -
  have "timeout \<le> real (w + length polls) \<Longrightarrow> \<exists>r. wait_dirsvc_loop timeout w polls = Some r" for w
    by (induction polls arbitrary: w) auto
  from this [of 0] show "timeout \<le> real (length polls) \<Longrightarrow> ?thesis" by (auto simp: wait_dirsvc_def)
qed

text \<open>
  A bound agent belongs to a peer of one of the tables that were looked at: it is callable and, when
  the endpoint names a runtime, runs that runtime.
\<close>

definition bound_in :: "peer_table \<Rightarrow> endpoint \<Rightarrow> endpoint \<Rightarrow> bool" where
  "bound_in pt ep bound \<longleftrightarrow> (\<exists>p. map_of (pt_peers pt) (ep_blk_uuid bound) = Some p \<and> pr_callable p \<and>
     (truthy (endpoint_runtime_id (TObj ep)) \<longrightarrow> py_eq (endpoint_runtime_id (TObj ep)) (pr_runtime_id p)))"

lemma get_agent_bound:
  assumes "pt_inv pt" and "get_agent timeout pt (TObj ep) dir fb = Inr (Some a)"
  shows "bound_in pt ep (ag_endpoint a)"
proof -
  from assms(2) obtain p where f: "find_record pt (TObj ep) dir fb = Inr (Some p)"
    and a: "record_to_agent timeout p (TObj ep) = Inr (Some a)"
    by (auto simp: get_agent_def ebind_Inr_iff split: option.splits)
  from find_record_sound [OF assms(1) f] have "map_of (pt_peers pt) (pr_peer_handle p) = Some p"
    "peer_matches (Some p) (TObj ep) dir" by auto
  with record_to_agent_ok [OF a] show ?thesis
    by (auto simp: bound_in_def peer_matches_def get_blk_uuid_def split: if_splits)
qed

lemma find_bound_agent_bound:
  assumes "pt_inv pt" and "find_bound_agent timeout pt ep = Inr (Some a)"
  shows "bound_in pt ep (ag_endpoint a)"
  using assms(2) get_agent_bound [OF assms(1)]
  by (auto simp: find_bound_agent_def ebind_Inr_iff split: option.splits)

interpretation bound_wait: polling "wait_for_bound_agent timeout d ep" "\<lambda>t. t < d"
  "\<lambda>pt. case find_bound_agent timeout pt ep of
     Inl e \<Rightarrow> Some (Inl e) | Inr (Some a) \<Rightarrow> Some (Inr (Some a)) | Inr None \<Rightarrow> None"
  "Inr None" for timeout d ep
  by unfold_locales (auto split: sum.splits option.splits)

lemma wait_for_bound_agent_bound:
  assumes "wait_for_bound_agent timeout d ep polls = Some (Inr (Some a))" and "\<forall>(t, pt) \<in> set polls. pt_inv pt"
  shows "\<exists>(t, pt) \<in> set polls. t < d \<and> bound_in pt ep (ag_endpoint a)"
  using bound_wait.poll_result [OF assms(1)] assms(2)
  by (fastforce split: sum.splits option.splits dest: find_bound_agent_bound)

lemma zero_blk_runtime: "zero_blk_endpoint ep = Inr cep \<Longrightarrow> endpoint_runtime_id (TObj cep) = endpoint_runtime_id (TObj ep)"
  by (auto simp: zero_blk_endpoint_def make_endpoint_def endpoint_runtime_id_def endpoint_attr_def Let_def split: if_splits)

text \<open>
  C16: a connection leads to the right runtime. Whether a connection is reused or made, the endpoint that
  \<open>connect_to_services\<close> returns for a service carries the handle of a callable peer of a table it
  looked at, which runs the runtime of the service; without such a peer it raises.
\<close>
theorem connect_reaches_runtime:
  assumes "connect_endpoint timeout ep env = Some (Inr bound)" and "pt_inv (cn_peers env)"
    and "\<forall>(t, pt) \<in> set (cn_polls env). pt_inv pt"
  shows "bound_in (cn_peers env) ep bound \<or> (\<exists>(t, pt) \<in> set (cn_polls env). t < cn_deadline env \<and> bound_in pt ep bound)"
proof (cases "find_bound_agent timeout (cn_peers env) ep")
  case (Inl e)
  with assms(1) show ?thesis by (simp add: connect_endpoint_def)
next
  case (Inr ao)
  show ?thesis
  proof (cases ao)
    case (Some a)
    with Inr assms(1) find_bound_agent_bound [OF assms(2)] show ?thesis by (auto simp: connect_endpoint_def)
  next
    case None
    with Inr assms(1) obtain cep a where z: "zero_blk_endpoint ep = Inr cep"
        "wait_for_bound_agent timeout (cn_deadline env) cep (cn_polls env) = Some (Inr (Some a))" "bound = ag_endpoint a"
      by (auto simp: connect_endpoint_def ebind_def split: sum.splits option.splits)
    from wait_for_bound_agent_bound [OF z(2) assms(3)] zero_blk_runtime [OF z(1)] z(3) show ?thesis
      by (auto simp: bound_in_def)
  qed
qed

definition demo_connect :: connect_env where
  "demo_connect = \<lparr>cn_peers = demo_svc_peers, cn_connect = Inr (), cn_deadline = 5, cn_polls = []\<rparr>"

theorem connect_reaches_runtime_witness:
  "\<exists>bound. connect_endpoint (PInt 300) demo_service_ep demo_connect = Some (Inr bound) \<and>
     bound_in demo_svc_peers demo_service_ep bound"
proof -
  have "\<exists>bound. connect_endpoint (PInt 300) demo_service_ep demo_connect = Some (Inr bound)"
    by (simp add: connect_endpoint_def find_bound_agent_def demo_connect_def get_agent_def find_record_def
        demo_svc_peers_def demo_svc_peer_def demo_service_ep_def peer_matches_def endpoint_attr_def
        endpoint_runtime_id_def ZERO_UUID_def record_to_agent_def py_or_def make_endpoint_def valid_node_type_def
        py_mem_def EN_DEFW_DIRSVC_def EN_DEFW_SERVICE_def EN_DEFW_AGENT_def Let_def)
  then obtain bound where b: "connect_endpoint (PInt 300) demo_service_ep demo_connect = Some (Inr bound)" by blast
  have "pt_inv demo_svc_peers" by (simp add: pt_inv_def demo_svc_peers_def demo_svc_peer_def)
  with connect_reaches_runtime [OF b] b show ?thesis by (auto simp: demo_connect_def)
qed

lemma register_adverts_endpoint:
  assumes "register_adverts rp now lid ep context advs d = (d', out, Inr rs)" and "r \<in> set rs"
  shows "sr_endpoint r = svc_endpoint_record ep"
proof -
  from register_adverts_each [OF assms] obtain adv rec d0 out0 d1 where
    s: "directory_record rp ep adv context = Inr rec" "register_service now lid rec [] d0 = (d1, out0, Inr r)" by blast
  have "dget0 rec ''endpoint'' = PDict (svc_endpoint_record ep)"
    using s(1) by (auto simp: directory_record_def ebind_Inr_iff)
  then show ?thesis
    using register_service_ok(5) [OF s(2)]
    by (auto simp: build_record_def Let_def ebind_Inr_iff py_or_def svc_endpoint_record_def)
qed



end
