(* ===== verification/App_Util.thy ===== *)
theory App_Util
  imports Connect
begin

section \<open>Spawning and finding services (\<open>python/infra/defw_app_util.py\<close>)\<close>

text \<open>
  What an application uses to start service processes of its own, to stop them and to connect to
  services by name. The state is the next free port, the handles of the processes (a store: a
  handle is its position) and the list of the handles that are tracked. What the operating system
  answers (signals, files, processes, the clock) and the outcomes of the remote calls are arguments;
  the signals that are sent and the remote calls that are made are results. A waiting loop is a
  recursion over the polls it makes, and \<open>None\<close> means that it goes on after them.
\<close>

subsection \<open>Specifications, ports and environments\<close>

fun normalize_entry :: "pyval \<Rightarrow> dict result" where
  "normalize_entry (PStr s) = Inr [(PStr ''module'', PStr s)]"
| "normalize_entry (PDict d) = Inr d"
| "normalize_entry _ = Inl (DEFwError ''Unsupported service entry'')"

fun normalize_service_specs :: "pyval \<Rightarrow> dict list result" where
  "normalize_service_specs (PStr s) = Inr [[(PStr ''module'', PStr s)]]"
| "normalize_service_specs (PDict d) = Inr [d]"
| "normalize_service_specs (PList xs) = emap normalize_entry xs"
| "normalize_service_specs _ = Inl (DEFwError ''Unsupported service specification'')"

definition allocate_ports :: "dict \<Rightarrow> int \<Rightarrow> nat \<Rightarrow> int option \<Rightarrow> int option \<times> int list result" where
  "allocate_ports environ listenport count next_port =
     (case (case next_port of
              Some p \<Rightarrow> Inr p
            | None \<Rightarrow> py_int (dget environ ''DEFW_EXPERIMENT_PORT_BASE'' (PStr (int_dec (listenport + 10))))) of
        Inl e \<Rightarrow> (None, Inl e)
      | Inr start \<Rightarrow> (Some (start + int count), Inr [start..start + int count - 1]))"

text \<open>What the own process tells about itself.\<close>

record node_info =
  ni_tmp_dir :: string
  ni_defw_path :: string
  ni_name :: string
  ni_hostname :: string
  ni_listenaddress :: string
  ni_listenport :: int

definition service_vars :: "node_info \<Rightarrow> dict \<Rightarrow> pyval \<Rightarrow> string \<Rightarrow> int \<Rightarrow> int \<Rightarrow> string \<Rightarrow> dict" where
  "service_vars ni environ modl agent_name listen_port telnet_port log_dir =
     [(PStr ''DEFW_PATH'', PStr (ni_defw_path ni)),
      (PStr ''DEFW_CONFIG_PATH'', py_or (dget0 environ ''DEFW_CONFIG_PATH'')
         (PStr (foldl path_join (ni_defw_path ni) [''share'', ''defw'', ''config'', ''defw_generic.yaml'']))),
      (PStr ''DEFW_AGENT_NAME'', PStr agent_name),
      (PStr ''DEFW_AGENT_TYPE'', PStr ''service''),
      (PStr ''DEFW_SHELL_TYPE'', PStr ''daemon''),
      (PStr ''DEFW_LISTEN_PORT'', PStr (int_dec listen_port)),
      (PStr ''DEFW_TELNET_PORT'', PStr (int_dec telnet_port)),
      (PStr ''DEFW_PARENT_NAME'', PStr (ni_name ni)),
      (PStr ''DEFW_PARENT_HOSTNAME'', PStr (ni_hostname ni)),
      (PStr ''DEFW_PARENT_ADDR'', PStr (ni_listenaddress ni)),
      (PStr ''DEFW_PARENT_PORT'', PStr (int_dec (ni_listenport ni))),
      (PStr ''DEFW_ONLY_LOAD_MODULE'', modl),
      (PStr ''DEFW_LOG_DIR'', PStr log_dir)]"

definition spec_vars :: "(pyval \<Rightarrow> string) \<Rightarrow> dict \<Rightarrow> dict result" where
  "spec_vars rp spec =
     (if truthy (dget0 spec ''env'')
      then ebind (py_items (dget0 spec ''env'')) (\<lambda>items. Inr (map (\<lambda>(k, v). (k, PStr (py_str rp v))) items))
      else Inr [])"

text \<open>
  \<open>uid\<close> are the eight characters of a fresh uuid and \<open>mkdir\<close> is the outcome of making the log
  directory. The ports are taken before the agent name is used, so they stay taken when it is not a
  string and joining it to a path raises.
\<close>

definition build_service_env ::
  "(pyval \<Rightarrow> string) \<Rightarrow> node_info \<Rightarrow> dict \<Rightarrow> string \<Rightarrow> unit result \<Rightarrow> dict \<Rightarrow> int option
     \<Rightarrow> int option \<times> (dict \<times> string \<times> int \<times> int \<times> string) result" where
  "build_service_env rp ni environ uid mkdir spec next_port =
     (case dindex spec ''module'' of
        Inl e \<Rightarrow> (next_port, Inl e)
      | Inr modl \<Rightarrow>
          (case allocate_ports environ (ni_listenport ni) 2 next_port of
             (np, Inl e) \<Rightarrow> (np, Inl e)
           | (np, Inr ports) \<Rightarrow>
               (np,
                case dget spec ''agent_name'' (PStr (py_str rp modl @ ''-'' @ uid)) of
                  PStr agent_name \<Rightarrow>
                    (let log_dir = path_join (ni_tmp_dir ni) agent_name in
                     ebind mkdir (\<lambda>_.
                     ebind (spec_vars rp spec) (\<lambda>vars.
                     Inr (dupdate (dupdate environ
                            (service_vars ni environ modl agent_name (ports ! 0) (ports ! 1) log_dir)) vars,
                          agent_name, ports ! 0, ports ! 1, log_dir))))
                | _ \<Rightarrow> Inl PyTypeError)))"

text \<open>The polls of the pid file: the time and the content of the file, if there is one.\<close>

fun wait_for_daemon_pid :: "real \<Rightarrow> real \<Rightarrow> (real \<times> string option) list \<Rightarrow> int result option" where
  "wait_for_daemon_pid start timeout [] = None"
| "wait_for_daemon_pid start timeout ((t, content) # polls) =
     (if \<not> t - start < timeout then Some (Inl (DEFwError ''Timed out waiting for daemon pid''))
      else case content of
        Some s \<Rightarrow> Some (py_int (PStr s))
      | None \<Rightarrow> wait_for_daemon_pid start timeout polls)"

text \<open>
  The executable is the one of the environment or one of the installed ones, a path below the
  installation; \<open>runnable\<close> tells whether a path is an executable file.
\<close>

datatype defwp_path = Override string | Installed "string list"

definition resolve_defwp :: "(defwp_path \<Rightarrow> bool) \<Rightarrow> dict \<Rightarrow> defwp_path result" where
  "resolve_defwp runnable environ =
     (case dget environ ''DEFW_EXECUTABLE'' (PStr []) of
        PStr (c # cs) \<Rightarrow>
          if runnable (Override (c # cs)) then Inr (Override (c # cs))
          else Inl (DEFwError ''DEFW_EXECUTABLE is not executable'')
      | _ \<Rightarrow>
          (case find runnable (map Installed
             [[''src'', ''defwp''], [''bin'', ''defwp''], [''src'', ''defwp-wrapper''], [''bin'', ''defwp-wrapper'']]) of
             Some c \<Rightarrow> Inr c
           | None \<Rightarrow> Inl (DEFwError ''Unable to find defwp'')))"

subsection \<open>Waiting for a spawned service\<close>

definition endpoint_from_peer_record :: "peer \<Rightarrow> string \<Rightarrow> int \<Rightarrow> endpoint option result" where
  "endpoint_from_peer_record r agent_name listen_port =
     (let ep = pr_endpoint r;
          runtime_id = py_or (pr_runtime_id r) (dget0 ep ''runtime_id'') in
      if \<not> pr_callable r then Inr None
      else if \<not> py_eq (dget0 ep ''node_name'') (PStr agent_name) then Inr None
      else if py_int (dget ep ''listen_port'' (PInt 0)) \<noteq> Inr listen_port then Inr None
      else if \<not> truthy runtime_id \<or> \<not> truthy (pr_peer_handle r) then Inr None
      else
        ebind (make_endpoint (dget ep ''address'' (PStr '''')) (dget ep ''port'' (PInt 0))
          (dget ep ''listen_port'' (PInt 0)) (dget ep ''pid'' (PInt 0)) (dget ep ''node_name'' (PStr agent_name))
          (dget ep ''hostname'' (PStr '''')) (py_or (py_or (dget0 ep ''node_type'') (pr_node_type r)) EN_DEFW_SERVICE)
          runtime_id (pr_peer_handle r)) (\<lambda>e. Inr (Some e)))"

fun first_endpoint :: "string \<Rightarrow> int \<Rightarrow> peer list \<Rightarrow> endpoint option result" where
  "first_endpoint agent_name listen_port [] = Inr None"
| "first_endpoint agent_name listen_port (r # rs) =
     ebind (endpoint_from_peer_record r agent_name listen_port) (\<lambda>eo.
     case eo of Some e \<Rightarrow> Inr (Some e) | None \<Rightarrow> first_endpoint agent_name listen_port rs)"

fun wait_for_service_endpoint :: "string \<Rightarrow> int \<Rightarrow> real \<Rightarrow> (real \<times> peer_table) list \<Rightarrow> endpoint result option" where
  "wait_for_service_endpoint agent_name listen_port deadline [] = None"
| "wait_for_service_endpoint agent_name listen_port deadline ((t, pt) # polls) =
     (if \<not> t < deadline then Some (Inl (DEFwReserveError ''Timed out waiting for service to connect''))
      else case first_endpoint agent_name listen_port (map snd (snapshot pt)) of
        Inl e \<Rightarrow> Some (Inl e)
      | Inr (Some ep) \<Rightarrow> Some (Inr ep)
      | Inr None \<Rightarrow> wait_for_service_endpoint agent_name listen_port deadline polls)"

text \<open>\<open>bound\<close> is whether the directory service is bound at first, \<open>dirsvc\<close> its client when it is.\<close>

definition defw_get_directory_service :: "real \<Rightarrow> bool \<Rightarrow> bool list \<Rightarrow> 'c \<Rightarrow> 'c result option" where
  "defw_get_directory_service timeout bound polls dirsvc =
     (case wait_dirsvc timeout bound polls of
        None \<Rightarrow> None
      | Some False \<Rightarrow> Some (Inl (DEFwReserveError ''Couldn't find a directory service''))
      | Some True \<Rightarrow> Some (Inr dirsvc))"

subsection \<open>Stopping a process\<close>

record service_process =
  sp_module :: pyval
  sp_agent_name :: string
  sp_listen_port :: int
  sp_telnet_port :: int
  sp_log_dir :: string
  sp_pid :: int
  sp_open :: bool
  sp_endpoint :: "endpoint option"
  sp_records :: "dict list"

datatype kill_out = Delivered | NoProcess | KillError exc

datatype os_signal = SIG0 | SIGTERM | SIGKILL

text \<open>
  What a shutdown meets: the directory service (\<open>sd_dirsvc\<close>) and its answers, the answers to the
  signals, and the outcome of waiting for the child that was started (\<open>sd_wait\<close>).
\<close>

record shutdown_env =
  sd_dirsvc :: "unit result"
  sd_answer :: "pyval \<times> pyval \<times> pyval \<Rightarrow> unit result"
  sd_term :: kill_out
  sd_start :: real
  sd_polls :: "(real \<times> kill_out) list"
  sd_kill :: kill_out
  sd_wait :: "unit result"

definition record_key :: "dict \<Rightarrow> (pyval \<times> pyval \<times> pyval) result" where
  "record_key r =
     ebind (dindex r ''service_id'') (\<lambda>sid.
     ebind (dindex r ''runtime_id'') (\<lambda>rid.
     ebind (dindex r ''generation'') (\<lambda>gen. Inr (sid, rid, gen))))"

text \<open>The calls that are made, until one raises.\<close>

fun deregister_calls :: "(pyval \<times> pyval \<times> pyval \<Rightarrow> unit result) \<Rightarrow> dict list \<Rightarrow> (pyval \<times> pyval \<times> pyval) list" where
  "deregister_calls answer [] = []"
| "deregister_calls answer (r # rs) =
     (case record_key r of
        Inl _ \<Rightarrow> []
      | Inr k \<Rightarrow> k # (case answer k of Inl _ \<Rightarrow> [] | Inr _ \<Rightarrow> deregister_calls answer rs))"

definition process_deregister :: "shutdown_env \<Rightarrow> service_process \<Rightarrow> service_process \<times> (pyval \<times> pyval \<times> pyval) list" where
  "process_deregister sd sp =
     (if sp_records sp = [] then (sp, [])
      else (sp\<lparr>sp_records := []\<rparr>,
            case sd_dirsvc sd of Inl _ \<Rightarrow> [] | Inr _ \<Rightarrow> deregister_calls (sd_answer sd) (sp_records sp)))"

text \<open>The loop that probes the process; its value is whether the process is still there.\<close>

fun await_exit :: "real \<Rightarrow> real \<Rightarrow> int \<Rightarrow> (real \<times> kill_out) list \<Rightarrow> ((int \<times> os_signal) list \<times> bool result) option" where
  "await_exit start timeout pid [] = None"
| "await_exit start timeout pid ((t, k) # polls) =
     (if \<not> t - start < timeout then Some ([], Inr True)
      else case k of
        NoProcess \<Rightarrow> Some ([(pid, SIG0)], Inr False)
      | KillError e \<Rightarrow> Some ([(pid, SIG0)], Inl e)
      | Delivered \<Rightarrow> map_option (\<lambda>(sigs, res). ((pid, SIG0) # sigs, res)) (await_exit start timeout pid polls))"

text \<open>The signals, the pid afterwards, and whether it raises.\<close>

definition stop_process :: "real \<Rightarrow> shutdown_env \<Rightarrow> int \<Rightarrow> ((int \<times> os_signal) list \<times> int \<times> unit result) option" where
  "stop_process timeout sd pid =
     (if \<not> pid > 0 then Some ([], pid, Inr ())
      else case sd_term sd of
        KillError e \<Rightarrow> Some ([(pid, SIGTERM)], pid, Inl e)
      | NoProcess \<Rightarrow> Some ([(pid, SIGTERM)], 0, Inr ())
      | Delivered \<Rightarrow>
          (case await_exit (sd_start sd) timeout pid (sd_polls sd) of
             None \<Rightarrow> None
           | Some (sigs, Inl e) \<Rightarrow> Some ((pid, SIGTERM) # sigs, pid, Inl e)
           | Some (sigs, Inr False) \<Rightarrow> Some ((pid, SIGTERM) # sigs, 0, Inr ())
           | Some (sigs, Inr True) \<Rightarrow>
               (case sd_kill sd of
                  KillError e \<Rightarrow> Some ((pid, SIGTERM) # sigs @ [(pid, SIGKILL)], pid, Inl e)
                | _ \<Rightarrow> Some ((pid, SIGTERM) # sigs @ [(pid, SIGKILL)], 0, Inr ()))))"

definition process_shutdown ::
  "real \<Rightarrow> shutdown_env \<Rightarrow> service_process
     \<Rightarrow> (service_process \<times> (pyval \<times> pyval \<times> pyval) list \<times> (int \<times> os_signal) list \<times> unit result) option" where
  "process_shutdown timeout sd sp =
     (case process_deregister sd sp of (sp1, calls) \<Rightarrow>
      (case stop_process timeout sd (sp_pid sp1) of
         None \<Rightarrow> None
       | Some (sigs, pid, Inl e) \<Rightarrow> Some (sp1\<lparr>sp_pid := pid\<rparr>, calls, sigs, Inl e)
       | Some (sigs, pid, Inr _) \<Rightarrow>
           (case sd_wait sd of
              Inl e \<Rightarrow> Some (sp1\<lparr>sp_pid := pid\<rparr>, calls, sigs, Inl e)
            | Inr _ \<Rightarrow> Some (sp1\<lparr>sp_pid := pid, sp_open := False\<rparr>, calls, sigs, Inr ()))))"

subsection \<open>Spawning and shutting down\<close>

record app_state =
  ap_next_port :: "int option"
  ap_procs :: "service_process list"
  ap_spawned :: "nat list"

definition init_app :: app_state where
  "init_app = \<lparr>ap_next_port = None, ap_procs = [], ap_spawned = []\<rparr>"

text \<open>
  What a spawned service meets: the log files that are opened, the start of the process with its
  environment, the pid file, the wait for the child that was started, the peer table, the directory
  service and its answer, and the shutdown when the registration fails.
\<close>

record spawn_env =
  sw_uid :: string
  sw_mkdir :: "unit result"
  sw_logs :: "unit result"
  sw_popen :: "dict \<Rightarrow> unit result"
  sw_start :: real
  sw_pid_polls :: "(real \<times> string option) list"
  sw_wait :: "unit result"
  sw_deadline :: real
  sw_peer_polls :: "(real \<times> peer_table) list"
  sw_dirsvc :: "unit result"
  sw_register :: "endpoint \<Rightarrow> dict list result"
  sw_shutdown :: shutdown_env

definition register_spawned_service :: "spawn_env \<Rightarrow> string \<Rightarrow> int \<Rightarrow> (endpoint \<times> dict list) result option" where
  "register_spawned_service sw agent_name listen_port =
     (case wait_for_service_endpoint agent_name listen_port (sw_deadline sw) (sw_peer_polls sw) of
        None \<Rightarrow> None
      | Some r \<Rightarrow> Some (ebind r (\<lambda>ep. ebind (sw_dirsvc sw) (\<lambda>_. ebind (sw_register sw ep) (\<lambda>rs. Inr (ep, rs))))))"

text \<open>The part of one round that starts the daemon: its pid, when it wrote one.\<close>

definition start_daemon :: "spawn_env \<Rightarrow> dict \<Rightarrow> int result option" where
  "start_daemon sw env =
     (case ebind (sw_logs sw) (\<lambda>_. sw_popen sw env) of
        Inl e \<Rightarrow> Some (Inl e)
      | Inr _ \<Rightarrow>
          (case wait_for_daemon_pid (sw_start sw) 5 (sw_pid_polls sw) of
             None \<Rightarrow> None
           | Some (Inl _) \<Rightarrow> Some (ebind (sw_wait sw) (\<lambda>_. Inl (DEFwError ''Service exited early'')))
           | Some (Inr pid) \<Rightarrow> Some (ebind (sw_wait sw) (\<lambda>_. Inr pid))))"

definition spawn_service ::
  "(pyval \<Rightarrow> string) \<Rightarrow> node_info \<Rightarrow> dict \<Rightarrow> dict \<Rightarrow> spawn_env \<Rightarrow> app_state
     \<Rightarrow> (app_state \<times> (int \<times> os_signal) list \<times> nat result) option" where
  "spawn_service rp ni environ spec sw ap =
     (case build_service_env rp ni environ (sw_uid sw) (sw_mkdir sw) spec (ap_next_port ap) of
        (np, Inl e) \<Rightarrow> Some (ap\<lparr>ap_next_port := np\<rparr>, [], Inl e)
      | (np, Inr (env, agent_name, listen_port, telnet_port, log_dir)) \<Rightarrow>
          (case start_daemon sw env of
             None \<Rightarrow> None
           | Some (Inl e) \<Rightarrow> Some (ap\<lparr>ap_next_port := np\<rparr>, [], Inl e)
           | Some (Inr pid) \<Rightarrow>
               (let h = length (ap_procs ap);
                    sp = \<lparr>sp_module = dget0 spec ''module'', sp_agent_name = agent_name, sp_listen_port = listen_port,
                          sp_telnet_port = telnet_port, sp_log_dir = log_dir, sp_pid = pid, sp_open = True,
                          sp_endpoint = None, sp_records = []\<rparr> in
                case register_spawned_service sw agent_name listen_port of
                  None \<Rightarrow> None
                | Some (Inl e) \<Rightarrow>
                    (case process_shutdown 5 (sw_shutdown sw) sp of
                       None \<Rightarrow> None
                     | Some (sp1, calls, sigs, res) \<Rightarrow>
                         Some (ap\<lparr>ap_next_port := np, ap_procs := ap_procs ap @ [sp1]\<rparr>, sigs, ebind res (\<lambda>_. Inl e)))
                | Some (Inr (ep, rs)) \<Rightarrow>
                    Some (ap\<lparr>ap_next_port := np, ap_procs := ap_procs ap @ [sp\<lparr>sp_endpoint := Some ep, sp_records := rs\<rparr>],
                             ap_spawned := ap_spawned ap @ [h]\<rparr>, [], Inr h))))"

text \<open>\<open>sws k\<close> is what the round \<open>k\<close> meets.\<close>

fun spawn_loop ::
  "(pyval \<Rightarrow> string) \<Rightarrow> node_info \<Rightarrow> dict \<Rightarrow> (nat \<Rightarrow> spawn_env) \<Rightarrow> nat \<Rightarrow> dict list \<Rightarrow> app_state
     \<Rightarrow> (app_state \<times> (int \<times> os_signal) list \<times> nat list result) option" where
  "spawn_loop rp ni environ sws k [] ap = Some (ap, [], Inr [])"
| "spawn_loop rp ni environ sws k (spec # specs) ap =
     (case spawn_service rp ni environ spec (sws k) ap of
        None \<Rightarrow> None
      | Some (ap1, sigs, Inl e) \<Rightarrow> Some (ap1, sigs, Inl e)
      | Some (ap1, sigs, Inr h) \<Rightarrow>
          map_option (\<lambda>(ap2, sigs2, res). (ap2, sigs @ sigs2, ebind res (\<lambda>hs. Inr (h # hs))))
            (spawn_loop rp ni environ sws (Suc k) specs ap1))"

definition defw_spawn_services ::
  "(pyval \<Rightarrow> string) \<Rightarrow> node_info \<Rightarrow> dict \<Rightarrow> (defwp_path \<Rightarrow> bool) \<Rightarrow> (nat \<Rightarrow> spawn_env) \<Rightarrow> pyval \<Rightarrow> app_state
     \<Rightarrow> (app_state \<times> (int \<times> os_signal) list \<times> nat list result) option" where
  "defw_spawn_services rp ni environ runnable sws services ap =
     (case ebind (normalize_service_specs services) (\<lambda>specs. ebind (resolve_defwp runnable environ) (\<lambda>_. Inr specs)) of
        Inl e \<Rightarrow> Some (ap, [], Inl e)
      | Inr specs \<Rightarrow> spawn_loop rp ni environ sws 0 specs ap)"

text \<open>
  A handle is untracked even if its shutdown raises, which ends the loop. Two handles are equal only
  if they are the same, since they compare their child processes.
\<close>

fun shutdown_loop ::
  "real \<Rightarrow> (nat \<Rightarrow> shutdown_env) \<Rightarrow> nat \<Rightarrow> nat list \<Rightarrow> app_state
     \<Rightarrow> (app_state \<times> (int \<times> os_signal) list \<times> unit result) option" where
  "shutdown_loop timeout sds k [] ap = Some (ap, [], Inr ())"
| "shutdown_loop timeout sds k (h # hs) ap =
     (case process_shutdown timeout (sds k) (ap_procs ap ! h) of
        None \<Rightarrow> None
      | Some (sp, calls, sigs, res) \<Rightarrow>
          (let ap1 = ap\<lparr>ap_procs := (ap_procs ap)[h := sp], ap_spawned := remove1 h (ap_spawned ap)\<rparr> in
           case res of
             Inl e \<Rightarrow> Some (ap1, sigs, Inl e)
           | Inr _ \<Rightarrow> map_option (\<lambda>(ap2, sigs2, r). (ap2, sigs @ sigs2, r)) (shutdown_loop timeout sds (Suc k) hs ap1)))"

definition defw_shutdown_services ::
  "real \<Rightarrow> (nat \<Rightarrow> shutdown_env) \<Rightarrow> nat list option \<Rightarrow> app_state \<Rightarrow> (app_state \<times> (int \<times> os_signal) list \<times> unit result) option" where
  "defw_shutdown_services timeout sds services ap =
     shutdown_loop timeout sds 0 (rev (case services of Some hs \<Rightarrow> hs | None \<Rightarrow> ap_spawned ap)) ap"

definition shutdown_spawned_services :: "(nat \<Rightarrow> shutdown_env) \<Rightarrow> app_state \<Rightarrow> (app_state \<times> (int \<times> os_signal) list) option" where
  "shutdown_spawned_services sds ap =
     map_option (\<lambda>(ap1, sigs, _). (ap1, sigs)) (defw_shutdown_services 5 sds None ap)"

subsection \<open>Connecting by name\<close>

definition service_filters :: "pyval \<Rightarrow> pyval \<Rightarrow> pyval \<Rightarrow> pyval \<Rightarrow> pyval \<Rightarrow> pyval \<Rightarrow> dict" where
  "service_filters service_name service_type binding_name selector_resource selector_alias properties =
     foldl (\<lambda>d (k, v). if truthy v then dset k v d else d) [(PStr ''service_name'', service_name)]
       [(''service_type'', service_type), (''binding_name'', binding_name), (''selector_resource'', selector_resource),
        (''selector_alias'', selector_alias), (''properties'', properties)]"

text \<open>\<open>resolve n\<close> is the answer of the directory service to the attempt \<open>n\<close>.\<close>

function resolve_loop :: "real \<Rightarrow> (nat \<Rightarrow> dict list result) \<Rightarrow> nat \<Rightarrow> dict list \<Rightarrow> dict list result" where
  "resolve_loop timeout resolve waited bindings =
     (if \<not> real waited < timeout then Inr bindings
      else case resolve waited of
        Inl e \<Rightarrow> Inl e
      | Inr bs \<Rightarrow> if bs \<noteq> [] then Inr bs else resolve_loop timeout resolve (waited + 1) bs)"
  by pat_completeness auto
termination
  by (relation "measure (\<lambda>(timeout, _, waited, _). nat \<lceil>timeout - real waited\<rceil>)") (auto, linarith)

declare resolve_loop.simps [simp del]

fun connect_bindings ::
  "pyval \<Rightarrow> (pyval \<Rightarrow> pyval \<Rightarrow> endpoint \<Rightarrow> pyval \<Rightarrow> pyval \<Rightarrow> pyval result) \<Rightarrow> (nat \<Rightarrow> connect_env) \<Rightarrow> nat \<Rightarrow> dict list
     \<Rightarrow> pyval list result option" where
  "connect_bindings timeout client envs k [] = Some (Inr [])"
| "connect_bindings timeout client envs k (b # bs) =
     (case connect_to_binding timeout client b (envs k) of
        None \<Rightarrow> None
      | Some (Inl e) \<Rightarrow> Some (Inl e)
      | Some (Inr api) \<Rightarrow>
          map_option (\<lambda>res. ebind res (\<lambda>apis. Inr (api # apis))) (connect_bindings timeout client envs (Suc k) bs))"

text \<open>\<open>resolve filters n\<close> is the answer of the directory service; \<open>rpc_timeout\<close> is the one of new agents.\<close>

definition defw_connect_service_by_name ::
  "pyval \<Rightarrow> (pyval \<Rightarrow> pyval \<Rightarrow> endpoint \<Rightarrow> pyval \<Rightarrow> pyval \<Rightarrow> pyval result) \<Rightarrow> (nat \<Rightarrow> connect_env)
     \<Rightarrow> (dict \<Rightarrow> nat \<Rightarrow> dict list result) \<Rightarrow> real \<Rightarrow> dict \<Rightarrow> pyval list result option" where
  "defw_connect_service_by_name rpc_timeout client envs resolve timeout filters =
     (case resolve_loop timeout (resolve filters) 0 [] of
        Inl e \<Rightarrow> Some (Inl e)
      | Inr bindings \<Rightarrow>
          if bindings = [] then Some (Inl (DEFwReserveError ''Couldn't connect''))
          else connect_bindings rpc_timeout client envs 0 bindings)"

subsection \<open>Ports are never shared\<close>

definition ports_of :: "service_process list \<Rightarrow> int list" where
  "ports_of sps = concat (map (\<lambda>sp. [sp_listen_port sp, sp_telnet_port sp]) sps)"

definition app_inv :: "app_state \<Rightarrow> bool" where
  "app_inv ap \<longleftrightarrow> distinct (ports_of (ap_procs ap)) \<and>
     (\<forall>p \<in> set (ports_of (ap_procs ap)). \<exists>n. ap_next_port ap = Some n \<and> p < n) \<and>
     distinct (ap_spawned ap) \<and> (\<forall>h \<in> set (ap_spawned ap). h < length (ap_procs ap))"

lemma ports_of_append [simp]: "ports_of (xs @ ys) = ports_of xs @ ports_of ys"
  by (simp add: ports_of_def)

lemma ports_of_single [simp]: "ports_of [sp] = [sp_listen_port sp, sp_telnet_port sp]"
  by (simp add: ports_of_def)

lemma ports_of_update:
  assumes "sp_listen_port sp = sp_listen_port (sps ! h) \<and> sp_telnet_port sp = sp_telnet_port (sps ! h)"
  shows "ports_of (sps[h := sp]) = ports_of sps"
proof -
  let ?f = "\<lambda>sp. [sp_listen_port sp, sp_telnet_port sp]"
  have "map ?f (sps[h := sp]) = map ?f sps"
    by (metis (no_types, lifting) assms list_update_id map_update)
  then show ?thesis by (simp add: ports_of_def)
qed

lemma two_ports: "[s..s + 1] = [s, s + 1 :: int]"
  by (simp add: upto.simps)

lemma build_service_env_next:
  assumes "build_service_env rp ni environ uid mk spec next = (np, res)"
  shows "next = Some n \<Longrightarrow> \<exists>m \<ge> n. np = Some m"
    and "res = Inr (env, a, lp, tp, ld) \<Longrightarrow> np = Some (lp + 2) \<and> tp = lp + 1 \<and> (\<forall>n. next = Some n \<longrightarrow> lp = n)"
  using assms
  by (auto simp: build_service_env_def allocate_ports_def two_ports ebind_Inr_iff Let_def
      split: sum.splits option.splits prod.splits pyval.splits)

lemma process_shutdown_frame:
  assumes "process_shutdown timeout sd sp = Some (sp', calls, sigs, res)"
  shows "sp_listen_port sp' = sp_listen_port sp \<and> sp_telnet_port sp' = sp_telnet_port sp"
  using assms by (auto simp: process_shutdown_def process_deregister_def
      split: prod.splits option.splits sum.splits if_splits)

lemma app_inv_port:
  assumes "app_inv ap" and "\<forall>n. ap_next_port ap = Some n \<longrightarrow> (\<exists>m \<ge> n. np = Some m)"
  shows "app_inv (ap\<lparr>ap_next_port := np\<rparr>)"
  using assms by (fastforce simp: app_inv_def)

lemma app_inv_new:
  assumes "app_inv ap" and "\<forall>n. ap_next_port ap = Some n \<longrightarrow> lp = n"
    and "sp_listen_port sp = lp" and "sp_telnet_port sp = lp + 1"
  shows "app_inv (ap\<lparr>ap_next_port := Some (lp + 2), ap_procs := ap_procs ap @ [sp]\<rparr>)"
    and "app_inv (ap\<lparr>ap_next_port := Some (lp + 2), ap_procs := ap_procs ap @ [sp],
           ap_spawned := ap_spawned ap @ [length (ap_procs ap)]\<rparr>)"
  using assms by (fastforce simp: app_inv_def)+

lemma spawn_service_inv:
  assumes "app_inv ap" and "spawn_service rp ni environ spec sw ap = Some (ap', sigs, res)"
  shows "app_inv ap'"
proof -
  obtain np r where b: "build_service_env rp ni environ (sw_uid sw) (sw_mkdir sw) spec (ap_next_port ap) = (np, r)"
    by (cases "build_service_env rp ni environ (sw_uid sw) (sw_mkdir sw) spec (ap_next_port ap)")
  note port = app_inv_port [OF assms(1), of np] build_service_env_next(1) [OF b]
  show ?thesis
  proof (cases r)
    case (Inl e)
    with assms(2) b port show ?thesis by (auto simp: spawn_service_def)
  next
    case (Inr t)
    obtain env a lp tp ld where t: "t = (env, a, lp, tp, ld)" by (cases t)
    from build_service_env_next(2) [OF b] Inr t
    have p: "np = Some (lp + 2)" "tp = lp + 1" "\<forall>n. ap_next_port ap = Some n \<longrightarrow> lp = n" by auto
    from assms(2) b Inr t p(1,2) port app_inv_new [OF assms(1) p(3)] show ?thesis
      by (auto simp: spawn_service_def Let_def dest: process_shutdown_frame
          split: option.splits sum.splits prod.splits)
  qed
qed

lemma spawn_loop_inv:
  "app_inv ap \<Longrightarrow> spawn_loop rp ni environ sws k specs ap = Some (ap', sigs, res) \<Longrightarrow> app_inv ap'"
proof (induction specs arbitrary: k ap sigs res)
  case Nil
  then show ?case by simp
next
  case (Cons spec specs)
  from Cons.prems(2) obtain ap1 s1 r1 where s: "spawn_service rp ni environ spec (sws k) ap = Some (ap1, s1, r1)"
    by (cases "spawn_service rp ni environ spec (sws k) ap") auto
  from spawn_service_inv [OF Cons.prems(1) s] Cons.IH [of ap1] Cons.prems(2) s show ?case
    by (cases r1) auto
qed

lemma shutdown_loop_inv:
  "app_inv ap \<Longrightarrow> shutdown_loop timeout sds k hs ap = Some (ap', sigs, res) \<Longrightarrow> app_inv ap'"
proof (induction hs arbitrary: k ap sigs res)
  case Nil
  then show ?case by simp
next
  case (Cons h hs)
  from Cons.prems(2) obtain sp calls s1 r1 where
    s: "process_shutdown timeout (sds k) (ap_procs ap ! h) = Some (sp, calls, s1, r1)"
    by (cases "process_shutdown timeout (sds k) (ap_procs ap ! h)") auto
  let ?ap = "ap\<lparr>ap_procs := (ap_procs ap)[h := sp], ap_spawned := remove1 h (ap_spawned ap)\<rparr>"
  have "app_inv ?ap"
    using Cons.prems(1) ports_of_update [OF process_shutdown_frame [OF s]]
    by (auto simp: app_inv_def dest: notin_set_remove1)
  with Cons.IH [of ?ap] Cons.prems(2) s show ?case by (cases r1) (auto simp: Let_def)
qed

inductive app_reachable :: "app_state \<Rightarrow> bool" where
  app_start: "app_reachable init_app"
| app_spawn: "\<lbrakk>app_reachable ap; defw_spawn_services rp ni environ runnable sws services ap = Some (ap', sigs, res)\<rbrakk>
     \<Longrightarrow> app_reachable ap'"
| app_shutdown: "\<lbrakk>app_reachable ap; defw_shutdown_services timeout sds services ap = Some (ap', sigs, res)\<rbrakk>
     \<Longrightarrow> app_reachable ap'"

lemma app_reachable_inv: "app_reachable ap \<Longrightarrow> app_inv ap"
proof (induction rule: app_reachable.induct)
  case app_start
  show ?case by (simp add: app_inv_def init_app_def ports_of_def)
next
  case (app_spawn ap rp ni environ runnable sws services ap' sigs res)
  then show ?case
    using spawn_loop_inv by (auto simp: defw_spawn_services_def split: sum.splits)
next
  case (app_shutdown ap timeout sds services ap' sigs res)
  then show ?case using shutdown_loop_inv by (simp add: defw_shutdown_services_def)
qed

text \<open>
  C21: no two service processes share a port. Whatever was spawned and shut down, in whichever order and
  with whichever failures, the listen and telnet ports of all the processes are pairwise distinct.
\<close>
theorem spawned_ports_distinct:
  assumes "app_reachable ap"
  shows "distinct (concat (map (\<lambda>sp. [sp_listen_port sp, sp_telnet_port sp]) (ap_procs ap)))"
  using app_reachable_inv [OF assms] by (simp add: app_inv_def ports_of_def)

subsection \<open>Waiting ends\<close>

interpretation pid_wait: polling "wait_for_daemon_pid start timeout" "\<lambda>t. t - start < timeout"
  "map_option (\<lambda>s. py_int (PStr s))" "Inl (DEFwError ''Timed out waiting for daemon pid'')" for start timeout
  by unfold_locales (auto split: option.splits)

interpretation service_wait: polling "wait_for_service_endpoint agent_name listen_port deadline" "\<lambda>t. t < deadline"
  "\<lambda>pt. case first_endpoint agent_name listen_port (map snd (snapshot pt)) of
     Inl e \<Rightarrow> Some (Inl e) | Inr (Some ep) \<Rightarrow> Some (Inr ep) | Inr None \<Rightarrow> None"
  "Inl (DEFwReserveError ''Timed out waiting for service to connect'')" for agent_name listen_port deadline
  by unfold_locales (auto split: sum.splits option.splits)

lemma await_exit_returns: "\<exists>(t, k) \<in> set polls. \<not> t - start < timeout \<Longrightarrow> \<exists>r. await_exit start timeout pid polls = Some r"
  by (induction polls) (fastforce split: kill_out.splits)+

lemma process_shutdown_returns:
  assumes "\<exists>(t, k) \<in> set (sd_polls sd). \<not> t - sd_start sd < timeout"
  shows "\<exists>r. process_shutdown timeout sd sp = Some r"
proof -
  obtain a where "await_exit (sd_start sd) timeout (sp_pid sp) (sd_polls sd) = Some a"
    using await_exit_returns [OF assms] by blast
  then show ?thesis
    by (auto simp: process_shutdown_def process_deregister_def stop_process_def
        split: kill_out.splits sum.splits bool.splits prod.splits)
qed

text \<open>
  C30: spawning a service ends. Once the pid file, the peer table and (for the shutdown of a service that
  could not be registered) the process have been polled past their time limits, a round of
  \<open>defw_spawn_services\<close> has returned a handle or raised; it never waits for ever.
\<close>
theorem spawn_service_returns:
  assumes "\<exists>(t, c) \<in> set (sw_pid_polls sw). sw_start sw + 5 \<le> t"
    and "\<exists>(t, pt) \<in> set (sw_peer_polls sw). sw_deadline sw \<le> t"
    and "\<exists>(t, k) \<in> set (sd_polls (sw_shutdown sw)). sd_start (sw_shutdown sw) + 5 \<le> t"
  shows "\<exists>ap' sigs res. spawn_service rp ni environ spec sw ap = Some (ap', sigs, res)"
proof -
  obtain t1 c t2 pt t3 k where polls: "(t1, c) \<in> set (sw_pid_polls sw)" "\<not> t1 - sw_start sw < 5"
    "(t2, pt) \<in> set (sw_peer_polls sw)" "\<not> t2 < sw_deadline sw"
    "(t3, k) \<in> set (sd_polls (sw_shutdown sw))" "\<not> t3 - sd_start (sw_shutdown sw) < 5"
    using assms by fastforce
  have "\<exists>r. wait_for_daemon_pid (sw_start sw) 5 (sw_pid_polls sw) = Some r"
    by (rule pid_wait.poll_late [OF polls(1,2)])
  then have daemon: "\<exists>r. start_daemon sw env = Some r" for env
    by (auto simp: start_daemon_def split: sum.splits)
  have conn: "\<exists>r. wait_for_service_endpoint a p (sw_deadline sw) (sw_peer_polls sw) = Some r" for a p
    by (rule service_wait.poll_late [OF polls(3,4)])
  have reg: "\<exists>r. register_spawned_service sw a p = Some r" for a p
    using conn [of a p] by (auto simp: register_spawned_service_def)
  have down: "\<exists>r. process_shutdown 5 (sw_shutdown sw) sp = Some r" for sp
    by (rule process_shutdown_returns) (use polls(5,6) in blast)
  obtain np r where b: "build_service_env rp ni environ (sw_uid sw) (sw_mkdir sw) spec (ap_next_port ap) = (np, r)"
    by (cases "build_service_env rp ni environ (sw_uid sw) (sw_mkdir sw) spec (ap_next_port ap)")
  show ?thesis
  proof (cases r)
    case (Inr t)
    obtain env a lp tp ld where t: "t = (env, a, lp, tp, ld)" by (cases t)
    obtain d where d: "start_daemon sw env = Some d" using daemon by blast
    obtain g where g: "register_spawned_service sw a lp = Some g" using reg by blast
    show ?thesis
    proof (cases d)
      case d_pid: (Inr pid)
      let ?sp = "\<lparr>sp_module = dget0 spec ''module'', sp_agent_name = a, sp_listen_port = lp, sp_telnet_port = tp,
        sp_log_dir = ld, sp_pid = pid, sp_open = True, sp_endpoint = None, sp_records = []\<rparr>"
      obtain q where "process_shutdown 5 (sw_shutdown sw) ?sp = Some q" using down by blast
      with b Inr t d d_pid g show ?thesis
        by (cases g; cases q) (simp_all add: spawn_service_def Let_def split: prod.split)
    qed (simp add: spawn_service_def b Inr t d)
  qed (simp add: spawn_service_def b)
qed

subsection \<open>Shutting down\<close>

lemma await_exit_signals: "await_exit start timeout pid polls = Some (sigs, res) \<Longrightarrow> (p, s) \<in> set sigs \<Longrightarrow> p = pid"
proof (induction start timeout pid polls arbitrary: sigs rule: await_exit.induct)
  case (1 start timeout pid)
  then show ?case by simp
next
  case (2 start timeout pid t k polls)
  then show ?case by (cases k) (auto split: if_splits)
qed

lemma stop_process_signals:
  assumes "stop_process timeout sd pid = Some (sigs, pid', res)"
  shows "\<forall>(p, s) \<in> set sigs. p = pid \<and> 0 < p" and "res = Inr () \<Longrightarrow> pid' \<le> 0"
  using assms
  by (auto simp: stop_process_def dest: await_exit_signals
      split: if_splits kill_out.splits option.splits sum.splits bool.splits prod.splits)

lemma process_shutdown_split:
  assumes "process_shutdown timeout sd sp = Some (sp', calls, sigs, res)"
  shows "\<exists>r. stop_process timeout sd (sp_pid sp) = Some (sigs, sp_pid sp', r) \<and> (res = Inr () \<longrightarrow> r = Inr ())"
    and "sp_records sp' = []" and "res = Inr () \<Longrightarrow> \<not> sp_open sp'"
  using assms
  by (auto simp: process_shutdown_def process_deregister_def split: prod.splits option.splits sum.splits if_splits)

text \<open>
  C22: a shutdown only signals its own process. Every signal goes to the pid of the handle, which is
  positive, so never to a process group or to every process; the records of the process are
  forgotten in any case, and after a shutdown that returns, another one makes no call and sends no
  signal.
\<close>
theorem shutdown_signals_own_process:
  assumes "process_shutdown timeout sd sp = Some (sp', calls, sigs, res)"
  shows "(\<forall>(p, s) \<in> set sigs. p = sp_pid sp \<and> 0 < p) \<and> sp_records sp' = [] \<and>
    (res = Inr () \<longrightarrow> \<not> sp_open sp' \<and> process_shutdown timeout2 sd2 sp' = Some (sp', [], [], sd_wait sd2))"
proof -
  from process_shutdown_split(1) [OF assms] obtain r where
    r: "stop_process timeout sd (sp_pid sp) = Some (sigs, sp_pid sp', r)" "res = Inr () \<longrightarrow> r = Inr ()" by blast
  note own = stop_process_signals [OF r(1)]
  have again: "process_shutdown timeout2 sd2 sp' = Some (sp', [], [], sd_wait sd2)" if "res = Inr ()"
    using that r(2) own(2) process_shutdown_split(2,3) [OF assms]
    by (cases sp') (auto simp: process_shutdown_def process_deregister_def stop_process_def split: sum.splits)
  from own(1) again process_shutdown_split(2,3) [OF assms] show ?thesis by blast
qed

definition demo_process :: service_process where
  "demo_process = \<lparr>sp_module = PStr ''svc_echo'', sp_agent_name = ''echo'', sp_listen_port = 8100, sp_telnet_port = 8101,
     sp_log_dir = ''/tmp/echo'', sp_pid = 42, sp_open = True, sp_endpoint = None,
     sp_records = [[(PStr ''service_id'', PStr ''s''), (PStr ''runtime_id'', PStr ''r''), (PStr ''generation'', PInt 1)]]\<rparr>"

definition demo_shutdown :: shutdown_env where
  "demo_shutdown = \<lparr>sd_dirsvc = Inr (), sd_answer = (\<lambda>_. Inr ()), sd_term = Delivered, sd_start = 0,
     sd_polls = [(0, Delivered), (5, Delivered)], sd_kill = Delivered, sd_wait = Inr ()\<rparr>"

theorem shutdown_signals_own_process_witness:
  "\<exists>sp'. process_shutdown 5 demo_shutdown demo_process =
      Some (sp', [(PStr ''s'', PStr ''r'', PInt 1)], [(42, SIGTERM), (42, SIG0), (42, SIGKILL)], Inr ()) \<and>
    process_shutdown 5 demo_shutdown sp' = Some (sp', [], [], Inr ())"
proof -
  have "\<exists>sp'. process_shutdown 5 demo_shutdown demo_process =
      Some (sp', [(PStr ''s'', PStr ''r'', PInt 1)], [(42, SIGTERM), (42, SIG0), (42, SIGKILL)], Inr ())"
    by (simp add: process_shutdown_def process_deregister_def stop_process_def demo_shutdown_def demo_process_def
        record_key_def dindex_def)
  then obtain sp' where s: "process_shutdown 5 demo_shutdown demo_process =
      Some (sp', [(PStr ''s'', PStr ''r'', PInt 1)], [(42, SIGTERM), (42, SIG0), (42, SIGKILL)], Inr ())" by blast
  have "sd_wait demo_shutdown = Inr ()" by (simp add: demo_shutdown_def)
  with s shutdown_signals_own_process [OF s, of 5 demo_shutdown] show ?thesis by auto
qed

lemma shutdown_loop_frame:
  "shutdown_loop timeout sds k hs ap = Some (ap', sigs, res) \<Longrightarrow> h \<notin> set hs \<Longrightarrow> ap_procs ap' ! h = ap_procs ap ! h"
proof (induction hs arbitrary: k ap sigs)
  case Nil
  then show ?case by simp
next
  case (Cons g hs)
  from Cons.prems(1) obtain sp calls s1 r1 where
    s: "process_shutdown timeout (sds k) (ap_procs ap ! g) = Some (sp, calls, s1, r1)"
    by (cases "process_shutdown timeout (sds k) (ap_procs ap ! g)") auto
  let ?ap = "ap\<lparr>ap_procs := (ap_procs ap)[g := sp], ap_spawned := remove1 g (ap_spawned ap)\<rparr>"
  from Cons.prems s Cons.IH [of "Suc k" ?ap] show ?case by (cases r1) (auto simp: Let_def)
qed

lemma shutdown_loop_stops:
  "shutdown_loop timeout sds k hs ap = Some (ap', sigs, Inr ()) \<Longrightarrow> distinct hs \<Longrightarrow> \<forall>h \<in> set hs. h < length (ap_procs ap) \<Longrightarrow>
     ap_spawned ap' = foldl (\<lambda>xs h. remove1 h xs) (ap_spawned ap) hs \<and>
     (\<forall>h \<in> set hs. sp_pid (ap_procs ap' ! h) \<le> 0 \<and> \<not> sp_open (ap_procs ap' ! h))"
proof (induction hs arbitrary: k ap sigs)
  case Nil
  then show ?case by simp
next
  case (Cons g hs)
  from Cons.prems(1) obtain sp calls s1 r1 where
    s: "process_shutdown timeout (sds k) (ap_procs ap ! g) = Some (sp, calls, s1, r1)"
    by (cases "process_shutdown timeout (sds k) (ap_procs ap ! g)") auto
  let ?ap = "ap\<lparr>ap_procs := (ap_procs ap)[g := sp], ap_spawned := remove1 g (ap_spawned ap)\<rparr>"
  from Cons.prems(1) s obtain s2 where r1: "r1 = Inr ()" and
    l: "shutdown_loop timeout sds (Suc k) hs ?ap = Some (ap', s2, Inr ())" by (cases r1) (auto simp: Let_def)
  from process_shutdown_split(1) [OF s] stop_process_signals(2) r1 have "sp_pid sp \<le> 0" by blast
  moreover have "ap_procs ap' ! g = sp"
    using shutdown_loop_frame [OF l, of g] Cons.prems(2,3) by simp
  ultimately show ?case
    using Cons.IH [OF l] Cons.prems(2,3) process_shutdown_split(3) [OF s r1] by simp
qed

lemma foldl_remove1_rev: "distinct xs \<Longrightarrow> foldl (\<lambda>ys h. remove1 h ys) xs (rev xs) = []"
proof (induction xs rule: rev_induct)
  case Nil
  then show ?case by simp
next
  case (snoc x xs)
  then show ?case by (simp add: remove1_append)
qed

text \<open>
  C32: shutting everything down stops everything. In a state the program can reach, when
  \<open>defw_shutdown_services\<close> without a list of services returns, no service is tracked any more, and
  each one that was has no process left to signal and its log files closed.
\<close>
theorem shutdown_all_stops_all:
  assumes "app_reachable ap" and "defw_shutdown_services timeout sds None ap = Some (ap', sigs, Inr ())"
  shows "ap_spawned ap' = [] \<and>
    (\<forall>h \<in> set (ap_spawned ap). sp_pid (ap_procs ap' ! h) \<le> 0 \<and> \<not> sp_open (ap_procs ap' ! h))"
proof -
  have inv: "distinct (ap_spawned ap)" "\<forall>h \<in> set (ap_spawned ap). h < length (ap_procs ap)"
    using app_reachable_inv [OF assms(1)] by (auto simp: app_inv_def)
  have "shutdown_loop timeout sds 0 (rev (ap_spawned ap)) ap = Some (ap', sigs, Inr ())"
    using assms(2) by (simp add: defw_shutdown_services_def)
  from shutdown_loop_stops [OF this] inv foldl_remove1_rev [OF inv(1)] show ?thesis by simp
qed

definition demo_node :: node_info where
  "demo_node = \<lparr>ni_tmp_dir = ''/tmp'', ni_defw_path = ''/defw'', ni_name = ''app'', ni_hostname = ''host'',
     ni_listenaddress = ''127.0.0.1'', ni_listenport = 8090\<rparr>"

definition demo_app_peer :: "string \<Rightarrow> int \<Rightarrow> peer" where
  "demo_app_peer name port = \<lparr>pr_peer_handle = PStr name, pr_runtime_id = PStr name,
     pr_endpoint = [(PStr ''node_name'', PStr name), (PStr ''listen_port'', PInt port)], pr_transport_context = PStr '''',
     pr_connection_direction = PStr '''', pr_is_self = False, pr_last_seen = PFloat 0,
     pr_node_type = EN_DEFW_SERVICE, pr_callable = True, pr_loss_reason = PStr ''''\<rparr>"

definition demo_spawn :: spawn_env where
  "demo_spawn = \<lparr>sw_uid = ''u'', sw_mkdir = Inr (), sw_logs = Inr (), sw_popen = (\<lambda>_. Inr ()), sw_start = 0,
     sw_pid_polls = [(0, None), (1, Some (int_dec 42))], sw_wait = Inr (), sw_deadline = 40,
     sw_peer_polls = [(0, \<lparr>pt_peers = [(PStr ''a-u'', demo_app_peer ''a-u'' 8100), (PStr ''b-u'', demo_app_peer ''b-u'' 8102)],
       pt_pending_targets = []\<rparr>)],
     sw_dirsvc = Inr (), sw_register = (\<lambda>_. Inr []), sw_shutdown = demo_shutdown\<rparr>"

definition demo_spawned :: "(app_state \<times> (int \<times> os_signal) list \<times> nat list result) option" where
  "demo_spawned = defw_spawn_services (\<lambda>_. []) demo_node [] (\<lambda>_. True) (\<lambda>_. demo_spawn)
     (PList [PStr ''a'', PStr ''b'']) init_app"

lemma demo_build:
  assumes "p = (case next of None \<Rightarrow> 8100 | Some q \<Rightarrow> q)"
  shows "\<exists>env ld. build_service_env (\<lambda>_. []) demo_node [] ''u'' (Inr ()) [(PStr ''module'', PStr m)] next =
    (Some (p + 2), Inr (env, m @ ''-u'', p, p + 1, ld))"
  using assms by (cases "next")
    (simp_all add: build_service_env_def allocate_ports_def two_ports spec_vars_def dindex_def dget_def demo_node_def
      py_int_str_int_dec Let_def)

lemma demo_start_daemon: "start_daemon demo_spawn env = Some (Inr 42)"
  by (simp add: start_daemon_def demo_spawn_def py_int_str_int_dec)

lemma demo_register_spawned:
  assumes "m = ''a'' \<and> p = 8100 \<or> m = ''b'' \<and> p = 8102"
  shows "\<exists>ep. register_spawned_service demo_spawn (m @ ''-u'') p = Some (Inr (ep, []))"
  using assms by (auto simp: register_spawned_service_def demo_spawn_def snapshot_def endpoint_from_peer_record_def
      demo_app_peer_def make_endpoint_def valid_node_type_def py_mem_def py_or_def EN_DEFW_SERVICE_def
      EN_DEFW_DIRSVC_def EN_DEFW_AGENT_def dget_def Let_def)

lemma demo_spawn_service:
  assumes "m = ''a'' \<and> p = 8100 \<or> m = ''b'' \<and> p = 8102" and "p = (case ap_next_port ap of None \<Rightarrow> 8100 | Some q \<Rightarrow> q)"
  shows "\<exists>sp. spawn_service (\<lambda>_. []) demo_node [] [(PStr ''module'', PStr m)] demo_spawn ap =
      Some (ap\<lparr>ap_next_port := Some (p + 2), ap_procs := ap_procs ap @ [sp], ap_spawned := ap_spawned ap @ [length (ap_procs ap)]\<rparr>,
        [], Inr (length (ap_procs ap))) \<and> sp_listen_port sp = p \<and> sp_pid sp = 42"
proof -
  obtain env ld where b: "build_service_env (\<lambda>_. []) demo_node [] ''u'' (Inr ()) [(PStr ''module'', PStr m)] (ap_next_port ap) =
    (Some (p + 2), Inr (env, m @ ''-u'', p, p + 1, ld))" using demo_build [OF assms(2)] by blast
  obtain ep where r: "register_spawned_service demo_spawn (m @ ''-u'') p = Some (Inr (ep, []))"
    using demo_register_spawned [OF assms(1)] by blast
  have "sw_uid demo_spawn = ''u''" "sw_mkdir demo_spawn = Inr ()" by (simp_all add: demo_spawn_def)
  with b r show ?thesis
    by (simp add: spawn_service_def demo_start_daemon Let_def) (intro exI conjI, rule refl, simp_all)
qed

lemma demo_spawned_two:
  "\<exists>ap. demo_spawned = Some (ap, [], Inr [0, 1]) \<and> ap_spawned ap = [0, 1] \<and>
     map sp_listen_port (ap_procs ap) = [8100, 8102] \<and> map sp_pid (ap_procs ap) = [42, 42]"
proof -
  from demo_spawn_service [of "''a''" 8100 init_app] obtain sp where
    s: "spawn_service (\<lambda>_. []) demo_node [] [(PStr ''module'', PStr ''a'')] demo_spawn init_app =
      Some (\<lparr>ap_next_port = Some 8102, ap_procs = [sp], ap_spawned = [0]\<rparr>, [], Inr 0)" "sp_listen_port sp = 8100" "sp_pid sp = 42"
    by (auto simp: init_app_def)
  from demo_spawn_service [of "''b''" 8102 "\<lparr>ap_next_port = Some 8102, ap_procs = [sp], ap_spawned = [0]\<rparr>"] obtain sp2 where
    "spawn_service (\<lambda>_. []) demo_node [] [(PStr ''module'', PStr ''b'')] demo_spawn
        \<lparr>ap_next_port = Some 8102, ap_procs = [sp], ap_spawned = [0]\<rparr> =
      Some (\<lparr>ap_next_port = Some 8104, ap_procs = [sp, sp2], ap_spawned = [0, 1]\<rparr>, [], Inr 1)" "sp_listen_port sp2 = 8102" "sp_pid sp2 = 42"
    by auto
  with s show ?thesis by (simp add: demo_spawned_def defw_spawn_services_def resolve_defwp_def dget_def)
qed

lemma demo_spawned_reachable:
  "\<exists>ap. app_reachable ap \<and> ap_spawned ap = [0, 1] \<and> map sp_pid (ap_procs ap) = [42, 42]"
proof -
  obtain ap where a: "demo_spawned = Some (ap, [], Inr [0, 1]) \<and> ap_spawned ap = [0, 1] \<and>
     map sp_listen_port (ap_procs ap) = [8100, 8102] \<and> map sp_pid (ap_procs ap) = [42, 42]"
    using demo_spawned_two ..
  then have "defw_spawn_services (\<lambda>_. []) demo_node [] (\<lambda>_. True) (\<lambda>_. demo_spawn)
     (PList [PStr ''a'', PStr ''b'']) init_app = Some (ap, [], Inr [0, 1])" by (simp only: demo_spawned_def)
  from app_spawn [OF app_start this] a show ?thesis by (intro exI [of _ ap]) simp
qed

theorem spawned_ports_distinct_witness:
  "\<exists>ap. app_reachable ap \<and> ap_spawned ap = [0, 1] \<and>
     distinct (concat (map (\<lambda>sp. [sp_listen_port sp, sp_telnet_port sp]) (ap_procs ap)))"
proof -
  obtain ap where "app_reachable ap \<and> ap_spawned ap = [0, 1] \<and> map sp_pid (ap_procs ap) = [42, 42]"
    using demo_spawned_reachable ..
  with spawned_ports_distinct [of ap] show ?thesis by (intro exI [of _ ap]) simp
qed

theorem spawn_service_returns_witness:
  "\<exists>ap' sigs res. spawn_service (\<lambda>_. []) demo_node [] [(PStr ''module'', PStr ''a'')]
     (demo_spawn\<lparr>sw_pid_polls := [(0, None), (1, Some (int_dec 42)), (5, None)],
        sw_peer_polls := [(40, init_peers)]\<rparr>) init_app = Some (ap', sigs, res)"
  by (rule spawn_service_returns) (simp_all add: demo_spawn_def demo_shutdown_def)

lemma demo_shutdown_stops:
  assumes "sp_pid sp = 42"
  shows "\<exists>sp' calls sigs. process_shutdown 5 demo_shutdown sp = Some (sp', calls, sigs, Inr ())"
  using assms by (auto simp: process_shutdown_def process_deregister_def stop_process_def demo_shutdown_def
      split: prod.splits if_splits)

theorem shutdown_all_stops_all_witness:
  "\<exists>ap ap' sigs. ap_spawned ap = [0, 1] \<and>
     defw_shutdown_services 5 (\<lambda>_. demo_shutdown) None ap = Some (ap', sigs, Inr ()) \<and>
     ap_spawned ap' = [] \<and> sp_pid (ap_procs ap' ! 0) \<le> 0 \<and> sp_pid (ap_procs ap' ! 1) \<le> 0"
proof -
  obtain ap where "app_reachable ap \<and> ap_spawned ap = [0, 1] \<and> map sp_pid (ap_procs ap) = [42, 42]"
    using demo_spawned_reachable ..
  then have a: "app_reachable ap" "ap_spawned ap = [0, 1]" "map sp_pid (ap_procs ap) = [42, 42]" by simp_all
  have len: "length (ap_procs ap) = 2" using arg_cong [OF a(3), of length] by simp
  have pids: "sp_pid (ap_procs ap ! 0) = 42" "sp_pid (ap_procs ap ! 1) = 42"
    using arg_cong [OF a(3), of "\<lambda>xs. xs ! 0"] arg_cong [OF a(3), of "\<lambda>xs. xs ! 1"] len by simp_all
  obtain sp1 c1 s1 where p1: "process_shutdown 5 demo_shutdown (ap_procs ap ! 1) = Some (sp1, c1, s1, Inr ())"
    using demo_shutdown_stops [OF pids(2)] by blast
  obtain sp0 c0 s0 where p0: "process_shutdown 5 demo_shutdown (ap_procs ap ! 0) = Some (sp0, c0, s0, Inr ())"
    using demo_shutdown_stops [OF pids(1)] by blast
  have "\<exists>ap' sigs. defw_shutdown_services 5 (\<lambda>_. demo_shutdown) None ap = Some (ap', sigs, Inr ())"
    using p0 p1 a(2) by (simp add: defw_shutdown_services_def Let_def)
  then obtain ap' sigs where s: "defw_shutdown_services 5 (\<lambda>_. demo_shutdown) None ap = Some (ap', sigs, Inr ())" by blast
  from shutdown_all_stops_all [OF a(1) s] a(2) s show ?thesis
    by (intro exI [of _ ap] exI [of _ ap'] exI [of _ sigs]) simp
qed

subsection \<open>What a service reads from its environment\<close>

lemma service_vars_ports:
  "map_of (rev (service_vars ni environ modl name lp tp ld)) (PStr ''DEFW_LISTEN_PORT'') = Some (PStr (int_dec lp))"
  "map_of (rev (service_vars ni environ modl name lp tp ld)) (PStr ''DEFW_TELNET_PORT'') = Some (PStr (int_dec tp))"
  "map_of (rev (service_vars ni environ modl name lp tp ld)) (PStr ''DEFW_PARENT_PORT'') = Some (PStr (int_dec (ni_listenport ni)))"
  by (simp_all add: service_vars_def)

text \<open>
  a service listens where its parent waits for it. The environment of a service whose specification
  does not set the variables itself gives back, read as numbers, the two ports that were taken for it
  (neighbours, from the base of the ports or after the ones taken before) and the port of the parent.
\<close>
theorem service_env_ports:
  assumes "build_service_env rp ni environ uid mk spec next = (np, Inr (env, name, lp, tp, ld))"
    and "spec_vars rp spec = Inr vars"
    and "\<forall>k \<in> {''DEFW_LISTEN_PORT'', ''DEFW_TELNET_PORT'', ''DEFW_PARENT_PORT''}. PStr k \<notin> fst ` set vars"
  shows "py_int (dget0 env ''DEFW_LISTEN_PORT'') = Inr lp \<and> py_int (dget0 env ''DEFW_TELNET_PORT'') = Inr tp \<and>
    py_int (dget0 env ''DEFW_PARENT_PORT'') = Inr (ni_listenport ni) \<and> tp = lp + 1 \<and> np = Some (lp + 2)"
proof -
  from assms(1,2) obtain modl where
    env: "env = dupdate (dupdate environ (service_vars ni environ modl name lp tp ld)) vars"
    by (auto simp: build_service_env_def Let_def ebind_Inr_iff split: sum.splits prod.splits pyval.splits)
  have none: "map_of (rev vars) (PStr k) = None"
    if "k \<in> {''DEFW_LISTEN_PORT'', ''DEFW_TELNET_PORT'', ''DEFW_PARENT_PORT''}" for k
    using bspec [OF assms(3) that] by (simp add: map_of_eq_None_iff)
  have "map_of env (PStr ''DEFW_LISTEN_PORT'') = Some (PStr (int_dec lp))"
    "map_of env (PStr ''DEFW_TELNET_PORT'') = Some (PStr (int_dec tp))"
    "map_of env (PStr ''DEFW_PARENT_PORT'') = Some (PStr (int_dec (ni_listenport ni)))"
    by (simp_all add: env map_of_dupdate none service_vars_ports)
  then show ?thesis
    using build_service_env_next(2) [OF assms(1) refl] by (simp add: dget_def py_int_str_int_dec)
qed

theorem service_env_ports_witness:
  "\<exists>np env. build_service_env (\<lambda>_. []) demo_node [] ''u'' (Inr ()) [(PStr ''module'', PStr ''a'')] None =
      (np, Inr (env, ''a-u'', 8100, 8101, ''/tmp/a-u'')) \<and> py_int (dget0 env ''DEFW_LISTEN_PORT'') = Inr 8100"
proof -
  have "\<exists>np env. build_service_env (\<lambda>_. []) demo_node [] ''u'' (Inr ()) [(PStr ''module'', PStr ''a'')] None =
      (np, Inr (env, ''a-u'', 8100, 8101, ''/tmp/a-u''))"
    by (simp add: build_service_env_def allocate_ports_def two_ports spec_vars_def dindex_def dget_def demo_node_def
        py_int_str_int_dec path_join_def Let_def)
  then obtain np env where b: "build_service_env (\<lambda>_. []) demo_node [] ''u'' (Inr ()) [(PStr ''module'', PStr ''a'')] None =
      (np, Inr (env, ''a-u'', 8100, 8101, ''/tmp/a-u''))" by blast
  have "spec_vars (\<lambda>_. []) [(PStr ''module'', PStr ''a'')] = Inr []" by (simp add: spec_vars_def dget_def)
  from service_env_ports [OF b this] b show ?thesis by auto
qed

subsection \<open>Connecting by name\<close>

text \<open>An empty answer is asked for again at most until the time is up.\<close>

lemma resolve_loop_answer:
  "resolve_loop timeout resolve w bs0 = Inr bs \<Longrightarrow> bs \<noteq> [] \<Longrightarrow> bs0 = [] \<Longrightarrow>
     \<exists>n \<ge> w. real n < timeout \<and> resolve n = Inr bs \<and> (\<forall>m. w \<le> m \<and> m < n \<longrightarrow> resolve m = Inr [])"
proof (induction timeout resolve w bs0 rule: resolve_loop.induct)
  case (1 timeout resolve w bs0)
  show ?case
  proof (cases "resolve w = Inr [] \<and> real w < timeout")
    case True
    with "1.prems"(1) have "resolve_loop timeout resolve (w + 1) [] = Inr bs"
      by (subst (asm) resolve_loop.simps) simp
    with "1.IH" [of "[]"] True "1.prems"(2) obtain n where
      "n \<ge> w + 1" "real n < timeout" "resolve n = Inr bs" "\<forall>m. w + 1 \<le> m \<and> m < n \<longrightarrow> resolve m = Inr []" by auto
    with True show ?thesis by (metis Suc_eq_plus1 Suc_leD le_antisym not_less_eq_eq)
  next
    case False
    with "1.prems" have "real w < timeout \<and> resolve w = Inr bs"
      by (subst (asm) resolve_loop.simps) (auto split: if_splits sum.splits)
    then show ?thesis by auto
  qed
qed

end
