(* ===== verification/Launcher.thy ===== *)
theory Launcher
  imports App_Util
begin

section \<open>The launcher service (\<open>python/services/svc_launcher/svc_launcher.py\<close>)\<close>

text \<open>
  The service that starts processes, collects their results and stops them. A process object is a
  number, given when it is created, since the code compares process objects by identity; the two
  tables of the launcher are association lists from pids. A section that holds the lock is one
  operation, so that runs interleave the requests with the threads that wait for the processes. What
  the operating system does is an argument, the processes that are killed are a result.
\<close>

subsection \<open>Splitting a command line (\<open>shlex.split\<close>)\<close>

datatype shlex_state = Blank | Word | Quote char | Escape "char option"

definition shlex_space :: "char \<Rightarrow> bool" where
  "shlex_space c = (of_char c \<in> {9, 10, 13, 32 :: nat})"

definition is_quote :: "char \<Rightarrow> bool" where
  "is_quote c \<longleftrightarrow> c = CHR 39 \<or> c = CHR 34"

definition is_escape :: "char \<Rightarrow> bool" where
  "is_escape c \<longleftrightarrow> c = CHR 92"

text \<open>
  The POSIX lexer, a character at a time: the state, whether a quote was seen in the current word,
  and the current word. \<open>Escape None\<close> is a backslash outside quotes, \<open>Escape (Some q)\<close> one inside
  the quotes \<open>q\<close>, where it is kept unless it escapes itself or the quote.
\<close>

fun shlex :: "shlex_state \<Rightarrow> bool \<Rightarrow> string \<Rightarrow> string \<Rightarrow> string list result" where
  "shlex (Quote q) quoted token [] = Inl PyValueError"
| "shlex (Escape e) quoted token [] = Inl PyValueError"
| "shlex Blank quoted token [] = Inr []"
| "shlex Word quoted token [] = Inr (if token = [] \<and> \<not> quoted then [] else [token])"
| "shlex Blank quoted token (c # cs) =
     (if shlex_space c then shlex Blank False [] cs
      else if is_escape c then shlex (Escape None) False [] cs
      else if is_quote c then shlex (Quote c) True [] cs
      else shlex Word False [c] cs)"
| "shlex Word quoted token (c # cs) =
     (if shlex_space c then
        (if token = [] \<and> \<not> quoted then shlex Blank False [] cs
         else ebind (shlex Blank False [] cs) (\<lambda>ws. Inr (token # ws)))
      else if is_quote c then shlex (Quote c) True token cs
      else if is_escape c then shlex (Escape None) quoted token cs
      else shlex Word quoted (token @ [c]) cs)"
| "shlex (Quote q) quoted token (c # cs) =
     (if c = q then shlex Word True token cs
      else if is_escape c \<and> q = CHR 34 then shlex (Escape (Some q)) True token cs
      else shlex (Quote q) True (token @ [c]) cs)"
| "shlex (Escape None) quoted token (c # cs) = shlex Word quoted (token @ [c]) cs"
| "shlex (Escape (Some q)) quoted token (c # cs) =
     shlex (Quote q) quoted (token @ (if is_escape c \<or> c = q then [c] else [CHR 92, c])) cs"

definition shlex_split :: "string \<Rightarrow> string list result" where
  "shlex_split cmd = shlex Blank False [] cmd"

subsection \<open>Processes\<close>

record launched =
  lp_cmd :: "string list"
  lp_env :: dict

text \<open>\<open>Process.__init__\<close>.\<close>

definition make_process :: "dict \<Rightarrow> string \<Rightarrow> pyval \<Rightarrow> string \<Rightarrow> launched result" where
  "make_process environ cmd env path =
     ebind (shlex_split cmd) (\<lambda>words.
     case words of
       [] \<Rightarrow> Inl PyValueError
     | w # ws \<Rightarrow>
         Inr \<lparr>lp_cmd = (if path \<noteq> [] then path_join path w else w) # ws,
              lp_env = (case env of PDict d \<Rightarrow> dupdate environ d | _ \<Rightarrow> environ)\<rparr>)"

subsection \<open>The launcher\<close>

type_synonym proc_result = "pyval \<times> pyval \<times> int"

record launcher =
  la_procs :: "(int \<times> nat) list"
  la_dead :: "(int \<times> proc_result) list"
  la_next :: nat

definition init_launcher :: launcher where
  "init_launcher = \<lparr>la_procs = [], la_dead = [], la_next = 0\<rparr>"

text \<open>What the thread of a process does when the process has ended.\<close>

definition wait_for_exit :: "int \<Rightarrow> nat \<Rightarrow> proc_result \<Rightarrow> launcher \<Rightarrow> launcher" where
  "wait_for_exit pid proc res la =
     (if map_of (la_procs la) pid = Some proc
      then la\<lparr>la_procs := AList.delete pid (la_procs la), la_dead := AList.update pid res (la_dead la)\<rparr>
      else la)"

definition compose_remote_cmd :: "(pyval \<Rightarrow> string) \<Rightarrow> string \<Rightarrow> dict \<Rightarrow> string \<Rightarrow> string \<Rightarrow> string \<Rightarrow> string" where
  "compose_remote_cmd rp exe env use modules python_env =
     (let exports = (if env \<noteq> [] then
            join_on ''; '' (map (\<lambda>(k, v). ''export '' @ py_str rp k @ ''='' @ py_str rp v) env) @ '';'' else []);
          mods = (if use \<noteq> [] \<and> modules \<noteq> [] then
            concat (map (\<lambda>u. ''module use '' @ u @ '';'') (split_on CHR '':'' use)) @
            concat (map (\<lambda>m. ''module load '' @ m @ '';'') (split_on CHR '':'' modules)) else []);
          src = (if python_env \<noteq> [] then ''source '' @ python_env @ '';'' else []);
          cmd = exports @ mods @ src in
      if cmd \<noteq> [] then cmd @ '' '' @ exe else exe)"

text \<open>
  The part of \<open>launch\<close> for the own host up to the registration: \<open>popen\<close> is the outcome of starting
  the process, its pid.
\<close>

definition launch_start ::
  "dict \<Rightarrow> (launched \<Rightarrow> int result) \<Rightarrow> string \<Rightarrow> pyval \<Rightarrow> string \<Rightarrow> launcher \<Rightarrow> launcher \<times> (int \<times> nat) result" where
  "launch_start environ popen cmd env path la =
     (case ebind (make_process environ cmd env path) popen of
        Inl e \<Rightarrow> (la, Inl e)
      | Inr pid \<Rightarrow>
          (la\<lparr>la_procs := AList.update pid (la_next la) (la_procs la), la_next := Suc (la_next la)\<rparr>,
           Inr (pid, la_next la)))"

text \<open>The end of \<open>launch\<close> when it waits for the result.\<close>

definition launch_waited :: "int \<Rightarrow> nat \<Rightarrow> launcher \<Rightarrow> launcher" where
  "launch_waited pid proc la =
     (if map_of (la_procs la) pid = Some proc then la\<lparr>la_procs := AList.delete pid (la_procs la)\<rparr> else la)"

text \<open>\<open>kill\<close>; \<open>killed\<close> is the outcome of killing the process and waiting for it.\<close>

definition launcher_kill :: "(nat \<Rightarrow> unit result) \<Rightarrow> int \<Rightarrow> launcher \<Rightarrow> launcher \<times> nat list \<times> unit result" where
  "launcher_kill killed pid la =
     (case map_of (la_procs la) pid of
        None \<Rightarrow> (la, [], Inr ())
      | Some proc \<Rightarrow>
          (case killed proc of
             Inl e \<Rightarrow> (la, [proc], Inl e)
           | Inr _ \<Rightarrow> (la\<lparr>la_procs := AList.delete pid (la_procs la)\<rparr>, [proc], Inr ())))"

text \<open>\<open>terminate\<close> kills the process as well.\<close>

definition launcher_terminate :: "(nat \<Rightarrow> unit result) \<Rightarrow> int \<Rightarrow> launcher \<Rightarrow> launcher \<times> nat list \<times> unit result" where
  "launcher_terminate killed pid la =
     (case map_of (la_procs la) pid of
        None \<Rightarrow> (la, [], Inr ())
      | Some proc \<Rightarrow>
          (case killed proc of
             Inl e \<Rightarrow> (la, [proc], Inl e)
           | Inr _ \<Rightarrow> (la\<lparr>la_procs := AList.delete pid (la_procs la)\<rparr>, [proc], Inr ())))"

text \<open>The start of the thread that waits for a process; if it fails the process is killed.\<close>

definition launch_watch ::
  "unit result \<Rightarrow> (nat \<Rightarrow> unit result) \<Rightarrow> int \<Rightarrow> launcher \<Rightarrow> launcher \<times> nat list \<times> int result" where
  "launch_watch started killed pid la =
     (case started of
        Inr _ \<Rightarrow> (la, [], Inr pid)
      | Inl e \<Rightarrow>
          (case launcher_kill killed pid la of
             (la1, ks, Inl e1) \<Rightarrow> (la1, ks, Inl e1)
           | (la1, ks, Inr _) \<Rightarrow> (la1, ks, Inl e)))"

definition launcher_status :: "int \<Rightarrow> launcher \<Rightarrow> launcher \<times> proc_result result" where
  "launcher_status pid la =
     (case map_of (la_dead la) pid of
        Some res \<Rightarrow> (la\<lparr>la_dead := AList.delete pid (la_dead la)\<rparr>, Inr res)
      | None \<Rightarrow> (la, Inl (DEFwInProgress ''is still running'')))"

text \<open>\<open>shutdown\<close>: the processes are killed one after the other; an exception leaves the table as it is.\<close>

fun kill_procs :: "(nat \<Rightarrow> unit result) \<Rightarrow> (int \<times> nat) list \<Rightarrow> nat list \<times> unit result" where
  "kill_procs killed [] = ([], Inr ())"
| "kill_procs killed ((pid, proc) # ps) =
     (case killed proc of
        Inl e \<Rightarrow> ([proc], Inl e)
      | Inr _ \<Rightarrow> (case kill_procs killed ps of (ks, r) \<Rightarrow> (proc # ks, r)))"

definition launcher_shutdown :: "(nat \<Rightarrow> unit result) \<Rightarrow> bool \<Rightarrow> launcher \<Rightarrow> launcher \<times> nat list \<times> unit result" where
  "launcher_shutdown killed keep la =
     (if keep then (la, [], Inr ())
      else case kill_procs killed (la_procs la) of
        (ks, Inl e) \<Rightarrow> (la, ks, Inl e)
      | (ks, Inr _) \<Rightarrow> (la\<lparr>la_procs := fold AList.delete (map fst (la_procs la)) (la_procs la)\<rparr>, ks, Inr ()))"

text \<open>\<open>launch\<close> on another host: the command that is sent; \<open>sent\<close> is the outcome of sending it.\<close>

definition launch_remote ::
  "(pyval \<Rightarrow> string) \<Rightarrow> (string \<Rightarrow> string \<Rightarrow> unit result) \<Rightarrow> string \<Rightarrow> dict \<Rightarrow> string \<Rightarrow> string \<Rightarrow> string \<Rightarrow> string \<Rightarrow> int result" where
  "launch_remote rp sent cmd env muse modules python_env target =
     ebind (sent (compose_remote_cmd rp cmd env muse modules python_env) target) (\<lambda>_. Inr 0)"

text \<open>Whether \<open>launch\<close> runs the command on another host.\<close>

definition is_remote :: "string \<Rightarrow> string \<Rightarrow> bool" where
  "is_remote hostname target \<longleftrightarrow> target \<noteq> [] \<and> target \<noteq> hostname"

definition launcher_query :: "pyval \<Rightarrow> pyval \<Rightarrow> string \<Rightarrow> pyval" where
  "launcher_query name description service_module = PDict
     [(PStr ''service_name'', name), (PStr ''service_type'', PStr ''defw.launcher''),
      (PStr ''api_bindings'', PList [PDict
        [(PStr ''binding_name'', PStr ''default''), (PStr ''client_module'', PStr ''api_launcher''),
         (PStr ''client_class'', PStr ''Launcher''), (PStr ''service_module'', PStr service_module),
         (PStr ''service_class'', PStr ''Launcher''), (PStr ''version'', PInt 1)]]),
      (PStr ''selector'', PDict [(PStr ''resources'', PList [name])]),
      (PStr ''properties'', PDict [(PStr ''description'', description)]),
      (PStr ''capability'', PDict [(PStr ''type'', PInt 1), (PStr ''caps'', PInt 1), (PStr ''description'', description)])]"

subsection \<open>Runs\<close>

text \<open>The steps of the launcher: its requests and the waiting threads, interleaved in any way.\<close>

inductive la_step :: "launcher \<Rightarrow> launcher \<Rightarrow> bool" where
  la_launch: "launch_start environ popen cmd env path la = (la', r) \<Longrightarrow> la_step la la'"
| la_waited: "la_step la (launch_waited pid proc la)"
| la_watch: "launch_watch started killed pid la = (la', ks, r) \<Longrightarrow> la_step la la'"
| la_exit: "la_step la (wait_for_exit pid proc res la)"
| la_kill: "launcher_kill killed pid la = (la', ks, r) \<Longrightarrow> la_step la la'"
| la_terminate: "launcher_terminate killed pid la = (la', ks, r) \<Longrightarrow> la_step la la'"
| la_status: "launcher_status pid la = (la', r) \<Longrightarrow> la_step la la'"
| la_shutdown: "launcher_shutdown killed keep la = (la', ks, r) \<Longrightarrow> la_step la la'"

inductive la_run :: "launcher \<Rightarrow> launcher \<Rightarrow> bool" where
  run_refl: "la_run la la"
| run_step: "\<lbrakk>la_run la la'; la_step la' la''\<rbrakk> \<Longrightarrow> la_run la la''"

inductive_cases la_stepE: "la_step la la'"

text \<open>Every registered process was created before, and it is registered under one pid.\<close>

definition la_inv :: "launcher \<Rightarrow> bool" where
  "la_inv la \<longleftrightarrow> (\<forall>p \<in> snd ` set (la_procs la). p < la_next la) \<and> distinct (map fst (la_procs la)) \<and>
     distinct (map snd (la_procs la))"

lemma terminate_kills: "launcher_terminate killed pid la = launcher_kill killed pid la"
  by (simp add: launcher_terminate_def launcher_kill_def)

text \<open>A table from which some entries were dropped.\<close>

definition drops :: "(int \<times> nat) list \<Rightarrow> (int \<times> nat) list \<Rightarrow> bool" where
  "drops d d' \<longleftrightarrow> (\<exists>P. d' = filter P d)"

lemma delete_filter: "AList.delete k d = filter (\<lambda>p. fst p \<noteq> k) d"
  by (induction d) auto

lemma drops_refl [simp]: "drops d d"
  unfolding drops_def by (rule exI [of _ "\<lambda>_. True"]) simp

lemma drops_filter [simp]: "drops d (filter P d)"
  unfolding drops_def by blast

lemma drops_delete [simp]: "drops d (AList.delete k d)"
  by (simp add: delete_filter)

lemma drops_fold_delete [simp]: "drops d (fold AList.delete ks d)"
proof -
  have "fold AList.delete ks d = filter (\<lambda>p. fst p \<notin> set ks) d"
    by (induction ks arbitrary: d) (auto simp: delete_filter intro!: filter_cong)
  then show ?thesis by (simp only: drops_filter)
qed

text \<open>A step registers at most one process, a new one; apart from that it only drops registrations.\<close>

lemma launcher_kill_procs:
  assumes "launcher_kill killed pid la = (la', ks, r)"
  shows "drops (la_procs la) (la_procs la') \<and> la_next la' = la_next la"
  using assms by (auto simp: launcher_kill_def split: option.splits sum.splits)

lemma la_step_procs:
  assumes "la_step la la'"
  shows "drops (la_procs la) (la_procs la') \<and> la_next la' = la_next la \<or>
    (\<exists>pid. la_procs la' = AList.update pid (la_next la) (la_procs la) \<and> la_next la' = Suc (la_next la))"
  using assms
proof (cases rule: la_step.cases)
  case (la_launch environ popen cmd env path r)
  then show ?thesis by (auto simp: launch_start_def split: sum.splits)
next
  case (la_waited pid proc)
  then show ?thesis by (simp add: launch_waited_def)
next
  case (la_watch started killed pid ks r)
  then show ?thesis using launcher_kill_procs [of killed pid la]
    by (auto simp: launch_watch_def split: sum.splits prod.splits)
next
  case (la_exit pid proc res)
  then show ?thesis by (simp add: wait_for_exit_def)
next
  case (la_kill killed pid ks r)
  then show ?thesis using launcher_kill_procs by blast
next
  case (la_terminate killed pid ks r)
  then show ?thesis using launcher_kill_procs unfolding terminate_kills by blast
next
  case (la_status pid r)
  then show ?thesis by (auto simp: launcher_status_def split: option.splits)
next
  case (la_shutdown killed keep ks r)
  then show ?thesis by (auto simp: launcher_shutdown_def split: if_splits prod.splits sum.splits)
qed

lemma update_procs: "snd ` set (AList.update pid n d) \<subseteq> insert n (snd ` set (d :: (int \<times> nat) list))"
  by (induction d) auto

lemma update_procs_distinct:
  "n \<notin> snd ` set d \<Longrightarrow> distinct (map snd d) \<Longrightarrow> distinct (map snd (AList.update pid n (d :: (int \<times> nat) list)))"
proof (induction d)
  case (Cons p d)
  have "snd p \<notin> snd ` set (AList.update pid n d)" using Cons.prems update_procs [of pid n d] by auto
  with Cons show ?case by (cases p) auto
qed simp

lemma la_step_inv: "la_inv la \<Longrightarrow> la_step la la' \<Longrightarrow> la_inv la'"
proof -
  assume inv: "la_inv la" and "la_step la la'"
  from la_step_procs [OF this(2)] show ?thesis
  proof (elim disjE exE conjE)
    assume "drops (la_procs la) (la_procs la')" "la_next la' = la_next la"
    with inv show ?thesis by (auto simp: la_inv_def drops_def distinct_map_filter)
  next
    fix pid assume u: "la_procs la' = AList.update pid (la_next la) (la_procs la)" "la_next la' = Suc (la_next la)"
    have "la_next la \<notin> snd ` set (la_procs la)" using inv by (auto simp: la_inv_def)
    with inv u have d: "distinct (map fst (la_procs la'))" "distinct (map snd (la_procs la'))"
      by (simp_all add: la_inv_def distinct_update update_procs_distinct)
    have "p < la_next la'" if "p \<in> snd ` set (la_procs la')" for p
    proof -
      have "p = la_next la \<or> p \<in> snd ` set (la_procs la)"
        using that update_procs [of pid "la_next la" "la_procs la"] unfolding u(1) by blast
      with inv show ?thesis by (auto simp: la_inv_def u(2) less_Suc_eq)
    qed
    with d show ?thesis by (simp add: la_inv_def)
  qed
qed

text \<open>A process that is not registered any more is never registered again.\<close>

lemma la_run_gone:
  "la_run la la' \<Longrightarrow> proc < la_next la \<Longrightarrow> proc \<notin> snd ` set (la_procs la) \<Longrightarrow>
     proc < la_next la' \<and> proc \<notin> snd ` set (la_procs la')"
proof (induction rule: la_run.induct)
  case (run_step la la' la'')
  from run_step have p: "proc < la_next la'" "proc \<notin> snd ` set (la_procs la')" by blast+
  from la_step_procs [OF run_step.hyps(2)] show ?case
  proof (elim disjE exE conjE)
    assume "drops (la_procs la') (la_procs la'')" "la_next la'' = la_next la'"
    with p show ?thesis by (auto simp: drops_def)
  next
    fix pid assume "la_procs la'' = AList.update pid (la_next la') (la_procs la')" "la_next la'' = Suc (la_next la')"
    with p update_procs [of pid "la_next la'" "la_procs la'"] show ?thesis by auto
  qed
qed simp

lemma la_run_inv: "la_run la la' \<Longrightarrow> la_inv la \<Longrightarrow> la_inv la'"
  by (induction rule: la_run.induct) (auto dest: la_step_inv)

lemma init_launcher_inv: "la_inv init_launcher"
  by (simp add: la_inv_def init_launcher_def)

text \<open>
  C23: the end of a killed process is never reported. Once a process of a reachable launcher has been
  killed, whatever happens next, and also if its pid is given to another process, the end of its
  thread changes nothing: neither is the other process taken for dead nor does \<open>status\<close> get the result.
\<close>
theorem killed_never_reported:
  assumes "la_run init_launcher la" and "map_of (la_procs la) pid = Some proc"
    and "launcher_kill killed pid la = (la1, ks, Inr ())" and "la_run la1 la2"
  shows "ks = [proc] \<and> wait_for_exit pid2 proc res la2 = la2"
proof -
  have inv: "la_inv la" using la_run_inv [OF assms(1) init_launcher_inv] .
  have p: "(pid, proc) \<in> set (la_procs la)" using assms(2) by (rule map_of_SomeD)
  from assms(2,3) have k: "ks = [proc]" "la_procs la1 = filter (\<lambda>p. fst p \<noteq> pid) (la_procs la)" "la_next la1 = la_next la"
    by (auto simp: launcher_kill_def delete_filter split: sum.splits)
  have "proc < la_next la1" using inv p k(3) by (auto simp: la_inv_def)
  moreover have "proc \<notin> snd ` set (la_procs la1)"
  proof
    assume "proc \<in> snd ` set (la_procs la1)"
    then obtain pid' where q: "(pid', proc) \<in> set (la_procs la)" "pid' \<noteq> pid" by (auto simp: k(2))
    have "inj_on snd (set (la_procs la))" using inv by (auto simp: la_inv_def distinct_map)
    from inj_onD [OF this _ q(1) p] q(2) show False by simp
  qed
  ultimately have "proc \<notin> snd ` set (la_procs la2)" using la_run_gone [OF assms(4)] by blast
  then have "map_of (la_procs la2) pid2 \<noteq> Some proc" by (force dest: map_of_SomeD)
  with k(1) show ?thesis by (simp add: wait_for_exit_def)
qed

definition demo_launched :: launcher where
  "demo_launched = \<lparr>la_procs = [(7, 0)], la_dead = [], la_next = 1\<rparr>"

lemma demo_launched_run: "la_run init_launcher demo_launched"
proof (rule run_step [OF run_refl la_launch])
  show "launch_start [] (\<lambda>_. Inr 7) ''run'' PNone [] init_launcher = (demo_launched, Inr (7, 0))"
    by (simp add: launch_start_def make_process_def shlex_split_def shlex_space_def is_quote_def is_escape_def
        init_launcher_def demo_launched_def)
qed

theorem killed_never_reported_witness:
  "\<exists>la1. launcher_kill (\<lambda>_. Inr ()) 7 demo_launched = (la1, [0], Inr ()) \<and>
     wait_for_exit 7 0 (PNone, PNone, 0) (la1\<lparr>la_procs := [(7, 1)], la_next := 2\<rparr>) = la1\<lparr>la_procs := [(7, 1)], la_next := 2\<rparr>"
proof -
  let ?la1 = "\<lparr>la_procs = [], la_dead = [], la_next = 1\<rparr> :: launcher"
  let ?la2 = "\<lparr>la_procs = [(7, 1)], la_dead = [], la_next = 2\<rparr> :: launcher"
  have k: "launcher_kill (\<lambda>_. Inr ()) 7 demo_launched = (?la1, [0], Inr ())"
    by (simp add: launcher_kill_def demo_launched_def)
  have "launch_start [] (\<lambda>_. Inr 7) ''run'' PNone [] ?la1 = (?la2, Inr (7, 1))"
    by (simp add: launch_start_def make_process_def shlex_split_def shlex_space_def is_quote_def is_escape_def)
  then have "la_run ?la1 ?la2" by (rule run_step [OF run_refl la_launch])
  from killed_never_reported [OF demo_launched_run _ k this, of 0] k show ?thesis by (simp add: demo_launched_def)
qed

text \<open>The result of a process is given once.\<close>

lemma exit_then_status:
  assumes "map_of (la_procs la) pid = Some proc" and "launcher_status pid (wait_for_exit pid proc res la) = (la1, r)"
  shows "r = Inr res \<and> map_of (la_procs la1) pid = None \<and> (\<exists>e. launcher_status pid la1 = (la1, Inl e))"
  using assms by (auto simp: wait_for_exit_def launcher_status_def)

text \<open>The lexer gives back plain words that are separated by blanks.\<close>

lemma shlex_word:
  assumes "\<forall>c \<in> set w. \<not> shlex_space c \<and> \<not> is_quote c \<and> \<not> is_escape c"
  shows "shlex Word q t (w @ cs) = shlex Word q (t @ w) cs"
  using assms by (induction w arbitrary: t) auto

lemma shlex_split_words:
  assumes "\<forall>w \<in> set ws. w \<noteq> [] \<and> (\<forall>c \<in> set w. \<not> shlex_space c \<and> \<not> is_quote c \<and> \<not> is_escape c)"
  shows "shlex_split (join_on '' '' ws) = Inr ws"
  using assms
proof (induction ws)
  case Nil
  then show ?case by (simp add: shlex_split_def)
next
  case (Cons w ws)
  obtain c cs where w: "w = c # cs" using Cons.prems by (cases w) auto
  have start: "shlex Blank False [] (w @ r) = shlex Word False w r" for r
    using Cons.prems shlex_word [of cs False "[c]" r] by (simp add: w)
  have sp: "shlex_space CHR '' ''" by (simp add: shlex_space_def)
  show ?case
  proof (cases ws)
    case Nil
    with start [of "[]"] show ?thesis by (simp add: shlex_split_def w)
  next
    case c: (Cons v vs)
    have "shlex_split (join_on '' '' (w # ws)) = shlex Word False w (CHR '' '' # join_on '' '' ws)"
      using start [of "CHR '' '' # join_on '' '' ws"] by (simp add: shlex_split_def c)
    also have "\<dots> = ebind (shlex_split (join_on '' '' ws)) (\<lambda>us. Inr (w # us))" by (simp add: sp w shlex_split_def)
    finally show ?thesis using Cons.IH Cons.prems by simp
  qed
qed

end
