(* ===== verification/Runtime_Cfg.thy ===== *)
theory Runtime_Cfg
  imports Endpoints
begin

section \<open>The configuration of the C runtime\<close>

text \<open>
  The parameters \<open>g_defw_cfg\<close> of \<open>src/src/defw.h\<close> and the accessors of \<open>src/src/libdefw_global.c\<close> that
  the Python code calls. A name is a buffer of 1024 characters that \<open>strncpy\<close> fills; it can be read
  only if it holds a terminator. A port is stored in the 16 bits of \<open>sin_port\<close>, an address in 32 bits.
  Calls go through SWIG: a string argument must be a \<open>str\<close>, \<open>None\<close> becomes a null pointer, on which the
  process dies, and a number must fit 32 bits.
\<close>

subsection \<open>Calls that can kill the process\<close>

text \<open>\<open>None\<close>: the process died; otherwise an exception or a value.\<close>

type_synonym 'a outcome = "'a result option"

definition cbind :: "'a outcome \<Rightarrow> ('a \<Rightarrow> 'b outcome) \<Rightarrow> 'b outcome" where
  "cbind m f = (case m of None \<Rightarrow> None | Some (Inl e) \<Rightarrow> Some (Inl e) | Some (Inr x) \<Rightarrow> f x)"

text \<open>\<open>try: m except: d\<close>.\<close>

definition ctry :: "'a outcome \<Rightarrow> 'a outcome \<Rightarrow> 'a outcome" where
  "ctry m d = (case m of Some (Inl e) \<Rightarrow> d | _ \<Rightarrow> m)"

lemma cbind_simps [simp]:
  "cbind None f = None" "cbind (Some (Inl e)) f = Some (Inl e)" "cbind (Some (Inr x)) f = f x"
  by (simp_all add: cbind_def)

lemma cbind_Inr_iff: "cbind m f = Some (Inr y) \<longleftrightarrow> (\<exists>x. m = Some (Inr x) \<and> f x = Some (Inr y))"
  by (auto simp: cbind_def split: option.splits sum.splits)

lemma ctry_simps [simp]:
  "ctry None d = None" "ctry (Some (Inl e)) d = d" "ctry (Some (Inr x)) d = Some (Inr x)"
  by (simp_all add: ctry_def)

subsection \<open>Buffers\<close>

definition MAX_STR_LEN :: nat where
  "MAX_STR_LEN = 1024"

definition strncpy :: "string \<Rightarrow> nat \<Rightarrow> string" where
  "strncpy src n = take n (takeWhile (\<lambda>c. c \<noteq> CHR 0x00) src @ replicate n (CHR 0x00))"

text \<open>The string a buffer holds; \<open>None\<close>: there is no terminator and reading leaves the buffer.\<close>

definition c_string :: "string \<Rightarrow> string option" where
  "c_string buf = (if CHR 0x00 \<in> set buf then Some (takeWhile (\<lambda>c. c \<noteq> CHR 0x00) buf) else None)"

lemma takeWhile_all: "\<forall>c \<in> set s. P c \<Longrightarrow> takeWhile P s = s"
  by (simp add: takeWhile_eq_all_conv)

lemma strncpy_length [simp]: "length (strncpy s n) = n"
  by (simp add: strncpy_def)

text \<open>What is stored is read back exactly if it is shorter than the buffer; else it has no end.\<close>

lemma strncpy_read:
  assumes "CHR 0x00 \<notin> set s"
  shows "c_string (strncpy s n) = (if length s < n then Some s else None)"
proof -
  have s: "takeWhile (\<lambda>c. c \<noteq> CHR 0x00) s = s" using assms by (simp add: takeWhile_eq_all_conv) metis
  show ?thesis
  proof (cases "length s < n")
    case True
    then have "strncpy s n = s @ replicate (n - length s) (CHR 0x00)" by (simp add: strncpy_def s)
    with True assms show ?thesis
      by (auto simp: c_string_def s takeWhile_append set_replicate_conv_if)
  next
    case False
    then have "strncpy s n = take n s" by (simp add: strncpy_def s)
    with False assms show ?thesis by (auto simp: c_string_def dest: in_set_takeD)
  qed
qed

subsection \<open>Addresses\<close>

text \<open>\<open>strtoul(s, end, 0)\<close> on a whole word that starts with a digit: hexadecimal, octal or decimal.\<close>

definition hex_val :: "char \<Rightarrow> nat option" where
  "hex_val c = (let n = of_char c :: nat in
     if 48 \<le> n \<and> n \<le> 57 then Some (n - 48)
     else if 97 \<le> n \<and> n \<le> 102 then Some (n - 87)
     else if 65 \<le> n \<and> n \<le> 70 then Some (n - 55) else None)"

fun read_base :: "nat \<Rightarrow> nat \<Rightarrow> string \<Rightarrow> nat option" where
  "read_base b acc [] = Some acc"
| "read_base b acc (c # cs) =
     (case hex_val c of
        None \<Rightarrow> None
      | Some d \<Rightarrow> if d < b then read_base b (b * acc + d) cs else None)"

definition c_number :: "string \<Rightarrow> nat option" where
  "c_number s =
     (case s of
        [] \<Rightarrow> None
      | c # cs \<Rightarrow>
          if digit_val c = None then None
          else if c = CHR ''0'' then
            (case cs of
               x # ds \<Rightarrow> if x = CHR ''x'' \<or> x = CHR ''X'' then (if ds = [] then None else read_base 16 0 ds) else read_base 8 0 cs
             | [] \<Rightarrow> Some 0)
          else read_base 10 0 s)"

text \<open>
  \<open>inet_aton\<close>: one to four numbers; all but the last are bytes and the last fills what is left. The
  text ends at the first white space.
\<close>

definition parts_address :: "nat list \<Rightarrow> 32 word option" where
  "parts_address ns =
     (let k = length ns in
      if 1 \<le> k \<and> k \<le> 4 \<and> list_all (\<lambda>n. n \<le> 255) (butlast ns) \<and> last ns < 256 ^ (5 - k)
      then Some (word_of_nat (foldl (\<lambda>a n. 256 * a + n) 0 (butlast ns) * 256 ^ (5 - k) + last ns)) else None)"

definition c_space :: "char \<Rightarrow> bool" where
  "c_space c \<longleftrightarrow> of_char c \<in> {9, 10, 11, 12, 13, 32 :: nat}"

definition inet_aton :: "string \<Rightarrow> 32 word option" where
  "inet_aton s =
     (let ps = map c_number (split_on CHR ''.'' (takeWhile (\<lambda>c. \<not> c_space c) s)) in
      if None \<in> set ps then None else parts_address (map the ps))"

text \<open>\<open>inet_ntoa\<close>.\<close>

definition addr_bytes :: "32 word \<Rightarrow> nat list" where
  "addr_bytes a = [unat a div 256 ^ 3, unat a div 256 ^ 2 mod 256, unat a div 256 mod 256, unat a mod 256]"

definition inet_ntoa :: "32 word \<Rightarrow> string" where
  "inet_ntoa a = join_on ''.'' (map nat_dec (addr_bytes a))"

subsection \<open>The parameters\<close>

record runtime_cfg =
  rc_initialized :: bool
  rc_safe_shutdown :: bool
  rc_disable_dirsvc :: bool
  rc_type :: int
  rc_listen_address :: "32 word"
  rc_listen_port :: "16 word"
  rc_parent_address :: "32 word"
  rc_parent_port :: "16 word"
  rc_telnet_port :: "32 word"
  rc_node_name :: string
  rc_shell :: int
  rc_defw_path :: string
  rc_parent_name :: string
  rc_parent_hostname :: string
  rc_hostname :: string
  rc_tmp_dir :: string
  rc_loglevel :: int

text \<open>Arguments: a \<open>char *\<close> and an \<open>int\<close>.\<close>

fun swig_str :: "pyval \<Rightarrow> string outcome" where
  "swig_str (PStr s) = Some (Inr s)"
| "swig_str PNone = None"
| "swig_str v = Some (Inl PyTypeError)"

definition swig_int :: "int \<Rightarrow> int outcome" where
  "swig_int n = (if - (2 ^ 31) \<le> n \<and> n < 2 ^ 31 then Some (Inr n) else Some (Inl (PyRuntimeError ''OverflowError'')))"

definition buffer :: "pyval \<Rightarrow> string outcome" where
  "buffer v = cbind (swig_str v) (\<lambda>s. Some (Inr (strncpy s MAX_STR_LEN)))"

definition set_defw_path :: "pyval \<Rightarrow> runtime_cfg \<Rightarrow> runtime_cfg outcome" where
  "set_defw_path v rc = cbind (buffer v) (\<lambda>b. Some (Inr (rc\<lparr>rc_defw_path := b\<rparr>)))"

definition set_parent_name :: "pyval \<Rightarrow> runtime_cfg \<Rightarrow> runtime_cfg outcome" where
  "set_parent_name v rc = cbind (buffer v) (\<lambda>b. Some (Inr (rc\<lparr>rc_parent_name := b\<rparr>)))"

definition set_parent_hostname :: "pyval \<Rightarrow> runtime_cfg \<Rightarrow> runtime_cfg outcome" where
  "set_parent_hostname v rc = cbind (buffer v) (\<lambda>b. Some (Inr (rc\<lparr>rc_parent_hostname := b\<rparr>)))"

definition set_hostname :: "pyval \<Rightarrow> runtime_cfg \<Rightarrow> runtime_cfg outcome" where
  "set_hostname v rc = cbind (buffer v) (\<lambda>b. Some (Inr (rc\<lparr>rc_hostname := b\<rparr>)))"

definition set_node_name :: "pyval \<Rightarrow> runtime_cfg \<Rightarrow> runtime_cfg outcome" where
  "set_node_name v rc = cbind (buffer v) (\<lambda>b. Some (Inr (rc\<lparr>rc_node_name := b\<rparr>)))"

definition set_defw_tmp_dir :: "pyval \<Rightarrow> runtime_cfg \<Rightarrow> runtime_cfg outcome" where
  "set_defw_tmp_dir v rc = cbind (buffer v) (\<lambda>b. Some (Inr (rc\<lparr>rc_tmp_dir := b\<rparr>)))"

definition set_listen_port :: "int \<Rightarrow> runtime_cfg \<Rightarrow> runtime_cfg outcome" where
  "set_listen_port n rc = cbind (swig_int n) (\<lambda>p. Some (Inr (rc\<lparr>rc_listen_port := word_of_int p\<rparr>)))"

definition set_parent_port :: "int \<Rightarrow> runtime_cfg \<Rightarrow> runtime_cfg outcome" where
  "set_parent_port n rc = cbind (swig_int n) (\<lambda>p. Some (Inr (rc\<lparr>rc_parent_port := word_of_int p\<rparr>)))"

definition set_agent_telnet_port :: "int \<Rightarrow> runtime_cfg \<Rightarrow> runtime_cfg outcome" where
  "set_agent_telnet_port n rc = cbind (swig_int n) (\<lambda>p. Some (Inr (rc\<lparr>rc_telnet_port := word_of_int p\<rparr>)))"

text \<open>An address that cannot be read leaves the old one; the caller does not look at the return code.\<close>

definition set_listen_address :: "pyval \<Rightarrow> runtime_cfg \<Rightarrow> runtime_cfg outcome" where
  "set_listen_address v rc = cbind (swig_str v) (\<lambda>s.
     Some (Inr (if takeWhile (\<lambda>c. c \<noteq> CHR 0x00) s = [] then rc\<lparr>rc_listen_address := 0\<rparr>
       else case inet_aton (takeWhile (\<lambda>c. c \<noteq> CHR 0x00) s) of Some a \<Rightarrow> rc\<lparr>rc_listen_address := a\<rparr> | None \<Rightarrow> rc)))"

definition set_parent_address :: "pyval \<Rightarrow> runtime_cfg \<Rightarrow> runtime_cfg outcome" where
  "set_parent_address v rc = cbind (swig_str v) (\<lambda>s.
     Some (Inr (case inet_aton (takeWhile (\<lambda>c. c \<noteq> CHR 0x00) s) of Some a \<Rightarrow> rc\<lparr>rc_parent_address := a\<rparr> | None \<Rightarrow> rc)))"

definition same_text :: "string \<Rightarrow> string \<Rightarrow> bool" where
  "same_text a b \<longleftrightarrow> py_lower a = py_lower b"

definition set_defw_mode :: "pyval \<Rightarrow> runtime_cfg \<Rightarrow> runtime_cfg outcome" where
  "set_defw_mode v rc = cbind (swig_str v) (\<lambda>s.
     Some (Inr (if same_text s ''daemon'' then rc\<lparr>rc_shell := 3\<rparr>
       else if same_text s ''interactive'' then rc\<lparr>rc_shell := 1\<rparr>
       else if same_text s ''cmdline'' then rc\<lparr>rc_shell := 4\<rparr> else rc)))"

definition set_defw_type :: "pyval \<Rightarrow> runtime_cfg \<Rightarrow> runtime_cfg outcome" where
  "set_defw_type v rc = cbind (swig_str v) (\<lambda>s.
     Some (Inr (if same_text s ''agent'' then rc\<lparr>rc_type := 2\<rparr>
       else if same_text s ''service'' then rc\<lparr>rc_type := 3\<rparr>
       else if same_text s ''dirsvc'' then rc\<lparr>rc_type := 1\<rparr> else rc\<lparr>rc_type := 1\<rparr>)))"

definition disable_dirsvc :: "runtime_cfg \<Rightarrow> runtime_cfg" where
  "disable_dirsvc rc = rc\<lparr>rc_disable_dirsvc := True\<rparr>"

definition set_log_level :: "int \<Rightarrow> runtime_cfg \<Rightarrow> runtime_cfg" where
  "set_log_level l rc = rc\<lparr>rc_loglevel := l\<rparr>"

definition set_defw_safe_shutdown :: "bool \<Rightarrow> runtime_cfg \<Rightarrow> runtime_cfg" where
  "set_defw_safe_shutdown b rc = rc\<lparr>rc_safe_shutdown := b\<rparr>"

definition set_defw_initialized :: "bool \<Rightarrow> runtime_cfg \<Rightarrow> runtime_cfg" where
  "set_defw_initialized b rc = rc\<lparr>rc_initialized := b\<rparr>"

text \<open>What the getters return.\<close>

definition get_listen_port :: "runtime_cfg \<Rightarrow> int" where
  "get_listen_port rc = uint (rc_listen_port rc)"

definition get_parent_port :: "runtime_cfg \<Rightarrow> int" where
  "get_parent_port rc = uint (rc_parent_port rc)"

definition get_listen_address :: "runtime_cfg \<Rightarrow> string" where
  "get_listen_address rc = inet_ntoa (rc_listen_address rc)"

definition get_parent_address :: "runtime_cfg \<Rightarrow> string" where
  "get_parent_address rc = inet_ntoa (rc_parent_address rc)"

lemmas setter_defs = set_defw_path_def set_parent_name_def set_parent_hostname_def set_hostname_def set_node_name_def
  set_defw_tmp_dir_def set_listen_port_def set_parent_port_def set_agent_telnet_port_def set_listen_address_def
  set_parent_address_def set_defw_mode_def set_defw_type_def disable_dirsvc_def set_log_level_def set_defw_safe_shutdown_def
  buffer_def

subsection \<open>Reading back what was set\<close>

text \<open>A port keeps its lower 16 bits.\<close>

lemma listen_port_read:
  "set_listen_port n rc = Some (Inr rc') \<Longrightarrow> get_listen_port rc' = n mod 2 ^ 16"
  by (auto simp: set_listen_port_def swig_int_def get_listen_port_def unsigned_of_int take_bit_eq_mod split: if_splits)

lemma hex_val_digit_char: "d < 10 \<Longrightarrow> hex_val (digit_char d) = Some d"
  by (simp add: hex_val_def Let_def digit_char_code)

lemma read_base_append:
  "read_base b a (s @ t) = (case read_base b a s of None \<Rightarrow> None | Some m \<Rightarrow> read_base b m t)"
  by (induction b a s rule: read_base.induct) (auto split: option.splits)

lemma read_base_dec: "read_base 10 0 (nat_dec n) = Some n"
proof (induction n rule: nat_dec.induct)
  case (1 n)
  show ?case
  proof (cases "n < 10")
    case True
    then show ?thesis by (subst nat_dec.simps) (simp add: hex_val_digit_char)
  next
    case False
    with 1 show ?thesis
      by (subst nat_dec.simps) (simp add: read_base_append hex_val_digit_char)
  qed
qed

lemma nat_dec_first: "n \<noteq> 0 \<Longrightarrow> \<exists>c cs d. nat_dec n = c # cs \<and> c = digit_char d \<and> d < 10 \<and> d \<noteq> 0"
proof (induction n rule: nat_dec.induct)
  case (1 n)
  show ?case
  proof (cases "n < 10")
    case True
    with "1.prems" show ?thesis by (subst nat_dec.simps) auto
  next
    case False
    then have "n div 10 \<noteq> 0" by (simp add: div_eq_0_iff)
    with "1.IH" False obtain c cs d where "nat_dec (n div 10) = c # cs" "c = digit_char d" "d < 10" "d \<noteq> 0" by blast
    with False show ?thesis by (subst nat_dec.simps) auto
  qed
qed

lemma digit_char_0: "digit_char 0 = CHR ''0''"
  by code_simp

lemma nat_dec_0: "nat_dec 0 = ''0''"
  by (subst nat_dec.simps) (simp add: digit_char_0)

lemma c_number_dec: "c_number (nat_dec n) = Some n"
proof (cases "n = 0")
  case True
  with digit_val_digit_char [of 0] show ?thesis by (simp add: nat_dec_0 c_number_def digit_char_0)
next
  case False
  then obtain c cs d where c: "nat_dec n = c # cs" "c = digit_char d" "d < 10" "d \<noteq> 0"
    using nat_dec_first by blast
  have "c \<noteq> CHR ''0''"
  proof
    assume "c = CHR ''0''"
    then have "(of_char (digit_char d) :: nat) = 48" using c(2) by simp
    with c(3,4) digit_char_code [of d] show False by simp
  qed
  with c read_base_dec [of n] digit_val_digit_char [OF c(3)] show ?thesis by (simp add: c_number_def)
qed

lemma nat_dec_plain: "c \<in> set (nat_dec n) \<Longrightarrow> c \<noteq> CHR ''.'' \<and> \<not> c_space c \<and> c \<noteq> CHR 0x00"
proof -
  assume "c \<in> set (nat_dec n)"
  then obtain d where d: "d < 10" "c = digit_char d" using nat_dec_digits by blast
  then have "(of_char c :: nat) = 48 + d" using digit_char_code by simp
  with d(1) show ?thesis by (auto simp: c_space_def)
qed

lemma addr_bytes_value:
  "foldl (\<lambda>a n. 256 * a + n) 0 (butlast (addr_bytes a)) * 256 + last (addr_bytes a) = unat a"
proof -
  let ?n = "unat a"
  have "256 * (?n div 256 div 256 div 256) + ?n div 256 div 256 mod 256 = ?n div 256 div 256"
    "256 * (?n div 256 div 256) + ?n div 256 mod 256 = ?n div 256" "?n div 256 * 256 + ?n mod 256 = ?n"
    by simp_all
  moreover have "?n div 16777216 = ?n div 256 div 256 div 256" "?n div 65536 = ?n div 256 div 256"
    by (simp_all add: div_mult2_eq [symmetric])
  ultimately show ?thesis by (simp add: addr_bytes_def)
qed

lemma parts_address_bytes: "parts_address (addr_bytes a) = Some a"
proof -
  have "unat a < 256 ^ 4" using unsigned_less [of a, where 'a = nat] by simp
  then have "unat a div 16777216 < 256" by (simp add: less_mult_imp_div_less)
  moreover have "unat a mod 256 < 256" "unat a div 256 mod 256 < 256" "unat a div 65536 mod 256 < 256" by simp_all
  ultimately have "list_all (\<lambda>n. n \<le> 255) (butlast (addr_bytes a)) \<and> last (addr_bytes a) < 256"
    by (auto simp: addr_bytes_def)
  moreover have len: "length (addr_bytes a) = 4" by (simp add: addr_bytes_def)
  ultimately have "parts_address (addr_bytes a) =
      Some (word_of_nat (foldl (\<lambda>a n. 256 * a + n) 0 (butlast (addr_bytes a)) * 256 + last (addr_bytes a)))"
    by (simp add: parts_address_def Let_def)
  then show ?thesis unfolding addr_bytes_value by simp
qed

text \<open>An address that is printed can be read, and gives the same address.\<close>

lemma inet_aton_ntoa: "inet_aton (inet_ntoa a) = Some a"
proof -
  have plain: "\<forall>c \<in> set (inet_ntoa a). \<not> c_space c"
    using set_join_on [of "''.''" "map nat_dec (addr_bytes a)"] nat_dec_plain
    by (fastforce simp: inet_ntoa_def c_space_def)
  have "split_on CHR ''.'' (inet_ntoa a) = map nat_dec (addr_bytes a)"
    unfolding inet_ntoa_def using nat_dec_plain by (intro split_join_on) (auto simp: addr_bytes_def)
  with takeWhile_all [of "inet_ntoa a" "\<lambda>c. \<not> c_space c", OF plain] show ?thesis
    by (simp only: inet_aton_def Let_def) (simp add: c_number_dec comp_def parts_address_bytes image_iff)
qed

lemma inet_ntoa_no_NUL: "CHR 0x00 \<notin> set (inet_ntoa a)"
  using set_join_on [of "''.''" "map nat_dec (addr_bytes a)"] nat_dec_plain by (fastforce simp: inet_ntoa_def)

lemma parent_address_read:
  "set_parent_address (PStr (inet_ntoa a)) rc = Some (Inr (rc\<lparr>rc_parent_address := a\<rparr>))"
proof -
  have "\<forall>c \<in> set (inet_ntoa a). c \<noteq> CHR 0x00" using inet_ntoa_no_NUL [of a] by metis
  then have "inet_aton (takeWhile (\<lambda>c. c \<noteq> CHR 0x00) (inet_ntoa a)) = Some a"
    by (simp only: takeWhile_all inet_aton_ntoa)
  then show ?thesis by (simp add: set_parent_address_def)
qed

end
