(* ===== verification/Util.thy ===== *)
theory Util
  imports Py_Prelude
begin

section \<open>Utilities (\<open>python/infra/defw_util.py\<close>)\<close>

text \<open>
  Host list expressions such as \<open>a,n[01-03,7],b\<close>, the table of CPU facts and rounding. Positions in
  strings are integers and \<open>-1\<close> is the answer of an unsuccessful search, as in Python, since the
  scanner compares them.
\<close>

subsection \<open>Searching and slicing\<close>

fun find_from :: "char \<Rightarrow> nat \<Rightarrow> string \<Rightarrow> int" where
  "find_from c n [] = -1"
| "find_from c n (x # xs) = (if x = c then int n else find_from c (Suc n) xs)"

text \<open>A negative position counts from the end of the string.\<close>

definition py_pos :: "string \<Rightarrow> int \<Rightarrow> nat" where
  "py_pos s k = nat (if k < 0 then max 0 (int (length s) + k) else k)"

text \<open>\<open>s.find(c, k)\<close>, \<open>s[:k]\<close> and \<open>s[k:]\<close>.\<close>

definition py_find :: "string \<Rightarrow> char \<Rightarrow> int \<Rightarrow> int" where
  "py_find s c k = find_from c (py_pos s k) (drop (py_pos s k) s)"

definition py_upto :: "string \<Rightarrow> int \<Rightarrow> string" where
  "py_upto s k = take (py_pos s k) s"

definition py_from :: "string \<Rightarrow> int \<Rightarrow> string" where
  "py_from s k = drop (py_pos s k) s"

lemma find_from_cases:
  "find_from c n xs = -1 \<and> c \<notin> set xs \<or>
     (\<exists>j < length xs. find_from c n xs = int (n + j) \<and> xs ! j = c \<and> c \<notin> set (take j xs))"
proof (induction xs arbitrary: n)
  case (Cons x xs)
  show ?case
  proof (cases "x = c")
    case False
    with Cons [of "Suc n"] show ?thesis
    proof (elim disjE exE conjE)
      fix j assume "j < length xs" "find_from c (Suc n) xs = int (Suc n + j)" "xs ! j = c" "c \<notin> set (take j xs)"
      with False show ?thesis by (intro disjI2 exI [of _ "Suc j"]) auto
    qed auto
  qed auto
qed simp

lemma py_find_at:
  assumes "k \<le> j" and "j < length s" and "s ! j = c" and "\<And>i. k \<le> i \<Longrightarrow> i < j \<Longrightarrow> s ! i \<noteq> c"
  shows "py_find s c (int k) = int j"
  using find_from_cases [of c k "drop k s"]
proof (elim disjE exE conjE)
  assume "c \<notin> set (drop k s)"
  moreover have "s ! j \<in> set (drop k s)"
    using assms(1,2) by (metis diff_less_mono le_add_diff_inverse length_drop nth_drop nth_mem less_imp_le order.trans)
  ultimately show ?thesis using assms(3) by simp
next
  fix i assume i: "i < length (drop k s)" "find_from c k (drop k s) = int (k + i)" "drop k s ! i = c"
    "c \<notin> set (take i (drop k s))"
  have "\<not> k + i < j" using i(1,3) assms(4) [of "k + i"] by (auto simp: nth_drop)
  moreover have "\<not> j < k + i"
  proof
    assume "j < k + i"
    then have "take i (drop k s) ! (j - k) \<in> set (take i (drop k s))" using i(1) assms(1) by (intro nth_mem) auto
    moreover have "take i (drop k s) ! (j - k) = c" using \<open>j < k + i\<close> i(1) assms(1,3) by simp
    ultimately show False using i(4) by simp
  qed
  ultimately show ?thesis using i(2) by (simp add: py_find_def py_pos_def)
qed

lemma py_find_none: "c \<notin> set (drop k s) \<Longrightarrow> py_find s c (int k) = -1"
  using find_from_cases [of c k "drop k s"] nth_mem [of _ "drop k s"] by (fastforce simp: py_find_def py_pos_def)

lemma py_find_range: "py_find s c k = -1 \<or> (\<exists>j < length s. py_find s c k = int j \<and> s ! j = c \<and> py_pos s k \<le> j)"
  using find_from_cases [of c "py_pos s k" "drop (py_pos s k) s"]
proof (elim disjE exE conjE)
  fix j assume "j < length (drop (py_pos s k) s)" "find_from c (py_pos s k) (drop (py_pos s k) s) = int (py_pos s k + j)"
    "drop (py_pos s k) s ! j = c"
  then show ?thesis by (intro disjI2 exI [of _ "py_pos s k + j"]) (simp add: py_find_def)
qed (simp add: py_find_def)

subsection \<open>Splitting at the commas outside brackets\<close>

text \<open>The inner loop: the first comma from \<open>c\<close> on that is not between the brackets.\<close>

function skip_commas :: "string \<Rightarrow> int \<Rightarrow> int" where
  "skip_commas s c =
     (if c > py_find s CHR ''['' 0 \<and> c < py_find s CHR '']'' 0
      then skip_commas s (py_find s CHR '','' (c + 1)) else c)"
  by pat_completeness auto
termination
proof (relation "measure (\<lambda>(s, c). if c < 0 then 0 else Suc (nat (int (length s) - c)))")
  fix s :: string and c :: int
  assume c: "c > py_find s CHR ''['' 0 \<and> c < py_find s CHR '']'' 0"
  have "0 \<le> c" using c py_find_range [of s "CHR ''[''" 0] by auto
  moreover have "c < int (length s)" using c py_find_range [of s "CHR '']''" 0] by auto
  ultimately show "((s, py_find s CHR '','' (c + 1)), s, c)
      \<in> measure (\<lambda>(s, c). if c < 0 then 0 else Suc (nat (int (length s) - c)))"
    using py_find_range [of s "CHR '',''" "c + 1"] by (auto simp: py_pos_def)
qed simp

declare skip_commas.simps [simp del]

lemma skip_commas_range:
  "c = -1 \<or> (\<exists>j < length s. c = int j \<and> s ! j = CHR '','') \<Longrightarrow>
     skip_commas s c = -1 \<or> (\<exists>j < length s. skip_commas s c = int j \<and> s ! j = CHR '','')"
proof (induction s c rule: skip_commas.induct)
  case (1 s c)
  then show ?case using py_find_range [of s "CHR '',''" "c + 1"] by (subst (1 2) skip_commas.simps) auto
qed

definition first_comma :: "string \<Rightarrow> int" where
  "first_comma s = skip_commas s (py_find s CHR '','' 0)"

lemma first_comma_range: "first_comma s = -1 \<or> (\<exists>j < length s. first_comma s = int j \<and> s ! j = CHR '','')"
  unfolding first_comma_def by (rule skip_commas_range) (use py_find_range [of s "CHR '',''" 0] in auto)

text \<open>The outer loop. The last word of the list is the rest that is still to be split.\<close>

function split_loop :: "string list \<Rightarrow> string \<Rightarrow> string list" where
  "split_loop l s =
     (let op = py_find s CHR ''['' 0; cl = py_find s CHR '']'' 0; c = first_comma s; k = py_find s CHR '','' c in
      if c < op \<or> c > cl then
        (if c \<noteq> -1 \<and> op \<noteq> -1 then split_loop (butlast l @ [py_upto s k, py_from s (k + 1)]) (py_from s (k + 1))
         else butlast l @ [py_upto s k, py_from s (k + 1)])
      else butlast l @ split_on CHR '','' s)"
  by pat_completeness auto
termination
proof (relation "measure (\<lambda>(l, s). length s)")
  fix l s op cl c k
  assume c: "c = first_comma s" and k: "k = py_find s CHR '','' c" and ne: "c \<noteq> -1 \<and> op \<noteq> -1"
  from first_comma_range [of s] c ne obtain j where j: "j < length s" "c = int j" "s ! j = CHR '',''" by auto
  have "k = int j" unfolding k j(2) by (rule py_find_at) (use j in auto)
  with j(1) show "((butlast l @ [py_upto s k, py_from s (k + 1)], py_from s (k + 1)), l, s) \<in> measure (\<lambda>(l, s). length s)"
    by (simp add: py_from_def py_pos_def)
qed simp

declare split_loop.simps [simp del]

definition split_on_commas :: "string \<Rightarrow> string list" where
  "split_on_commas expr = map py_strip (split_loop [] expr)"

subsection \<open>Expanding\<close>

text \<open>\<open>"{:0wd}".format(n)\<close>.\<close>

definition zero_pad :: "nat \<Rightarrow> int \<Rightarrow> string" where
  "zero_pad w n =
     (let d = nat_dec (nat \<bar>n\<bar>) in
      if n < 0 then CHR ''-'' # replicate (w - Suc (length d)) CHR ''0'' @ d
      else replicate (w - length d) CHR ''0'' @ d)"

definition range_hosts :: "string \<Rightarrow> string \<Rightarrow> string list result" where
  "range_hosts node r =
     (case split_on CHR ''-'' r of
        [a, b] \<Rightarrow> ebind (py_int (PStr a)) (\<lambda>lo. ebind (py_int (PStr b)) (\<lambda>hi.
                    Inr (map (\<lambda>i. node @ zero_pad (length a) i) [lo..hi])))
      | [a] \<Rightarrow> ebind (py_int (PStr a)) (\<lambda>n. Inr [node @ zero_pad (length a) n])
      | _ \<Rightarrow> Inr [])"

definition expand_host_list_sub :: "string \<Rightarrow> string list result" where
  "expand_host_list_sub expr =
     (let open_br = py_find expr CHR ''['' 0; close_br = py_find expr CHR '']'' open_br in
      if open_br = -1 \<and> close_br = -1 then Inr (split_on CHR '','' expr)
      else if open_br = -1 \<or> close_br = -1 then Inr []
      else
        ebind (emap (range_hosts (py_upto expr open_br))
          (split_on CHR '','' (py_from (py_upto expr close_br) (open_br + 1)))) (\<lambda>hss. Inr (concat hss)))"

definition expand_host_list :: "string \<Rightarrow> string list result" where
  "expand_host_list expr =
     ebind (emap expand_host_list_sub (split_on_commas expr)) (\<lambda>hss. Inr (concat hss))"

subsection \<open>The expressions and their hosts\<close>

text \<open>
  The reference: a host list is a sequence of plain names and of names with numbered ranges, a
  range being a number or a pair of numbers, written with leading zeros or not.
\<close>

datatype host_item = Host string | Hosts string "(string \<times> string option) list"

definition is_numeral :: "string \<Rightarrow> bool" where
  "is_numeral s \<longleftrightarrow> s \<noteq> [] \<and> (\<forall>c \<in> set s. digit_val c \<noteq> None)"

definition plain_name :: "string \<Rightarrow> bool" where
  "plain_name s \<longleftrightarrow> (\<forall>c \<in> set s. \<not> py_space c \<and> c \<notin> {CHR '','', CHR ''['', CHR '']''})"

fun show_range :: "string \<times> string option \<Rightarrow> string" where
  "show_range (a, None) = a"
| "show_range (a, Some b) = a @ ''-'' @ b"

fun show_item :: "host_item \<Rightarrow> string" where
  "show_item (Host n) = n"
| "show_item (Hosts n rs) = n @ ''['' @ join_on '','' (map show_range rs) @ '']''"

fun item_ok :: "host_item \<Rightarrow> bool" where
  "item_ok (Host n) = plain_name n"
| "item_ok (Hosts n rs) = (plain_name n \<and> rs \<noteq> [] \<and>
     (\<forall>(a, b) \<in> set rs. is_numeral a \<and> (case b of None \<Rightarrow> True | Some b \<Rightarrow> is_numeral b)))"

definition num_val :: "string \<Rightarrow> int" where
  "num_val s = foldl (\<lambda>n c. 10 * n + (case digit_val c of None \<Rightarrow> 0 | Some d \<Rightarrow> d)) 0 s"

fun range_of :: "string \<times> string option \<Rightarrow> int list" where
  "range_of (a, None) = [num_val a]"
| "range_of (a, Some b) = [num_val a..num_val b]"

fun hosts_of :: "host_item \<Rightarrow> string list" where
  "hosts_of (Host n) = [n]"
| "hosts_of (Hosts n rs) = concat (map (\<lambda>(a, b). map (\<lambda>i. n @ zero_pad (length a) i) (range_of (a, b))) rs)"

subsection \<open>Numbers\<close>

lemma digit_chars: "digit_val c \<noteq> None \<Longrightarrow> \<not> py_space c \<and> c \<notin> {CHR ''-'', CHR ''+'', CHR '','', CHR ''['', CHR '']''}"
proof -
  assume "digit_val c \<noteq> None"
  then have "48 \<le> (of_char c :: int)" "(of_char c :: int) \<le> 57" by (auto simp: digit_val_def Let_def split: if_splits)
  moreover have "(of_char c :: int) = int (of_char c)" using of_nat_of_char [where 'a = int, of c] by simp
  ultimately have "48 \<le> (of_char c :: nat)" "(of_char c :: nat) \<le> 57" by linarith+
  then show ?thesis by (auto simp: py_space_def)
qed

lemma read_digits_num: "\<forall>c \<in> set s. digit_val c \<noteq> None \<Longrightarrow>
    read_digits n s = Some (foldl (\<lambda>n c. 10 * n + (case digit_val c of None \<Rightarrow> 0 | Some d \<Rightarrow> d)) n s)"
  by (induction s arbitrary: n) auto

lemma py_int_numeral: "is_numeral s \<Longrightarrow> py_int (PStr s) = Inr (num_val s)"
proof -
  assume n: "is_numeral s"
  then obtain c cs where s: "s = c # cs" by (cases s) (auto simp: is_numeral_def)
  have "py_strip s = s" using n digit_chars by (intro py_strip_id) (auto simp: is_numeral_def)
  moreover have "c \<noteq> CHR ''-''" "c \<noteq> CHR ''+''" using n digit_chars [of c] by (auto simp: s is_numeral_def)
  ultimately show ?thesis
    using n read_digits_num [of cs] by (auto simp: s py_int_str_def read_nat_def is_numeral_def num_val_def)
qed

lemma range_hosts_item:
  assumes "is_numeral a" and "case b of None \<Rightarrow> True | Some b \<Rightarrow> is_numeral b"
  shows "range_hosts node (show_range (a, b)) = Inr (map (\<lambda>i. node @ zero_pad (length a) i) (range_of (a, b)))"
proof -
  have dash: "CHR ''-'' \<notin> set x" if "is_numeral x" for x using that digit_chars by (fastforce simp: is_numeral_def)
  show ?thesis
  proof (cases b)
    case None
    with assms dash show ?thesis
      by (simp add: range_hosts_def split_on_none py_int_numeral del: py_int.simps)
  next
    case (Some x)
    with assms dash [of a] dash [of x] have "split_on CHR ''-'' (a @ CHR ''-'' # x) = [a, x]"
      by (simp add: split_on_append split_on_none)
    with assms Some show ?thesis by (simp add: range_hosts_def py_int_numeral del: py_int.simps)
  qed
qed

subsection \<open>One item\<close>

lemma plain_name_chars: "plain_name n \<Longrightarrow> CHR '','' \<notin> set n \<and> CHR ''['' \<notin> set n \<and> CHR '']'' \<notin> set n"
  unfolding plain_name_def by blast

lemma py_find_first:
  assumes "c \<notin> set p"
  shows "py_find (p @ c # q) c 0 = int (length p)"
proof -
  have "(p @ c # q) ! i \<noteq> c" if "i < length p" for i using assms that by (auto simp: nth_append)
  then show ?thesis using py_find_at [of 0 "length p" "p @ c # q" c] by simp
qed

lemma py_find_absent: "c \<notin> set s \<Longrightarrow> py_find s c k = -1"
  using py_find_range [of s c k] nth_mem by fastforce

lemma sep_not_space [simp]: "\<not> py_space CHR '',''" "\<not> py_space CHR ''[''" "\<not> py_space CHR '']''" "\<not> py_space CHR ''-''"
  by (simp_all add: py_space_def)

lemma show_range_chars:
  assumes "is_numeral a" and "case b of None \<Rightarrow> True | Some b \<Rightarrow> is_numeral b" and "c \<in> set (show_range (a, b))"
  shows "\<not> py_space c \<and> c \<notin> {CHR '','', CHR ''['', CHR '']''}"
  using assms digit_chars [of c] by (cases b) (auto simp: is_numeral_def)

lemma ranges_chars:
  assumes "item_ok (Hosts n rs)" and "c \<in> set (join_on '','' (map show_range rs))"
  shows "\<not> py_space c \<and> c \<notin> {CHR ''['', CHR '']''}"
proof -
  from assms(2) set_join_on [of "'',''" "map show_range rs"] consider "c = CHR '',''" | r where "r \<in> set rs" "c \<in> set (show_range r)"
    by auto
  then show ?thesis
  proof cases
    case (2 r)
    with assms(1) show ?thesis using show_range_chars [of "fst r" "snd r" c] by (cases r) auto
  qed simp
qed

lemma expand_ranges:
  assumes "item_ok (Hosts n rs)"
  shows "expand_host_list_sub (show_item (Hosts n rs) @ suf) = Inr (hosts_of (Hosts n rs))"
proof -
  let ?R = "join_on '','' (map show_range rs)"
  let ?s = "n @ CHR ''['' # ?R @ CHR '']'' # suf"
  have n: "CHR ''['' \<notin> set n" using assms by (auto simp: plain_name_def)
  have op: "py_find ?s CHR ''['' 0 = int (length n)" by (rule py_find_first [OF n])
  have cl: "py_find ?s CHR '']'' (int (length n)) = int (length n + 1 + length ?R)"
  proof (rule py_find_at)
    fix i assume i: "length n \<le> i" "i < length n + 1 + length ?R"
    show "?s ! i \<noteq> CHR '']''"
    proof (cases "i = length n")
      case False
      with i(1) obtain j where j: "i = length n + Suc j" using less_imp_Suc_add [of "length n" i] by auto
      with i(2) have "?s ! i = ?R ! j" "j < length ?R" by (simp_all add: nth_append)
      with ranges_chars [OF assms nth_mem] show ?thesis by auto
    qed simp
  qed (simp_all add: nth_append)
  have R: "py_from (py_upto ?s (int (length n + 1 + length ?R))) (int (length n) + 1) = ?R"
    by (simp add: py_from_def py_upto_def py_pos_def nat_add_distrib)
  have "split_on CHR '','' ?R = map show_range rs"
    using assms show_range_chars by (intro split_join_on) (auto, fastforce)
  moreover have "\<forall>r \<in> set rs. range_hosts n (show_range r) =
      Inr ((\<lambda>(a, b). map (\<lambda>i. n @ zero_pad (length a) i) (range_of (a, b))) r)"
    using assms range_hosts_item by (auto split: prod.splits)
  then have "emap (range_hosts n) (map show_range rs) =
      Inr (map (\<lambda>(a, b). map (\<lambda>i. n @ zero_pad (length a) i) (range_of (a, b))) rs)"
    by (induction rs) auto
  ultimately show ?thesis
    using op cl R by (simp add: expand_host_list_sub_def Let_def py_upto_def py_pos_def)
qed

lemma expand_unclosed:
  assumes "CHR ''['' \<in> set s" and "CHR '']'' \<notin> set s"
  shows "expand_host_list_sub s = Inr []"
proof -
  obtain p q where "s = p @ CHR ''['' # q" "CHR ''['' \<notin> set p" using split_list_first [OF assms(1)] by blast
  then have "py_find s CHR ''['' 0 = int (length p)" using py_find_first by simp
  with py_find_absent [OF assms(2)] show ?thesis by (simp add: expand_host_list_sub_def Let_def)
qed

lemma expand_plain:
  assumes "CHR ''['' \<notin> set s" and "CHR '']'' \<notin> set s"
  shows "expand_host_list_sub s = Inr (split_on CHR '','' s)"
  using py_find_absent assms by (simp add: expand_host_list_sub_def Let_def)

subsection \<open>The whole list\<close>

lemma skip_to:
  assumes "e < length s" and "s ! e = CHR '',''"
    and "\<not> (py_find s CHR ''['' 0 < int e \<and> int e < py_find s CHR '']'' 0)"
    and between: "\<And>j. j < e \<Longrightarrow> s ! j = CHR '','' \<Longrightarrow> py_find s CHR ''['' 0 < int j \<and> int j < py_find s CHR '']'' 0"
  shows "k \<le> e \<Longrightarrow> skip_commas s (py_find s CHR '','' (int k)) = int e"
proof (induction "e - k" arbitrary: k rule: less_induct)
  case less
  define j where "j = (LEAST j. k \<le> j \<and> s ! j = CHR '','')"
  have j: "k \<le> j" "s ! j = CHR '',''" "j \<le> e"
    using LeastI [of "\<lambda>j. k \<le> j \<and> s ! j = CHR '',''" e] Least_le [of "\<lambda>j. k \<le> j \<and> s ! j = CHR '',''" e]
      assms(2) less.prems by (auto simp: j_def)
  have f: "py_find s CHR '','' (int k) = int j"
    by (rule py_find_at) (use j assms(1) not_less_Least in \<open>auto simp: j_def\<close>)
  show ?case
  proof (cases "j = e")
    case True
    with f assms(3) show ?thesis by (subst skip_commas.simps) auto
  next
    case False
    with j have "skip_commas s (py_find s CHR '','' (int (Suc j))) = int e" by (intro less.hyps) auto
    with False f j between [of j] show ?thesis by (subst skip_commas.simps) (simp add: add.commute)
  qed
qed

lemma first_comma_at:
  assumes "e < length s" and "s ! e = CHR '',''"
    and "\<not> (py_find s CHR ''['' 0 < int e \<and> int e < py_find s CHR '']'' 0)"
    and "\<And>j. j < e \<Longrightarrow> s ! j = CHR '','' \<Longrightarrow> py_find s CHR ''['' 0 < int j \<and> int j < py_find s CHR '']'' 0"
  shows "first_comma s = int e"
  using skip_to [OF assms, of 0] by (simp add: first_comma_def)

lemma first_comma_none:
  assumes "\<And>j. j < length s \<Longrightarrow> s ! j = CHR '','' \<Longrightarrow> py_find s CHR ''['' 0 < int j \<and> int j < py_find s CHR '']'' 0"
  shows "first_comma s = -1"
proof (rule ccontr)
  have out: "\<not> (py_find s CHR ''['' 0 < skip_commas s c \<and> skip_commas s c < py_find s CHR '']'' 0)" for c
    by (induction s c rule: skip_commas.induct) (subst (1 2) skip_commas.simps, auto)
  assume "first_comma s \<noteq> -1"
  with first_comma_range [of s] obtain j where "j < length s" "first_comma s = int j" "s ! j = CHR '',''" by auto
  with assms out [of "py_find s CHR '','' 0"] show False by (simp add: first_comma_def)
qed

lemma split_loop_comma:
  assumes "first_comma (p @ CHR '','' # q) = int (length p)"
    and "int (length p) < py_find (p @ CHR '','' # q) CHR ''['' 0 \<or> py_find (p @ CHR '','' # q) CHR '']'' 0 < int (length p)"
  shows "split_loop l (p @ CHR '','' # q) =
    (if py_find (p @ CHR '','' # q) CHR ''['' 0 \<noteq> -1 then split_loop (butlast l @ [p, q]) q else butlast l @ [p, q])"
proof -
  have "py_find (p @ CHR '','' # q) CHR '','' (int (length p)) = int (length p)"
    by (rule py_find_at) (auto simp: nth_append)
  with assms show ?thesis
    by (subst split_loop.simps) (simp add: Let_def py_upto_def py_from_def py_pos_def nat_add_distrib)
qed

lemma split_loop_last:
  assumes "first_comma s = -1" and "0 \<le> py_find s CHR ''['' 0" and "s \<noteq> []" and "last s \<noteq> CHR '',''"
  shows "split_loop l s = butlast l @ [butlast s, s]"
proof -
  obtain t x where s: "s = t @ [x]" using assms(3) by (cases s rule: rev_cases) auto
  have "py_find s CHR '','' (- 1) = -1" using assms(4) by (simp add: py_find_def py_pos_def s)
  moreover have "py_upto s (- 1) = butlast s" by (simp add: py_upto_def py_pos_def s)
  ultimately show ?thesis
    using assms(1,2) by (subst split_loop.simps) (simp add: Let_def py_from_def py_pos_def)
qed

lemma split_loop_plain:
  assumes "CHR ''['' \<notin> set s" and "CHR '']'' \<notin> set s" and "CHR '','' \<notin> set s"
  shows "split_loop l s = butlast l @ [s]"
proof -
  have "first_comma s = -1" using assms(3) nth_mem by (intro first_comma_none) fastforce
  with assms show ?thesis by (subst split_loop.simps) (simp add: Let_def py_find_absent split_on_none)
qed

text \<open>What an item looks like to the scanner.\<close>

lemma item_chars:
  assumes "item_ok x" and "c \<in> set (show_item x)"
  shows "\<not> py_space c"
proof (cases x)
  case (Host n)
  with assms show ?thesis by (simp add: plain_name_def)
next
  case (Hosts n rs)
  with assms consider "c \<in> set n" | "c = CHR ''[''" | "c = CHR '']''" | "c \<in> set (join_on '','' (map show_range rs))"
    by auto
  then show ?thesis
  proof cases
    case 1
    with Hosts assms(1) show ?thesis by (simp add: plain_name_def)
  next
    case 4
    from Hosts assms(1) have "item_ok (Hosts n rs)" by (simp only:)
    from ranges_chars [OF this 4] show ?thesis by blast
  qed simp_all
qed

lemma items_chars:
  assumes "\<forall>x \<in> set items. item_ok x" and "c \<in> set (join_on '','' (map show_item items))"
  shows "\<not> py_space c"
proof -
  from assms(2) set_join_on [of "'',''" "map show_item items"] consider "c = CHR '',''" | x where "x \<in> set items" "c \<in> set (show_item x)"
    by auto
  then show ?thesis using assms(1) item_chars by cases auto
qed

lemma show_hosts_find:
  assumes "item_ok (Hosts n rs)"
  shows "py_find (show_item (Hosts n rs) @ q) CHR ''['' 0 = int (length n)"
    and "py_find (show_item (Hosts n rs) @ q) CHR '']'' 0 = int (length (show_item (Hosts n rs))) - 1"
proof -
  let ?R = "join_on '','' (map show_range rs)"
  have "CHR ''['' \<notin> set n" using assms by (auto simp: plain_name_def)
  from py_find_first [OF this, of "?R @ CHR '']'' # q"]
  show "py_find (show_item (Hosts n rs) @ q) CHR ''['' 0 = int (length n)" by simp
  have "CHR '']'' \<notin> set (n @ CHR ''['' # ?R)" using assms ranges_chars [OF assms] by (fastforce simp: plain_name_def)
  from py_find_first [OF this, of q]
  show "py_find (show_item (Hosts n rs) @ q) CHR '']'' 0 = int (length (show_item (Hosts n rs))) - 1" by simp
qed

text \<open>The commas inside an item with ranges are all between its brackets.\<close>

lemma show_hosts_commas:
  assumes "item_ok (Hosts n rs)" and "j < length (show_item (Hosts n rs))" and "(show_item (Hosts n rs) @ q) ! j = CHR '',''"
  shows "int (length n) < int j \<and> int j < int (length (show_item (Hosts n rs))) - 1"
proof -
  let ?s = "show_item (Hosts n rs)"
  have j: "?s ! j = CHR '',''" using assms(2,3) by (simp add: nth_append del: show_item.simps)
  have "\<not> j < length n"
  proof
    assume "j < length n"
    with j have "CHR '','' \<in> set n" using nth_mem [of j n] by (simp add: nth_append)
    with assms(1) show False by (auto simp: plain_name_def)
  qed
  moreover have "j \<noteq> length n" using j by (auto simp: nth_append)
  moreover have "?s ! (length ?s - 1) = CHR '']''" by (simp add: nth_append)
  with j have "j \<noteq> length ?s - 1" by (auto simp del: show_item.simps)
  ultimately show ?thesis using assms(2) by (simp del: show_item.simps)
qed

definition loop_splits :: "host_item list \<Rightarrow> string list \<Rightarrow> bool" where
  "loop_splits items ms \<longleftrightarrow> (\<forall>m \<in> set ms. \<forall>c \<in> set m. \<not> py_space c) \<and>
     (\<exists>hss. emap expand_host_list_sub ms = Inr hss \<and> concat hss = concat (map hosts_of items))"

lemma loop_splits_Cons:
  assumes "item_ok x" and "loop_splits items ms"
  shows "loop_splits (x # items) (show_item x # ms)"
proof -
  have x: "expand_host_list_sub (show_item x) = Inr (hosts_of x)"
  proof (cases x)
    case (Host n)
    with assms(1) plain_name_chars [of n] show ?thesis by (simp add: expand_plain split_on_none)
  next
    case (Hosts n rs)
    show ?thesis using expand_ranges [OF assms(1) [unfolded Hosts], of "[]"] by (simp only: Hosts append_Nil2)
  qed
  obtain hss where "emap expand_host_list_sub ms = Inr hss" "concat hss = concat (map hosts_of items)"
    and ms: "\<forall>m \<in> set ms. \<forall>c \<in> set m. \<not> py_space c" using assms(2) by (auto simp: loop_splits_def)
  with x have e: "emap expand_host_list_sub (show_item x # ms) = Inr (hosts_of x # hss)"
      "concat (hosts_of x # hss) = concat (map hosts_of (x # items))" by simp_all
  have "\<forall>m \<in> set (show_item x # ms). \<forall>c \<in> set m. \<not> py_space c" using item_chars [OF assms(1)] ms by auto
  with e show ?thesis unfolding loop_splits_def by blast
qed

lemma all_plain:
  assumes "\<forall>x \<in> set items. item_ok x \<and> (\<exists>n. x = Host n)" and "items \<noteq> []"
  shows "CHR ''['' \<notin> set (join_on '','' (map show_item items)) \<and> CHR '']'' \<notin> set (join_on '','' (map show_item items)) \<and>
    loop_splits items [join_on '','' (map show_item items)]"
proof -
  have c: "CHR ''['' \<notin> set (join_on '','' (map show_item items))" "CHR '']'' \<notin> set (join_on '','' (map show_item items))"
    using set_join_on [of "'',''" "map show_item items"] assms(1) by (fastforce simp: plain_name_def)+
  have "split_on CHR '','' (join_on '','' (map show_item items)) = map show_item items"
    using assms by (intro split_join_on) (fastforce simp: plain_name_def)+
  moreover have "concat (map hosts_of items) = map show_item items" using assms(1) by (induction items) auto
  moreover have "\<forall>ch \<in> set (join_on '','' (map show_item items)). \<not> py_space ch"
    using items_chars assms(1) by blast
  ultimately show ?thesis using c by (simp add: loop_splits_def expand_plain)
qed

lemma loop_splits_Nil: "loop_splits [] []"
  by (simp add: loop_splits_def)

lemma split_loop_single:
  assumes "item_ok x"
  shows "\<exists>ms. split_loop l (show_item x) = butlast l @ ms \<and> loop_splits [x] ms"
proof (cases x)
  case (Host n)
  with assms have "split_loop l (show_item x) = butlast l @ [show_item x]"
    using plain_name_chars [of n] by (simp add: split_loop_plain)
  with loop_splits_Cons [OF assms loop_splits_Nil] show ?thesis by blast
next
  case (Hosts n rs)
  note ok = assms [unfolded Hosts]
  have "first_comma (show_item x) = -1"
    using show_hosts_commas [OF ok, where q = "[]"] show_hosts_find [OF ok, of "[]"]
    by (intro first_comma_none) (simp add: Hosts del: show_item.simps)
  then have s: "split_loop l (show_item x) = butlast l @ [butlast (show_item x), show_item x]"
    using show_hosts_find(1) [OF ok, of "[]"] by (intro split_loop_last) (simp_all add: Hosts)
  have b: "butlast (show_item x) = n @ CHR ''['' # join_on '','' (map show_range rs)" by (simp add: Hosts butlast_append)
  have "CHR '']'' \<notin> set (butlast (show_item x))"
    using ok ranges_chars [OF ok] unfolding b by (fastforce simp: plain_name_def)
  then have e: "expand_host_list_sub (butlast (show_item x)) = Inr []" by (intro expand_unclosed) (simp_all add: b)
  have sp: "\<forall>c \<in> set (butlast (show_item x)). \<not> py_space c" using item_chars [OF assms] by (blast dest: in_set_butlastD)
  have "loop_splits [x] [butlast (show_item x), show_item x]"
    using loop_splits_Cons [OF assms loop_splits_Nil] e sp
    by (auto simp: loop_splits_def simp del: show_item.simps hosts_of.simps)
  with s show ?thesis by blast
qed

lemma no_bracket_plain:
  assumes "CHR ''['' \<notin> set (join_on '','' (map show_item items))" and "x \<in> set items"
  shows "\<exists>n. x = Host n"
proof (cases x)
  case (Hosts n rs)
  have "set (show_item x) \<subseteq> set (join_on '','' (map show_item items))"
    using assms(2) by (intro set_join_on_sup) simp
  with assms(1) Hosts show ?thesis by auto
qed simp

text \<open>The first comma outside brackets is the one after the first item.\<close>

lemma first_item_comma:
  assumes "item_ok x" and "items \<noteq> []" and "\<forall>y \<in> set items. item_ok y"
    and s: "s = show_item x @ CHR '','' # join_on '','' (map show_item items)"
  shows "first_comma s = int (length (show_item x))"
    and "int (length (show_item x)) < py_find s CHR ''['' 0 \<or> py_find s CHR '']'' 0 < int (length (show_item x))"
    and "py_find s CHR ''['' 0 = -1 \<Longrightarrow> loop_splits items [join_on '','' (map show_item items)]"
proof -
  let ?q = "join_on '','' (map show_item items)"
  have "first_comma s = int (length (show_item x)) \<and>
      (int (length (show_item x)) < py_find s CHR ''['' 0 \<or> py_find s CHR '']'' 0 < int (length (show_item x))) \<and>
      (py_find s CHR ''['' 0 = -1 \<longrightarrow> loop_splits items [?q])"
  proof (cases x)
    case (Hosts n rs)
    note ok = assms(1) [unfolded Hosts]
    note f = show_hosts_find [OF ok, of "CHR '','' # ?q", folded Hosts, folded s]
    have "first_comma s = int (length (show_item x))"
      using show_hosts_commas [OF ok, where q = "CHR '','' # ?q", folded Hosts, folded s] f
      by (intro first_comma_at) (auto simp: s nth_append simp del: show_item.simps)
    with f show ?thesis by simp
  next
    case (Host n)
    have n: "c \<notin> set n" if "c \<in> {CHR '','', CHR ''['', CHR '']''}" for c
      using that assms(1) Host by (auto simp: plain_name_def)
    have later: "py_find s c 0 = -1 \<and> c \<notin> set ?q \<or> int (length n) < py_find s c 0" if "c \<in> {CHR ''['', CHR '']''}" for c
    proof (cases "c \<in> set ?q")
      case True
      then obtain p r where q: "?q = p @ c # r" "c \<notin> set p" using split_list_first by metis
      have "py_find ((n @ CHR '','' # p) @ c # r) c 0 = int (length (n @ CHR '','' # p))"
        by (rule py_find_first) (use n that q(2) in auto)
      with q(1) Host show ?thesis by (simp add: s)
    next
      case False
      with n that Host show ?thesis by (intro disjI1 conjI py_find_absent) (auto simp: s)
    qed
    have none: "loop_splits items [?q] \<and> py_find s CHR '']'' 0 = -1" if "py_find s CHR ''['' 0 = -1"
    proof -
      have "CHR ''['' \<notin> set ?q" using that later [of "CHR ''[''"] by auto
      then have p: "CHR '']'' \<notin> set ?q \<and> loop_splits items [?q]"
        using all_plain [OF _ assms(2)] no_bracket_plain assms(3) by blast
      then have "py_find s CHR '']'' 0 = -1" using n Host by (intro py_find_absent) (auto simp: s)
      with p show ?thesis by blast
    qed
    have "first_comma s = int (length (show_item x))"
    proof (rule first_comma_at)
      show "\<not> (py_find s CHR ''['' 0 < int (length (show_item x)) \<and> int (length (show_item x)) < py_find s CHR '']'' 0)"
        using later [of "CHR ''[''"] none Host by auto
      fix j assume j: "j < length (show_item x)" "s ! j = CHR '',''"
      then have "CHR '','' \<in> set n" using Host nth_mem [of j n] by (simp add: s nth_append)
      then show "py_find s CHR ''['' 0 < int j \<and> int j < py_find s CHR '']'' 0" using n by blast
    qed (simp_all add: s)
    with later [of "CHR ''[''"] none Host show ?thesis by auto
  qed
  then show "first_comma s = int (length (show_item x))"
    "int (length (show_item x)) < py_find s CHR ''['' 0 \<or> py_find s CHR '']'' 0 < int (length (show_item x))"
    "py_find s CHR ''['' 0 = -1 \<Longrightarrow> loop_splits items [?q]" by blast+
qed

lemma split_loop_items:
  assumes "items \<noteq> []" and "\<forall>x \<in> set items. item_ok x"
  shows "\<exists>ms. split_loop l (join_on '','' (map show_item items)) = butlast l @ ms \<and> loop_splits items ms"
  using assms
proof (induction items arbitrary: l)
  case (Cons x items)
  then have ok: "item_ok x" and oks: "\<forall>x \<in> set items. item_ok x" by simp_all
  show ?case
  proof (cases "items = []")
    case True
    with split_loop_single [OF ok] show ?thesis by simp
  next
    case False
    let ?q = "join_on '','' (map show_item items)"
    let ?s = "show_item x @ CHR '','' # ?q"
    note fc = first_item_comma [OF ok False oks refl]
    have "\<exists>ms. split_loop l ?s = butlast l @ ms \<and> loop_splits (x # items) ms"
    proof (cases "py_find ?s CHR ''['' 0 = -1")
      case True
      with split_loop_comma [OF fc(1,2)] loop_splits_Cons [OF ok fc(3)] show ?thesis by auto
    next
      case f: False
      from Cons.IH [OF False oks, of "butlast l @ [show_item x, ?q]"] obtain ms where
        "split_loop (butlast l @ [show_item x, ?q]) ?q = butlast l @ show_item x # ms" "loop_splits items ms"
        by (auto simp: butlast_append)
      with f split_loop_comma [OF fc(1,2)] loop_splits_Cons [OF ok] show ?thesis by auto
    qed
    with False show ?thesis by (simp add: join_on_Cons)
  qed
qed simp

text \<open>
  C33: a host list expands to the hosts it denotes. For every list of plain names and names with
  ranges of numbers, the expression that writes it down expands to the hosts of its items in order,
  each number of a range printed with at least as many digits as its first number was written with.
\<close>
theorem expand_host_list_correct:
  assumes "items \<noteq> []" and "\<forall>x \<in> set items. item_ok x"
  shows "expand_host_list (join_on '','' (map show_item items)) = Inr (concat (map hosts_of items))"
proof -
  obtain ms hss where ms: "split_loop [] (join_on '','' (map show_item items)) = ms"
    "\<forall>m \<in> set ms. \<forall>c \<in> set m. \<not> py_space c" "emap expand_host_list_sub ms = Inr hss"
    "concat hss = concat (map hosts_of items)"
    using split_loop_items [OF assms, of "[]"] by (auto simp: loop_splits_def)
  have "map py_strip ms = ms" using ms(2) py_strip_id by (simp add: map_idI)
  with ms show ?thesis by (simp add: expand_host_list_def split_on_commas_def)
qed

theorem expand_host_list_correct_witness:
  "expand_host_list ''a,n[08-10,3],b'' = Inr [''a'', ''n08'', ''n09'', ''n10'', ''n3'', ''b'']"
proof -
  have val: "digit_val CHR ''0'' = Some 0" "digit_val CHR ''1'' = Some 1" "digit_val CHR ''3'' = Some 3" "digit_val CHR ''8'' = Some 8"
    by (simp_all add: digit_val_def)
  have nums: "num_val ''08'' = 8" "num_val ''10'' = 10" "num_val ''3'' = 3" by (simp_all add: num_val_def val)
  have pads: "zero_pad (Suc (Suc 0)) 8 = ''08''" "zero_pad (Suc (Suc 0)) 9 = ''09''" "zero_pad (Suc (Suc 0)) 10 = ''10''" "zero_pad (Suc 0) 3 = ''3''"
    by (simp_all add: zero_pad_def nat_dec.simps digit_char_def char_of_def bit_0)
  have range: "[8..10] = [8, 9, 10 :: int]" by (simp add: upto.simps)
  let ?items = "[Host ''a'', Hosts ''n'' [(''08'', Some ''10''), (''3'', None)], Host ''b'']"
  have "\<forall>x \<in> set ?items. item_ok x"
    by (simp add: plain_name_def is_numeral_def val py_space_def)
  from expand_host_list_correct [OF _ this] show ?thesis by (simp add: nums pads range)
qed

text \<open>
  Text after the closing bracket is dropped, and the hosts are listed twice: the scanner also keeps the
  expression without its last character, which is closed as well.
\<close>

lemma expand_suffix_doubles:
  assumes "item_ok (Hosts n rs)" and "plain_name suf" and "suf \<noteq> []"
  shows "expand_host_list (show_item (Hosts n rs) @ suf) = Inr (hosts_of (Hosts n rs) @ hosts_of (Hosts n rs))"
proof -
  let ?s = "show_item (Hosts n rs) @ suf"
  note f = show_hosts_find [OF assms(1), of suf]
  have "first_comma ?s = -1"
  proof (rule first_comma_none)
    fix j assume j: "j < length ?s" "?s ! j = CHR '',''"
    have "j < length (show_item (Hosts n rs))"
    proof (rule ccontr)
      assume "\<not> j < length (show_item (Hosts n rs))"
      with j have "CHR '','' \<in> set suf"
        using nth_mem [of "j - length (show_item (Hosts n rs))" suf] by (simp add: nth_append del: show_item.simps)
      with plain_name_chars [OF assms(2)] show False by blast
    qed
    from show_hosts_commas [OF assms(1) this j(2)] f show "py_find ?s CHR ''['' 0 < int j \<and> int j < py_find ?s CHR '']'' 0"
      by (simp only:)
  qed
  moreover have "last suf \<noteq> CHR '',''" using plain_name_chars [OF assms(2)] last_in_set [OF assms(3)] by metis
  then have "last ?s \<noteq> CHR '',''" using assms(3) by simp
  ultimately have "split_loop [] ?s = [butlast ?s, ?s]"
    using split_loop_last [of ?s "[]"] f(1) assms(3) by simp
  moreover have "butlast ?s = show_item (Hosts n rs) @ butlast suf" using assms(3) by (simp add: butlast_append)
  moreover have strip: "py_strip t = t" if "set t \<subseteq> set ?s" for t
    using that item_chars [OF assms(1)] assms(2) by (intro py_strip_id) (auto simp: plain_name_def simp del: show_item.simps)
  have "py_strip ?s = ?s" by (rule strip) (rule order_refl)
  moreover have "py_strip (butlast ?s) = butlast ?s" by (rule strip) (blast dest: in_set_butlastD)
  ultimately show ?thesis
    using expand_ranges [OF assms(1), of suf] expand_ranges [OF assms(1), of "butlast suf"]
    by (simp add: expand_host_list_def split_on_commas_def del: show_item.simps hosts_of.simps)
qed

subsection \<open>CPU facts\<close>

text \<open>\<open>s.splitlines()\<close>: a line end is one of the separators, or carriage return and line feed together.\<close>

definition line_end :: "char \<Rightarrow> bool" where
  "line_end c = (of_char c \<in> {10, 11, 12, 13, 28, 29, 30, 133 :: nat})"

fun split_lines :: "string \<Rightarrow> string \<Rightarrow> string list" where
  "split_lines acc [] = (if acc = [] then [] else [rev acc])"
| "split_lines acc (c # cs) =
     (if of_char c = (13 :: nat) \<and> cs \<noteq> [] \<and> of_char (hd cs) = (10 :: nat) then rev acc # split_lines [] (tl cs)
      else if line_end c then rev acc # split_lines [] cs
      else split_lines (c # acc) cs)"

definition cpu_line :: "(string \<times> string) list \<Rightarrow> string \<Rightarrow> (string \<times> string) list" where
  "cpu_line cpuinfo line =
     (if CHR '':'' \<in> set line
      then AList.update (py_strip (takeWhile (\<lambda>c. c \<noteq> CHR '':'') line))
             (py_strip (tl (dropWhile (\<lambda>c. c \<noteq> CHR '':'') line))) cpuinfo
      else cpuinfo)"

text \<open>\<open>lscpu\<close> is the decoded output of the command.\<close>

definition get_lscpu :: "string \<Rightarrow> (string \<times> string) list" where
  "get_lscpu lscpu = foldl cpu_line [] (split_lines [] lscpu)"

text \<open>The last line of a name wins, whatever else the output holds.\<close>

lemma cpu_line_map_of:
  "map_of (cpu_line d line) k = (if CHR '':'' \<in> set line \<and> k = py_strip (takeWhile (\<lambda>c. c \<noteq> CHR '':'') line)
     then Some (py_strip (tl (dropWhile (\<lambda>c. c \<noteq> CHR '':'') line))) else map_of d k)"
  by (simp add: cpu_line_def)

lemma get_lscpu_distinct: "distinct (map fst (get_lscpu t))"
proof -
  have "distinct (map fst d) \<Longrightarrow> distinct (map fst (foldl cpu_line d ls))" for d ls
    by (induction ls arbitrary: d) (auto simp: cpu_line_def distinct_update)
  then show ?thesis by (simp add: get_lscpu_def)
qed

subsection \<open>Rounding\<close>

definition round_half_up :: "real \<Rightarrow> int" where
  "round_half_up number =
     (let whole_part = \<lfloor>number\<rfloor>; fractional_part = number - of_int whole_part in
      if fractional_part \<ge> 1 / 2 then whole_part + 1 else whole_part)"

text \<open>The nearest whole number, the upper one of two equally near.\<close>

lemma round_half_up_nearest:
  "of_int (round_half_up x) - 1 / 2 \<le> x" "x < of_int (round_half_up x) + 1 / 2"
  by (simp_all add: round_half_up_def Let_def) linarith+

lemma round_half_up_floor: "round_half_up x = \<lfloor>x + 1 / 2\<rfloor>"
  using round_half_up_nearest [of x] by linarith

end
