(* ===== verification/Results.thy ===== *)
theory Results
  imports Util
begin

section \<open>Test results and their reports (\<open>python/infra/defw.py\<close>)\<close>

text \<open>
  The results of the experiments: a list of results per suite, the suites with their totals, and the
  reports that are printed of them. A result is a dictionary that its name was added to. \<open>rp\<close> is \<open>str\<close>
  on values other than strings, whole numbers, booleans and \<open>None\<close>, \<open>fmt\<close> formats a duration with
  three decimals; both and the time of submission are arguments. Suites are named by strings.
\<close>

subsection \<open>The results of a suite (\<open>YamlResults\<close>)\<close>

definition named :: "pyval \<Rightarrow> dict \<Rightarrow> bool" where
  "named key e \<longleftrightarrow> py_eq (dget0 e ''name'') key"

fun yr_set :: "pyval \<Rightarrow> dict \<Rightarrow> dict list \<Rightarrow> dict list" where
  "yr_set key v [] = [dset ''name'' key v]"
| "yr_set key v (e # es) = (if named key e then dset ''name'' key v # es else e # yr_set key v es)"

definition yr_get :: "pyval \<Rightarrow> dict list \<Rightarrow> dict option" where
  "yr_get key es = find (named key) es"

text \<open>\<open>get(status)\<close>: the results, or those with the given status.\<close>

fun yr_results :: "string option \<Rightarrow> dict list \<Rightarrow> dict list result" where
  "yr_results status [] = Inr []"
| "yr_results status (e # es) =
     (case status of
        Some (c # s) \<Rightarrow>
          ebind (dindex e ''status'') (\<lambda>st.
          ebind (yr_results status es) (\<lambda>rs.
          Inr (if py_eq st (PStr (py_upper (c # s))) then e # rs else rs)))
      | _ \<Rightarrow> ebind (yr_results status es) (\<lambda>rs. Inr (e # rs)))"

text \<open>
  \<open>__next__\<close>: the state is the position; \<open>Inr None\<close> is the end of the iteration. An entry is a
  \<open>DEFwYaml\<close>, which cannot be subscripted.
\<close>

definition yr_next :: "nat \<Rightarrow> dict list \<Rightarrow> nat \<times> (pyval \<times> dict) option result" where
  "yr_next n es = (if n < length es then (Suc n, Inl PyTypeError) else (n, Inr None))"

subsection \<open>The suites (\<open>YamlGlobalTestResults\<close>)\<close>

record suite =
  su_name :: string
  su_description :: string
  su_subtests :: "dict list"
  su_duration :: pyval
  su_status :: string
  su_submission :: string

text \<open>The attribute \<open>desc\<close> is missing when a description was given.\<close>

record global_results =
  gr_desc :: "string option"
  gr_tests :: "suite list"

definition init_results :: "string option \<Rightarrow> global_results" where
  "init_results desc =
     \<lparr>gr_desc = (case desc of Some (c # s) \<Rightarrow> None | _ \<Rightarrow> Some ''auster defw''), gr_tests = []\<rparr>"

text \<open>\<open>total_duration += d\<close>.\<close>

fun py_add :: "pyval \<Rightarrow> pyval \<Rightarrow> pyval result" where
  "py_add (PInt a) (PInt b) = Inr (PInt (a + b))"
| "py_add (PInt a) (PBool b) = Inr (PInt (a + (if b then 1 else 0)))"
| "py_add (PInt a) (PFloat x) = Inr (PFloat (of_int a + x))"
| "py_add (PFloat x) (PInt b) = Inr (PFloat (x + of_int b))"
| "py_add (PFloat x) (PBool b) = Inr (PFloat (x + (if b then 1 else 0)))"
| "py_add (PFloat x) (PFloat y) = Inr (PFloat (x + y))"
| "py_add _ _ = Inl PyTypeError"

fun totals :: "pyval \<Rightarrow> string \<Rightarrow> dict list \<Rightarrow> (pyval \<times> string) result" where
  "totals dur sstatus [] = Inr (dur, sstatus)"
| "totals dur sstatus (r # rs) =
     ebind (dindex r ''duration'') (\<lambda>d.
     ebind (py_add dur d) (\<lambda>dur'.
     ebind (dindex r ''status'') (\<lambda>st.
     totals dur' (if py_eq st (PStr ''FAIL'') then ''FAIL''
       else if py_eq st (PStr ''SKIP'') \<and> sstatus \<noteq> ''FAIL'' then ''SKIP'' else sstatus) rs)))"

definition finalize_suite :: "string \<Rightarrow> suite \<Rightarrow> suite result" where
  "finalize_suite timefmt e =
     ebind (totals (PInt 0) ''PASS'' (su_subtests e)) (\<lambda>(dur, sstatus).
     Inr (e\<lparr>su_duration := dur, su_status := sstatus, su_submission := timefmt\<rparr>))"

text \<open>\<open>finalize\<close>: the suites of that name; an exception leaves the later ones as they are.\<close>

fun finalize_all :: "string \<Rightarrow> string \<Rightarrow> suite list \<Rightarrow> suite list \<times> unit result" where
  "finalize_all timefmt name [] = ([], Inr ())"
| "finalize_all timefmt name (e # es) =
     (if su_name e = name then
        (case finalize_suite timefmt e of
           Inl x \<Rightarrow> (e # es, Inl x)
         | Inr e' \<Rightarrow> (case finalize_all timefmt name es of (es', r) \<Rightarrow> (e' # es', r)))
      else (case finalize_all timefmt name es of (es', r) \<Rightarrow> (e # es', r)))"

fun update_suite :: "string \<Rightarrow> pyval \<Rightarrow> dict \<Rightarrow> suite list \<Rightarrow> suite list" where
  "update_suite key name v [] = []"
| "update_suite key name v (e # es) =
     (if su_name e = key then e\<lparr>su_subtests := yr_set name v (su_subtests e)\<rparr> # es
      else e # update_suite key name v es)"

text \<open>\<open>results[key] = value\<close>.\<close>

definition gr_set :: "string \<Rightarrow> string \<Rightarrow> pyval \<Rightarrow> global_results \<Rightarrow> global_results \<times> unit result" where
  "gr_set timefmt key val g =
     (case val of
        PDict v \<Rightarrow>
          (if list_ex (\<lambda>e. su_name e = key) (gr_tests g) then
             (case dindex v ''name'' of
                Inl x \<Rightarrow> (g, Inl x)
              | Inr name \<Rightarrow>
                  (case finalize_all timefmt key (update_suite key name v (gr_tests g)) of
                     (es, r) \<Rightarrow> (g\<lparr>gr_tests := es\<rparr>, r)))
           else
             (case gr_desc g of
                None \<Rightarrow> (g, Inl PyAttributeError)
              | Some desc \<Rightarrow>
                  (case dindex v ''name'' of
                     Inl x \<Rightarrow> (g, Inl x)
                   | Inr name \<Rightarrow>
                       (case finalize_all timefmt key (gr_tests g @
                          [\<lparr>su_name = key, su_description = desc, su_subtests = yr_set name v [],
                            su_duration = PInt 0, su_status = [], su_submission = []\<rparr>]) of
                          (es, r) \<Rightarrow> (g\<lparr>gr_tests := es\<rparr>, r)))))
      | _ \<Rightarrow> (g, Inl PyTypeError))"

definition gr_get :: "string \<Rightarrow> global_results \<Rightarrow> dict list option" where
  "gr_get key g = map_option su_subtests (find (\<lambda>e. su_name e = key) (gr_tests g))"

subsection \<open>One result\<close>

fun normalize_experiment_result :: "pyval \<Rightarrow> dict" where
  "normalize_experiment_result (PBool b) = [(PStr ''status'', PStr (if b then ''PASS'' else ''FAIL''))]"
| "normalize_experiment_result PNone = [(PStr ''status'', PStr ''PASS'')]"
| "normalize_experiment_result (PDict d) =
     (if map_of d (PStr ''status'') \<noteq> None then d
      else [(PStr ''status'', PStr ''PASS''), (PStr ''args'', PList [PDict d])])"
| "normalize_experiment_result v = [(PStr ''status'', PStr ''PASS''), (PStr ''args'', PList [v])]"

text \<open>The values of \<open>args\<close>, and the items of \<open>kwargs\<close>, of a result.\<close>

definition result_args :: "dict \<Rightarrow> pyval list result" where
  "result_args r = (if truthy (dget0 r ''args'') then py_iter (dget0 r ''args'') else Inr [])"

definition result_kwargs :: "dict \<Rightarrow> dict result" where
  "result_kwargs r = (if truthy (dget0 r ''kwargs'') then py_items (dget0 r ''kwargs'') else Inr [])"

definition get_result_details :: "(pyval \<Rightarrow> string) \<Rightarrow> dict \<Rightarrow> string result" where
  "get_result_details rp r =
     (case map_of r (PStr ''error'') of
        Some e \<Rightarrow> (case split_lines [] (py_str rp e) of [] \<Rightarrow> Inl PyIndexError | l # _ \<Rightarrow> Inr l)
      | None \<Rightarrow>
          if truthy (dget0 r ''kwargs'') then
            ebind (result_kwargs r) (\<lambda>kw. Inr (join_on '', '' (map (\<lambda>(k, v). py_str rp k @ ''='' @ py_str rp v) kw)))
          else ebind (result_args r) (\<lambda>args. Inr (join_on '', '' (map (py_str rp) args))))"

definition shorten :: "int \<Rightarrow> string \<Rightarrow> string" where
  "shorten max_width details =
     (if int (length details) \<le> max_width then details
      else if max_width \<le> 3 then py_upto details max_width
      else py_upto details (max_width - 3) @ ''...'')"

definition summarize_result_details :: "(pyval \<Rightarrow> string) \<Rightarrow> int \<Rightarrow> dict \<Rightarrow> string result" where
  "summarize_result_details rp max_width r =
     ebind (get_result_details rp r) (\<lambda>d.
     Inr (shorten max_width (py_strip (map (\<lambda>c. if c = CHR 10 then CHR '' '' else c) d))))"

definition result_lines :: "(pyval \<Rightarrow> string) \<Rightarrow> dict \<Rightarrow> string list result" where
  "result_lines rp r =
     ebind (dindex r ''status'') (\<lambda>st.
     ebind (result_kwargs r) (\<lambda>kw.
     ebind (result_args r) (\<lambda>args.
     Inr ([''status: '' @ py_str rp st]
       @ map (\<lambda>(k, v). py_str rp k @ '': '' @ py_str rp v) kw
       @ (if args = [] then [] else ''args:'' # map (\<lambda>v. ''  - '' @ py_str rp v) args)
       @ (case map_of r (PStr ''error'') of None \<Rightarrow> [] | Some e \<Rightarrow> [''error:'', py_str rp e])))))"

definition format_experiment_result :: "(pyval \<Rightarrow> string) \<Rightarrow> dict \<Rightarrow> string result" where
  "format_experiment_result rp r = ebind (result_lines rp r) (\<lambda>ls. Inr (join_on [CHR 10] ls))"

subsection \<open>Reports\<close>

definition get_report_mode :: "(pyval \<Rightarrow> string) \<Rightarrow> dict \<Rightarrow> dict \<Rightarrow> string" where
  "get_report_mode rp environ preferences =
     (let mode = py_lower (py_strip (py_str rp
            (dget environ ''DEFW_REPORT_MODE'' (dget preferences ''report_mode'' (PStr ''both''))))) in
      if mode \<in> {''summary'', ''detail'', ''both''} then mode else ''both'')"

text \<open>The results of all suites, each with its suite, and whether the filter keeps a result.\<close>

definition all_results :: "global_results \<Rightarrow> (suite \<times> dict) list" where
  "all_results g = concat (map (\<lambda>s. map (Pair s) (su_subtests s)) (gr_tests g))"

definition keeps :: "string option \<Rightarrow> dict \<Rightarrow> bool result" where
  "keeps status r =
     (case status of
        Some (c # s) \<Rightarrow> ebind (dindex r ''status'') (\<lambda>st. Inr (py_eq st (PStr (py_upper (c # s)))))
      | _ \<Rightarrow> Inr True)"

definition kept_results ::
  "string option \<Rightarrow> (suite \<times> dict \<Rightarrow> 'a result) \<Rightarrow> global_results \<Rightarrow> 'a list result" where
  "kept_results status f g =
     ebind (emap (\<lambda>sr. ebind (keeps status (snd sr)) (\<lambda>b.
        if b then ebind (f sr) (\<lambda>x. Inr [x]) else Inr [])) (all_results g)) (\<lambda>xss. Inr (concat xss))"

definition result_id :: "(pyval \<Rightarrow> string) \<Rightarrow> suite \<Rightarrow> dict \<Rightarrow> string" where
  "result_id rp s r = su_name s @ ''::'' @ py_str rp (dget0 r ''name'')"

text \<open>A row of the table; the length of a status that is not a string cannot be taken.\<close>

fun py_text :: "pyval \<Rightarrow> string result" where
  "py_text (PStr t) = Inr t"
| "py_text _ = Inl PyTypeError"

definition table_row :: "(pyval \<Rightarrow> string) \<Rightarrow> (pyval \<Rightarrow> string result) \<Rightarrow> suite \<times> dict \<Rightarrow> string list result" where
  "table_row rp fmt sr =
     (case sr of (s, r) \<Rightarrow>
        ebind (dindex r ''status'') (\<lambda>st.
        ebind (py_text st) (\<lambda>t.
        ebind (fmt (dget r ''duration'' (PInt 0))) (\<lambda>d.
        ebind (summarize_result_details rp 80 r) (\<lambda>sm.
        Inr [result_id rp s r, t, d @ ''s'', sm])))))"

definition headers :: "string list" where
  "headers = [''Experiment'', ''Status'', ''Duration'', ''Summary'']"

fun max_widths :: "nat list \<Rightarrow> string list \<Rightarrow> nat list" where
  "max_widths (w # ws) (v # vs) = max w (length v) # max_widths ws vs"
| "max_widths ws vs = []"

definition ljust :: "nat \<Rightarrow> string \<Rightarrow> string" where
  "ljust w s = s @ replicate (w - length s) CHR '' ''"

definition format_row :: "nat list \<Rightarrow> string list \<Rightarrow> string" where
  "format_row widths values = join_on '' | '' (map (\<lambda>(w, v). ljust w v) (zip widths values))"

definition table_lines :: "string list list \<Rightarrow> string list" where
  "table_lines rows =
     (let widths = foldl max_widths (map length headers) rows in
      format_row widths headers # join_on ''-+-'' (map (\<lambda>w. replicate w CHR ''-'') widths) # map (format_row widths) rows)"

definition format_table :: "(pyval \<Rightarrow> string) \<Rightarrow> (pyval \<Rightarrow> string result) \<Rightarrow> string option \<Rightarrow> global_results \<Rightarrow> string result" where
  "format_table rp fmt status g =
     ebind (kept_results status (table_row rp fmt) g) (\<lambda>rows.
     Inr (if rows = [] then ''No experiment results recorded.'' else join_on [CHR 10] (table_lines rows)))"

definition detail_block :: "(pyval \<Rightarrow> string) \<Rightarrow> suite \<times> dict \<Rightarrow> string list result" where
  "detail_block rp sr =
     (case sr of (s, r) \<Rightarrow>
        ebind (format_experiment_result rp r) (\<lambda>t. Inr [''['' @ result_id rp s r @ '']'', t, []]))"

definition format_detail :: "(pyval \<Rightarrow> string) \<Rightarrow> string option \<Rightarrow> global_results \<Rightarrow> string result" where
  "format_detail rp status g =
     ebind (kept_results status (detail_block rp) g) (\<lambda>blocks.
     Inr (if blocks = [] then ''No experiment results recorded.''
          else join_on [CHR 10] (butlast (concat blocks))))"

definition format_report ::
  "(pyval \<Rightarrow> string) \<Rightarrow> (pyval \<Rightarrow> string result) \<Rightarrow> dict \<Rightarrow> dict \<Rightarrow> string option \<Rightarrow> global_results \<Rightarrow> string result" where
  "format_report rp fmt environ preferences status g =
     (let mode = get_report_mode rp environ preferences in
      if mode = ''summary'' then format_table rp fmt status g
      else if mode = ''detail'' then format_detail rp status g
      else ebind (format_table rp fmt status g) (\<lambda>t. ebind (format_detail rp status g) (\<lambda>d.
        Inr (join_on [CHR 10, CHR 10] [t, d]))))"

subsection \<open>The totals of a suite\<close>

definition has_status :: "string \<Rightarrow> dict \<Rightarrow> bool" where
  "has_status s r \<longleftrightarrow> map_of r (PStr ''status'') = Some (PStr s)"

definition verdict :: "dict list \<Rightarrow> string" where
  "verdict rs = (if list_ex (has_status ''FAIL'') rs then ''FAIL''
     else if list_ex (has_status ''SKIP'') rs then ''SKIP'' else ''PASS'')"

definition duration_of :: "dict \<Rightarrow> real" where
  "duration_of r = (case py_num (dget0 r ''duration'') of None \<Rightarrow> 0 | Some x \<Rightarrow> x)"

lemma py_eq_PStr_right: "py_eq v (PStr s) \<longleftrightarrow> v = PStr s"
  by (cases v) auto

lemma py_add_num: "py_add a b = Inr c \<Longrightarrow> \<exists>x y. py_num a = Some x \<and> py_num b = Some y \<and> py_num c = Some (x + y)"
  by (induction a b rule: py_add.induct) auto

lemma totals_eq:
  assumes "totals dur st rs = Inr (d, s)" and "py_num dur = Some x" and "st \<in> {''PASS'', ''SKIP'', ''FAIL''}"
  shows "s = (if st = ''FAIL'' \<or> list_ex (has_status ''FAIL'') rs then ''FAIL''
      else if st = ''SKIP'' \<or> list_ex (has_status ''SKIP'') rs then ''SKIP'' else ''PASS'') \<and>
    py_num d = Some (x + sum_list (map duration_of rs))"
  using assms
proof (induction rs arbitrary: dur st x)
  case Nil
  then show ?case by auto
next
  case (Cons r rs)
  from Cons.prems(1) obtain dr dur' v where r: "map_of r (PStr ''duration'') = Some dr" "py_add dur dr = Inr dur'"
    "map_of r (PStr ''status'') = Some v"
    and t: "totals dur' (if py_eq v (PStr ''FAIL'') then ''FAIL''
       else if py_eq v (PStr ''SKIP'') \<and> st \<noteq> ''FAIL'' then ''SKIP'' else st) rs = Inr (d, s)"
    by (auto simp: ebind_Inr_iff dindex_def split: option.splits)
  from py_add_num [OF r(2)] Cons.prems(2) obtain y where y: "py_num dr = Some y" "py_num dur' = Some (x + y)" by auto
  have "duration_of r = y" using r(1) y(1) by (simp add: duration_of_def dget_def)
  moreover have "has_status w r \<longleftrightarrow> v = PStr w" for w using r(3) by (simp add: has_status_def)
  ultimately show ?case using Cons.IH [OF t y(2)] Cons.prems(3) by (auto simp: py_eq_PStr_right add.assoc)
qed

definition suite_ok :: "suite \<Rightarrow> bool" where
  "suite_ok e \<longleftrightarrow> su_status e = verdict (su_subtests e) \<and>
     py_num (su_duration e) = Some (sum_list (map duration_of (su_subtests e))) \<and>
     sorted_wrt (\<lambda>a b. \<not> named (dget0 b ''name'') a) (su_subtests e)"

lemma finalize_suite_ok:
  assumes "finalize_suite timefmt e = Inr e'"
  shows "su_name e' = su_name e \<and> su_subtests e' = su_subtests e \<and> su_status e' = verdict (su_subtests e) \<and>
    py_num (su_duration e') = Some (sum_list (map duration_of (su_subtests e)))"
proof -
  from assms obtain d s where t: "totals (PInt 0) ''PASS'' (su_subtests e) = Inr (d, s)"
    and e': "e' = e\<lparr>su_duration := d, su_status := s, su_submission := timefmt\<rparr>"
    by (auto simp: finalize_suite_def ebind_Inr_iff)
  from totals_eq [OF t, of 0] e' show ?thesis by (simp add: verdict_def)
qed

text \<open>Setting a result replaces the one of the same name and keeps the names distinct.\<close>

lemma yr_set_names: "x \<in> set (yr_set key v es) \<Longrightarrow> x \<in> set es \<or> x = dset ''name'' key v"
  by (induction es) (auto split: if_splits)

lemma yr_set_distinct:
  assumes "sorted_wrt (\<lambda>a b. \<not> named (dget0 b ''name'') a) es" and "key = PStr k"
  shows "sorted_wrt (\<lambda>a b. \<not> named (dget0 b ''name'') a) (yr_set key v es)"
  using assms
proof (induction es)
  case (Cons e es)
  have [simp]: "dget0 (dset ''name'' key v) ''name'' = key" by simp
  show ?case
  proof (cases "named key e")
    case True
    then have "dget0 e ''name'' = key" using Cons.prems(2) by (simp add: named_def py_eq_PStr_right)
    with True Cons.prems(1) show ?thesis by (auto simp: named_def)
  next
    case False
    then show ?thesis using Cons yr_set_names [of _ key v es] by (fastforce simp: named_def)
  qed
qed simp

lemma yr_get_set: "yr_get (PStr k) (yr_set (PStr k) v es) = Some (dset ''name'' (PStr k) v)"
  by (induction es) (auto simp: yr_get_def named_def)

subsection \<open>Recorded results are consistent\<close>

definition results_ok :: "global_results \<Rightarrow> bool" where
  "results_ok g \<longleftrightarrow> distinct (map su_name (gr_tests g)) \<and> (\<forall>e \<in> set (gr_tests g). suite_ok e)"

lemma finalize_all_ok:
  assumes "finalize_all timefmt key es = (es', Inr ())"
    and "\<forall>e \<in> set es. (su_name e \<noteq> key \<longrightarrow> suite_ok e) \<and> sorted_wrt (\<lambda>a b. \<not> named (dget0 b ''name'') a) (su_subtests e)"
  shows "map su_name es' = map su_name es \<and> map su_subtests es' = map su_subtests es \<and> (\<forall>e \<in> set es'. suite_ok e)"
  using assms
proof (induction es arbitrary: es')
  case (Cons e es)
  obtain es1 r1 where f: "finalize_all timefmt key es = (es1, r1)" by (cases "finalize_all timefmt key es")
  show ?case
  proof (cases "su_name e = key")
    case True
    with Cons.prems(1) f obtain e1 where e1: "finalize_suite timefmt e = Inr e1" "es' = e1 # es1" "r1 = Inr ()"
      by (auto split: sum.splits)
    have "suite_ok e1" "su_name e1 = su_name e" "su_subtests e1 = su_subtests e"
      using finalize_suite_ok [OF e1(1)] Cons.prems(2) by (simp_all add: suite_ok_def)
    with Cons.IH [of es1] f Cons.prems(2) e1(2,3) show ?thesis by simp
  next
    case False
    with Cons.prems(1) f have "es' = e # es1" "r1 = Inr ()" by simp_all
    with False Cons.IH [of es1] f Cons.prems(2) show ?thesis by simp
  qed
qed simp

lemma update_suite_facts:
  assumes "distinct (map su_name es)" and "\<forall>e \<in> set es. suite_ok e"
  shows "map su_name (update_suite key (PStr n) v es) = map su_name es"
    and "e \<in> set (update_suite key (PStr n) v es) \<Longrightarrow> (su_name e \<noteq> key \<longrightarrow> suite_ok e) \<and>
      sorted_wrt (\<lambda>a b. \<not> named (dget0 b ''name'') a) (su_subtests e)"
  using assms by (induction es) (auto simp: suite_ok_def yr_set_distinct split: if_splits)

text \<open>A result is a dictionary with a name.\<close>

fun named_result :: "pyval \<Rightarrow> bool" where
  "named_result (PDict v) = (\<exists>n. map_of v (PStr ''name'') = Some (PStr n))"
| "named_result _ = False"

lemma gr_set_ok:
  assumes "results_ok g" and "gr_set timefmt key val g = (g', Inr ())" and "named_result val"
  shows "results_ok g'"
proof -
  from assms(3) obtain v n where val: "val = PDict v" "map_of v (PStr ''name'') = Some (PStr n)"
    by (cases val) auto
  then have name: "dindex v ''name'' = Inr (PStr n)" by (simp add: dindex_def)
  have inv: "distinct (map su_name (gr_tests g))" "\<forall>e \<in> set (gr_tests g). suite_ok e"
    using assms(1) by (simp_all add: results_ok_def)
  show ?thesis
  proof (cases "list_ex (\<lambda>e. su_name e = key) (gr_tests g)")
    case True
    with assms(2) val name obtain es where
      f: "finalize_all timefmt key (update_suite key (PStr n) v (gr_tests g)) = (es, Inr ())" "g' = g\<lparr>gr_tests := es\<rparr>"
      by (auto simp: gr_set_def split: prod.splits)
    from finalize_all_ok [OF f(1)] update_suite_facts [OF inv] inv(1) f(2) show ?thesis by (simp add: results_ok_def)
  next
    case False
    with assms(2) val name obtain desc es where
      f: "finalize_all timefmt key (gr_tests g @ [\<lparr>su_name = key, su_description = desc, su_subtests = yr_set (PStr n) v [],
        su_duration = PInt 0, su_status = [], su_submission = []\<rparr>]) = (es, Inr ())" "g' = g\<lparr>gr_tests := es\<rparr>"
      by (auto simp: gr_set_def split: prod.splits option.splits)
    have new: "key \<notin> su_name ` set (gr_tests g)" using False by (auto simp: list_ex_iff)
    have "\<forall>e \<in> set (gr_tests g). sorted_wrt (\<lambda>a b. \<not> named (dget0 b ''name'') a) (su_subtests e)"
      using inv(2) by (simp add: suite_ok_def)
    then have "map su_name es = map su_name (gr_tests g) @ [key] \<and> (\<forall>e \<in> set es. suite_ok e)"
      using finalize_all_ok [OF f(1)] inv(2) by simp
    with inv(1) new f(2) show ?thesis by (simp add: results_ok_def)
  qed
qed

inductive gr_reachable :: "global_results \<Rightarrow> bool" where
  gr_start: "gr_reachable (init_results desc)"
| gr_record: "\<lbrakk>gr_reachable g; gr_set timefmt key val g = (g', Inr ()); named_result val\<rbrakk> \<Longrightarrow> gr_reachable g'"

text \<open>
  C36: the totals of a suite are those of its results. As long as the results that are recorded can be
  summed up, every suite is listed once, it fails if one of its results failed, is skipped if none
  failed and one was skipped, and passes otherwise; its duration is the sum of the durations, and no
  two of its results have the same name, however often and in whichever order they were recorded.
\<close>
theorem results_consistent:
  assumes "gr_reachable g"
  shows "distinct (map su_name (gr_tests g)) \<and>
    (\<forall>e \<in> set (gr_tests g). su_status e = verdict (su_subtests e) \<and>
       py_num (su_duration e) = Some (sum_list (map duration_of (su_subtests e))) \<and>
       sorted_wrt (\<lambda>a b. \<not> named (dget0 b ''name'') a) (su_subtests e))"
proof -
  have "results_ok g" using assms
  proof (induction rule: gr_reachable.induct)
    case (gr_start desc)
    show ?case by (simp add: results_ok_def init_results_def)
  next
    case (gr_record g timefmt key val g')
    then show ?case using gr_set_ok by blast
  qed
  then show ?thesis by (simp add: results_ok_def suite_ok_def)
qed

definition demo_result :: "string \<Rightarrow> string \<Rightarrow> real \<Rightarrow> pyval" where
  "demo_result n st d = PDict [(PStr ''name'', PStr n), (PStr ''status'', PStr st), (PStr ''duration'', PFloat d)]"

theorem results_consistent_witness:
  "\<exists>g. gr_set ''now'' ''s'' (demo_result ''a'' ''SKIP'' 2) (init_results None) = (g, Inr ()) \<and>
     map su_status (gr_tests g) = [''SKIP'']"
proof -
  let ?e = "\<lparr>su_name = ''s'', su_description = ''auster defw'',
    su_subtests = [[(PStr ''name'', PStr ''a''), (PStr ''status'', PStr ''SKIP''), (PStr ''duration'', PFloat 2)]],
    su_duration = PFloat 2, su_status = ''SKIP'', su_submission = ''now''\<rparr>"
  let ?g = "\<lparr>gr_desc = Some ''auster defw'', gr_tests = [?e]\<rparr>"
  have s: "gr_set ''now'' ''s'' (demo_result ''a'' ''SKIP'' 2) (init_results None) = (?g, Inr ())"
    by (simp add: gr_set_def demo_result_def init_results_def dindex_def finalize_suite_def dset_def)
  have "gr_reachable ?g" by (rule gr_record [OF gr_start s]) (simp add: demo_result_def)
  from results_consistent [OF this] s show ?thesis by (simp add: verdict_def has_status_def)
qed

subsection \<open>Reports\<close>

lemma py_upto_length: "length (py_upto s k) \<le> length s" "0 \<le> k \<Longrightarrow> int (length (py_upto s k)) \<le> k"
  by (simp_all add: py_upto_def py_pos_def)

text \<open>A summary never exceeds the width it is given.\<close>

lemma shorten_bound: "0 \<le> w \<Longrightarrow> int (length (shorten w s)) \<le> w"
  using py_upto_length(2) [of w s] py_upto_length(2) [of "w - 3" s] by (auto simp: shorten_def)

lemma length_join_on:
  "ws \<noteq> [] \<Longrightarrow> length (join_on sep ws) = sum_list (map length ws) + (length ws - 1) * length sep"
proof (induction ws)
  case (Cons w ws)
  then show ?case by (cases ws) (auto simp: join_on_Cons)
qed simp

lemma max_widths_length: "length (max_widths ws vs) = min (length ws) (length vs)"
  by (induction ws vs rule: max_widths.induct) auto

lemma max_widths_ge:
  "length ws = length vs \<Longrightarrow> list_all2 (\<le>) ws (max_widths ws vs) \<and> list_all2 (\<lambda>v w. length v \<le> w) vs (max_widths ws vs)"
  by (induction ws vs rule: max_widths.induct) auto

lemma foldl_max_widths:
  assumes "\<forall>row \<in> set rows. length row = length ws"
  shows "length (foldl max_widths ws rows) = length ws \<and> list_all2 (\<le>) ws (foldl max_widths ws rows) \<and>
    (\<forall>row \<in> set rows. list_all2 (\<lambda>v w. length v \<le> w) row (foldl max_widths ws rows))"
  using assms
proof (induction rows arbitrary: ws)
  case Nil
  then show ?case by (simp add: list_all2_same)
next
  case (Cons row rows)
  let ?ws = "max_widths ws row"
  have len: "length ?ws = length ws" using Cons.prems by (simp add: max_widths_length)
  with Cons have IH: "length (foldl max_widths ?ws rows) = length ?ws" "list_all2 (\<le>) ?ws (foldl max_widths ?ws rows)"
    "\<forall>r \<in> set rows. list_all2 (\<lambda>v w. length v \<le> w) r (foldl max_widths ?ws rows)" by auto
  have ge: "list_all2 (\<le>) ws ?ws" "list_all2 (\<lambda>v w. length v \<le> w) row ?ws"
    using max_widths_ge [of ws row] Cons.prems by auto
  have "list_all2 (\<le>) ws (foldl max_widths ?ws rows)"
    by (rule list_all2_trans [OF _ ge(1) IH(2)]) simp
  moreover have "list_all2 (\<lambda>v w. length v \<le> w) row (foldl max_widths ?ws rows)"
    by (rule list_all2_trans [OF _ ge(2) IH(2)]) simp
  ultimately show ?case using IH len by simp
qed

lemma format_row_length:
  assumes "list_all2 (\<lambda>v w. length v \<le> w) row widths" and "row \<noteq> []"
  shows "length (format_row widths row) = sum_list widths + 3 * (length widths - 1)"
proof -
  have "map length (map (\<lambda>(w, v). ljust w v) (zip widths row)) = widths"
    using assms(1) by (induction rule: list_all2_induct) (auto simp: ljust_def)
  moreover have "length (zip widths row) = length widths" using assms(1) by (simp add: list_all2_lengthD)
  moreover have "zip widths row \<noteq> []" using assms by (cases row; cases widths) auto
  ultimately show ?thesis unfolding format_row_def by (subst length_join_on) auto
qed

lemma table_row_columns: "table_row rp fmt sr = Inr row \<Longrightarrow> length row = 4"
  by (cases sr) (auto simp: table_row_def ebind_Inr_iff)

lemma emap_each: "emap f xs = Inr ys \<Longrightarrow> y \<in> set ys \<Longrightarrow> \<exists>x \<in> set xs. f x = Inr y"
  by (induction xs arbitrary: ys) (auto simp: ebind_Inr_iff)

lemma kept_results_rows:
  assumes "kept_results status f g = Inr rows" and "row \<in> set rows"
  shows "\<exists>sr \<in> set (all_results g). f sr = Inr row"
proof -
  let ?h = "\<lambda>sr. ebind (keeps status (snd sr)) (\<lambda>b. if b then ebind (f sr) (\<lambda>x. Inr [x]) else Inr [])"
  from assms obtain xss xs where x: "emap ?h (all_results g) = Inr xss" "xs \<in> set xss" "row \<in> set xs"
    by (auto simp: kept_results_def ebind_Inr_iff)
  from emap_each [OF x(1,2)] obtain sr where sr: "sr \<in> set (all_results g)" "?h sr = Inr xs" by blast
  from sr(2) x(3) have "f sr = Inr row" by (cases "keeps status (snd sr)"; cases "f sr") (auto split: if_splits)
  with sr(1) show ?thesis by blast
qed

text \<open>
  the table is aligned. Whatever the results are, when there is a table all its lines, the header,
  the rule and the rows, have the same length, and every column is wide enough for its entries.
\<close>
theorem table_aligned:
  assumes "kept_results status (table_row rp fmt) g = Inr rows"
  shows "\<exists>n. \<forall>line \<in> set (table_lines rows). length line = n"
proof -
  let ?ws = "foldl max_widths (map length headers) rows"
  have "length row = 4" if "row \<in> set rows" for row
    using kept_results_rows [OF assms that] table_row_columns by blast
  then have w: "length ?ws = 4" "list_all2 (\<le>) (map length headers) ?ws"
    "\<forall>row \<in> set rows. list_all2 (\<lambda>v w. length v \<le> w) row ?ws \<and> row \<noteq> []"
    using foldl_max_widths [of rows "map length headers"] by (fastforce simp: headers_def)+
  have "list_all2 (\<lambda>v w. length v \<le> w) headers ?ws" using w(2) by (simp add: list_all2_map1)
  then have "length (format_row ?ws headers) = sum_list ?ws + 3 * 3"
    using format_row_length [of headers ?ws] w(1) by (simp add: headers_def)
  moreover have "length (join_on ''-+-'' (map (\<lambda>w. replicate w CHR ''-'') ?ws)) = sum_list ?ws + 3 * 3"
    using w(1) by (subst length_join_on) (auto simp: comp_def)
  moreover have "length (format_row ?ws row) = sum_list ?ws + 3 * 3" if "row \<in> set rows" for row
    using format_row_length [of row ?ws] w(1,3) that by simp
  ultimately show ?thesis by (auto simp: table_lines_def Let_def)
qed

definition demo_results :: global_results where
  "demo_results = \<lparr>gr_desc = Some ''auster defw'', gr_tests = [\<lparr>su_name = ''s'', su_description = ''auster defw'',
    su_subtests = [[(PStr ''name'', PStr ''a''), (PStr ''status'', PStr ''SKIP''), (PStr ''duration'', PFloat 2)]],
    su_duration = PFloat 2, su_status = ''SKIP'', su_submission = ''now''\<rparr>]\<rparr>"

theorem table_aligned_witness:
  "\<exists>n. kept_results None (table_row (\<lambda>_. []) (\<lambda>_. Inr ''2.000'')) demo_results = Inr [[''s::a'', ''SKIP'', ''2.000s'', '''']] \<and>
     map length (table_lines [[''s::a'', ''SKIP'', ''2.000s'', '''']]) = [n, n, n]"
proof -
  have r: "kept_results None (table_row (\<lambda>_. []) (\<lambda>_. Inr ''2.000'')) demo_results = Inr [[''s::a'', ''SKIP'', ''2.000s'', '''']]"
    by (simp add: kept_results_def all_results_def keeps_def table_row_def result_id_def summarize_result_details_def
        get_result_details_def result_args_def shorten_def py_strip_def demo_results_def dindex_def dget_def)
  from table_aligned [OF r] r show ?thesis by (auto simp: table_lines_def Let_def)
qed

end
