(* ===== verification/Suites.thy ===== *)
theory Suites
  imports Results "HOL-Library.List_Lexorder" "HOL-Library.Char_ord"
begin

section \<open>Scripts, suites and services (\<open>python/infra/defw.py\<close>)\<close>

text \<open>
  How the framework finds the experiment scripts, runs them and records their results, and how it
  decides which service modules to load. What directories hold, what a module defines and how a
  script ends are arguments; \<open>sys.path\<close> is a list that is passed on.
\<close>

subsection \<open>File names and patterns\<close>

text \<open>\<open>s.replace(old, new)\<close> for a non-empty \<open>old\<close>; \<open>replace('', '')\<close> changes nothing.\<close>

function remove_all :: "string \<Rightarrow> string \<Rightarrow> string" where
  "remove_all old [] = []"
| "remove_all old (c # cs) =
     (if old \<noteq> [] \<and> take (length old) (c # cs) = old then remove_all old (drop (length old) (c # cs))
      else c # remove_all old cs)"
  by pat_completeness auto
termination
  by (relation "measure (\<lambda>(old, s). length s)") (auto simp: neq_Nil_conv)

text \<open>\<open>os.path.splitext\<close> on a name without directories: a leading dot does not start an extension.\<close>

definition splitext :: "string \<Rightarrow> string \<times> string" where
  "splitext f =
     (let ext = takeWhile (\<lambda>c. c \<noteq> CHR ''.'') (rev f); n = length f - length ext in
      if length ext < length f \<and> list_ex (\<lambda>c. c \<noteq> CHR ''.'') (take (n - 1) f)
      then (take (n - 1) f, CHR ''.'' # rev ext) else (f, []))"

definition starts_with :: "string \<Rightarrow> string \<Rightarrow> bool" where
  "starts_with p s \<longleftrightarrow> take (length p) s = p"

text \<open>\<open>fnmatch\<close>: a bracket without a closing one stands for itself.\<close>

fun in_set :: "char \<Rightarrow> string \<Rightarrow> bool" where
  "in_set c (a # m # b # cs) =
     (if m = CHR ''-'' then (a \<le> c \<and> c \<le> b) \<or> in_set c cs else c = a \<or> in_set c (m # b # cs))"
| "in_set c (a # cs) = (c = a \<or> in_set c cs)"
| "in_set c [] = False"

text \<open>The body of a bracket and the rest of the pattern; a first \<open>]\<close> belongs to the body.\<close>

definition bracket :: "string \<Rightarrow> (bool \<times> string \<times> string) option" where
  "bracket pat =
     (let neg = pat \<noteq> [] \<and> hd pat = CHR ''!''; p1 = (if neg then tl pat else pat);
          k = (if p1 \<noteq> [] \<and> hd p1 = CHR '']'' then 1 else 0);
          body = take k p1 @ takeWhile (\<lambda>c. c \<noteq> CHR '']'') (drop k p1) in
      if length body < length p1 then Some (neg, body, drop (Suc (length body)) p1) else None)"

lemma bracket_shorter [termination_simp]: "bracket pat = Some (neg, body, rest) \<Longrightarrow> length rest \<le> length pat"
  unfolding bracket_def Let_def by (cases pat) (auto split: if_splits)

function glob :: "string \<Rightarrow> string \<Rightarrow> bool" where
  "glob [] s = (s = [])"
| "glob (p # pat) s =
     (if p = CHR ''*'' then glob pat s \<or> (case s of [] \<Rightarrow> False | c # cs \<Rightarrow> glob (p # pat) cs)
      else case s of
        [] \<Rightarrow> False
      | c # cs \<Rightarrow>
          if p = CHR ''?'' then glob pat cs
          else if p = CHR ''['' then
            (case bracket pat of
               Some (neg, body, rest) \<Rightarrow> in_set c body \<noteq> neg \<and> glob rest cs
             | None \<Rightarrow> c = p \<and> glob pat cs)
          else c = p \<and> glob pat cs)"
  by pat_completeness auto
termination
  by (relation "measure (\<lambda>(pat, s). length pat + length s)") (auto dest: bracket_shorter)

lemma glob_star: "glob ''*'' s"
  by (induction s) auto

subsection \<open>Intercepted methods\<close>

text \<open>\<open>MethodInterceptor\<close>: a method that is disabled becomes one that does nothing.\<close>

datatype attr = Method string | Noop string | Data pyval

fun intercept :: "string list \<Rightarrow> attr \<Rightarrow> attr" where
  "intercept disabled (Method n) = (if n \<in> set disabled then Noop n else Method n)"
| "intercept disabled a = a"

subsection \<open>Scripts\<close>

record script =
  sk_name :: string
  sk_path :: string
  sk_prefix :: string
  sk_parent :: string

definition make_script :: "string \<Rightarrow> string \<Rightarrow> string \<Rightarrow> string \<Rightarrow> script" where
  "make_script suite_name pre path fname =
     \<lparr>sk_name = fst (splitext fname), sk_path = path, sk_prefix = pre, sk_parent = remove_all ''suite_'' suite_name\<rparr>"

text \<open>The lines of the first comment block of a script, stripped; the block may be open at the end.\<close>

fun doc_lines :: "bool \<Rightarrow> string list \<Rightarrow> string list" where
  "doc_lines start [] = []"
| "doc_lines start (l # ls) =
     (if py_strip l = [CHR 34, CHR 34, CHR 34] then (if start then [] else doc_lines True ls)
      else if start then py_strip l # doc_lines start ls
      else doc_lines start ls)"

datatype doc_tag = Prim | Primd | Sec | Des | Tc

definition tag_text :: "doc_tag \<Rightarrow> string" where
  "tag_text t = (case t of Prim \<Rightarrow> ''@PRIMARY:'' | Primd \<Rightarrow> ''@PRIMARY_DESC:'' | Sec \<Rightarrow> ''@SECONDARY:''
     | Des \<Rightarrow> ''@DESIGN:'' | Tc \<Rightarrow> ''@TESTCASE:'')"

text \<open>\<open>l.split(tag)[1]\<close>: the text between the first and the second tag.\<close>

fun until :: "string \<Rightarrow> string \<Rightarrow> string" where
  "until tag [] = []"
| "until tag (c # cs) = (if starts_with tag (c # cs) then [] else c # until tag cs)"

definition after_tag :: "string \<Rightarrow> string \<Rightarrow> string" where
  "after_tag tag l = until tag (drop (length (until tag l) + length tag) l)"

definition line_tag :: "string \<Rightarrow> doc_tag option" where
  "line_tag l = find (\<lambda>t. sublist (tag_text t) l) [Prim, Primd, Sec, Des, Tc]"

text \<open>The pieces of text of the sections; a line without a tag goes to the current section, if any.\<close>

fun doc_sections :: "doc_tag option \<Rightarrow> string list \<Rightarrow> (doc_tag \<times> string) list" where
  "doc_sections cur [] = []"
| "doc_sections cur (l # ls) =
     (case line_tag l of
        Some t \<Rightarrow> (t, py_strip (after_tag (tag_text t) l)) # doc_sections (Some t) ls
      | None \<Rightarrow>
          (case cur of
             Some t \<Rightarrow> (t, CHR 10 # l) # doc_sections cur ls
           | None \<Rightarrow> doc_sections cur ls))"

definition section_text :: "doc_tag \<Rightarrow> (doc_tag \<times> string) list \<Rightarrow> string" where
  "section_text t ps = concat (map snd (filter (\<lambda>p. fst p = t) ps))"

text \<open>The rows that \<open>create_docs\<close> writes to the three tables, or none without a comment block.\<close>

definition create_docs :: "string \<Rightarrow> string list \<Rightarrow> (string list \<times> string list \<times> string list) option" where
  "create_docs name ls =
     (let doc = doc_lines False ls; ps = doc_sections None doc in
      if doc = [] then None
      else Some ([name, section_text Prim ps, section_text Primd ps], [name, section_text Prim ps, section_text Des ps],
                 [name, section_text Prim ps, section_text Sec ps, section_text Tc ps]))"

text \<open>How a method of a script ends; \<open>se_halt\<close>: it raised a \<open>DEFwError\<close> that asks to halt.\<close>

record script_exc =
  se_exc :: exc
  se_halt :: bool
  se_trace :: string

definition script_value :: "dict \<Rightarrow> script_exc + pyval \<Rightarrow> pyval result" where
  "script_value prefs outcome =
     (case outcome of
        Inr rc \<Rightarrow> Inr rc
      | Inl se \<Rightarrow>
          ebind (dindex prefs ''halt_on_exception'') (\<lambda>h.
          if truthy h then Inl (se_exc se)
          else if se_halt se then Inl (se_exc se)
          else Inr (PDict [(PStr ''status'', PStr ''FAIL''), (PStr ''error'', PStr (se_trace se))])))"

definition script_result :: "string \<Rightarrow> real \<Rightarrow> pyval \<Rightarrow> dict" where
  "script_result name duration rc =
     (let res = dset ''duration'' (PFloat duration) (normalize_experiment_result rc) in
      [(PStr ''name'', PStr name), (PStr ''status'', dget0 res ''status''), (PStr ''duration'', PFloat duration)] @
      filter (\<lambda>(k, v). k \<notin> {PStr ''name'', PStr ''status'', PStr ''duration''}) res)"

text \<open>
  \<open>execute_method_by_name\<close>: \<open>imported\<close> is the outcome of importing the script, \<open>method\<close> of looking up
  its method, with how the method ends.
\<close>

definition execute_script ::
  "dict \<Rightarrow> string \<Rightarrow> real \<Rightarrow> unit result \<Rightarrow> (script_exc + pyval) result \<Rightarrow> string \<Rightarrow> script \<Rightarrow> global_results
     \<Rightarrow> global_results \<times> pyval result" where
  "execute_script prefs timefmt duration imported methd method_name sk g =
     (case imported of
        Inl e \<Rightarrow> (g, Inl e)
      | Inr _ \<Rightarrow>
          (case methd of
             Inl _ \<Rightarrow> (g, Inr PNone)
           | Inr outcome \<Rightarrow>
               (case script_value prefs outcome of
                  Inl e \<Rightarrow> (g, Inl e)
                | Inr rc \<Rightarrow>
                    if method_name = ''run'' then
                      (case gr_set timefmt (sk_parent sk)
                         (PDict (script_result (remove_all (sk_prefix sk) (sk_name sk)) duration rc)) g of
                         (g', r) \<Rightarrow> (g', ebind r (\<lambda>_. Inr rc)))
                    else (g, Inr rc))))"

subsection \<open>Collections\<close>

record coll =
  co_suite :: string
  co_db :: "(string \<times> script) list"
  co_prefix :: string
  co_skip :: "pyval list"
  co_expected :: "pyval list"
  co_disabled :: "string list"

text \<open>One directory of the walk: its scripts are added, and the directory to \<open>sys.path\<close> if it has one.\<close>

fun scan_files ::
  "string \<Rightarrow> string \<Rightarrow> string \<Rightarrow> bool \<Rightarrow> string list \<Rightarrow> (string \<times> script) list \<times> string list \<Rightarrow> (string \<times> script) list \<times> string list" where
  "scan_files suite_name pre subdir added [] st = st"
| "scan_files suite_name pre subdir added (f # fs) (db, sys_path) =
     (if starts_with pre f \<and> snd (splitext f) = ''.py'' then
        scan_files suite_name pre subdir True fs
          (AList.update (fst (splitext (remove_all pre f))) (make_script suite_name pre (path_join subdir f) f) db,
           if subdir \<noteq> ''.'' \<and> \<not> added \<and> subdir \<notin> set sys_path then sys_path @ [subdir] else sys_path)
      else scan_files suite_name pre subdir added fs (db, sys_path))"

definition generate_scripts ::
  "string \<Rightarrow> string \<Rightarrow> (string \<times> string list) list \<Rightarrow> string list \<Rightarrow> (string \<times> script) list \<times> string list" where
  "generate_scripts suite_name pre walk sys_path =
     foldl (\<lambda>st (subdir, files). scan_files suite_name pre subdir False files st) ([], sys_path) walk"

definition make_collection ::
  "(string \<times> string list) list \<Rightarrow> string \<Rightarrow> pyval list \<Rightarrow> pyval list \<Rightarrow> string \<Rightarrow> string list \<Rightarrow> string list \<Rightarrow> coll \<times> string list" where
  "make_collection walk name skip expected pre disabled sys_path =
     (case generate_scripts name pre walk sys_path of
        (db, sp) \<Rightarrow> (\<lparr>co_suite = name, co_db = db, co_prefix = pre, co_skip = skip, co_expected = expected,
                      co_disabled = disabled\<rparr>, sp))"

definition db_getitem :: "string \<Rightarrow> (string \<times> 'a) list \<Rightarrow> 'a result" where
  "db_getitem key db = (case map_of db key of None \<Rightarrow> Inl (DEFwError ''no entry'') | Some v \<Rightarrow> Inr v)"

text \<open>\<open>__next__\<close>: the position and the entry; \<open>None\<close> is the end of the iteration.\<close>

definition db_next :: "nat \<Rightarrow> (string \<times> 'a) list \<Rightarrow> nat \<times> (string \<times> 'a) option" where
  "db_next n db = (if n < length db then (Suc n, Some (db ! n)) else (n, None))"

definition runnable :: "string \<Rightarrow> coll \<Rightarrow> string list" where
  "runnable match co = filter (\<lambda>k. glob match k \<and> \<not> py_mem (PStr k) (co_skip co)) (sort (map fst (co_db co)))"

definition get_num_scripts :: "string \<Rightarrow> coll \<Rightarrow> nat" where
  "get_num_scripts match co = length (runnable match co)"

definition progress_of :: "nat \<Rightarrow> nat \<Rightarrow> int" where
  "progress_of executed num_scripts = \<lfloor>real executed / real num_scripts * 100\<rfloor>"

text \<open>
  The calls of \<open>execute_method_by_name\<close>: the scripts with their progress, until one raises; \<open>outcome k\<close>
  is how the method of the script \<open>k\<close> ends.
\<close>

fun exec_loop :: "(string \<Rightarrow> unit result) \<Rightarrow> nat \<Rightarrow> nat \<Rightarrow> string list \<Rightarrow> (string \<times> int) list \<times> unit result" where
  "exec_loop outcome num executed [] = ([], Inr ())"
| "exec_loop outcome num executed (k # ks) =
     (case outcome k of
        Inl e \<Rightarrow> ([(k, progress_of (Suc executed) num)], Inl e)
      | Inr _ \<Rightarrow> (case exec_loop outcome num (Suc executed) ks of (cs, r) \<Rightarrow> ((k, progress_of (Suc executed) num) # cs, r)))"

definition execute_collection ::
  "(string \<Rightarrow> unit result) \<Rightarrow> string \<Rightarrow> nat \<Rightarrow> coll \<Rightarrow> (string \<times> int) list \<times> unit result" where
  "execute_collection outcome match num_scripts co =
     exec_loop outcome (if num_scripts = 0 then get_num_scripts match co else num_scripts) 0 (runnable match co)"

definition collection_docs :: "string \<Rightarrow> coll \<Rightarrow> script list" where
  "collection_docs match co = map snd (filter (\<lambda>(k, v). glob match k) (co_db co))"

definition dump_collection :: "string \<Rightarrow> coll \<Rightarrow> string list" where
  "dump_collection match co =
     sort (map (\<lambda>(k, v). if py_mem (PStr k) (co_expected co) then k @ '' (expected failure)''
                         else if py_mem (PStr k) (co_skip co) then k @ '' (skip)'' else k)
            (filter (\<lambda>(k, v). glob match k) (co_db co)))"

subsection \<open>Suites\<close>

text \<open>
  What the module \<open>skip\<close> of a suite defines: its two lists, missing ones being \<open>None\<close>. Only the type
  of the skip list is checked; that the expected failures are a list as well is taken for granted.
\<close>

record skip_module =
  sm_skip :: "pyval option"
  sm_expected :: "pyval list option"

text \<open>\<open>__load_suite_controls\<close>: \<open>skip\<close> is the outcome of importing the module.\<close>

fun load_suite_controls :: "skip_module result \<Rightarrow> string list \<Rightarrow> pyval list \<times> pyval list \<Rightarrow> (pyval list \<times> pyval list) result" where
  "load_suite_controls skip [] st = Inr st"
| "load_suite_controls skip (f # fs) (sl, ef) =
     (if f \<noteq> ''skip.py'' then load_suite_controls skip fs (sl, ef)
      else ebind skip (\<lambda>sm.
        case sm_skip sm of
          Some (PList xs) \<Rightarrow>
            load_suite_controls skip fs (xs, case sm_expected sm of Some v \<Rightarrow> v | None \<Rightarrow> ef)
        | _ \<Rightarrow> load_suite_controls skip fs (sl, ef)))"

text \<open>\<open>ASuite\<close> is its scripts and its two lists; \<open>files\<close> are the files of its directory.\<close>

definition reload_suite ::
  "(string \<times> string list) list \<Rightarrow> string list \<Rightarrow> skip_module result \<Rightarrow> string \<Rightarrow> string \<Rightarrow> string list
     \<Rightarrow> pyval list \<times> pyval list \<Rightarrow> string list \<Rightarrow> (coll \<times> string list) result" where
  "reload_suite walk files skip name pre disabled ctl sys_path =
     ebind (load_suite_controls skip files ctl) (\<lambda>(sl, ef).
     Inr (make_collection walk name sl ef pre disabled sys_path))"

definition make_suite ::
  "(string \<times> string list) list \<Rightarrow> string list \<Rightarrow> skip_module result \<Rightarrow> string \<Rightarrow> string \<Rightarrow> string \<Rightarrow> string list \<Rightarrow> string list
     \<Rightarrow> (coll \<times> string list) result" where
  "make_suite walk files skip base name pre disabled sys_path =
     (let abs_path = path_join base name in
      reload_suite walk files skip name pre disabled ([], [])
        (if abs_path \<in> set sys_path then sys_path else sys_path @ [abs_path]))"

text \<open>
  The loop over the paths: \<open>walk path\<close> are the directories of a path, \<open>None\<close> if it does not exist. The
  variable \<open>dirs\<close> then keeps the directories of the path before, and has no value on the first path.
\<close>

fun dirs_of_paths :: "(string \<Rightarrow> string list option) \<Rightarrow> string list option \<Rightarrow> string list \<Rightarrow> (string \<times> string) list result" where
  "dirs_of_paths walk dirs [] = Inr []"
| "dirs_of_paths walk dirs (p # ps) =
     (case (case walk p of Some ds \<Rightarrow> Some ds | None \<Rightarrow> dirs) of
        None \<Rightarrow> Inl (PyRuntimeError ''UnboundLocalError'')
      | Some ds \<Rightarrow> ebind (dirs_of_paths walk (Some ds) ps) (\<lambda>rest. Inr (map (Pair p) ds @ rest)))"

definition generate_suites ::
  "(string \<Rightarrow> string list option) \<Rightarrow> (string \<Rightarrow> string \<Rightarrow> 's) \<Rightarrow> string \<Rightarrow> string list \<Rightarrow> (string \<times> 's) list result" where
  "generate_suites walk mk suite_prefix paths =
     ebind (dirs_of_paths walk None paths) (\<lambda>pds.
     Inr (foldl (\<lambda>db (p, d). if starts_with suite_prefix d then AList.update (remove_all suite_prefix d) (mk p d) db else db)
            [] pds))"

text \<open>\<open>re.split(',| ', suite_list)\<close> without the words of white space.\<close>

fun split_either :: "char \<Rightarrow> char \<Rightarrow> string \<Rightarrow> string \<Rightarrow> string list" where
  "split_either a b acc [] = [rev acc]"
| "split_either a b acc (c # cs) =
     (if c = a \<or> c = b then rev acc # split_either a b [] cs else split_either a b (c # acc) cs)"

definition chosen_suites :: "string \<Rightarrow> (string \<times> 's) list \<Rightarrow> string list" where
  "chosen_suites suite_list db =
     (if suite_list = ''*'' then map fst db
      else filter (\<lambda>i. py_strip i \<noteq> []) (split_either CHR '','' CHR '' '' [] suite_list))"

text \<open>
  \<open>execute_method_by_name\<close> of the suites: the scripts that are called, suite by suite; \<open>match\<close> is
  not used.
\<close>

fun run_suites ::
  "(string \<Rightarrow> string \<Rightarrow> unit result) \<Rightarrow> string list \<Rightarrow> (string \<times> coll) list \<Rightarrow> (string \<times> string \<times> int) list \<times> unit result" where
  "run_suites outcome sl [] = ([], Inr ())"
| "run_suites outcome sl ((k, co) # db) =
     (if k \<in> set sl then
        (case execute_collection (outcome k) ''*'' (get_num_scripts ''*'' co) co of
           (cs, Inl e) \<Rightarrow> (map (Pair k) cs, Inl e)
         | (cs, Inr _) \<Rightarrow> (case run_suites outcome sl db of (cs2, r) \<Rightarrow> (map (Pair k) cs @ cs2, r)))
      else run_suites outcome sl db)"

definition execute_suites ::
  "(string \<Rightarrow> string \<Rightarrow> unit result) \<Rightarrow> string \<Rightarrow> string \<Rightarrow> (string \<times> coll) list \<Rightarrow> (string \<times> string \<times> int) list \<times> unit result" where
  "execute_suites outcome suite_list match db = run_suites outcome (chosen_suites suite_list db) db"

definition dump_suites :: "string \<Rightarrow> (string \<times> 's) list \<Rightarrow> string list" where
  "dump_suites match db = sort (filter (glob match) (map fst db))"

subsection \<open>Services\<close>

text \<open>\<open>split_external_paths\<close>.\<close>

fun split_external_paths :: "pyval \<Rightarrow> string list result" where
  "split_external_paths (PStr s) = Inr (if s = [] then [] else filter (\<lambda>p. p \<noteq> []) (split_on CHR '':'' s))"
| "split_external_paths v = (if truthy v then Inl PyAttributeError else Inr [])"

text \<open>\<open>clear_module_cache\<close> on the names of the loaded modules.\<close>

definition clear_module_cache :: "string \<Rightarrow> string list \<Rightarrow> string list" where
  "clear_module_cache module_name keys =
     filter (\<lambda>k. \<not> (k = module_name \<or> starts_with (module_name @ ''.'') k)) keys"

definition put_first :: "string \<Rightarrow> string list \<Rightarrow> string list" where
  "put_first path sys_path = path # remove1 path sys_path"

record load_rules =
  lr_prefix :: string
  lr_noinit :: "string list"
  lr_only :: "string list"
  lr_is_dirsvc :: bool
  lr_noload_dirsvc :: bool

text \<open>Whether the module of a directory is loaded.\<close>

definition loads :: "load_rules \<Rightarrow> string \<Rightarrow> bool" where
  "loads lr d =
     (let name = remove_all (lr_prefix lr) d in
      starts_with (lr_prefix lr) d \<and> d \<notin> set (lr_noinit lr) \<and>
      \<not> (lr_only lr \<noteq> [] \<and> d \<notin> set (lr_only lr) \<and> name \<noteq> ''dirsvc'') \<and>
      \<not> (\<not> lr_is_dirsvc lr \<and> name = ''dirsvc'' \<and> lr_noload_dirsvc lr))"

text \<open>
  What loading changes: the table of services, \<open>sys.path\<close> and the names of the loaded modules. An import
  forgets the module and the ones below it, puts its path first and loads it; the modules that its
  code imports in turn are not part of the state.
\<close>

record load_state =
  ls_db :: "(string \<times> string) list"
  ls_sys_path :: "string list"
  ls_modules :: "string list"

definition import_module_from_path :: "string \<Rightarrow> string \<Rightarrow> load_state \<Rightarrow> load_state" where
  "import_module_from_path module_name module_path st =
     st\<lparr>ls_sys_path := put_first module_path (ls_sys_path st),
        ls_modules := clear_module_cache module_name (ls_modules st) @ [module_name]\<rparr>"

text \<open>
  \<open>generate_test_db\<close> of the services: \<open>info p d\<close> is the name in \<open>svc_info\<close> of the module, or why it
  could not be imported. Each loaded module is initialised; how that ends does not matter.
\<close>

fun load_services ::
  "load_rules \<Rightarrow> (string \<Rightarrow> string \<Rightarrow> string result) \<Rightarrow> (string \<times> string) list \<Rightarrow> load_state \<Rightarrow> load_state result" where
  "load_services lr info [] st = Inr st"
| "load_services lr info ((p, d) # pds) st =
     (if loads lr d then
        ebind (info p d) (\<lambda>mname.
          load_services lr info pds ((import_module_from_path d p st)\<lparr>ls_db := AList.update mname d (ls_db st)\<rparr>))
      else load_services lr info pds
        (if starts_with (lr_prefix lr) d \<and> d \<in> set (lr_noinit lr) then st\<lparr>ls_sys_path := ls_sys_path st @ [d]\<rparr> else st))"

definition generate_services ::
  "load_rules \<Rightarrow> (string \<Rightarrow> string list option) \<Rightarrow> (string \<Rightarrow> string \<Rightarrow> string result) \<Rightarrow> string list
     \<Rightarrow> load_state \<Rightarrow> load_state result" where
  "generate_services lr walk info paths st =
     ebind (dirs_of_paths walk None paths) (\<lambda>pds. load_services lr info pds (st\<lparr>ls_db := []\<rparr>))"

subsection \<open>Which services are loaded\<close>

lemma dirs_of_paths_sources:
  "dirs_of_paths walk dirs ps = Inr pds \<Longrightarrow> (p, d) \<in> set pds \<Longrightarrow> p \<in> set ps \<and>
     ((\<exists>ds. dirs = Some ds \<and> d \<in> set ds) \<or> (\<exists>q ds. q \<in> set ps \<and> walk q = Some ds \<and> d \<in> set ds))"
proof (induction ps arbitrary: dirs pds)
  case (Cons q ps)
  obtain ds where ds: "(case walk q of Some ds \<Rightarrow> Some ds | None \<Rightarrow> dirs) = Some ds"
    using Cons.prems(1) by (cases "case walk q of Some ds \<Rightarrow> Some ds | None \<Rightarrow> dirs") auto
  with Cons.prems(1) obtain rest where rest: "dirs_of_paths walk (Some ds) ps = Inr rest" "pds = map (Pair q) ds @ rest"
    by (auto simp: ebind_Inr_iff)
  have src: "d \<in> set ds \<Longrightarrow> (\<exists>ds. dirs = Some ds \<and> d \<in> set ds) \<or> (\<exists>ds. walk q = Some ds \<and> d \<in> set ds)"
    using ds by (auto split: option.splits)
  from Cons.prems(2) rest(2) consider "p = q" "d \<in> set ds" | "(p, d) \<in> set rest" by auto
  then show ?case
  proof cases
    case 1
    with src show ?thesis by auto
  next
    case 2
    with Cons.IH [OF rest(1)] src show ?thesis by auto
  qed
qed simp

lemma import_module_from_path_db [simp]: "ls_db (import_module_from_path m p st) = ls_db st"
  by (simp add: import_module_from_path_def)

lemma load_services_from:
  "load_services lr info pds st = Inr st' \<Longrightarrow> (m, d) \<in> set (ls_db st') \<Longrightarrow>
     (m, d) \<in> set (ls_db st) \<or> (\<exists>p. (p, d) \<in> set pds \<and> loads lr d \<and> info p d = Inr m)"
proof (induction lr info pds st rule: load_services.induct)
  case (2 lr info p d' pds st)
  show ?case
  proof (cases "loads lr d'")
    case True
    with "2.prems"(1) obtain mname where i: "info p d' = Inr mname"
      "load_services lr info pds ((import_module_from_path d' p st)\<lparr>ls_db := AList.update mname d' (ls_db st)\<rparr>) = Inr st'"
      by (auto simp: ebind_Inr_iff)
    from "2.IH"(1) [OF True i(2) "2.prems"(2)] have "(m, d) \<in> set (AList.update mname d' (ls_db st)) \<or>
      (\<exists>p. (p, d) \<in> set pds \<and> loads lr d \<and> info p d = Inr m)" by simp
    moreover have "(m, d) \<in> set (AList.update mname d' (ls_db st)) \<Longrightarrow> (m, d) \<in> set (ls_db st) \<or> m = mname \<and> d = d'"
      using set_alist_update_subset [of mname d' "ls_db st"] by auto
    ultimately show ?thesis using True i(1) by auto
  next
    case False
    with "2.IH"(2) [OF False] "2.prems" show ?thesis by (auto split: if_splits)
  qed
qed simp

lemma dirs_of_paths_all:
  "dirs_of_paths walk dirs ps = Inr pds \<Longrightarrow> q \<in> set ps \<Longrightarrow> walk q = Some ds \<Longrightarrow> d \<in> set ds \<Longrightarrow> (q, d) \<in> set pds"
proof (induction ps arbitrary: dirs pds)
  case (Cons p ps)
  then show ?case by (cases "walk p") (auto simp: ebind_Inr_iff split: option.splits)
qed simp

lemma load_services_keep:
  "load_services lr info pds st = Inr st' \<Longrightarrow> m \<in> fst ` set (ls_db st) \<Longrightarrow> m \<in> fst ` set (ls_db st')"
proof (induction lr info pds st rule: load_services.induct)
  case (2 lr info p d' pds st)
  then show ?case by (cases "loads lr d'") (auto simp: ebind_Inr_iff dom_update split: if_splits)
qed simp

lemma load_services_all:
  "load_services lr info pds st = Inr st' \<Longrightarrow> (p, d) \<in> set pds \<Longrightarrow> loads lr d \<Longrightarrow>
     \<exists>m. info p d = Inr m \<and> m \<in> fst ` set (ls_db st')"
proof (induction lr info pds st rule: load_services.induct)
  case (2 lr info p' d' pds st)
  show ?case
  proof (cases "loads lr d'")
    case True
    with "2.prems"(1) obtain mname where i: "info p' d' = Inr mname"
      "load_services lr info pds ((import_module_from_path d' p' st)\<lparr>ls_db := AList.update mname d' (ls_db st)\<rparr>) = Inr st'"
      by (auto simp: ebind_Inr_iff)
    have "mname \<in> fst ` set (ls_db st')" by (rule load_services_keep [OF i(2)]) (simp add: dom_update)
    with "2.IH"(1) [OF True i(2)] "2.prems"(2,3) i(1) show ?thesis by auto
  next
    case False
    with "2.prems"(2,3) have "(p, d) \<in> set pds" by auto
    with "2.IH"(2) [OF False] "2.prems"(1,3) False show ?thesis by auto
  qed
qed simp

lemma generate_services_allowed:
  assumes "generate_services lr walk info paths st = Inr st'" and "(m, d) \<in> set (ls_db st')"
  shows "loads lr d \<and> (\<exists>q ds. q \<in> set paths \<and> walk q = Some ds \<and> d \<in> set ds)"
proof -
  from assms(1) obtain pds where p: "dirs_of_paths walk None paths = Inr pds" "load_services lr info pds (st\<lparr>ls_db := []\<rparr>) = Inr st'"
    by (auto simp: generate_services_def ebind_Inr_iff)
  from load_services_from [OF p(2) assms(2)] obtain q where q: "(q, d) \<in> set pds" "loads lr d" by auto
  from dirs_of_paths_sources [OF p(1) q(1)] q(2) show ?thesis by auto
qed

lemma generate_services_all:
  assumes "generate_services lr walk info paths st = Inr st'" and "q \<in> set paths" and "walk q = Some ds" and "d \<in> set ds"
    and "loads lr d"
  shows "\<exists>m. info q d = Inr m \<and> m \<in> fst ` set (ls_db st')"
proof -
  from assms(1) obtain pds where p: "dirs_of_paths walk None paths = Inr pds" "load_services lr info pds (st\<lparr>ls_db := []\<rparr>) = Inr st'"
    by (auto simp: generate_services_def ebind_Inr_iff)
  show ?thesis by (rule load_services_all [OF p(2) dirs_of_paths_all [OF p(1) assms(2-4)] assms(5)])
qed

text \<open>
  exactly the allowed services are loaded. Every module in the table of services comes from a
  directory with the prefix of its kind that is not excluded; if only some modules are to be loaded
  it is one of them or the directory service; and the directory service itself is loaded only in its
  own process, or for its client side. Conversely every directory that the rules allow is in the
  table, under the name its module gives.
\<close>
theorem services_loaded_allowed:
  assumes "generate_services lr walk info paths st = Inr st'"
  shows "((m, d) \<in> set (ls_db st') \<longrightarrow>
      starts_with (lr_prefix lr) d \<and> d \<notin> set (lr_noinit lr) \<and>
      (lr_only lr = [] \<or> d \<in> set (lr_only lr) \<or> remove_all (lr_prefix lr) d = ''dirsvc'') \<and>
      (remove_all (lr_prefix lr) d = ''dirsvc'' \<longrightarrow> lr_is_dirsvc lr \<or> \<not> lr_noload_dirsvc lr) \<and>
      (\<exists>q ds. q \<in> set paths \<and> walk q = Some ds \<and> d \<in> set ds)) \<and>
    (q \<in> set paths \<longrightarrow> walk q = Some ds \<longrightarrow> d \<in> set ds \<longrightarrow> loads lr d \<longrightarrow>
      (\<exists>m. info q d = Inr m \<and> m \<in> fst ` set (ls_db st')))"
  using generate_services_allowed [OF assms, of m d] generate_services_all [OF assms, of q ds d]
  by (auto simp: loads_def Let_def)

definition demo_rules :: load_rules where
  "demo_rules = \<lparr>lr_prefix = ''svc_'', lr_noinit = [], lr_only = [''svc_a''], lr_is_dirsvc = False, lr_noload_dirsvc = True\<rparr>"

definition demo_loaded :: load_state where
  "demo_loaded = \<lparr>ls_db = [(''svc_a'', ''svc_a'')], ls_sys_path = [''p'', ''lib''], ls_modules = [''os'', ''svc_a'']\<rparr>"

theorem services_loaded_allowed_witness:
  "generate_services demo_rules (\<lambda>_. Some [''svc_a'', ''svc_b'', ''svc_dirsvc'', ''x'']) (\<lambda>p d. Inr d) [''p'']
       \<lparr>ls_db = [], ls_sys_path = [''lib'', ''p''], ls_modules = [''svc_a.x'', ''os'']\<rparr> = Inr demo_loaded \<and>
     starts_with ''svc_'' ''svc_a''"
proof -
  have g: "generate_services demo_rules (\<lambda>_. Some [''svc_a'', ''svc_b'', ''svc_dirsvc'', ''x'']) (\<lambda>p d. Inr d) [''p'']
      \<lparr>ls_db = [], ls_sys_path = [''lib'', ''p''], ls_modules = [''svc_a.x'', ''os'']\<rparr> = Inr demo_loaded"
    by (simp add: generate_services_def loads_def demo_rules_def demo_loaded_def starts_with_def import_module_from_path_def
      put_first_def clear_module_cache_def)
  from services_loaded_allowed [OF g, of "''svc_a''" "''svc_a''"] g show ?thesis by (simp add: demo_rules_def demo_loaded_def)
qed

subsection \<open>Every run is recorded\<close>

text \<open>Results that can be summed up.\<close>

definition summable_result :: "dict \<Rightarrow> bool" where
  "summable_result r \<longleftrightarrow> (\<exists>d x. map_of r (PStr ''duration'') = Some d \<and> py_num d = Some x) \<and> map_of r (PStr ''status'') \<noteq> None"

definition recordable :: "global_results \<Rightarrow> bool" where
  "recordable g \<longleftrightarrow> gr_desc g \<noteq> None \<and> (\<forall>e \<in> set (gr_tests g). \<forall>r \<in> set (su_subtests e). summable_result r)"

lemma py_add_total: "py_num b = Some y \<Longrightarrow> a \<in> range PInt \<union> range PFloat \<Longrightarrow> \<exists>c \<in> range PInt \<union> range PFloat. py_add a b = Inr c"
  by (cases b; cases a) auto

lemma totals_total:
  "\<forall>r \<in> set rs. summable_result r \<Longrightarrow> dur \<in> range PInt \<union> range PFloat \<Longrightarrow> \<exists>t. totals dur st rs = Inr t"
proof (induction rs arbitrary: dur st)
  case (Cons r rs)
  from Cons.prems(1) obtain d x v where r: "map_of r (PStr ''duration'') = Some d" "py_num d = Some x"
    "map_of r (PStr ''status'') = Some v" by (auto simp: summable_result_def)
  from py_add_total [OF r(2) Cons.prems(2)] obtain c where c: "c \<in> range PInt \<union> range PFloat" "py_add dur d = Inr c" by blast
  from Cons.IH [OF _ c(1)] Cons.prems(1) r c show ?case by (simp add: dindex_def)
qed simp

lemma finalize_all_total:
  "\<forall>e \<in> set es. \<forall>r \<in> set (su_subtests e). summable_result r \<Longrightarrow> \<exists>es'. finalize_all timefmt key es = (es', Inr ()) \<and>
     map su_name es' = map su_name es \<and> map su_subtests es' = map su_subtests es"
proof (induction es)
  case (Cons e es)
  then obtain es' where es': "finalize_all timefmt key es = (es', Inr ())" "map su_name es' = map su_name es"
    "map su_subtests es' = map su_subtests es" by auto
  have "\<exists>t. totals (PInt 0) ''PASS'' (su_subtests e) = Inr t" by (rule totals_total) (use Cons.prems in auto)
  then obtain t where "totals (PInt 0) ''PASS'' (su_subtests e) = Inr t" ..
  with es' show ?case by (cases t) (simp add: finalize_suite_def)
qed simp

lemma normalized_status: "map_of (normalize_experiment_result rc) (PStr ''status'') \<noteq> None"
  by (cases rc) auto

lemma script_result_fields:
  "map_of (script_result name t rc) (PStr ''name'') = Some (PStr name)"
  "map_of (script_result name t rc) (PStr ''duration'') = Some (PFloat t)"
  "map_of (script_result name t rc) (PStr ''status'') = map_of (normalize_experiment_result rc) (PStr ''status'')"
  using normalized_status [of rc] by (auto simp: script_result_def Let_def dget_def dset_def)

lemma summable_named: "summable_result v \<Longrightarrow> summable_result (dset ''name'' k v)"
  by (simp add: summable_result_def dset_def)

lemma script_result_summable: "summable_result (script_result name t rc)"
  using normalized_status by (simp add: summable_result_def script_result_fields)

lemma yr_set_summable:
  "\<forall>r \<in> set es. summable_result r \<Longrightarrow> summable_result v \<Longrightarrow> r \<in> set (yr_set k v es) \<Longrightarrow> summable_result r"
  using yr_set_names summable_named by blast

lemma update_suite_summable:
  assumes "\<forall>e \<in> set es. \<forall>r \<in> set (su_subtests e). summable_result r" and "summable_result v"
  shows "\<forall>e \<in> set (update_suite key n v es). \<forall>r \<in> set (su_subtests e). summable_result r"
  using assms(1)
proof (induction es)
  case (Cons e es)
  have "\<forall>r \<in> set (su_subtests e). summable_result r" using Cons.prems by simp
  from yr_set_summable [OF this assms(2)] have "\<forall>r \<in> set (yr_set n v (su_subtests e)). summable_result r" by blast
  with Cons show ?case by simp
qed simp

lemma update_suite_find:
  assumes "list_ex (\<lambda>e. su_name e = key) es"
  shows "\<exists>e. find (\<lambda>e. su_name e = key) (update_suite key (PStr n) v es) = Some e \<and>
    yr_get (PStr n) (su_subtests e) = Some (dset ''name'' (PStr n) v)"
  using assms by (induction es) (auto simp: yr_get_set)

lemma find_same_maps:
  "map su_name es' = map su_name es \<Longrightarrow> map su_subtests es' = map su_subtests es \<Longrightarrow>
     map_option su_subtests (find (\<lambda>e. su_name e = k) es') = map_option su_subtests (find (\<lambda>e. su_name e = k) es)"
proof (induction es arbitrary: es')
  case (Cons e es)
  then show ?case by (cases es') auto
qed simp

lemma same_subtests_summable:
  assumes "map su_subtests es' = map su_subtests es" and "\<forall>e \<in> set es. \<forall>r \<in> set (su_subtests e). summable_result r"
  shows "\<forall>e \<in> set es'. \<forall>r \<in> set (su_subtests e). summable_result r"
proof -
  have "su_subtests ` set es' = su_subtests ` set es" using arg_cong [OF assms(1), of set] by simp
  moreover have "\<forall>rs \<in> su_subtests ` set es. \<forall>r \<in> set rs. summable_result r" using assms(2) by simp
  ultimately have "\<forall>rs \<in> su_subtests ` set es'. \<forall>r \<in> set rs. summable_result r" by simp
  then show ?thesis by simp
qed

lemma find_skip: "\<not> list_ex P es \<Longrightarrow> find P (es @ xs) = find P xs"
  by (induction es) auto

lemma gr_set_records:
  assumes "recordable g" and "summable_result v" and "map_of v (PStr ''name'') = Some (PStr n)"
  shows "\<exists>g'. gr_set timefmt key (PDict v) g = (g', Inr ()) \<and> recordable g' \<and>
    (\<exists>rs. gr_get key g' = Some rs \<and> yr_get (PStr n) rs = Some (dset ''name'' (PStr n) v))"
proof -
  have name: "dindex v ''name'' = Inr (PStr n)" using assms(3) by (simp add: dindex_def)
  obtain desc where desc: "gr_desc g = Some desc" using assms(1) by (auto simp: recordable_def)
  define es where "es = (if list_ex (\<lambda>e. su_name e = key) (gr_tests g) then update_suite key (PStr n) v (gr_tests g)
    else gr_tests g @ [\<lparr>su_name = key, su_description = desc, su_subtests = yr_set (PStr n) v [],
      su_duration = PInt 0, su_status = [], su_submission = []\<rparr>])"
  have sums: "\<forall>e \<in> set (gr_tests g). \<forall>r \<in> set (su_subtests e). summable_result r" using assms(1) by (simp add: recordable_def)
  have "\<forall>e \<in> set es. \<forall>r \<in> set (su_subtests e). summable_result r"
    using sums update_suite_summable [OF sums assms(2)] summable_named [OF assms(2)] by (simp add: es_def)
  moreover obtain es' where f: "finalize_all timefmt key es = (es', Inr ())" "map su_name es' = map su_name es"
    "map su_subtests es' = map su_subtests es" using finalize_all_total [OF calculation] by blast
  ultimately have "\<forall>e \<in> set es'. \<forall>r \<in> set (su_subtests e). summable_result r" using same_subtests_summable by blast
  then have "recordable (g\<lparr>gr_tests := es'\<rparr>)" using desc by (simp add: recordable_def)
  moreover have "gr_set timefmt key (PDict v) g = (g\<lparr>gr_tests := es'\<rparr>, Inr ())"
    using name desc f(1) by (simp add: gr_set_def es_def split: if_splits)
  moreover have "\<exists>rs. map_option su_subtests (find (\<lambda>e. su_name e = key) es) = Some rs \<and>
      yr_get (PStr n) rs = Some (dset ''name'' (PStr n) v)"
  proof (cases "list_ex (\<lambda>e. su_name e = key) (gr_tests g)")
    case True
    with update_suite_find [OF True, of n v] show ?thesis by (auto simp: es_def)
  next
    case False
    with find_skip [OF False] show ?thesis by (simp add: es_def yr_get_def named_def)
  qed
  ultimately show ?thesis using find_same_maps [OF f(2,3), of key] by (auto simp: gr_get_def)
qed



subsection \<open>Running\<close>

text \<open>
  A collection runs the selected scripts that are not skipped, each once and in alphabetical order,
  until one raises; the progress grows to 100.
\<close>

lemma exec_loop_all:
  "\<forall>k \<in> set ks. outcome k = Inr () \<Longrightarrow> exec_loop outcome num n ks =
     (map (\<lambda>(i, k). (k, progress_of (Suc i) num)) (zip [n..<n + length ks] ks), Inr ())"
proof (induction ks arbitrary: n)
  case (Cons k ks)
  have "[n..<n + length (k # ks)] = n # [Suc n..<Suc n + length ks]" by (simp add: upt_rec)
  with Cons show ?case by simp
qed simp

lemma progress_bounds: "0 < n \<Longrightarrow> i \<le> n \<Longrightarrow> 0 \<le> progress_of i n \<and> progress_of i n \<le> 100"
proof -
  assume "0 < n" "i \<le> n"
  then have "real i / real n \<le> 1" by simp
  then have "real i / real n * 100 \<le> 100" using mult_right_mono [of "real i / real n" 1 100] by simp
  then show ?thesis by (auto simp: progress_of_def floor_le_iff)
qed

lemma progress_last: "0 < n \<Longrightarrow> progress_of n n = 100"
  by (simp add: progress_of_def)

lemma execute_collection_all:
  assumes "\<forall>k \<in> set (runnable match co). outcome k = Inr ()" and "runnable match co \<noteq> []"
  shows "\<exists>cs. execute_collection outcome match 0 co = (cs, Inr ()) \<and> map fst cs = runnable match co \<and>
    sorted (map fst cs) \<and> snd (last cs) = 100 \<and> (\<forall>c \<in> set cs. 0 \<le> snd c \<and> snd c \<le> 100)"
proof -
  let ?ks = "runnable match co" and ?n = "get_num_scripts match co"
  let ?cs = "map (\<lambda>(i, k). (k, progress_of (Suc i) ?n)) (zip [0..<?n] ?ks)"
  have n: "?n = length ?ks" "0 < ?n" using assms(2) by (simp_all add: get_num_scripts_def)
  have e: "execute_collection outcome match 0 co = (?cs, Inr ())"
    using exec_loop_all [OF assms(1), of ?n 0] n(1) by (simp add: execute_collection_def)
  have "last (zip [0..<?n] ?ks) = (?n - 1, last ?ks)" using assms(2) n by (simp add: last_zip)
  then have "snd (last ?cs) = 100" using n assms(2) progress_last [OF n(2)] by (simp add: last_map)
  moreover have "map fst ?cs = ?ks" using n(1) by (auto simp: comp_def case_prod_beta' map_snd_zip_take)
  moreover have "sorted ?ks"
    unfolding runnable_def using sorted_filter [of "\<lambda>x. x" "sort (map fst (co_db co))"] by simp
  moreover have "\<forall>c \<in> set ?cs. 0 \<le> snd c \<and> snd c \<le> 100"
    using progress_bounds [OF n(2)] by (auto dest!: set_zip_leftD)
  ultimately show ?thesis using e by metis
qed

end
