(* ===== verification/Config.thy ===== *)
theory Config
  imports Runtime_Cfg Suites
begin

section \<open>The configuration of a process\<close>

text \<open>
  The functions of \<open>src/python/infra/defw.py\<close> that configure a process from its environment and a YAML
  file: substitution of variables, the defaults of the generic configuration, the search path and
  \<open>configure_defw\<close>, which hands the values to the C runtime. The environment is a dictionary of
  strings with the names and values that the operating system accepts. The parsed file is an
  argument; no object occurs in it twice.
\<close>

subsection \<open>Search paths\<close>

definition append_absent :: "string list \<Rightarrow> string list \<Rightarrow> string list" where
  "append_absent sys_path paths = foldl (\<lambda>sp p. if p \<in> set sp then sp else sp @ [p]) sys_path paths"

definition setup_external_paths :: "string list \<Rightarrow> bool \<Rightarrow> string list \<Rightarrow> string list" where
  "setup_external_paths paths prepend sys_path =
     (if prepend then foldl (\<lambda>sp p. put_first p sp) sys_path (rev paths)
      else append_absent sys_path paths)"

definition DEFW_SCRIPT_PATHS :: "string list" where
  "DEFW_SCRIPT_PATHS = [''src/'', ''python/'', ''python/service-apis'', ''python/service-apis/util'', ''python/services'',
     ''python/services/util'', ''python/infra'', ''python/config'', ''python/experiments'']"

definition setup_paths :: "string \<Rightarrow> dict \<Rightarrow> string list \<Rightarrow> string list result" where
  "setup_paths defw_path environ sys_path =
     foldl (\<lambda>r env_var. ebind r (\<lambda>sp.
          ebind (split_external_paths (dget environ env_var (PStr []))) (\<lambda>ps. Inr (setup_external_paths ps True sp))))
       (Inr (append_absent sys_path (map (path_join defw_path) DEFW_SCRIPT_PATHS)))
       [''DEFW_EXTERNAL_SERVICE_APIS_PATH'', ''DEFW_EXTERNAL_SERVICES_PATH'', ''DEFW_EXTERNAL_EXPERIMENTS_PATH'']"

text \<open>
  The directories of a kind of suite and the new search path: \<open>external\<close> is the value of the
  configuration, if it can be read; an external value that cannot be split is ignored.
\<close>

definition suite_paths :: "string \<Rightarrow> string \<Rightarrow> pyval result \<Rightarrow> string list \<Rightarrow> string list \<times> string list" where
  "suite_paths defw_path kind external sys_path =
     (let base = path_join (path_join defw_path ''python'') kind in
      case ebind external split_external_paths of
        Inl _ \<Rightarrow> ([base], sys_path)
      | Inr ps \<Rightarrow> (base # ps, setup_external_paths ps False sys_path))"

subsection \<open>Variables\<close>

text \<open>\<open>s.split("${")\<close>.\<close>

fun split_open :: "string \<Rightarrow> string \<Rightarrow> string list" where
  "split_open acc (c # d # cs) =
     (if c = CHR ''$'' \<and> d = CHR ''{'' then rev acc # split_open [] cs else split_open (c # acc) (d # cs))"
| "split_open acc cs = [rev acc @ cs]"

text \<open>
  The value of a variable: a keyword, or one of the environment. \<open>blocks\<close> are the keys above the text;
  the call fails without a block, and so does the concatenation if the key is not a string.
\<close>

fun str_of :: "pyval \<Rightarrow> string option" where
  "str_of (PStr s) = Some s"
| "str_of _ = None"

definition variable :: "string \<Rightarrow> string \<Rightarrow> dict \<Rightarrow> pyval list \<Rightarrow> string \<Rightarrow> string option" where
  "variable today now environ blocks var =
     (if var = ''DATE'' then Some today
      else if var = ''TIME'' then Some now
      else if var = ''YNEAR'' then (if blocks = [] then None else str_of (last blocks))
      else if var = ''YTOP'' then (if blocks = [] then None else str_of (hd blocks))
      else str_of (dget0 environ var))"

definition resolve_segment :: "(string \<Rightarrow> string option) \<Rightarrow> string \<Rightarrow> string" where
  "resolve_segment lk seg =
     (if CHR ''}'' \<notin> set seg then seg
      else case lk (takeWhile (\<lambda>c. c \<noteq> CHR ''}'') seg) of
        Some env \<Rightarrow> env @ tl (dropWhile (\<lambda>c. c \<noteq> CHR ''}'') seg)
      | None \<Rightarrow> [])"

definition resolve_env_var :: "(string \<Rightarrow> string option) \<Rightarrow> string \<Rightarrow> string" where
  "resolve_env_var lk s =
     (let segments = split_open [] s in
      if length segments = 1 then s else concat (map (resolve_segment lk) segments))"

definition resolve_in :: "string \<Rightarrow> string \<Rightarrow> dict \<Rightarrow> pyval list \<Rightarrow> string \<Rightarrow> string" where
  "resolve_in today now environ blocks = resolve_env_var (variable today now environ blocks)"

text \<open>
  \<open>recurse_dictionary\<close> with the callback applied in place: a text below a dictionary or in a list is
  replaced; a list in a list is left alone.
\<close>

fun recurse_dictionary :: "(pyval list \<Rightarrow> string \<Rightarrow> string) \<Rightarrow> pyval list \<Rightarrow> pyval \<Rightarrow> pyval" where
  "recurse_dictionary cb blocks (PDict d) = PDict (map (\<lambda>(k, v). (k, recurse_dictionary cb (blocks @ [k]) v)) d)"
| "recurse_dictionary cb blocks (PList xs) =
     PList (map (\<lambda>l. case l of PDict _ \<Rightarrow> recurse_dictionary cb blocks l | PStr s \<Rightarrow> PStr (cb blocks s) | _ \<Rightarrow> l) xs)"
| "recurse_dictionary cb blocks (PStr s) = PStr (cb blocks s)"
| "recurse_dictionary cb blocks v = v"

text \<open>One variable of the block \<open>environment\<close>: a search path is extended, any other variable is set.\<close>

definition set_env_var :: "(pyval \<Rightarrow> string) \<Rightarrow> string \<Rightarrow> string \<Rightarrow> pyval \<times> pyval \<Rightarrow> dict \<Rightarrow> dict result" where
  "set_env_var rp today now kv environ =
     (case kv of (k, v) \<Rightarrow>
        (let t = resolve_in today now environ [] (py_str rp v) in
         case k of
           PStr name \<Rightarrow>
             if name = ''PATH'' \<or> name = ''LD_LIBRARY_PATH'' \<and> map_of environ k \<noteq> None then
               ebind (dindex environ name) (\<lambda>old.
                 case old of PStr s \<Rightarrow> Inr (dset name (PStr (s @ '':'' @ t)) environ) | _ \<Rightarrow> Inl PyTypeError)
             else Inr (dset name (PStr t) environ)
         | _ \<Rightarrow> Inl PyTypeError))"

fun set_each_env_var :: "(pyval \<Rightarrow> string) \<Rightarrow> string \<Rightarrow> string \<Rightarrow> dict \<Rightarrow> dict \<Rightarrow> dict result" where
  "set_each_env_var rp today now [] environ = Inr environ"
| "set_each_env_var rp today now (kv # kvs) environ =
     ebind (set_env_var rp today now kv environ) (set_each_env_var rp today now kvs)"

text \<open>
  \<open>set_env_vars\<close>: the block with its texts resolved and the new environment. A block that is a text, or
  a list with a text, cannot be assigned to; anything else has no items.
\<close>

definition set_env_vars :: "(pyval \<Rightarrow> string) \<Rightarrow> string \<Rightarrow> string \<Rightarrow> pyval \<Rightarrow> dict \<Rightarrow> (pyval \<times> dict) result" where
  "set_env_vars rp today now env environ =
     (case env of
        PDict d \<Rightarrow>
          (let env' = recurse_dictionary (resolve_in today now environ) [] env in
           ebind (py_items env') (\<lambda>kvs. ebind (set_each_env_var rp today now kvs environ) (\<lambda>e. Inr (env', e))))
      | PStr _ \<Rightarrow> Inl PyTypeError
      | PList xs \<Rightarrow> if list_ex (\<lambda>x. str_of x \<noteq> None) xs then Inl PyTypeError else Inl PyAttributeError
      | _ \<Rightarrow> Inl PyAttributeError)"

definition resolve_environment_vars ::
  "(pyval \<Rightarrow> string) \<Rightarrow> string \<Rightarrow> string \<Rightarrow> dict \<Rightarrow> dict \<Rightarrow> (dict \<times> dict) result" where
  "resolve_environment_vars rp today now config environ =
     ebind (case map_of config (PStr ''environment'') of
              None \<Rightarrow> Inr (config, environ)
            | Some env \<Rightarrow> ebind (set_env_vars rp today now env environ) (\<lambda>(env', e). Inr (dset ''environment'' env' config, e)))
       (\<lambda>(config', e). ebind (py_items (recurse_dictionary (resolve_in today now e) [] (PDict config'))) (\<lambda>c. Inr (c, e)))"

subsection \<open>Defaults of the generic configuration\<close>

definition set_default_env :: "string \<Rightarrow> string \<Rightarrow> dict \<Rightarrow> dict" where
  "set_default_env name v environ = (if truthy (dget0 environ name) then environ else dset name (PStr v) environ)"

definition parent_vars :: "string list" where
  "parent_vars = [''DEFW_PARENT_ADDR'', ''DEFW_PARENT_HOSTNAME'', ''DEFW_PARENT_NAME'', ''DEFW_PARENT_PORT'']"

definition generic_defaults :: "string \<Rightarrow> string \<Rightarrow> (string \<times> string) list" where
  "generic_defaults agent_name defw_path =
     [(''DEFW_AGENT_NAME'', agent_name), (''DEFW_AGENT_TYPE'', ''agent''), (''DEFW_SHELL_TYPE'', ''cmdline''),
      (''DEFW_LISTEN_PORT'', ''0''), (''DEFW_TELNET_PORT'', ''0''), (''DEFW_PARENT_ADDR'', ''0.0.0.0''),
      (''DEFW_PARENT_HOSTNAME'', ''None''), (''DEFW_PARENT_NAME'', ''None''), (''DEFW_PARENT_PORT'', ''0''),
      (''DEFW_PATH'', defw_path), (''DEFW_LOG_DIR'', path_join ''/tmp'' agent_name), (''DEFW_LOG_LEVEL'', ''error''),
      (''DEFW_EXTERNAL_SERVICES_PATH'', []), (''DEFW_EXTERNAL_SERVICE_APIS_PATH'', []), (''DEFW_EXTERNAL_EXPERIMENTS_PATH'', [])]"

text \<open>\<open>hex8\<close> are eight digits of a fresh uuid.\<close>

definition setup_generic_config_defaults :: "string \<Rightarrow> string \<Rightarrow> dict \<Rightarrow> dict" where
  "setup_generic_config_defaults hex8 defw_path environ =
     (let agent_name = (case dget0 environ ''DEFW_AGENT_NAME'' of PStr (c # cs) \<Rightarrow> c # cs | _ \<Rightarrow> ''defw_python_'' @ hex8);
          environ1 = (if list_ex (\<lambda>v. truthy (dget0 environ v)) parent_vars then environ
                      else set_default_env ''DEFW_DISABLE_DIRSVC'' ''yes'' environ) in
      foldl (\<lambda>e (n, v). set_default_env n v e) environ1 (generic_defaults agent_name defw_path))"

subsection \<open>Configuring the process\<close>

text \<open>
  What the process asks the system for: the working directory, whether a file exists, the parsed
  file, the name of the host, the date and the time, and random names and numbers.
\<close>

record world =
  wo_cwd :: string
  wo_isfile :: "string \<Rightarrow> bool"
  wo_yaml :: "string \<Rightarrow> pyval result"
  wo_hostname :: string
  wo_today :: string
  wo_now :: string
  wo_hex8 :: string
  wo_telnet_port :: int
  wo_name :: string
  wo_str :: "pyval \<Rightarrow> string"

record config_state =
  cf_environ :: dict
  cf_only_load :: "string list"
  cf_noinit_load :: "string list"
  cf_defw_path :: string
  cf_yaml :: dict
  cf_rt :: runtime_cfg

definition listed :: "dict \<Rightarrow> string \<Rightarrow> string list" where
  "listed environ var = (case dget0 environ var of PStr s \<Rightarrow> split_on CHR '','' s | _ \<Rightarrow> [])"

definition own_defw_path :: "world \<Rightarrow> dict \<Rightarrow> string" where
  "own_defw_path w environ = (case dget0 environ ''DEFW_PATH'' of PStr s \<Rightarrow> s | _ \<Rightarrow> wo_cwd w)"

definition config_file :: "world \<Rightarrow> dict \<Rightarrow> string" where
  "config_file w environ =
     (case dget0 environ ''DEFW_CONFIG_PATH'' of
        PStr s \<Rightarrow> s
      | _ \<Rightarrow>
          (let installed = foldl path_join (own_defw_path w environ) [''share'', ''defw'', ''config'', ''defw_generic.yaml''] in
           if wo_isfile w installed then installed
           else foldl path_join (own_defw_path w environ) [''python'', ''config'', ''defw_generic.yaml'']))"

definition basename :: "string \<Rightarrow> string" where
  "basename p = rev (takeWhile (\<lambda>c. c \<noteq> CHR ''/'') (rev p))"

text \<open>\<open>dw\<close> is the block \<open>defw\<close> of the file.\<close>

definition apply_parent :: "world \<Rightarrow> dict \<Rightarrow> runtime_cfg \<Rightarrow> runtime_cfg outcome" where
  "apply_parent w dw rc =
     (if \<not> rc_disable_dirsvc rc then
        cbind (Some (dindex dw ''parent-name'')) (\<lambda>v.
        cbind (set_parent_name v rc) (\<lambda>rc.
        cbind (Some (ebind (dindex dw ''parent-port'') py_int)) (\<lambda>n.
        cbind (set_parent_port n rc) (\<lambda>rc.
        if map_of dw (PStr ''parent-address'') = None \<and> map_of dw (PStr ''parent-hostname'') = None
        then Some (Inl (DEFwError ''No Parent configured for this process. Can not proceed''))
        else
          cbind (ctry (cbind (Some (dindex dw ''parent-address'')) (\<lambda>v. set_parent_address v rc)) (Some (Inr rc))) (\<lambda>rc.
          cbind (ctry (cbind (Some (dindex dw ''parent-hostname'')) (\<lambda>v. set_parent_hostname v rc)) (Some (Inr rc))) (\<lambda>rc.
          set_hostname (PStr (wo_hostname w)) rc))))))
      else
        cbind (set_parent_name (PStr ''None'') rc) (\<lambda>rc.
        cbind (set_parent_port 0 rc) (\<lambda>rc.
        cbind (set_parent_address (PStr ''0.0.0.0'') rc) (\<lambda>rc.
        cbind (set_parent_hostname (PStr ''None'') rc) (\<lambda>rc.
        set_hostname (PStr ''None'') rc)))))"

definition apply_listen :: "dict \<Rightarrow> runtime_cfg \<Rightarrow> runtime_cfg outcome" where
  "apply_listen dw rc =
     cbind (ctry (cbind (Some (ebind (dindex dw ''listen-address'') py_int)) (\<lambda>n. set_listen_address (PInt n) rc))
                 (set_listen_address (PStr []) rc)) (\<lambda>rc.
     ctry (cbind (Some (ebind (dindex dw ''listen-port'') py_int)) (\<lambda>n. set_listen_port n rc))
          (cbind (Some (dindex dw ''type'')) (\<lambda>t.
             case t of
               PStr s \<Rightarrow> set_listen_port (if py_upper s = ''AGENT'' then 8091 else 8090) rc
             | _ \<Rightarrow> Some (Inl PyAttributeError))))"

definition log_level :: "dict \<Rightarrow> int" where
  "log_level dw =
     (case dget0 dw ''loglevel'' of
        PStr s \<Rightarrow> (if py_upper s = ''ERROR'' then 1 else if py_upper s = ''DEBUG'' then 2
                  else if py_upper s = ''MESSAGE'' then 3 else if py_upper s = ''ALL'' then 4 else 1)
      | _ \<Rightarrow> 1)"

definition apply_config :: "world \<Rightarrow> dict \<Rightarrow> runtime_cfg \<Rightarrow> runtime_cfg outcome" where
  "apply_config w dw rc =
     cbind (Some (dindex dw ''path'')) (\<lambda>v.
     cbind (set_defw_path v rc) (\<lambda>rc.
     cbind (apply_parent w dw rc) (\<lambda>rc.
     cbind (Some (dindex dw ''shell'')) (\<lambda>v.
     cbind (set_defw_mode v rc) (\<lambda>rc.
     cbind (Some (dindex dw ''type'')) (\<lambda>v.
     cbind (set_defw_type v rc) (\<lambda>rc.
     cbind (ctry (cbind (Some (dindex dw ''tmp'')) (\<lambda>v. set_defw_tmp_dir v rc)) (Some (Inr rc))) (\<lambda>rc.
     cbind (apply_listen dw rc) (\<lambda>rc.
     cbind (ctry (cbind (Some (ebind (dindex dw ''telnet-port'') py_int)) (\<lambda>n. set_agent_telnet_port n rc))
                 (set_agent_telnet_port (wo_telnet_port w) rc)) (\<lambda>rc.
     cbind (ctry (cbind (Some (dindex dw ''name'')) (\<lambda>v. set_node_name v rc))
                 (set_node_name (PStr (wo_name w)) rc)) (\<lambda>rc.
     Some (Inr (set_defw_safe_shutdown (py_eq (dget0 dw ''shutdown'') (PStr ''SAFE'')) (set_log_level (log_level dw) rc))))))))))))))"

definition configure_defw :: "world \<Rightarrow> dict \<Rightarrow> runtime_cfg \<Rightarrow> config_state outcome" where
  "configure_defw w environ rc =
     (let defw_path = own_defw_path w environ;
          config = config_file w environ;
          environ1 = (if basename config = ''defw_generic.yaml''
                      then setup_generic_config_defaults (wo_hex8 w) defw_path environ else environ);
          rc1 = (case dget0 environ1 ''DEFW_DISABLE_DIRSVC'' of
                   PStr s \<Rightarrow> if py_upper s = ''YES'' then disable_dirsvc rc else rc
                 | _ \<Rightarrow> rc) in
      if \<not> wo_isfile w config then Some (Inl (DEFwError ''Failed to find a configuration file. Aborting''))
      else
        cbind (Some (wo_yaml w config)) (\<lambda>cy.
        case cy of
          PDict c0 \<Rightarrow>
            cbind (Some (resolve_environment_vars (wo_str w) (wo_today w) (wo_now w) c0 environ1)) (\<lambda>(c, environ2).
            cbind (Some (dindex c ''defw'')) (\<lambda>dwv.
            case dwv of
              PDict dw \<Rightarrow>
                cbind (apply_config w dw rc1) (\<lambda>rc2.
                Some (Inr \<lparr>cf_environ = environ2, cf_only_load = listed environ ''DEFW_ONLY_LOAD_MODULE'',
                  cf_noinit_load = listed environ ''DEFW_LOAD_NO_INIT'', cf_defw_path = defw_path, cf_yaml = c, cf_rt = rc2\<rparr>))
            | _ \<Rightarrow> Some (Inl PyTypeError)))
        | _ \<Rightarrow> Some (Inl PyTypeError)))"

text \<open>The file \<open>src/python/config/defw_generic.yaml\<close>.\<close>

definition generic_yaml :: pyval where
  "generic_yaml = PDict [(PStr ''defw'', PDict
     [(PStr ''parent-address'', PStr ''${DEFW_PARENT_ADDR}''),
      (PStr ''parent-port'', PStr ''${DEFW_PARENT_PORT}''),
      (PStr ''parent-hostname'', PStr ''${DEFW_PARENT_HOSTNAME}''),
      (PStr ''parent-name'', PStr ''${DEFW_PARENT_NAME}''),
      (PStr ''name'', PStr ''${DEFW_AGENT_NAME}''),
      (PStr ''listen-port'', PStr ''${DEFW_LISTEN_PORT}''),
      (PStr ''telnet-port'', PStr ''${DEFW_TELNET_PORT}''),
      (PStr ''shell'', PStr ''${DEFW_SHELL_TYPE}''),
      (PStr ''type'', PStr ''${DEFW_AGENT_TYPE}''),
      (PStr ''path'', PStr ''${DEFW_PATH}''),
      (PStr ''tmp'', PStr ''${DEFW_LOG_DIR}''),
      (PStr ''loglevel'', PStr ''${DEFW_LOG_LEVEL}''),
      (PStr ''external-services'', PStr ''${DEFW_EXTERNAL_SERVICES_PATH}''),
      (PStr ''external-service-apis'', PStr ''${DEFW_EXTERNAL_SERVICE_APIS_PATH}''),
      (PStr ''external-experiments'', PStr ''${DEFW_EXTERNAL_EXPERIMENTS_PATH}'')])]"

subsection \<open>Substitution of variables\<close>

text \<open>A text with variables, as it is written in a configuration, and what it stands for.\<close>

definition template_text :: "string \<Rightarrow> (string \<times> string) list \<Rightarrow> string" where
  "template_text lit vs = lit @ concat (map (\<lambda>(v, t). ''${'' @ v @ ''}'' @ t) vs)"

definition template_value :: "(string \<Rightarrow> string option) \<Rightarrow> string \<Rightarrow> (string \<times> string) list \<Rightarrow> string" where
  "template_value lk lit vs = lit @ concat (map (\<lambda>(v, t). case lk v of Some x \<Rightarrow> x @ t | None \<Rightarrow> []) vs)"

definition plain_text :: "string \<Rightarrow> bool" where
  "plain_text s \<longleftrightarrow> CHR ''$'' \<notin> set s \<and> CHR ''}'' \<notin> set s"

lemma split_open_plain: "CHR ''$'' \<notin> set s \<Longrightarrow> split_open acc s = [rev acc @ s]"
  by (induction acc s rule: split_open.induct) auto

lemma split_open_var: "CHR ''$'' \<notin> set s \<Longrightarrow> split_open acc (s @ CHR ''$'' # CHR ''{'' # cs) = (rev acc @ s) # split_open [] cs"
proof (induction s arbitrary: acc)
  case (Cons c s)
  then show ?case by (cases s) auto
qed simp

lemma split_open_template:
  assumes "CHR ''$'' \<notin> set lit" and "\<forall>(v, t) \<in> set vs. CHR ''$'' \<notin> set v \<and> CHR ''$'' \<notin> set t"
  shows "split_open [] (template_text lit vs) = lit # map (\<lambda>(v, t). v @ ''}'' @ t) vs"
  using assms
proof (induction vs arbitrary: lit)
  case Nil
  then show ?case by (simp add: template_text_def split_open_plain)
next
  case (Cons p vs)
  obtain v t where p: "p = (v, t)" by (cases p)
  have "template_text lit (p # vs) = lit @ CHR ''$'' # CHR ''{'' # template_text (v @ ''}'' @ t) vs"
    by (simp add: template_text_def p)
  moreover have "split_open [] (template_text (v @ ''}'' @ t) vs) = (v @ ''}'' @ t) # map (\<lambda>(v, t). v @ ''}'' @ t) vs"
    by (rule Cons.IH) (use Cons.prems(2) p in auto)
  ultimately show ?case using split_open_var [OF Cons.prems(1), of "[]"] by (simp add: p)
qed

lemma resolve_segment_var:
  assumes "CHR ''}'' \<notin> set v"
  shows "resolve_segment lk (v @ CHR ''}'' # t) = (case lk v of Some x \<Rightarrow> x @ t | None \<Rightarrow> [])"
proof -
  have "takeWhile (\<lambda>c. c \<noteq> CHR ''}'') (v @ CHR ''}'' # t) = v" "dropWhile (\<lambda>c. c \<noteq> CHR ''}'') (v @ CHR ''}'' # t) = CHR ''}'' # t"
    using assms by (induction v) auto
  then show ?thesis by (cases "lk v") (simp_all add: resolve_segment_def del: takeWhile_append)
qed

text \<open>
  C35: variables are substituted. A text of plain pieces and variables resolves to the pieces with the
  values in place of the variables, and the values are not looked at again; a variable that has no
  value takes the piece behind it away as well.
\<close>
theorem resolve_env_var_template:
  assumes "plain_text lit" and "\<forall>(v, t) \<in> set vs. plain_text v \<and> plain_text t"
  shows "resolve_env_var lk (template_text lit vs) = template_value lk lit vs"
proof -
  have s: "split_open [] (template_text lit vs) = lit # map (\<lambda>(v, t). v @ ''}'' @ t) vs"
    using assms by (intro split_open_template) (auto simp: plain_text_def)
  have v: "map (\<lambda>x. resolve_segment lk (case x of (v, t) \<Rightarrow> v @ CHR ''}'' # t)) vs =
      map (\<lambda>(v, t). case lk v of Some x \<Rightarrow> x @ t | None \<Rightarrow> []) vs"
    using assms(2) by (intro map_cong [OF refl]) (fastforce simp: plain_text_def resolve_segment_var)
  have lit: "resolve_segment lk lit = lit" using assms(1) by (simp add: resolve_segment_def plain_text_def)
  show ?thesis
  proof (cases "vs = []")
    case True
    then show ?thesis unfolding resolve_env_var_def Let_def s by (simp add: template_text_def template_value_def)
  next
    case False
    then show ?thesis unfolding resolve_env_var_def Let_def s
      by (simp add: comp_def v lit template_value_def)
  qed
qed

theorem resolve_env_var_template_witness:
  "resolve_env_var (variable ''d'' ''t'' [(PStr ''HOME'', PStr ''/h'')] []) ''log/${HOME}/x${NONE}/y'' = ''log//h/x''"
  using resolve_env_var_template [of "''log/''" "[(''HOME'', ''/x''), (''NONE'', ''/y'')]"
    "variable ''d'' ''t'' [(PStr ''HOME'', PStr ''/h'')] []"]
  by (simp add: plain_text_def template_text_def template_value_def variable_def)

text \<open>A single variable is replaced by its value.\<close>

lemma resolve_var:
  assumes "plain_text v"
  shows "resolve_env_var lk (CHR ''$'' # CHR ''{'' # v @ ''}'') = (case lk v of Some x \<Rightarrow> x | None \<Rightarrow> [])"
proof -
  have "split_open [] (CHR ''$'' # CHR ''{'' # v @ ''}'') = [[], v @ ''}'']"
    using split_open_template [of "[]" "[(v, [])]"] assms by (simp add: template_text_def plain_text_def)
  then show ?thesis using assms resolve_segment_var [of v lk "[]"]
    by (simp add: resolve_env_var_def resolve_segment_def [of _ "[]"] plain_text_def split: option.splits)
qed

end
