(* ===== verification/Startup.thy ===== *)
theory Startup
  imports Config App_Util
begin

section \<open>Starting a process\<close>

text \<open>
  The class \<open>Myself\<close> of \<open>src/python/infra/defw.py\<close> and the code at the end of that file, which runs
  when the module is imported for the first time: it configures the process, sets up the search path,
  creates the process's own endpoint and loads experiments, services and service interfaces. The
  network interfaces, the directories and the imported modules are arguments.
\<close>

subsection \<open>The own process (\<open>Myself\<close>)\<close>

text \<open>
  \<open>host_addr\<close> is the address of the own host, \<open>uuid\<close> the id of the runtime. Reading a name without a
  terminator leaves its buffer: then there is no result.
\<close>

definition make_myself :: "world \<Rightarrow> string \<Rightarrow> int \<Rightarrow> string \<Rightarrow> runtime_cfg \<Rightarrow> endpoint outcome" where
  "make_myself w host_addr pid uuid rc =
     (case c_string (rc_node_name rc) of
        None \<Rightarrow> None
      | Some name \<Rightarrow>
          (let addr = (if get_listen_address rc = ''0.0.0.0'' then host_addr else get_listen_address rc);
               port = PInt (get_listen_port rc) in
           Some (make_endpoint (PStr addr) port port (PInt pid) (PStr name) (PStr (wo_hostname w)) (PInt (rc_type rc))
             (PStr uuid) (PStr ZERO_UUID))))"

text \<open>\<open>my_type\<close> returns nothing.\<close>

definition my_type :: "endpoint \<Rightarrow> pyval result" where
  "my_type me = ebind (node_type2str me) (\<lambda>_. Inr PNone)"

fun py_upper_val :: "pyval \<Rightarrow> string result" where
  "py_upper_val (PStr s) = Inr (py_upper s)"
| "py_upper_val _ = Inl PyAttributeError"

definition same_upper :: "pyval \<Rightarrow> pyval \<Rightarrow> bool result" where
  "same_upper a b = ebind (py_upper_val a) (\<lambda>x. ebind (py_upper_val b) (\<lambda>y. Inr (x = y)))"

text \<open>\<open>a and b\<close> of two conditions that can raise.\<close>

definition eand :: "bool result \<Rightarrow> bool result \<Rightarrow> bool result" where
  "eand a b = ebind a (\<lambda>x. if x then b else Inr False)"

definition is_self :: "int \<Rightarrow> endpoint \<Rightarrow> endpoint \<Rightarrow> bool result" where
  "is_self pid me target =
     eand (same_upper (ep_name target) (ep_name me))
     (eand (same_upper (ep_hostname target) (ep_hostname me))
     (eand (ebind (my_type me) (\<lambda>t. Inr (py_eq (ep_node_type target) t)))
     (eand (Inr (py_eq (PInt pid) (ep_pid target)))
     (eand (Inr (py_eq (ep_addr target) (ep_addr me)))
           (Inr (py_eq (ep_port target) (ep_port me)))))))"

text \<open>
  The assignment of a line of a shell script: \<open>s.split('=')\<close> must give two parts, of which the second
  is taken without the quotes around it.
\<close>

definition strip_quotes :: "string \<Rightarrow> string" where
  "strip_quotes s = rev (dropWhile (\<lambda>c. c = CHR 34) (rev (dropWhile (\<lambda>c. c = CHR 34) s)))"

definition export_line :: "string \<Rightarrow> dict \<Rightarrow> dict result" where
  "export_line line environ =
     (if sublist ''export '' line then
        (case split_on CHR ''='' (remove_all ''export '' line) of
           k # v # _ \<Rightarrow> Inr (dset (py_strip k) (PStr (strip_quotes (py_strip v))) environ)
         | _ \<Rightarrow> Inl PyIndexError)
      else Inr environ)"

fun import_env_vars :: "string list \<Rightarrow> dict \<Rightarrow> dict \<times> unit result" where
  "import_env_vars [] environ = (environ, Inr ())"
| "import_env_vars (l # ls) environ =
     (case export_line l environ of Inl e \<Rightarrow> (environ, Inl e) | Inr e' \<Rightarrow> import_env_vars ls e')"

definition get_test_progress_path :: "dict \<Rightarrow> runtime_cfg \<Rightarrow> pyval option result" where
  "get_test_progress_path cy rc =
     ebind (dindex cy ''defw'') (\<lambda>dw.
     ebind (py_contains (PStr ''test-progress'') dw) (\<lambda>b.
     if b then ebind (py_getitem dw ''test-progress'') (\<lambda>v. Inr (Some v))
     else Inr (map_option (\<lambda>t. PStr (path_join t ''defw_test_progress.out'')) (c_string (rc_tmp_dir rc)))))"

definition get_num_cpus :: "dict \<Rightarrow> int result" where
  "get_num_cpus cpuinfo = ebind (dindex cpuinfo ''CPU(s)'') py_int"

definition get_num_numa_nodes :: "dict \<Rightarrow> int result" where
  "get_num_numa_nodes cpuinfo = ebind (dindex cpuinfo ''NUMA node(s)'') py_int"

text \<open>The interfaces whose address, mask and broadcast address are all known.\<close>

definition list_intfs :: "(string \<Rightarrow> (string \<times> string \<times> string) result) \<Rightarrow> string list \<Rightarrow> dict" where
  "list_intfs ifaddr names =
     [(PStr ''interfaces'', PDict (dupdate [] (concat (map (\<lambda>n.
        case ifaddr n of
          Inr (ip, nm, bc) \<Rightarrow> [(PStr n, PDict [(PStr ''ip'', PStr ip), (PStr ''netmask'', PStr nm), (PStr ''broadcast'', PStr bc)])]
        | Inl _ \<Rightarrow> []) names))))]"

subsection \<open>Where a report is written\<close>

text \<open>\<open>dumpGlobalTestResults\<close>: the file, if there is one, and the report; \<open>desc\<close> is not used.\<close>

definition report_path :: "string \<Rightarrow> string option \<Rightarrow> string option" where
  "report_path tmp_dir fname =
     (case fname of
        Some (c # cs) \<Rightarrow> Some (if CHR ''/'' \<in> set (c # cs) then c # cs else path_join tmp_dir (c # cs))
      | _ \<Rightarrow> None)"

subsection \<open>Loading the modules\<close>

definition external_paths :: "config_state \<Rightarrow> string \<Rightarrow> pyval result" where
  "external_paths cs key = ebind (dindex (cf_yaml cs) ''defw'') (\<lambda>dw. py_getitem dw key)"

text \<open>The services and the service interfaces of a process.\<close>

definition service_rules :: "config_state \<Rightarrow> endpoint \<Rightarrow> load_rules" where
  "service_rules cs me =
     \<lparr>lr_prefix = ''svc_'', lr_noinit = cf_noinit_load cs, lr_only = cf_only_load cs, lr_is_dirsvc = is_dirsvc me,
      lr_noload_dirsvc = True\<rparr>"

definition api_rules :: "config_state \<Rightarrow> endpoint \<Rightarrow> load_rules" where
  "api_rules cs me =
     \<lparr>lr_prefix = ''api_'', lr_noinit = cf_noinit_load cs, lr_only = cf_only_load cs, lr_is_dirsvc = is_dirsvc me,
      lr_noload_dirsvc = False\<rparr>"

definition load_kind ::
  "load_rules \<Rightarrow> string \<Rightarrow> string \<Rightarrow> config_state \<Rightarrow> (string \<Rightarrow> string list option) \<Rightarrow> (string \<Rightarrow> string \<Rightarrow> string result)
     \<Rightarrow> load_state \<Rightarrow> load_state result" where
  "load_kind lr kind key cs walk info st =
     (case suite_paths (cf_defw_path cs) kind (external_paths cs key) (ls_sys_path st) of
        (paths, sp) \<Rightarrow> generate_services lr walk info paths (st\<lparr>ls_sys_path := sp\<rparr>))"

record startup =
  st_config :: config_state
  st_me :: endpoint
  st_services :: "(string \<times> string) list"
  st_apis :: "(string \<times> string) list"
  st_sys_path :: "string list"
  st_dirsvc :: bool

text \<open>
  The body of the module. The experiments only add directories to the search path: their suites are
  the subject of \<open>Suites\<close>. The directory service is created in its own process if its module was
  loaded.
\<close>

record startup_env =
  sv_world :: world
  sv_host_addr :: string
  sv_pid :: int
  sv_uuid :: string
  sv_walk :: "string \<Rightarrow> string list option"
  sv_info :: "string \<Rightarrow> string \<Rightarrow> string result"

definition start_defw :: "startup_env \<Rightarrow> dict \<Rightarrow> string list \<Rightarrow> string list \<Rightarrow> runtime_cfg \<Rightarrow> startup outcome" where
  "start_defw sv environ sys_path modules rc =
     cbind (configure_defw (sv_world sv) environ rc) (\<lambda>cs.
     case c_string (rc_defw_path (cf_rt cs)) of
       None \<Rightarrow> None
     | Some path \<Rightarrow>
         cbind (Some (setup_paths path (cf_environ cs) sys_path)) (\<lambda>sp.
         cbind (make_myself (sv_world sv) (sv_host_addr sv) (sv_pid sv) (sv_uuid sv) (cf_rt cs)) (\<lambda>me.
         case suite_paths (cf_defw_path cs) ''experiments'' (external_paths cs ''external-experiments'') sp of
           (_, sp1) \<Rightarrow>
             cbind (Some (load_kind (service_rules cs me) ''services'' ''external-services'' cs (sv_walk sv) (sv_info sv)
                \<lparr>ls_db = [], ls_sys_path = sp1, ls_modules = modules\<rparr>)) (\<lambda>ls.
             cbind (Some (load_kind (api_rules cs me) ''service-apis'' ''external-service-apis'' cs (sv_walk sv) (sv_info sv) ls)) (\<lambda>la.
             Some (Inr \<lparr>st_config = cs\<lparr>cf_rt := set_defw_initialized True (cf_rt cs)\<rparr>, st_me = me, st_services = ls_db ls,
               st_apis = ls_db la, st_sys_path = ls_sys_path la,
               st_dirsvc = (is_dirsvc me \<and> ''Directory Service'' \<in> fst ` set (ls_db ls))\<rparr>))))))"

subsection \<open>Facts\<close>

lemma valid_type_not_None: "valid_node_type nt \<Longrightarrow> \<not> py_eq nt PNone"
  by (cases nt) (simp_all add: valid_node_type_def py_mem_def EN_DEFW_DIRSVC_def EN_DEFW_SERVICE_def EN_DEFW_AGENT_def)

text \<open>Since \<open>my_type\<close> returns nothing, no endpoint is ever recognised as the own one.\<close>

lemma is_self_never:
  assumes "make_endpoint a p l pid n h nt ru bu = Inr target"
  shows "is_self mypid me target \<noteq> Inr True"
proof -
  have "\<not> py_eq (ep_node_type target) PNone"
    using make_endpoint_ok [OF assms] valid_type_not_None by simp
  then show ?thesis
    by (auto simp: is_self_def eand_def my_type_def ebind_def split: sum.splits if_splits)
qed

subsection \<open>The environment of a spawned service\<close>

lemma set_default_env_keep: "truthy (dget0 e k) \<Longrightarrow> dget0 (set_default_env n v e) k = dget0 e k"
  by (auto simp: set_default_env_def)

lemma set_default_env_other: "n \<noteq> k \<Longrightarrow> dget0 (set_default_env n v e) k = dget0 e k"
  by (simp add: set_default_env_def)

lemma defaults_keep: "truthy (dget0 e k) \<Longrightarrow> dget0 (foldl (\<lambda>e (n, v). set_default_env n v e) e ds) k = dget0 e k"
  by (induction ds arbitrary: e) (auto simp: set_default_env_keep)

lemma defaults_other: "k \<notin> fst ` set ds \<Longrightarrow> dget0 (foldl (\<lambda>e (n, v). set_default_env n v e) e ds) k = dget0 e k"
  by (induction ds arbitrary: e) (auto simp: set_default_env_other)

lemma generic_keep:
  assumes "truthy (dget0 e k)"
  shows "dget0 (setup_generic_config_defaults hex path e) k = dget0 e k"
  using assms by (simp add: setup_generic_config_defaults_def Let_def defaults_keep set_default_env_keep)

lemma defaults_set:
  "distinct (map fst ds) \<Longrightarrow> (k, v) \<in> set ds \<Longrightarrow> \<not> truthy (dget0 e k) \<Longrightarrow>
     dget0 (foldl (\<lambda>e (n, v). set_default_env n v e) e ds) k = PStr v"
proof (induction ds arbitrary: e)
  case (Cons p ds)
  obtain n w where p: "p = (n, w)" by (cases p)
  show ?case
  proof (cases "n = k")
    case True
    with Cons.prems p have "k \<notin> fst ` set ds" "w = v" by force+
    with True Cons.prems(3) show ?thesis by (simp add: p defaults_other) (simp add: set_default_env_def)
  next
    case False
    with Cons.prems p show ?thesis using Cons.IH [of "set_default_env n w e"] by (auto simp: set_default_env_other)
  qed
qed simp

text \<open>A variable that has no value gets the default.\<close>

lemma generic_sets:
  assumes "\<not> truthy (dget0 e k)" and "k \<in> {''DEFW_EXTERNAL_SERVICES_PATH'', ''DEFW_EXTERNAL_SERVICE_APIS_PATH''}"
  shows "dget0 (setup_generic_config_defaults hex path e) k = PStr []"
proof -
  have "k \<noteq> ''DEFW_DISABLE_DIRSVC''" using assms(2) by auto
  then have "\<not> truthy (dget0 (set_default_env ''DEFW_DISABLE_DIRSVC'' ''yes'' e) k)"
    using assms(1) by (simp add: set_default_env_other)
  moreover have "distinct (map fst (generic_defaults n p))" "(k, []) \<in> set (generic_defaults n p)" for n p
    using assms(2) by (auto simp: generic_defaults_def)
  ultimately show ?thesis using assms(1) by (simp add: setup_generic_config_defaults_def Let_def defaults_set)
qed

lemma generic_disable:
  assumes "v \<in> set parent_vars" and "truthy (dget0 e v)"
  shows "dget0 (setup_generic_config_defaults hex path e) ''DEFW_DISABLE_DIRSVC'' = dget0 e ''DEFW_DISABLE_DIRSVC''"
proof -
  have "list_ex (\<lambda>v. truthy (dget0 e v)) parent_vars" using assms by (auto simp: list_ex_iff)
  then show ?thesis
    by (simp add: setup_generic_config_defaults_def Let_def) (intro defaults_other, simp add: generic_defaults_def)
qed

lemma basename_after_slash: "CHR ''/'' \<notin> set b \<Longrightarrow> basename (a @ CHR ''/'' # b) = b"
proof -
  assume "CHR ''/'' \<notin> set b"
  then have "takeWhile (\<lambda>c. c \<noteq> CHR ''/'') (rev b @ CHR ''/'' # xs) = rev b" for xs
    by (induction b rule: rev_induct) auto
  then show ?thesis by (simp only: basename_def rev_append rev.simps append_assoc append.simps rev_rev_ident)
qed

lemma basename_plain: "CHR ''/'' \<notin> set b \<Longrightarrow> basename b = b"
proof -
  assume "CHR ''/'' \<notin> set b"
  then have "\<forall>c \<in> set (rev b). c \<noteq> CHR ''/''" by auto
  from takeWhile_all [OF this] show ?thesis by (simp only: basename_def rev_rev_ident)
qed

lemma basename_join:
  assumes "CHR ''/'' \<notin> set b"
  shows "basename (path_join a b) = b"
proof (cases "a = [] \<or> last a \<noteq> CHR ''/''")
  case True
  moreover have "\<not> (b \<noteq> [] \<and> hd b = CHR ''/'')" using assms by (cases b) auto
  ultimately have "path_join a b = b \<or> path_join a b = a @ CHR ''/'' # b" by (auto simp: path_join_def)
  with basename_after_slash [OF assms] basename_plain [OF assms] show ?thesis by metis
next
  case False
  then obtain a' where "a = a' @ [CHR ''/'']" by (cases a rule: rev_cases) auto
  moreover have "\<not> (b \<noteq> [] \<and> hd b = CHR ''/'')" using assms by (cases b) auto
  ultimately have "path_join a b = a' @ CHR ''/'' # b" by (auto simp: path_join_def)
  then show ?thesis by (simp only: basename_after_slash [OF assms])
qed

text \<open>The generic configuration with the variables of the environment.\<close>

definition gval :: "dict \<Rightarrow> string \<Rightarrow> string" where
  "gval e k = (case str_of (dget0 e k) of Some x \<Rightarrow> x | None \<Rightarrow> [])"

definition generic_keys :: "(pyval \<times> string) list" where
  "generic_keys =
     [(PStr ''parent-address'', ''DEFW_PARENT_ADDR''), (PStr ''parent-port'', ''DEFW_PARENT_PORT''),
      (PStr ''parent-hostname'', ''DEFW_PARENT_HOSTNAME''), (PStr ''parent-name'', ''DEFW_PARENT_NAME''),
      (PStr ''name'', ''DEFW_AGENT_NAME''), (PStr ''listen-port'', ''DEFW_LISTEN_PORT''),
      (PStr ''telnet-port'', ''DEFW_TELNET_PORT''), (PStr ''shell'', ''DEFW_SHELL_TYPE''),
      (PStr ''type'', ''DEFW_AGENT_TYPE''), (PStr ''path'', ''DEFW_PATH''), (PStr ''tmp'', ''DEFW_LOG_DIR''),
      (PStr ''loglevel'', ''DEFW_LOG_LEVEL''), (PStr ''external-services'', ''DEFW_EXTERNAL_SERVICES_PATH''),
      (PStr ''external-service-apis'', ''DEFW_EXTERNAL_SERVICE_APIS_PATH''),
      (PStr ''external-experiments'', ''DEFW_EXTERNAL_EXPERIMENTS_PATH'')]"

definition generic_block :: "dict \<Rightarrow> dict" where
  "generic_block e = map (\<lambda>(k, v). (k, PStr (gval e v))) generic_keys"

lemma generic_yaml_keys:
  "generic_yaml = PDict [(PStr ''defw'', PDict (map (\<lambda>(k, v). (k, PStr (CHR ''$'' # CHR ''{'' # v @ ''}''))) generic_keys))]"
  by (simp add: generic_yaml_def generic_keys_def)

definition defw_var :: "string \<Rightarrow> bool" where
  "defw_var v \<longleftrightarrow> plain_text v \<and> v \<notin> {''DATE'', ''TIME'', ''YNEAR'', ''YTOP''}"

lemma resolve_in_var: "defw_var v \<Longrightarrow> resolve_in today now e blocks (CHR ''$'' # CHR ''{'' # v @ ''}'') = gval e v"
  unfolding resolve_in_def defw_var_def by (simp add: resolve_var variable_def gval_def)

lemma generic_resolved:
  assumes "\<forall>(k, v) \<in> set kvs. defw_var v"
  shows "resolve_environment_vars rp today now [(PStr ''defw'', PDict
      (map (\<lambda>(k, v). (k, PStr (CHR ''$'' # CHR ''{'' # v @ ''}''))) kvs))] e =
    Inr ([(PStr ''defw'', PDict (map (\<lambda>(k, v). (k, PStr (gval e v))) kvs))], e)"
proof -
  have "map ((\<lambda>(k, v). (k, recurse_dictionary (resolve_in today now e) [PStr ''defw'', k] v)) \<circ>
      (\<lambda>(k, v). (k, PStr (CHR ''$'' # CHR ''{'' # v @ ''}'')))) kvs = map (\<lambda>(k, v). (k, PStr (gval e v))) kvs"
    by (intro map_cong [OF refl]) (use assms in \<open>auto simp: resolve_in_var\<close>)
  then show ?thesis by (simp add: resolve_environment_vars_def)
qed

lemma generic_config_resolved:
  "resolve_environment_vars rp today now [(PStr ''defw'', PDict
      (map (\<lambda>(k, v). (k, PStr (CHR ''$'' # CHR ''{'' # v @ ''}''))) generic_keys))] e =
   Inr ([(PStr ''defw'', PDict (generic_block e))], e)"
  unfolding generic_block_def by (rule generic_resolved) (simp add: generic_keys_def defw_var_def plain_text_def)

lemma generic_block_dindex:
  "dindex (generic_block e) ''parent-address'' = Inr (PStr (gval e ''DEFW_PARENT_ADDR''))"
  "dindex (generic_block e) ''parent-port'' = Inr (PStr (gval e ''DEFW_PARENT_PORT''))"
  "dindex (generic_block e) ''parent-hostname'' = Inr (PStr (gval e ''DEFW_PARENT_HOSTNAME''))"
  "dindex (generic_block e) ''parent-name'' = Inr (PStr (gval e ''DEFW_PARENT_NAME''))"
  "dindex (generic_block e) ''name'' = Inr (PStr (gval e ''DEFW_AGENT_NAME''))"
  "dindex (generic_block e) ''listen-port'' = Inr (PStr (gval e ''DEFW_LISTEN_PORT''))"
  "dindex (generic_block e) ''telnet-port'' = Inr (PStr (gval e ''DEFW_TELNET_PORT''))"
  "dindex (generic_block e) ''shell'' = Inr (PStr (gval e ''DEFW_SHELL_TYPE''))"
  "dindex (generic_block e) ''type'' = Inr (PStr (gval e ''DEFW_AGENT_TYPE''))"
  "dindex (generic_block e) ''path'' = Inr (PStr (gval e ''DEFW_PATH''))"
  "dindex (generic_block e) ''tmp'' = Inr (PStr (gval e ''DEFW_LOG_DIR''))"
  "dindex (generic_block e) ''listen-address'' = Inl PyKeyError"
  "dindex (generic_block e) ''external-services'' = Inr (PStr (gval e ''DEFW_EXTERNAL_SERVICES_PATH''))"
  "dindex (generic_block e) ''external-service-apis'' = Inr (PStr (gval e ''DEFW_EXTERNAL_SERVICE_APIS_PATH''))"
  "map_of (generic_block e) (PStr ''parent-address'') \<noteq> None"
  by (simp_all add: generic_keys_def generic_block_def dindex_def)

text \<open>The variables that name the process and its parent, as numbers and texts.\<close>

record own_vars =
  ov_name :: string
  ov_listen :: int
  ov_telnet :: int
  ov_path :: string
  ov_parent :: string
  ov_parent_host :: string
  ov_parent_addr :: "32 word"
  ov_parent_port :: int
  ov_log_dir :: string

definition service_env :: "dict \<Rightarrow> own_vars \<Rightarrow> bool" where
  "service_env e ov \<longleftrightarrow>
     gval e ''DEFW_AGENT_NAME'' = ov_name ov \<and> gval e ''DEFW_LISTEN_PORT'' = int_dec (ov_listen ov) \<and>
     gval e ''DEFW_TELNET_PORT'' = int_dec (ov_telnet ov) \<and> gval e ''DEFW_PATH'' = ov_path ov \<and>
     gval e ''DEFW_PARENT_NAME'' = ov_parent ov \<and> gval e ''DEFW_PARENT_HOSTNAME'' = ov_parent_host ov \<and>
     gval e ''DEFW_PARENT_ADDR'' = inet_ntoa (ov_parent_addr ov) \<and> gval e ''DEFW_PARENT_PORT'' = int_dec (ov_parent_port ov) \<and>
     gval e ''DEFW_AGENT_TYPE'' = ''service'' \<and> gval e ''DEFW_SHELL_TYPE'' = ''daemon'' \<and>
     gval e ''DEFW_LOG_DIR'' = ov_log_dir ov"

definition c_int :: "int \<Rightarrow> bool" where
  "c_int n \<longleftrightarrow> - (2 ^ 31) \<le> n \<and> n < 2 ^ 31"

lemma swig_int_ok: "c_int n \<Longrightarrow> swig_int n = Some (Inr n)"
  by (simp add: c_int_def swig_int_def)

lemma same_text_mode: "same_text ''daemon'' ''daemon''" "\<not> same_text ''service'' ''agent''" "same_text ''service'' ''service''"
  by code_simp+

definition parent_ok :: "own_vars \<Rightarrow> world \<Rightarrow> bool \<Rightarrow> runtime_cfg \<Rightarrow> bool" where
  "parent_ok ov w disabled rc \<longleftrightarrow>
     (if disabled then
        rc_parent_name rc = strncpy ''None'' MAX_STR_LEN \<and> rc_parent_port rc = 0 \<and> rc_parent_address rc = 0
      else
        rc_parent_name rc = strncpy (ov_parent ov) MAX_STR_LEN \<and> rc_parent_port rc = word_of_int (ov_parent_port ov) \<and>
        rc_parent_address rc = ov_parent_addr ov \<and> rc_parent_hostname rc = strncpy (ov_parent_host ov) MAX_STR_LEN)"

lemma inet_aton_any: "inet_aton ''0.0.0.0'' = Some 0"
  by code_simp

lemma apply_parent_generic:
  assumes "service_env e ov" and "c_int (ov_parent_port ov)"
  shows "\<exists>rc'. apply_parent w (generic_block e) rc = Some (Inr rc') \<and> parent_ok ov w (rc_disable_dirsvc rc) rc' \<and>
    rc_disable_dirsvc rc' = rc_disable_dirsvc rc \<and> rc_defw_path rc' = rc_defw_path rc"
proof (cases "rc_disable_dirsvc rc")
  case True
  have "swig_int 0 = Some (Inr 0)" by (simp add: swig_int_def)
  moreover have "set_parent_address (PStr ''0.0.0.0'') r = Some (Inr (r\<lparr>rc_parent_address := 0\<rparr>))" for r
    by (simp add: set_parent_address_def inet_aton_any)
  ultimately show ?thesis using True
    by (simp add: apply_parent_def set_parent_name_def set_parent_port_def set_parent_hostname_def set_hostname_def buffer_def
      parent_ok_def)
next
  case False
  note v = assms(1) [unfolded service_env_def]
  with False assms(2) show ?thesis
    by (simp add: apply_parent_def py_int_str_int_dec generic_block_dindex v set_parent_name_def set_parent_port_def set_parent_hostname_def
      set_hostname_def buffer_def parent_address_read swig_int_ok parent_ok_def)
qed

lemma apply_config_generic:
  assumes "service_env e ov" and "c_int (ov_parent_port ov)" and "c_int (ov_listen ov)" and "c_int (ov_telnet ov)"
  shows "\<exists>rc'. apply_config w (generic_block e) rc = Some (Inr rc') \<and> parent_ok ov w (rc_disable_dirsvc rc) rc' \<and>
    rc_disable_dirsvc rc' = rc_disable_dirsvc rc \<and> rc_type rc' = 3 \<and> rc_shell rc' = 3 \<and> rc_listen_address rc' = 0 \<and>
    rc_listen_port rc' = word_of_int (ov_listen ov) \<and> rc_telnet_port rc' = word_of_int (ov_telnet ov) \<and>
    rc_node_name rc' = strncpy (ov_name ov) MAX_STR_LEN \<and> rc_defw_path rc' = strncpy (ov_path ov) MAX_STR_LEN \<and>
    rc_tmp_dir rc' = strncpy (ov_log_dir ov) MAX_STR_LEN"
proof -
  note v = assms(1) [unfolded service_env_def]
  let ?rc1 = "rc\<lparr>rc_defw_path := strncpy (ov_path ov) MAX_STR_LEN\<rparr>"
  obtain rc2 where p: "apply_parent w (generic_block e) ?rc1 = Some (Inr rc2)" "parent_ok ov w (rc_disable_dirsvc ?rc1) rc2"
    "rc_disable_dirsvc rc2 = rc_disable_dirsvc ?rc1" "rc_defw_path rc2 = rc_defw_path ?rc1"
    using apply_parent_generic [OF assms(1,2), of w ?rc1] by blast
  have l: "apply_listen (generic_block e) r = Some (Inr (r\<lparr>rc_listen_address := 0, rc_listen_port := word_of_int (ov_listen ov)\<rparr>))" for r
    using assms(3) by (simp add: apply_listen_def generic_block_dindex v py_int_str_int_dec set_listen_address_def set_listen_port_def swig_int_ok)
  have "apply_config w (generic_block e) rc = Some (Inr (set_defw_safe_shutdown (py_eq (dget0 (generic_block e) ''shutdown'') (PStr ''SAFE''))
     (set_log_level (log_level (generic_block e)) (rc2\<lparr>rc_shell := 3, rc_type := 3, rc_tmp_dir := strncpy (ov_log_dir ov) MAX_STR_LEN,
       rc_listen_address := 0, rc_listen_port := word_of_int (ov_listen ov), rc_telnet_port := word_of_int (ov_telnet ov),
       rc_node_name := strncpy (ov_name ov) MAX_STR_LEN\<rparr>))))"
    using assms(4) p(1) unfolding apply_config_def
    by (simp add: generic_block_dindex v py_int_str_int_dec set_defw_path_def buffer_def set_defw_mode_def set_defw_type_def same_text_mode l
      set_defw_tmp_dir_def set_agent_telnet_port_def swig_int_ok set_node_name_def)
  then show ?thesis using p(2-4)
    by (simp add: set_defw_safe_shutdown_def set_log_level_def parent_ok_def)
qed

subsection \<open>From the parent's environment to the service's configuration\<close>

text \<open>What the spawning process must know about itself.\<close>

definition usable_node :: "node_info \<Rightarrow> 32 word \<Rightarrow> bool" where
  "usable_node ni a \<longleftrightarrow> ni_name ni \<noteq> [] \<and> ni_hostname ni \<noteq> [] \<and> ni_defw_path ni \<noteq> [] \<and>
     ni_listenaddress ni = inet_ntoa a \<and> 0 \<le> ni_listenport ni \<and> ni_listenport ni < 2 ^ 16"

definition generic_config_path :: "string \<Rightarrow> string" where
  "generic_config_path defw_path = foldl path_join defw_path [''share'', ''defw'', ''config'', ''defw_generic.yaml'']"

text \<open>The specification of a service sets none of the variables of the framework.\<close>

definition foreign_vars :: "dict \<Rightarrow> bool" where
  "foreign_vars vars \<longleftrightarrow> (\<forall>s. PStr s \<in> fst ` set vars \<longrightarrow> \<not> starts_with ''DEFW_'' s)"

definition dirsvc_disabled :: "dict \<Rightarrow> bool" where
  "dirsvc_disabled environ = (case dget0 environ ''DEFW_DISABLE_DIRSVC'' of PStr s \<Rightarrow> py_upper s = ''YES'' | _ \<Rightarrow> False)"

lemma foreign_none: "foreign_vars vars \<Longrightarrow> starts_with ''DEFW_'' k \<Longrightarrow> map_of (rev vars) (PStr k) = None"
  by (auto simp: foreign_vars_def map_of_eq_None_iff)

lemma build_service_env_shape:
  assumes "build_service_env rp ni environ uid mk spec next = (np, Inr (env, name, lp, tp, ld))"
    and "spec_vars rp spec = Inr vars" and "dindex spec ''module'' = Inr modl"
  shows "env = dupdate (dupdate environ (service_vars ni environ modl name lp tp ld)) vars"
    and "ld = path_join (ni_tmp_dir ni) name"
  using assms by (auto simp: build_service_env_def Let_def ebind_Inr_iff split: sum.splits prod.splits pyval.splits)

lemma spawned_env_get:
  assumes "env = dupdate (dupdate environ (service_vars ni environ modl name lp tp ld)) vars" and "foreign_vars vars"
  shows "dget0 env ''DEFW_AGENT_NAME'' = PStr name" "dget0 env ''DEFW_LISTEN_PORT'' = PStr (int_dec lp)"
    "dget0 env ''DEFW_TELNET_PORT'' = PStr (int_dec tp)" "dget0 env ''DEFW_PATH'' = PStr (ni_defw_path ni)"
    "dget0 env ''DEFW_PARENT_NAME'' = PStr (ni_name ni)" "dget0 env ''DEFW_PARENT_HOSTNAME'' = PStr (ni_hostname ni)"
    "dget0 env ''DEFW_PARENT_ADDR'' = PStr (ni_listenaddress ni)"
    "dget0 env ''DEFW_PARENT_PORT'' = PStr (int_dec (ni_listenport ni))"
    "dget0 env ''DEFW_AGENT_TYPE'' = PStr ''service''" "dget0 env ''DEFW_SHELL_TYPE'' = PStr ''daemon''"
    "dget0 env ''DEFW_LOG_DIR'' = PStr ld" "dget0 env ''DEFW_ONLY_LOAD_MODULE'' = modl"
    "dget0 env ''DEFW_CONFIG_PATH'' = py_or (dget0 environ ''DEFW_CONFIG_PATH'') (PStr (generic_config_path (ni_defw_path ni)))"
    "dget0 env ''DEFW_DISABLE_DIRSVC'' = dget0 environ ''DEFW_DISABLE_DIRSVC''"
  by (simp_all add: assms(1) dget_def map_of_dupdate foreign_none [OF assms(2)] starts_with_def service_vars_def generic_config_path_def)

lemma int_dec_ne [simp]: "int_dec n \<noteq> []"
  by (simp add: int_dec_def)

lemma inet_ntoa_ne [simp]: "inet_ntoa a \<noteq> []"
  by (simp add: inet_ntoa_def addr_bytes_def)

lemma path_join_ne: "b \<noteq> [] \<Longrightarrow> path_join a b \<noteq> []"
  by (simp add: path_join_def)

lemma gval_str: "dget0 e k = PStr s \<Longrightarrow> gval e k = s"
  by (simp add: gval_def)

lemma gval_generic: "dget0 e k = PStr s \<Longrightarrow> s \<noteq> [] \<Longrightarrow> gval (setup_generic_config_defaults hex path e) k = s"
  by (rule gval_str) (simp add: generic_keep)

definition spawned_vars :: "node_info \<Rightarrow> 32 word \<Rightarrow> string \<Rightarrow> int \<Rightarrow> int \<Rightarrow> string \<Rightarrow> own_vars" where
  "spawned_vars ni a name lp tp ld =
     \<lparr>ov_name = name, ov_listen = lp, ov_telnet = tp, ov_path = ni_defw_path ni, ov_parent = ni_name ni,
      ov_parent_host = ni_hostname ni, ov_parent_addr = a, ov_parent_port = ni_listenport ni, ov_log_dir = ld\<rparr>"

lemma spawned_service_env:
  assumes "env = dupdate (dupdate environ (service_vars ni environ modl name lp tp ld)) vars" and "foreign_vars vars"
    and "usable_node ni a" and "name \<noteq> []" and "ld \<noteq> []"
  shows "service_env (setup_generic_config_defaults hex path env) (spawned_vars ni a name lp tp ld)"
  using assms(3-5)
  by (simp add: service_env_def spawned_vars_def usable_node_def spawned_env_get(1-11) [OF assms(1,2), THEN gval_generic])

lemma c_int_port:
  "0 \<le> n \<Longrightarrow> n < 2 ^ 16 \<Longrightarrow> c_int n \<and> uint (word_of_int n :: 16 word) = n \<and> uint (word_of_int n :: 32 word) = n"
  by (simp add: c_int_def unsigned_of_int take_bit_eq_mod)

lemma spawned_config_read:
  assumes "env = dupdate (dupdate environ (service_vars ni environ (PStr m) name lp tp ld)) vars" and "foreign_vars vars"
    and "usable_node ni a" and "name \<noteq> []" and "ld \<noteq> []" and "\<not> truthy (dget0 environ ''DEFW_CONFIG_PATH'')"
    and "c_int lp" and "c_int tp"
    and "wo_isfile w (generic_config_path (ni_defw_path ni))" and "wo_yaml w (generic_config_path (ni_defw_path ni)) = Inr generic_yaml"
    and "\<not> rc_disable_dirsvc rc"
  shows "\<exists>cs. configure_defw w env rc = Some (Inr cs) \<and> parent_ok (spawned_vars ni a name lp tp ld) w (dirsvc_disabled environ) (cf_rt cs) \<and>
    rc_type (cf_rt cs) = 3 \<and> rc_shell (cf_rt cs) = 3 \<and> rc_listen_port (cf_rt cs) = word_of_int lp \<and>
    rc_telnet_port (cf_rt cs) = word_of_int tp \<and> rc_node_name (cf_rt cs) = strncpy name MAX_STR_LEN \<and>
    rc_defw_path (cf_rt cs) = strncpy (ni_defw_path ni) MAX_STR_LEN \<and> rc_listen_address (cf_rt cs) = 0 \<and>
    cf_only_load cs = split_on CHR '','' m \<and> rc_disable_dirsvc (cf_rt cs) = dirsvc_disabled environ \<and>
    cf_environ cs = setup_generic_config_defaults (wo_hex8 w) (ni_defw_path ni) env \<and> cf_defw_path cs = ni_defw_path ni \<and>
    cf_yaml cs = [(PStr ''defw'', PDict (generic_block (cf_environ cs)))] \<and>
    cf_noinit_load cs = listed env ''DEFW_LOAD_NO_INIT''"
proof -
  note g = spawned_env_get [OF assms(1,2)]
  let ?e = "setup_generic_config_defaults (wo_hex8 w) (ni_defw_path ni) env"
  let ?ov = "spawned_vars ni a name lp tp ld"
  let ?rc1 = "if dirsvc_disabled environ then disable_dirsvc rc else rc"
  have path: "own_defw_path w env = ni_defw_path ni" by (simp add: own_defw_path_def g(4))
  have cfile: "config_file w env = generic_config_path (ni_defw_path ni)"
    using assms(6) by (simp add: config_file_def g(13) py_or_def)
  have base: "basename (generic_config_path (ni_defw_path ni)) = ''defw_generic.yaml''"
    by (simp add: generic_config_path_def basename_join)
  have "truthy (dget0 env ''DEFW_PARENT_PORT'')" by (simp add: g(8))
  then have dis: "dget0 ?e ''DEFW_DISABLE_DIRSVC'' = dget0 environ ''DEFW_DISABLE_DIRSVC''"
    using generic_disable [of "''DEFW_PARENT_PORT''" env] g(14) by (simp add: parent_vars_def)
  then have rc1: "(case dget0 ?e ''DEFW_DISABLE_DIRSVC'' of
      PStr s \<Rightarrow> if py_upper s = ''YES'' then disable_dirsvc rc else rc | _ \<Rightarrow> rc) = ?rc1"
    by (simp add: dirsvc_disabled_def split: pyval.splits)
  have disabled: "rc_disable_dirsvc ?rc1 = dirsvc_disabled environ" using assms(11) by (simp add: disable_dirsvc_def)
  have env: "service_env ?e ?ov" by (rule spawned_service_env [OF assms(1-5)])
  have port: "c_int (ov_parent_port ?ov)" "c_int (ov_listen ?ov)" "c_int (ov_telnet ?ov)"
    using assms(3,7,8) c_int_port [of "ni_listenport ni"] by (simp_all add: spawned_vars_def usable_node_def)
  from apply_config_generic [OF env port, of w ?rc1] obtain rc2 where
    rc2: "apply_config w (generic_block ?e) ?rc1 = Some (Inr rc2)" and
    f: "parent_ok ?ov w (dirsvc_disabled environ) rc2" "rc_disable_dirsvc rc2 = dirsvc_disabled environ" "rc_type rc2 = 3" "rc_shell rc2 = 3"
      "rc_listen_address rc2 = 0" "rc_listen_port rc2 = word_of_int lp" "rc_telnet_port rc2 = word_of_int tp"
      "rc_node_name rc2 = strncpy name MAX_STR_LEN" "rc_defw_path rc2 = strncpy (ni_defw_path ni) MAX_STR_LEN"
    unfolding disabled by (auto simp: spawned_vars_def)
  have "configure_defw w env rc = Some (Inr \<lparr>cf_environ = ?e, cf_only_load = listed env ''DEFW_ONLY_LOAD_MODULE'',
      cf_noinit_load = listed env ''DEFW_LOAD_NO_INIT'', cf_defw_path = ni_defw_path ni,
      cf_yaml = [(PStr ''defw'', PDict (generic_block ?e))], cf_rt = rc2\<rparr>)"
    unfolding configure_defw_def Let_def path cfile base rc1
    using assms(9,10) by (simp add: generic_yaml_keys generic_config_resolved dindex_def rc2 base rc1)
  then show ?thesis using f by (simp add: listed_def g(12))
qed

lemma ntoa_any: "inet_ntoa 0 = ''0.0.0.0''"
  by (simp add: inet_ntoa_def addr_bytes_def nat_dec_0)

text \<open>
  C19: a service is configured the way its parent spawned it. If the installation uses the generic
  configuration, a process started with the environment that the parent builds is configured, as a
  service, with the listen and telnet ports the parent took for it, the requested module and the
  address of the parent; unless the parent itself runs without a directory service: that setting is
  inherited and then the address of the parent is ignored.
\<close>
theorem spawned_service_configured:
  assumes "build_service_env rp ni environ uid mk spec next = (np, Inr (env, name, lp, tp, ld))"
    and "spec_vars rp spec = Inr vars" and "foreign_vars vars"
    and "dindex spec ''module'' = Inr (PStr m)" and "CHR '','' \<notin> set m"
    and "usable_node ni a" and "name \<noteq> []" and "\<not> truthy (dget0 environ ''DEFW_CONFIG_PATH'')"
    and "0 \<le> lp" and "lp + 1 < 2 ^ 16"
    and "wo_isfile w (generic_config_path (ni_defw_path ni))" and "wo_yaml w (generic_config_path (ni_defw_path ni)) = Inr generic_yaml"
    and "\<not> rc_disable_dirsvc rc"
  shows "\<exists>cs. configure_defw w env rc = Some (Inr cs) \<and>
    get_listen_port (cf_rt cs) = lp \<and> uint (rc_telnet_port (cf_rt cs)) = tp \<and> rc_type (cf_rt cs) = 3 \<and>
    rc_node_name (cf_rt cs) = strncpy name MAX_STR_LEN \<and> cf_only_load cs = [m] \<and>
    (if dirsvc_disabled environ then get_parent_port (cf_rt cs) = 0 \<and> get_parent_address (cf_rt cs) = ''0.0.0.0''
     else get_parent_port (cf_rt cs) = ni_listenport ni \<and> get_parent_address (cf_rt cs) = ni_listenaddress ni \<and>
       rc_parent_name (cf_rt cs) = strncpy (ni_name ni) MAX_STR_LEN)"
proof -
  note shape = build_service_env_shape [OF assms(1,2,4)]
  have tp: "tp = lp + 1" using build_service_env_next(2) [OF assms(1) refl] by simp
  have ld: "ld \<noteq> []" using shape(2) path_join_ne [OF assms(7)] by simp
  have c: "c_int lp" "c_int tp" "uint (word_of_int lp :: 16 word) = lp" "uint (word_of_int tp :: 32 word) = tp"
    "uint (word_of_int (ni_listenport ni) :: 16 word) = ni_listenport ni"
    using assms(6,9,10) c_int_port [of lp] c_int_port [of "ni_listenport ni"] c_int_port [of tp] tp
    by (simp_all add: usable_node_def)
  from spawned_config_read [OF shape(1) assms(3,6,7) ld assms(8) c(1,2) assms(11-13)] obtain cs where
    cs: "configure_defw w env rc = Some (Inr cs)" and
    p: "parent_ok (spawned_vars ni a name lp tp ld) w (dirsvc_disabled environ) (cf_rt cs)" and
    f: "rc_type (cf_rt cs) = 3" "rc_listen_port (cf_rt cs) = word_of_int lp" "rc_telnet_port (cf_rt cs) = word_of_int tp"
      "rc_node_name (cf_rt cs) = strncpy name MAX_STR_LEN" "cf_only_load cs = split_on CHR '','' m" by blast
  have "ni_listenaddress ni = inet_ntoa a" using assms(6) by (simp add: usable_node_def)
  with p show ?thesis
    by (intro exI [of _ cs]) (simp add: cs f c get_listen_port_def get_parent_port_def get_parent_address_def
      split_on_none [OF assms(5)] parent_ok_def spawned_vars_def ntoa_any split: if_splits)
qed

lemma start_defw_parts:
  assumes "start_defw sv env sys_path modules rc = Some (Inr st)" and "configure_defw (sv_world sv) env rc = Some (Inr cs)"
  shows "\<exists>me sp ls. make_myself (sv_world sv) (sv_host_addr sv) (sv_pid sv) (sv_uuid sv) (cf_rt cs) = Some (Inr me) \<and>
    load_kind (service_rules cs me) ''services'' ''external-services'' cs (sv_walk sv) (sv_info sv)
      \<lparr>ls_db = [], ls_sys_path = sp, ls_modules = modules\<rparr> = Inr ls \<and>
    st_me st = me \<and> st_services st = ls_db ls \<and> (st_dirsvc st \<longrightarrow> is_dirsvc me)"
proof (cases "c_string (rc_defw_path (cf_rt cs))")
  case None
  with assms show ?thesis by (simp add: start_defw_def)
next
  case (Some path)
  from assms(1) obtain sp me where me: "setup_paths path (cf_environ cs) sys_path = Inr sp"
    "make_myself (sv_world sv) (sv_host_addr sv) (sv_pid sv) (sv_uuid sv) (cf_rt cs) = Some (Inr me)"
    unfolding start_defw_def assms(2) cbind_simps Some option.case by (auto simp only: cbind_Inr_iff option.inject)
  obtain ps sp1 where sp1: "suite_paths (cf_defw_path cs) ''experiments'' (external_paths cs ''external-experiments'') sp = (ps, sp1)"
    by (cases "suite_paths (cf_defw_path cs) ''experiments'' (external_paths cs ''external-experiments'') sp")
  from assms(1) obtain ls where ls: "load_kind (service_rules cs me) ''services'' ''external-services'' cs (sv_walk sv) (sv_info sv)
      \<lparr>ls_db = [], ls_sys_path = sp1, ls_modules = modules\<rparr> = Inr ls"
    unfolding start_defw_def assms(2) cbind_simps Some option.case me sp1 prod.case by (auto simp only: cbind_Inr_iff option.inject)
  from assms(1) have "st_me st = me \<and> st_services st = ls_db ls \<and> (st_dirsvc st \<longrightarrow> is_dirsvc me)"
    unfolding start_defw_def assms(2) cbind_simps Some option.case me sp1 prod.case ls by (auto simp: cbind_Inr_iff)
  with me ls show ?thesis by blast
qed

text \<open>
  C20: a spawned service loads what it was spawned for. When the process of a spawned service has
  started, its endpoint is a service with the listen port the parent took for it, and the only
  directory whose service it loaded is the requested module; it has no directory service of its own.
\<close>
theorem spawned_service_loads_module:
  assumes "build_service_env rp ni environ uid mk spec next = (np, Inr (env, name, lp, tp, ld))"
    and "spec_vars rp spec = Inr vars" and "foreign_vars vars"
    and "dindex spec ''module'' = Inr (PStr m)" and "CHR '','' \<notin> set m"
    and "usable_node ni a" and "name \<noteq> []" and "\<not> truthy (dget0 environ ''DEFW_CONFIG_PATH'')"
    and "0 \<le> lp" and "lp + 1 < 2 ^ 16"
    and "wo_isfile (sv_world sv) (generic_config_path (ni_defw_path ni))"
    and "wo_yaml (sv_world sv) (generic_config_path (ni_defw_path ni)) = Inr generic_yaml"
    and "\<not> rc_disable_dirsvc rc"
    and "start_defw sv env sys_path modules rc = Some (Inr st)"
  shows "ep_listen_port (st_me st) = PInt lp \<and> is_service (st_me st) \<and> \<not> st_dirsvc st \<and>
    (\<forall>(n, d) \<in> set (st_services st). d = m)"
proof -
  note shape = build_service_env_shape [OF assms(1,2,4)]
  have tp: "tp = lp + 1" using build_service_env_next(2) [OF assms(1) refl] by simp
  have ld: "ld \<noteq> []" using shape(2) path_join_ne [OF assms(7)] by simp
  have c: "c_int lp" "c_int tp" "uint (word_of_int lp :: 16 word) = lp"
    using assms(9,10) c_int_port [of lp] tp by (auto simp: c_int_def)
  from spawned_config_read [OF shape(1) assms(3,6,7) ld assms(8) c(1,2) assms(11-13)] obtain cs where
    cs: "configure_defw (sv_world sv) env rc = Some (Inr cs)" and
    f: "rc_type (cf_rt cs) = 3" "rc_listen_port (cf_rt cs) = word_of_int lp" "cf_only_load cs = split_on CHR '','' m" by blast
  from assms(14) cs obtain me sp ls where
    me: "make_myself (sv_world sv) (sv_host_addr sv) (sv_pid sv) (sv_uuid sv) (cf_rt cs) = Some (Inr me)" and
    ls: "load_kind (service_rules cs me) ''services'' ''external-services'' cs (sv_walk sv) (sv_info sv)
      \<lparr>ls_db = [], ls_sys_path = sp, ls_modules = modules\<rparr> = Inr ls" and
    st: "st_me st = me" "st_services st = ls_db ls" "st_dirsvc st \<longrightarrow> is_dirsvc me"
    using start_defw_parts [OF assms(14) cs] by blast
  have me_f: "ep_listen_port me = PInt lp" "ep_node_type me = PInt 3"
    using me f c(3) by (auto simp: make_myself_def make_endpoint_def Let_def get_listen_port_def split: option.splits if_splits)
  then have svc: "is_service me" "\<not> is_dirsvc me"
    by (simp_all add: is_service_def is_dirsvc_def EN_DEFW_SERVICE_def EN_DEFW_DIRSVC_def)
  have "d = m" if "(n, d) \<in> set (ls_db ls)" for n d
  proof -
    from ls that obtain paths st0 where "generate_services (service_rules cs me) (sv_walk sv) (sv_info sv) paths st0 = Inr ls"
      by (auto simp: load_kind_def split: prod.splits)
    from generate_services_allowed [OF this that] svc(2) show ?thesis
      by (auto simp: loads_def service_rules_def Let_def f(3) split_on_none [OF assms(5)])
  qed
  with st me_f svc show ?thesis by auto
qed

subsection \<open>A service that is spawned and starts\<close>

definition demo_world :: world where
  "demo_world = \<lparr>wo_cwd = ''/'', wo_isfile = (\<lambda>_. True), wo_yaml = (\<lambda>_. Inr generic_yaml), wo_hostname = ''h'', wo_today = ''d'',
     wo_now = ''t'', wo_hex8 = ''0'', wo_telnet_port = 10000, wo_name = ''x'', wo_str = (\<lambda>_. [])\<rparr>"

definition demo_rt :: runtime_cfg where
  "demo_rt = \<lparr>rc_initialized = False, rc_safe_shutdown = False, rc_disable_dirsvc = False, rc_type = 0, rc_listen_address = 0,
     rc_listen_port = 0, rc_parent_address = 0, rc_parent_port = 0, rc_telnet_port = 0, rc_node_name = [], rc_shell = 0,
     rc_defw_path = [], rc_parent_name = [], rc_parent_hostname = [], rc_hostname = [], rc_tmp_dir = [], rc_loglevel = 0\<rparr>"

abbreviation demo_spec :: dict where
  "demo_spec \<equiv> [(PStr ''module'', PStr ''svc_a'')]"

definition demo_service_env :: dict where
  "demo_service_env = dupdate [] (service_vars demo_node [] (PStr ''svc_a'') ''svc_a-u'' 8100 8101 ''/tmp/svc_a-u'')"

lemma demo_built:
  "build_service_env (\<lambda>_. []) demo_node [] ''u'' (Inr ()) demo_spec None =
     (Some 8102, Inr (demo_service_env, ''svc_a-u'', 8100, 8101, ''/tmp/svc_a-u''))"
  by (simp add: build_service_env_def allocate_ports_def two_ports spec_vars_def dindex_def dget_def demo_node_def
      py_int_str_int_dec path_join_def Let_def demo_service_env_def dupdate_def)

lemma demo_usable: "usable_node demo_node 2130706433"
proof -
  have d: "digit_char 1 = CHR ''1''" "digit_char 2 = CHR ''2''" "digit_char 7 = CHR ''7''" by code_simp+
  have "nat_dec 127 = ''127''" "nat_dec 1 = ''1''"
    by (simp_all add: nat_dec.simps d d(1) [simplified One_nat_def])
  then have "inet_ntoa 2130706433 = ''127.0.0.1''"
    by (simp add: inet_ntoa_def addr_bytes_def nat_dec_0)
  then show ?thesis by (simp add: usable_node_def demo_node_def)
qed

lemma demo_facts:
  "spec_vars (\<lambda>_. []) demo_spec = Inr []" "foreign_vars []" "dindex demo_spec ''module'' = Inr (PStr ''svc_a'')"
  "\<not> truthy (dget0 [] ''DEFW_CONFIG_PATH'')" "wo_isfile demo_world (generic_config_path (ni_defw_path demo_node))"
  "wo_yaml demo_world (generic_config_path (ni_defw_path demo_node)) = Inr generic_yaml" "\<not> rc_disable_dirsvc demo_rt"
  by (simp_all add: spec_vars_def dget_def foreign_vars_def dindex_def demo_world_def demo_rt_def)

theorem spawned_service_configured_witness:
  "\<exists>cs. configure_defw demo_world demo_service_env demo_rt = Some (Inr cs) \<and> get_listen_port (cf_rt cs) = 8100 \<and>
     get_parent_port (cf_rt cs) = 8090 \<and> get_parent_address (cf_rt cs) = ''127.0.0.1''"
proof -
  have "\<not> dirsvc_disabled []" by (simp add: dirsvc_disabled_def)
  moreover note spawned_service_configured [OF demo_built demo_facts(1-3) _ demo_usable _ demo_facts(4) _ _ demo_facts(5-7)]
  ultimately show ?thesis by (simp add: demo_node_def) blast
qed

definition demo_startup :: startup_env where
  "demo_startup = \<lparr>sv_world = demo_world, sv_host_addr = ''10.0.0.1'', sv_pid = 7, sv_uuid = ''u'',
     sv_walk = (\<lambda>_. Some [''svc_a'', ''svc_b'', ''svc_dirsvc'']), sv_info = (\<lambda>p d. Inr d)\<rparr>"

definition env_strs :: "dict \<Rightarrow> bool" where
  "env_strs e \<longleftrightarrow> (\<forall>(k, v) \<in> set e. \<exists>s. v = PStr s)"

lemma env_strs_default: "env_strs e \<Longrightarrow> env_strs (set_default_env n v e)"
  using set_alist_update_subset [of "PStr n" "PStr v" e] by (auto simp: set_default_env_def env_strs_def dset_def)

lemma env_strs_generic: "env_strs e \<Longrightarrow> env_strs (setup_generic_config_defaults hex path e)"
proof -
  have "env_strs e \<Longrightarrow> env_strs (foldl (\<lambda>e (n, v). set_default_env n v e) e ds)" for e ds
    by (induction ds arbitrary: e) (auto simp: env_strs_default)
  then show "env_strs e \<Longrightarrow> env_strs (setup_generic_config_defaults hex path e)"
    by (simp add: setup_generic_config_defaults_def Let_def env_strs_default)
qed

text \<open>With an environment of strings the search path can always be set up.\<close>

lemma setup_paths_total: "env_strs e \<Longrightarrow> \<exists>sp. setup_paths path e sys_path = Inr sp"
proof -
  assume e: "env_strs e"
  have "\<exists>ps. split_external_paths (dget e k (PStr [])) = Inr ps" for k
    using e by (cases "map_of e (PStr k)") (auto simp: dget_def env_strs_def dest!: map_of_SomeD)
  then show ?thesis by (simp add: setup_paths_def) (metis ebind_simps(2))
qed

lemma demo_env_strs: "env_strs demo_service_env"
  by (simp add: env_strs_def demo_service_env_def service_vars_def dupdate_def demo_node_def py_or_def)

lemma demo_external: "gval (setup_generic_config_defaults hex path demo_service_env) ''DEFW_EXTERNAL_SERVICES_PATH'' = []"
  "gval (setup_generic_config_defaults hex path demo_service_env) ''DEFW_EXTERNAL_SERVICE_APIS_PATH'' = []"
proof -
  have "dget0 demo_service_env ''DEFW_EXTERNAL_SERVICES_PATH'' = PNone" "dget0 demo_service_env ''DEFW_EXTERNAL_SERVICE_APIS_PATH'' = PNone"
    by (simp_all add: demo_service_env_def service_vars_def map_of_dupdate dget_def)
  then show "gval (setup_generic_config_defaults hex path demo_service_env) ''DEFW_EXTERNAL_SERVICES_PATH'' = []"
    "gval (setup_generic_config_defaults hex path demo_service_env) ''DEFW_EXTERNAL_SERVICE_APIS_PATH'' = []"
    by (simp_all add: gval_def generic_sets)
qed

lemma demo_started: "\<exists>st. start_defw demo_startup demo_service_env [] [] demo_rt = Some (Inr st) \<and> st_services st = [(''svc_a'', ''svc_a'')]"
proof -
  have env: "demo_service_env = dupdate (dupdate [] (service_vars demo_node [] (PStr ''svc_a'') ''svc_a-u'' 8100 8101 ''/tmp/svc_a-u'')) []"
    by (simp add: demo_service_env_def dupdate_def)
  have c: "c_int 8100" "c_int 8101" by (simp_all add: c_int_def)
  obtain cs where cs: "configure_defw demo_world demo_service_env demo_rt = Some (Inr cs)" and
    f: "rc_type (cf_rt cs) = 3" "rc_node_name (cf_rt cs) = strncpy ''svc_a-u'' MAX_STR_LEN" "rc_listen_address (cf_rt cs) = 0"
      "rc_defw_path (cf_rt cs) = strncpy (ni_defw_path demo_node) MAX_STR_LEN" "cf_only_load cs = split_on CHR '','' ''svc_a''"
      "cf_defw_path cs = ni_defw_path demo_node" "cf_yaml cs = [(PStr ''defw'', PDict (generic_block (cf_environ cs)))]"
      "cf_environ cs = setup_generic_config_defaults (wo_hex8 demo_world) (ni_defw_path demo_node) demo_service_env"
      "cf_noinit_load cs = listed demo_service_env ''DEFW_LOAD_NO_INIT''"
    using spawned_config_read [OF env demo_facts(2) demo_usable _ _ demo_facts(4) c demo_facts(5-7)] by auto
  have name: "c_string (strncpy ''svc_a-u'' MAX_STR_LEN) = Some ''svc_a-u''" "c_string (strncpy ''/defw'' MAX_STR_LEN) = Some ''/defw''"
    by (simp_all add: strncpy_read MAX_STR_LEN_def)
  from setup_paths_total [OF env_strs_generic [OF demo_env_strs]] obtain sp where
    sp: "setup_paths ''/defw'' (cf_environ cs) [] = Inr sp" unfolding f(8) by blast
  obtain me where me: "make_myself demo_world ''10.0.0.1'' 7 ''u'' (cf_rt cs) = Some (Inr me)" "\<not> is_dirsvc me"
    by (simp add: make_myself_def f name make_endpoint_def Let_def valid_node_type_def py_mem_def is_dirsvc_def EN_DEFW_SERVICE_def
      EN_DEFW_DIRSVC_def)
  have noinit: "cf_noinit_load cs = []"
    unfolding f(9) by (simp add: listed_def demo_service_env_def service_vars_def map_of_dupdate dget_def)
  have rules: "loads (service_rules cs me) ''svc_a''" "\<not> loads (service_rules cs me) ''svc_b''" "\<not> loads (service_rules cs me) ''svc_dirsvc''"
    "\<not> loads (api_rules cs me) ''svc_a''" "\<not> loads (api_rules cs me) ''svc_b''" "\<not> loads (api_rules cs me) ''svc_dirsvc''"
    using me(2) by (simp_all add: loads_def service_rules_def api_rules_def f(5) noinit starts_with_def)
  have ext: "external_paths cs ''external-services'' = Inr (PStr [])" "external_paths cs ''external-service-apis'' = Inr (PStr [])"
    by (simp_all add: external_paths_def f(7) dindex_def [of "[_]"] generic_block_dindex f(8) demo_external)
  have load: "\<exists>ls. load_kind (service_rules cs me) ''services'' ''external-services'' cs (sv_walk demo_startup) (sv_info demo_startup)
      st = Inr ls \<and> ls_db ls = [(''svc_a'', ''svc_a'')]"
    "\<exists>la. load_kind (api_rules cs me) ''service-apis'' ''external-service-apis'' cs (sv_walk demo_startup) (sv_info demo_startup) st = Inr la"
    for st
    by (simp_all add: load_kind_def suite_paths_def ext Let_def generate_services_def demo_startup_def rules setup_external_paths_def
      append_absent_def)
  obtain ps sp1 where sp1: "suite_paths ''/defw'' ''experiments'' (external_paths cs ''external-experiments'') sp = (ps, sp1)"
    by (cases "suite_paths ''/defw'' ''experiments'' (external_paths cs ''external-experiments'') sp")
  from load(1) obtain ls where ls: "load_kind (service_rules cs me) ''services'' ''external-services'' cs (sv_walk demo_startup)
      (sv_info demo_startup) \<lparr>ls_db = [], ls_sys_path = sp1, ls_modules = []\<rparr> = Inr ls" "ls_db ls = [(''svc_a'', ''svc_a'')]" by blast
  from load(2) obtain la where la: "load_kind (api_rules cs me) ''service-apis'' ''external-service-apis'' cs (sv_walk demo_startup)
      (sv_info demo_startup) ls = Inr la" by blast
  have sv: "sv_world demo_startup = demo_world" "sv_host_addr demo_startup = ''10.0.0.1''" "sv_pid demo_startup = 7" "sv_uuid demo_startup = ''u''"
    "ni_defw_path demo_node = ''/defw''" by (simp_all add: demo_startup_def demo_node_def)
  show ?thesis
    unfolding start_defw_def sv cs cbind_simps f(4) name option.case sp me(1) f(6) sp1 prod.case ls(1) la by (simp add: ls(2))
qed

theorem spawned_service_loads_module_witness:
  "\<exists>st. start_defw demo_startup demo_service_env [] [] demo_rt = Some (Inr st) \<and> st_services st = [(''svc_a'', ''svc_a'')] \<and>
     ep_listen_port (st_me st) = PInt 8100"
proof -
  obtain st where st: "start_defw demo_startup demo_service_env [] [] demo_rt = Some (Inr st)" "st_services st = [(''svc_a'', ''svc_a'')]"
    using demo_started by blast
  have "sv_world demo_startup = demo_world" by (simp add: demo_startup_def)
  with spawned_service_loads_module [OF demo_built demo_facts(1-3) _ demo_usable _ demo_facts(4) _ _ _ _ demo_facts(7) st(1)] st demo_facts(5,6)
  show ?thesis by (intro exI [of _ st]) simp
qed

end
