(* ===== verification/Docs.thy ===== *)
theory Docs
  imports Suites
begin

section \<open>Tables of requirements\<close>

text \<open>
  The class \<open>Documentation\<close> of \<open>src/python/infra/defw.py\<close>: three CSV tables, to which the rows of
  \<open>create_docs\<close> are appended. The files are an association list from paths to rows.
\<close>

type_synonym csv_files = "(string \<times> string list list) list"

text \<open>\<open>os.path.splitext\<close> of a path.\<close>

definition split_path :: "string \<Rightarrow> string \<times> string" where
  "split_path p =
     (let base = rev (takeWhile (\<lambda>c. c \<noteq> CHR ''/'') (rev p)); dir = take (length p - length base) p in
      case splitext base of (r, e) \<Rightarrow> (dir @ r, e))"

record documentation =
  dc_req :: string
  dc_hld :: string
  dc_tp :: string

definition doc_files :: "string \<Rightarrow> string \<Rightarrow> documentation" where
  "doc_files defw_path base_name =
     (let path = path_join (path_join defw_path ''documentation''); stem = fst (split_path base_name) in
      \<lparr>dc_req = path (stem @ ''_req.csv''), dc_hld = path (stem @ ''_hld.csv''), dc_tp = path (stem @ ''_tp.csv'')\<rparr>)"

text \<open>A header is written if the file \<open>tested\<close> does not exist; it replaces the content of its own file.\<close>

definition writeheader :: "string \<Rightarrow> string \<Rightarrow> string list \<Rightarrow> csv_files \<Rightarrow> csv_files" where
  "writeheader tested path header files = (if map_of files tested = None then AList.update path [header] files else files)"

definition req_header :: "string list" where
  "req_header = [''Test Case ID'', ''Requirement Id'', ''Requirement Description'']"

definition hld_header :: "string list" where
  "hld_header = [''Test Case ID'', ''Requirement Id'', ''Design Notes'']"

definition tp_header :: "string list" where
  "tp_header = [''Test Case ID'', ''Primary Requirement Id'', ''Secondary Requirement Id'', ''Test Case'']"

text \<open>\<open>Documentation(base_name)\<close>: all three headers depend on the table of requirements.\<close>

definition init_docs :: "documentation \<Rightarrow> csv_files \<Rightarrow> csv_files" where
  "init_docs dc files =
     writeheader (dc_req dc) (dc_tp dc) tp_header
       (writeheader (dc_req dc) (dc_hld dc) hld_header
         (writeheader (dc_req dc) (dc_req dc) req_header files))"

definition rows_of :: "csv_files \<Rightarrow> string \<Rightarrow> string list list" where
  "rows_of files path = (case map_of files path of Some rs \<Rightarrow> rs | None \<Rightarrow> [])"

definition writerow :: "string \<Rightarrow> string list \<Rightarrow> csv_files \<Rightarrow> csv_files" where
  "writerow path row files = AList.update path (rows_of files path @ [row]) files"

text \<open>\<open>create_docs\<close> of one script, given by its name and its lines, and of several in turn.\<close>

definition script_docs :: "string \<Rightarrow> string \<Rightarrow> string \<times> string list \<Rightarrow> csv_files \<Rightarrow> csv_files" where
  "script_docs defw_path csvfile script files =
     (case create_docs (fst script) (snd script) of
        None \<Rightarrow> files
      | Some (req, hld, tp) \<Rightarrow>
          (let dc = doc_files defw_path csvfile in
           writerow (dc_tp dc) tp (writerow (dc_hld dc) hld (writerow (dc_req dc) req (init_docs dc files)))))"

definition scripts_docs :: "string \<Rightarrow> string \<Rightarrow> (string \<times> string list) list \<Rightarrow> csv_files \<Rightarrow> csv_files" where
  "scripts_docs defw_path csvfile scripts files = foldl (\<lambda>fs s. script_docs defw_path csvfile s fs) files scripts"

subsection \<open>What the tables hold\<close>

definition doc_rows :: "(string \<times> string list) list \<Rightarrow> (string list \<times> string list \<times> string list) list" where
  "doc_rows scripts = concat (map (\<lambda>s. case create_docs (fst s) (snd s) of None \<Rightarrow> [] | Some r \<Rightarrow> [r]) scripts)"

lemma path_join_suffix: "suffix b (path_join a b)"
  by (auto simp: path_join_def suffix_def)

text \<open>The three tables are three files: the ends of their names differ.\<close>

lemma doc_files_distinct:
  "dc_req (doc_files p b) \<noteq> dc_hld (doc_files p b)" "dc_req (doc_files p b) \<noteq> dc_tp (doc_files p b)"
  "dc_hld (doc_files p b) \<noteq> dc_tp (doc_files p b)"
proof -
  have s: "suffix x (path_join (path_join p ''documentation'') (y @ x))" for x y
    by (rule suffix_order.trans [OF _ path_join_suffix]) (simp add: suffix_def)
  have "\<not> (suffix ''_req.csv'' z \<and> suffix ''_hld.csv'' z)" "\<not> (suffix ''_req.csv'' z \<and> suffix ''_tp.csv'' z)"
    "\<not> (suffix ''_hld.csv'' z \<and> suffix ''_tp.csv'' z)" for z
    by (auto simp: suffix_def)
  with s [of "''_req.csv''" "fst (split_path b)"] s [of "''_hld.csv''" "fst (split_path b)"] s [of "''_tp.csv''" "fst (split_path b)"]
  show "dc_req (doc_files p b) \<noteq> dc_hld (doc_files p b)" "dc_req (doc_files p b) \<noteq> dc_tp (doc_files p b)"
    "dc_hld (doc_files p b) \<noteq> dc_tp (doc_files p b)"
    by (simp_all add: doc_files_def Let_def) metis+
qed

text \<open>
  The table of requirements gets its header when the file is new. The other two never do: by the time
  their headers would be written, the table of requirements exists.
\<close>

lemma init_docs_files:
  "rows_of (init_docs (doc_files p b) files) path =
     (if path = dc_req (doc_files p b) \<and> map_of files path = None then [req_header] else rows_of files path)"
  "map_of (init_docs (doc_files p b) files) (dc_req (doc_files p b)) \<noteq> None"
  using doc_files_distinct [of p b] by (auto simp: init_docs_def writeheader_def rows_of_def)

lemma rows_of_writerow [simp]: "rows_of (writerow path row files) p = (if p = path then rows_of files p @ [row] else rows_of files p)"
  by (simp add: rows_of_def writerow_def)

lemma script_docs_rows:
  fixes p b
  defines "dc \<equiv> doc_files p b"
  assumes "create_docs (fst s) (snd s) = Some (req, hld, tp)"
  shows "rows_of (script_docs p b s files) (dc_req dc) =
      (if map_of files (dc_req dc) = None then [req_header] else rows_of files (dc_req dc)) @ [req]"
    "rows_of (script_docs p b s files) (dc_hld dc) = rows_of files (dc_hld dc) @ [hld]"
    "rows_of (script_docs p b s files) (dc_tp dc) = rows_of files (dc_tp dc) @ [tp]"
    "map_of (script_docs p b s files) (dc_req dc) \<noteq> None"
proof -
  note d = doc_files_distinct [of p b] doc_files_distinct [of p b, symmetric]
  show "rows_of (script_docs p b s files) (dc_req dc) =
      (if map_of files (dc_req dc) = None then [req_header] else rows_of files (dc_req dc)) @ [req]"
    "rows_of (script_docs p b s files) (dc_hld dc) = rows_of files (dc_hld dc) @ [hld]"
    "rows_of (script_docs p b s files) (dc_tp dc) = rows_of files (dc_tp dc) @ [tp]"
    using assms(2) d by (simp_all add: script_docs_def Let_def init_docs_files dc_def)
  show "map_of (script_docs p b s files) (dc_req dc) \<noteq> None"
    using assms(2) d by (simp add: script_docs_def Let_def dc_def writerow_def)
qed

lemma scripts_docs_rows:
  fixes p b
  defines "dc \<equiv> doc_files p b"
  shows "rows_of (scripts_docs p b scripts files) (dc_req dc) =
      (if map_of files (dc_req dc) = None \<and> doc_rows scripts \<noteq> [] then [req_header] else rows_of files (dc_req dc)) @ map fst (doc_rows scripts) \<and>
    rows_of (scripts_docs p b scripts files) (dc_hld dc) = rows_of files (dc_hld dc) @ map (fst \<circ> snd) (doc_rows scripts) \<and>
    rows_of (scripts_docs p b scripts files) (dc_tp dc) = rows_of files (dc_tp dc) @ map (snd \<circ> snd) (doc_rows scripts)"
proof (induction scripts arbitrary: files)
  case Nil
  then show ?case by (simp add: scripts_docs_def doc_rows_def)
next
  case (Cons s scripts)
  have step: "scripts_docs p b (s # scripts) files = scripts_docs p b scripts (script_docs p b s files)"
    by (simp add: scripts_docs_def)
  show ?case
  proof (cases "create_docs (fst s) (snd s)")
    case None
    then have "script_docs p b s files = files" "doc_rows (s # scripts) = doc_rows scripts"
      by (simp_all add: script_docs_def doc_rows_def)
    with Cons.IH [of files] show ?thesis by (simp only: step)
  next
    case (Some r)
    obtain req hld tp where r: "r = (req, hld, tp)" by (cases r)
    note rows = script_docs_rows [of s req hld tp p b files, folded dc_def]
    have "doc_rows (s # scripts) = r # doc_rows scripts" by (simp add: doc_rows_def Some)
    with Cons.IH [of "script_docs p b s files"] rows Some r show ?thesis by (simp add: step)
  qed
qed

end
