(* ===== verification/Telnet.thy ===== *)
theory Telnet
  imports Py_Prelude
begin

section \<open>The telnet protocol\<close>

text \<open>
  The protocol part of \<open>TelnetHandler\<close> in \<open>src/python/infra/defw_telnetservlib.py\<close>: the negotiation of
  options, the input cooker, which turns the received bytes into characters, and the output. A
  character is its code point, a byte a number below 256. What the socket delivers is an argument:
  the results of the calls of \<open>recv\<close>, each with whether it had already arrived when \<open>select\<close> was asked.
\<close>

type_synonym utext = "nat list"

subsection \<open>UTF-8\<close>

fun utf8 :: "nat \<Rightarrow> nat list" where
  "utf8 n =
     (if n < 128 then [n]
      else if n < 2048 then [192 + n div 64, 128 + n mod 64]
      else if n < 65536 then [224 + n div 4096, 128 + n div 64 mod 64, 128 + n mod 64]
      else [240 + n div 262144, 128 + n div 4096 mod 64, 128 + n div 64 mod 64, 128 + n mod 64])"

definition utf8_encode :: "utext \<Rightarrow> nat list" where
  "utf8_encode t = concat (map utf8 t)"

definition cont :: "nat \<Rightarrow> bool" where
  "cont b \<longleftrightarrow> 128 \<le> b \<and> b < 192"

text \<open>The first character of a sequence of bytes and the bytes behind it.\<close>

fun utf8_head :: "nat list \<Rightarrow> (nat \<times> nat list) option" where
  "utf8_head [] = None"
| "utf8_head (a # bs) =
     (if a < 128 then Some (a, bs)
      else if 194 \<le> a \<and> a < 224 then
        (case bs of
           b # ds \<Rightarrow> if cont b then Some (64 * (a - 192) + (b - 128), ds) else None
         | _ \<Rightarrow> None)
      else if 224 \<le> a \<and> a < 240 then
        (case bs of
           b # c # ds \<Rightarrow>
             (let n = 4096 * (a - 224) + 64 * (b - 128) + (c - 128) in
              if cont b \<and> cont c \<and> 2048 \<le> n \<and> \<not> (55296 \<le> n \<and> n < 57344) then Some (n, ds) else None)
         | _ \<Rightarrow> None)
      else if 240 \<le> a \<and> a < 245 then
        (case bs of
           b # c # d # ds \<Rightarrow>
             (let n = 262144 * (a - 240) + 4096 * (b - 128) + 64 * (c - 128) + (d - 128) in
              if cont b \<and> cont c \<and> cont d \<and> 65536 \<le> n \<and> n < 1114112 then Some (n, ds) else None)
         | _ \<Rightarrow> None)
      else None)"

lemma utf8_head_shorter [termination_simp]: "utf8_head (a # bs) = Some (n, ds) \<Longrightarrow> length ds < Suc (length bs)"
  by (auto simp: Let_def split: if_splits list.splits)

text \<open>\<open>bs.decode('utf-8')\<close>; \<open>None\<close>: \<open>UnicodeDecodeError\<close>.\<close>

function utf8_decode :: "nat list \<Rightarrow> utext option" where
  "utf8_decode [] = Some []"
| "utf8_decode (a # bs) =
     (case utf8_head (a # bs) of None \<Rightarrow> None | Some (n, ds) \<Rightarrow> map_option (Cons n) (utf8_decode ds))"
  by pat_completeness auto
termination
  by (relation "measure length") (auto dest: utf8_head_shorter simp del: utf8_head.simps)

declare utf8_head.simps(2) [simp del]

subsection \<open>Commands and options\<close>

definition IAC :: nat where "IAC = 255"
definition DONT :: nat where "DONT = 254"
definition DO :: nat where "DO = 253"
definition WONT :: nat where "WONT = 252"
definition WILL :: nat where "WILL = 251"
definition SB :: nat where "SB = 250"
definition NOP :: nat where "NOP = 241"
definition SE :: nat where "SE = 240"
definition OPT_ECHO :: nat where "OPT_ECHO = 1"
definition SGA :: nat where "SGA = 3"
definition TTYPE :: nat where "TTYPE = 24"
definition NAWS :: nat where "NAWS = 31"
definition LINEMODE :: nat where "LINEMODE = 34"
definition NEW_ENVIRON :: nat where "NEW_ENVIRON = 39"

lemmas codes = IAC_def DONT_def DO_def WONT_def WILL_def SB_def NOP_def SE_def

text \<open>What the server is prepared to do, and what it wants the client to do.\<close>

definition DOACK :: "(nat \<times> nat) list" where
  "DOACK = [(OPT_ECHO, WILL), (SGA, WILL), (NEW_ENVIRON, WONT)]"

definition WILLACK :: "(nat \<times> nat) list" where
  "WILLACK = [(OPT_ECHO, DONT), (SGA, DO), (NAWS, DONT), (TTYPE, DO), (LINEMODE, DONT), (NEW_ENVIRON, DO)]"

text \<open>
  The state of a connection. \<open>tn_doopts\<close> and \<open>tn_willopts\<close> say what was sent for an option; an entry that
  was only created is the same as none. \<open>tn_out\<close> are the texts sent so far.
\<close>

record telnet =
  tn_doopts :: "(nat \<times> bool) list"
  tn_willopts :: "(nat \<times> bool) list"
  tn_doecho :: bool
  tn_term :: utext
  tn_rawq :: utext
  tn_cookedq :: utext
  tn_sbdataq :: utext
  tn_iacseq :: utext
  tn_sb :: bool
  tn_eof :: bool
  tn_out :: "utext list"

definition init_telnet :: "utext \<Rightarrow> telnet" where
  "init_telnet term0 = \<lparr>tn_doopts = [], tn_willopts = [], tn_doecho = True, tn_term = term0, tn_rawq = [], tn_cookedq = [],
     tn_sbdataq = [], tn_iacseq = [], tn_sb = False, tn_eof = False, tn_out = []\<rparr>"

definition writecooked :: "utext \<Rightarrow> telnet \<Rightarrow> telnet" where
  "writecooked t tn = tn\<lparr>tn_out := tn_out tn @ [t]\<rparr>"

text \<open>\<open>write\<close>: the character 255 is doubled and a line feed gets a carriage return.\<close>

definition cook_output :: "utext \<Rightarrow> utext" where
  "cook_output t = concat (map (\<lambda>c. if c = IAC then [IAC, IAC] else if c = 10 then [13, 10] else [c]) t)"

definition write_text :: "utext \<Rightarrow> telnet \<Rightarrow> telnet" where
  "write_text t tn = writecooked (cook_output t) tn"

definition writeline :: "utext \<Rightarrow> telnet \<Rightarrow> telnet" where
  "writeline t tn = write_text (t @ [10]) tn"

text \<open>\<open>sendcommand\<close>: a request is sent only if it differs from the last one for the option.\<close>

definition sendcommand :: "nat \<Rightarrow> nat \<Rightarrow> telnet \<Rightarrow> telnet" where
  "sendcommand cmd opt tn =
     (if cmd = DO \<or> cmd = DONT then
        (if map_of (tn_doopts tn) opt \<noteq> Some (cmd = DO)
         then writecooked [IAC, cmd, opt] (tn\<lparr>tn_doopts := AList.update opt (cmd = DO) (tn_doopts tn)\<rparr>) else tn)
      else if cmd = WILL \<or> cmd = WONT then
        (if map_of (tn_willopts tn) opt \<noteq> Some (cmd = WILL)
         then writecooked [IAC, cmd, opt] (tn\<lparr>tn_willopts := AList.update opt (cmd = WILL) (tn_willopts tn)\<rparr>) else tn)
      else writecooked [IAC, cmd] tn)"

definition will_answer :: "nat \<Rightarrow> nat" where
  "will_answer opt = (case map_of WILLACK opt of Some a \<Rightarrow> a | None \<Rightarrow> DONT)"

definition do_answer :: "nat \<Rightarrow> nat" where
  "do_answer opt = (case map_of DOACK opt of Some a \<Rightarrow> a | None \<Rightarrow> WONT)"

text \<open>\<open>setup\<close> announces all options.\<close>

definition setup_options :: "telnet \<Rightarrow> telnet" where
  "setup_options tn = foldl (\<lambda>s (k, a). sendcommand a k s) (foldl (\<lambda>s (k, a). sendcommand a k s) tn DOACK) WILLACK"

text \<open>
  \<open>options_handler\<close>; \<open>known\<close> tells whether \<open>setterm\<close> accepts a terminal. The data of a subnegotiation are
  indexed without a check.
\<close>

definition options_handler :: "(utext \<Rightarrow> bool) \<Rightarrow> nat \<Rightarrow> nat \<Rightarrow> telnet \<Rightarrow> telnet \<times> unit result" where
  "options_handler known cmd opt tn =
     (if cmd = NOP then (sendcommand NOP 0 tn, Inr ())
      else if cmd = WILL \<or> cmd = WONT then
        (let tn1 = sendcommand (will_answer opt) opt tn in
         (if cmd = WILL \<and> opt = TTYPE then writecooked [IAC, SB, TTYPE, 1, IAC, SE] tn1 else tn1, Inr ()))
      else if cmd = DO \<or> cmd = DONT then
        (let tn1 = sendcommand (do_answer opt) opt tn in
         (if opt = OPT_ECHO then tn1\<lparr>tn_doecho := (cmd = DO)\<rparr> else tn1, Inr ()))
      else if cmd = SE then
        (let tn1 = tn\<lparr>tn_sbdataq := []\<rparr> in
         case tn_sbdataq tn of
           [] \<Rightarrow> (tn1, Inl PyIndexError)
         | a # rest \<Rightarrow>
             if a \<noteq> TTYPE then (tn1, Inr ())
             else (case rest of
                [] \<Rightarrow> (tn1, Inl PyIndexError)
              | b # t \<Rightarrow> (if b = 0 \<and> known t then tn1\<lparr>tn_term := t\<rparr> else tn1, Inr ())))
      else (tn, Inr ()))"

subsection \<open>The input cooker\<close>

text \<open>
  \<open>_inputcooker_getc\<close>: a chunk is what one \<open>recv\<close> returns, with whether it is ready. A chunk that starts
  with the byte 255 is taken for the end of the stream, and so is an empty one.
\<close>

type_synonym chunk = "bool \<times> nat list"

datatype got = Got nat | NoData | AtEof | BadText | Waits

definition cooker_getc :: "bool \<Rightarrow> telnet \<Rightarrow> chunk list \<Rightarrow> got \<times> telnet \<times> chunk list" where
  "cooker_getc block tn chunks =
     (case tn_rawq tn of
        c # cs \<Rightarrow> (Got c, tn\<lparr>tn_rawq := cs\<rparr>, chunks)
      | [] \<Rightarrow>
          (case chunks of
             [] \<Rightarrow> (if block then Waits else NoData, tn, chunks)
           | (ready, bs) # rest \<Rightarrow>
               if \<not> block \<and> \<not> ready then (NoData, tn, chunks)
               else
                 (let tn1 = tn\<lparr>tn_eof := (bs = [])\<rparr> in
                  if bs \<noteq> [] \<and> hd bs = 255 then (AtEof, tn1, rest)
                  else case utf8_decode bs of
                    None \<Rightarrow> (BadText, tn1, rest)
                  | Some [] \<Rightarrow> (AtEof, tn1, rest)
                  | Some (c # cs) \<Rightarrow> (Got c, tn1\<lparr>tn_rawq := cs\<rparr>, rest))))"

definition cooker_ungetc :: "nat \<Rightarrow> telnet \<Rightarrow> telnet" where
  "cooker_ungetc c tn = tn\<lparr>tn_rawq := c # tn_rawq tn\<rparr>"

definition cooker_store :: "nat \<Rightarrow> telnet \<Rightarrow> telnet" where
  "cooker_store c tn =
     (if tn_sb tn then tn\<lparr>tn_sbdataq := tn_sbdataq tn @ [c]\<rparr> else tn\<lparr>tn_cookedq := tn_cookedq tn @ [c]\<rparr>)"

text \<open>
  A carriage return and what may follow it. The third case of the code, the start of a key sequence,
  never applies: the sequences of the terminal are bytes, and a character never equals a number.
\<close>

definition cook_return :: "telnet \<Rightarrow> chunk list \<Rightarrow> (nat, got) sum \<times> telnet \<times> chunk list" where
  "cook_return tn chunks =
     (case cooker_getc False tn chunks of
        (Got c, tn1, ch1) \<Rightarrow> (Inl 10, if c = 0 \<or> c = 10 then tn1 else cooker_ungetc c tn1, ch1)
      | (NoData, tn1, ch1) \<Rightarrow> (Inl 10, tn1, ch1)
      | (r, tn1, ch1) \<Rightarrow> (Inr r, tn1, ch1))"

text \<open>One character outside and inside a command; the second component is an exception.\<close>

definition cook_command :: "(utext \<Rightarrow> bool) \<Rightarrow> nat \<Rightarrow> telnet \<Rightarrow> telnet \<times> unit result" where
  "cook_command known c tn =
     (if length (tn_iacseq tn) = 1 then
        (if c = DO \<or> c = DONT \<or> c = WILL \<or> c = WONT then (tn\<lparr>tn_iacseq := tn_iacseq tn @ [c]\<rparr>, Inr ())
         else
           (let tn1 = tn\<lparr>tn_iacseq := []\<rparr> in
            if c = IAC then (cooker_store c tn1, Inr ())
            else options_handler known c 0
              (if c = SB then tn1\<lparr>tn_sb := True, tn_sbdataq := []\<rparr> else if c = SE then tn1\<lparr>tn_sb := False\<rparr> else tn1)))
      else
        (let cmd = tn_iacseq tn ! 1; tn1 = tn\<lparr>tn_iacseq := []\<rparr> in
         if cmd = DO \<or> cmd = DONT \<or> cmd = WILL \<or> cmd = WONT then options_handler known cmd c tn1 else (tn1, Inr ())))"

text \<open>How the thread of the cooker ends, if it does not wait for more input.\<close>

datatype ended = Waiting | EndOfStream | Died exc

definition cook_one :: "(utext \<Rightarrow> bool) \<Rightarrow> telnet \<Rightarrow> chunk list \<Rightarrow> telnet \<times> chunk list \<times> ended option" where
  "cook_one known tn chunks =
     (case cooker_getc True tn chunks of
        (Got c, tn1, ch1) \<Rightarrow>
          (if tn_iacseq tn1 = [] then
             (if c = IAC then (tn1\<lparr>tn_iacseq := [c]\<rparr>, ch1, None)
              else if c = 13 \<and> \<not> tn_sb tn1 then
                (case cook_return tn1 ch1 of
                   (Inl d, tn2, ch2) \<Rightarrow> (cooker_store d tn2, ch2, None)
                 | (Inr AtEof, tn2, ch2) \<Rightarrow> (tn2, ch2, Some EndOfStream)
                 | (Inr BadText, tn2, ch2) \<Rightarrow> (tn2, ch2, Some (Died PyValueError))
                 | (Inr _, tn2, ch2) \<Rightarrow> (tn2, ch2, Some Waiting))
              else (cooker_store c tn1, ch1, None))
           else
             (case cook_command known c tn1 of
                (tn2, Inr _) \<Rightarrow> (tn2, ch1, None)
              | (tn2, Inl e) \<Rightarrow> (tn2, ch1, Some (Died e))))
      | (AtEof, tn1, ch1) \<Rightarrow> (tn1, ch1, Some EndOfStream)
      | (BadText, tn1, ch1) \<Rightarrow> (tn1, ch1, Some (Died PyValueError))
      | (_, tn1, ch1) \<Rightarrow> (tn1, ch1, Some Waiting))"

subsection \<open>The cooker ends\<close>

lemma writecooked_frame [simp]: "tn_rawq (writecooked t tn) = tn_rawq tn" "tn_cookedq (writecooked t tn) = tn_cookedq tn"
  "tn_sb (writecooked t tn) = tn_sb tn" "tn_iacseq (writecooked t tn) = tn_iacseq tn"
  "tn_doopts (writecooked t tn) = tn_doopts tn" "tn_willopts (writecooked t tn) = tn_willopts tn"
  "tn_out (writecooked t tn) = tn_out tn @ [t]" "tn_sbdataq (writecooked t tn) = tn_sbdataq tn"
  by (simp_all add: writecooked_def)

lemma sendcommand_frame [simp]: "tn_rawq (sendcommand c opt tn) = tn_rawq tn" "tn_cookedq (sendcommand c opt tn) = tn_cookedq tn"
  "tn_sb (sendcommand c opt tn) = tn_sb tn" "tn_iacseq (sendcommand c opt tn) = tn_iacseq tn"
  "tn_sbdataq (sendcommand c opt tn) = tn_sbdataq tn"
  by (simp_all add: sendcommand_def)

lemma options_handler_rawq: "options_handler known c opt tn = (tn', r) \<Longrightarrow> tn_rawq tn' = tn_rawq tn"
  by (auto simp: options_handler_def Let_def split: if_splits list.splits)

lemma cook_command_rawq: "cook_command known c tn = (tn', r) \<Longrightarrow> tn_rawq tn' = tn_rawq tn"
  by (auto simp: cook_command_def Let_def cooker_store_def dest!: options_handler_rawq split: if_splits)

lemma cooker_store_frame [simp]: "tn_rawq (cooker_store c tn) = tn_rawq tn" "tn_iacseq (cooker_store c tn) = tn_iacseq tn"
  "tn_sb (cooker_store c tn) = tn_sb tn" "tn_out (cooker_store c tn) = tn_out tn" "tn_doopts (cooker_store c tn) = tn_doopts tn"
  "tn_willopts (cooker_store c tn) = tn_willopts tn"
  by (simp_all add: cooker_store_def)

lemma utf8_decode_length: "utf8_decode bs = Some t \<Longrightarrow> length t \<le> length bs"
proof (induction bs arbitrary: t rule: utf8_decode.induct)
  case (2 a bs)
  then show ?case by (fastforce dest: utf8_head_shorter split: option.splits)
qed simp

definition pending :: "telnet \<Rightarrow> chunk list \<Rightarrow> nat" where
  "pending tn chunks = length (tn_rawq tn) + sum_list (map (\<lambda>(r, bs). Suc (length bs)) chunks)"

lemma cooker_getc_pending:
  assumes "cooker_getc block tn chunks = (Got c, tn', ch')"
  shows "pending tn' ch' < pending tn chunks" "pending (cooker_ungetc c tn') ch' \<le> pending tn chunks"
  using assms utf8_decode_length
  by (auto simp: cooker_getc_def pending_def cooker_ungetc_def Let_def split: list.splits if_splits option.splits; fastforce)+

lemma cook_return_pending: "cook_return tn chunks = (Inl d, tn', ch') \<Longrightarrow> pending tn' ch' \<le> pending tn chunks"
proof -
  assume r: "cook_return tn chunks = (Inl d, tn', ch')"
  obtain g tn1 ch1 where g: "cooker_getc False tn chunks = (g, tn1, ch1)" by (cases "cooker_getc False tn chunks")
  show ?thesis
  proof (cases g)
    case (Got c)
    with g cooker_getc_pending [of False tn chunks c tn1 ch1] r show ?thesis
      by (auto simp: cook_return_def split: if_splits)
  next
    case NoData
    with g r have "tn' = tn" "ch' = chunks"
      by (auto simp: cook_return_def cooker_getc_def Let_def split: list.splits if_splits option.splits prod.splits)
    then show ?thesis by simp
  qed (use g r in \<open>auto simp: cook_return_def\<close>)
qed

lemma pending_store [simp]: "pending (cooker_store c tn) ch = pending tn ch"
  by (simp add: pending_def)

lemma pending_cong: "tn_rawq tn' = tn_rawq tn \<Longrightarrow> pending tn' ch = pending tn ch"
  by (simp add: pending_def)

lemma cook_one_pending:
  assumes "cook_one known tn chunks = (tn', ch', None)"
  shows "pending tn' ch' < pending tn chunks"
proof -
  obtain g tn1 ch1 where g: "cooker_getc True tn chunks = (g, tn1, ch1)" by (cases "cooker_getc True tn chunks")
  with assms obtain c where c: "g = Got c" by (cases g) (auto simp: cook_one_def)
  have lt: "pending tn1 ch1 < pending tn chunks" using cooker_getc_pending(1) g c by blast
  have "pending tn' ch' \<le> pending tn1 ch1"
  proof (cases "tn_iacseq tn1 = []")
    case True
    with assms g c show ?thesis
      by (auto simp: cook_one_def pending_def [of "tn1\<lparr>tn_iacseq := _\<rparr>"] pending_def [of tn1]
        dest!: cook_return_pending split: if_splits prod.splits sum.splits got.splits)
  next
    case False
    with assms g c have "\<exists>r. cook_command known c tn1 = (tn', r)" "ch' = ch1"
      by (auto simp: cook_one_def split: prod.splits sum.splits)
    then show ?thesis using cook_command_rawq pending_cong by (metis order_refl)
  qed
  with lt show ?thesis by simp
qed

text \<open>The thread: it takes characters until it waits, the stream ends or an exception is raised.\<close>

function inputcooker :: "(utext \<Rightarrow> bool) \<Rightarrow> telnet \<Rightarrow> chunk list \<Rightarrow> telnet \<times> chunk list \<times> ended" where
  "inputcooker known tn chunks =
     (case cook_one known tn chunks of
        (tn', ch', None) \<Rightarrow> inputcooker known tn' ch'
      | (tn', ch', Some e) \<Rightarrow> (tn', ch', e))"
  by pat_completeness auto
termination
  by (relation "measure (\<lambda>(known, tn, chunks). pending tn chunks)") (auto intro: cook_one_pending dest: sym)

declare inputcooker.simps [simp del]

subsection \<open>Negotiations end\<close>

definition asks :: "nat \<Rightarrow> nat \<Rightarrow> nat \<Rightarrow> utext \<Rightarrow> bool" where
  "asks a b opt m \<longleftrightarrow> m = [IAC, a, opt] \<or> m = [IAC, b, opt]"

text \<open>
  The invariant: for every option the recorded request is the one the tables prescribe, and it was
  sent once.
\<close>

definition negotiated :: "telnet \<Rightarrow> bool" where
  "negotiated tn \<longleftrightarrow>
     (\<forall>opt b. map_of (tn_doopts tn) opt = Some b \<longrightarrow> b = (will_answer opt = DO)) \<and>
     (\<forall>opt b. map_of (tn_willopts tn) opt = Some b \<longrightarrow> b = (do_answer opt = WILL)) \<and>
     (\<forall>opt. length (filter (asks DO DONT opt) (tn_out tn)) = (if map_of (tn_doopts tn) opt = None then 0 else 1)) \<and>
     (\<forall>opt. length (filter (asks WILL WONT opt) (tn_out tn)) = (if map_of (tn_willopts tn) opt = None then 0 else 1))"

lemma answers: "will_answer opt = DO \<or> will_answer opt = DONT" "do_answer opt = WILL \<or> do_answer opt = WONT"
  by (auto simp: will_answer_def do_answer_def WILLACK_def DOACK_def split: option.splits if_splits)

lemma negotiated_cong:
  "tn_doopts tn' = tn_doopts tn \<Longrightarrow> tn_willopts tn' = tn_willopts tn \<Longrightarrow> tn_out tn' = tn_out tn \<Longrightarrow> negotiated tn' = negotiated tn"
  by (simp add: negotiated_def)

lemma negotiated_other:
  "negotiated tn \<Longrightarrow> \<forall>opt. \<not> asks DO DONT opt t \<and> \<not> asks WILL WONT opt t \<Longrightarrow> negotiated (writecooked t tn)"
  by (simp add: negotiated_def)

lemma negotiated_will: "negotiated tn \<Longrightarrow> negotiated (sendcommand (will_answer opt) opt tn)"
proof -
  assume n: "negotiated tn"
  have "map_of (tn_doopts tn) opt = None \<or> map_of (tn_doopts tn) opt = Some (will_answer opt = DO)"
    using n by (cases "map_of (tn_doopts tn) opt") (auto simp: negotiated_def)
  then show ?thesis
  proof
    assume "map_of (tn_doopts tn) opt = None"
    with n answers(1) [of opt] show ?thesis
      by (auto simp: negotiated_def sendcommand_def asks_def codes)
  next
    assume "map_of (tn_doopts tn) opt = Some (will_answer opt = DO)"
    with n answers(1) [of opt] show ?thesis by (auto simp: sendcommand_def)
  qed
qed

lemma negotiated_do: "negotiated tn \<Longrightarrow> negotiated (sendcommand (do_answer opt) opt tn)"
proof -
  assume n: "negotiated tn"
  have "map_of (tn_willopts tn) opt = None \<or> map_of (tn_willopts tn) opt = Some (do_answer opt = WILL)"
    using n by (cases "map_of (tn_willopts tn) opt") (auto simp: negotiated_def)
  then show ?thesis
  proof
    assume "map_of (tn_willopts tn) opt = None"
    with n answers(2) [of opt] show ?thesis
      by (auto simp: negotiated_def sendcommand_def asks_def codes)
  next
    assume "map_of (tn_willopts tn) opt = Some (do_answer opt = WILL)"
    with n answers(2) [of opt] show ?thesis by (auto simp: sendcommand_def codes)
  qed
qed

lemma negotiated_handler: "negotiated tn \<Longrightarrow> options_handler known c opt tn = (tn', r) \<Longrightarrow> negotiated tn'"
proof -
  assume n: "negotiated tn" and h: "options_handler known c opt tn = (tn', r)"
  consider "c = NOP" | "c = WILL \<or> c = WONT" | "c = DO \<or> c = DONT" | "c = SE" | "c \<notin> {NOP, WILL, WONT, DO, DONT, SE}" by blast
  then show ?thesis
  proof cases
    case 1
    then show ?thesis using h n by (auto simp: options_handler_def sendcommand_def codes asks_def intro!: negotiated_other)
  next
    case 2
    then have "c \<noteq> NOP" by (auto simp: codes)
    with 2 h have "tn' = sendcommand (will_answer opt) opt tn \<or>
        tn' = writecooked [IAC, SB, TTYPE, 1, IAC, SE] (sendcommand (will_answer opt) opt tn)"
      by (auto simp: options_handler_def Let_def split: if_splits)
    then show ?thesis using negotiated_will [OF n, of opt] by (auto simp: asks_def intro!: negotiated_other)
  next
    case 3
    then have "c \<noteq> NOP \<and> c \<noteq> WILL \<and> c \<noteq> WONT" by (auto simp: codes)
    with 3 h have "\<exists>b. tn' = sendcommand (do_answer opt) opt tn \<or> tn' = sendcommand (do_answer opt) opt tn\<lparr>tn_doecho := b\<rparr>"
      by (auto simp: options_handler_def Let_def split: if_splits)
    then obtain b where "tn' = sendcommand (do_answer opt) opt tn \<or> tn' = sendcommand (do_answer opt) opt tn\<lparr>tn_doecho := b\<rparr>" ..
    moreover have "negotiated (sendcommand (do_answer opt) opt tn\<lparr>tn_doecho := b\<rparr>) = negotiated (sendcommand (do_answer opt) opt tn)"
      by (rule negotiated_cong) simp_all
    ultimately show ?thesis using negotiated_do [OF n, of opt] by auto
  next
    case 4
    then have "tn_doopts tn' = tn_doopts tn \<and> tn_willopts tn' = tn_willopts tn \<and> tn_out tn' = tn_out tn"
      using h by (auto simp: options_handler_def Let_def codes split: if_splits list.splits)
    then show ?thesis using negotiated_cong [of tn' tn] n by simp
  next
    case 5
    then show ?thesis using h n by (auto simp: options_handler_def)
  qed
qed

lemma negotiated_frame:
  "negotiated (tn\<lparr>tn_iacseq := x\<rparr>) = negotiated tn" "negotiated (tn\<lparr>tn_rawq := x\<rparr>) = negotiated tn"
  "negotiated (tn\<lparr>tn_sb := b, tn_sbdataq := x\<rparr>) = negotiated tn" "negotiated (tn\<lparr>tn_sb := b\<rparr>) = negotiated tn"
  "negotiated (cooker_store c tn) = negotiated tn" "negotiated (cooker_ungetc c tn) = negotiated tn"
  "negotiated (tn\<lparr>tn_eof := b\<rparr>) = negotiated tn" "negotiated (tn\<lparr>tn_eof := b, tn_rawq := x\<rparr>) = negotiated tn"
  by (rule negotiated_cong; simp add: cooker_ungetc_def)+

lemma negotiated_getc: "negotiated tn \<Longrightarrow> cooker_getc block tn chunks = (g, tn', ch') \<Longrightarrow> negotiated tn'"
  by (auto simp: cooker_getc_def Let_def negotiated_frame split: list.splits if_splits option.splits prod.splits)

lemma negotiated_command: "negotiated tn \<Longrightarrow> cook_command known c tn = (tn', r) \<Longrightarrow> negotiated tn'"
  by (auto simp: cook_command_def Let_def negotiated_frame dest!: negotiated_handler [rotated] split: if_splits)

lemma negotiated_return: "negotiated tn \<Longrightarrow> cook_return tn chunks = (d, tn', ch') \<Longrightarrow> negotiated tn'"
proof -
  assume n: "negotiated tn" and r: "cook_return tn chunks = (d, tn', ch')"
  obtain g tn1 ch1 where g: "cooker_getc False tn chunks = (g, tn1, ch1)" by (cases "cooker_getc False tn chunks")
  with negotiated_getc [OF n g] r show ?thesis
    by (cases g) (auto simp: cook_return_def negotiated_frame split: if_splits)
qed

lemma negotiated_one:
  assumes "negotiated tn" and "cook_one known tn chunks = (tn', ch', e)"
  shows "negotiated tn'"
proof -
  obtain g tn1 ch1 where g: "cooker_getc True tn chunks = (g, tn1, ch1)" by (cases "cooker_getc True tn chunks")
  note n1 = negotiated_getc [OF assms(1) g]
  show ?thesis
  proof (cases g)
    case (Got c)
    obtain d tn2 ch2 where r: "cook_return tn1 ch1 = (d, tn2, ch2)" by (cases "cook_return tn1 ch1")
    obtain tn3 res where k: "cook_command known c tn1 = (tn3, res)" by (cases "cook_command known c tn1")
    from assms(2) g Got r k negotiated_return [OF n1 r] negotiated_command [OF n1 k] n1 show ?thesis
      by (auto simp: cook_one_def negotiated_frame split: if_splits sum.splits got.splits)
  qed (use assms(2) g n1 in \<open>auto simp: cook_one_def\<close>)
qed

lemma negotiated_cooker: "negotiated tn \<Longrightarrow> inputcooker known tn chunks = (tn', ch', e) \<Longrightarrow> negotiated tn'"
proof (induction known tn chunks rule: inputcooker.induct)
  case (1 known tn chunks)
  obtain tn1 ch1 r where o: "cook_one known tn chunks = (tn1, ch1, r)" by (cases "cook_one known tn chunks")
  note n1 = negotiated_one [OF "1.prems"(1) o]
  show ?case
  proof (cases r)
    case None
    with "1.prems"(2) o have "inputcooker known tn1 ch1 = (tn', ch', e)" by (subst (asm) inputcooker.simps) simp
    with "1.IH" [OF o [symmetric] refl None n1] show ?thesis by simp
  next
    case (Some e')
    with "1.prems"(2) o n1 show ?thesis by (subst (asm) inputcooker.simps) simp
  qed
qed

lemma negotiated_setup: "negotiated (setup_options (init_telnet t))"
proof -
  have i: "negotiated (init_telnet t)" by (simp add: negotiated_def init_telnet_def)
  have d: "\<forall>(k, a) \<in> set DOACK. a = do_answer k \<or> a = will_answer k"
    by (auto simp: DOACK_def do_answer_def OPT_ECHO_def SGA_def NEW_ENVIRON_def)
  have w: "\<forall>(k, a) \<in> set WILLACK. a = do_answer k \<or> a = will_answer k"
    by (auto simp: WILLACK_def will_answer_def OPT_ECHO_def SGA_def NEW_ENVIRON_def NAWS_def TTYPE_def LINEMODE_def)
  have f: "negotiated (foldl (\<lambda>s (k, a). sendcommand a k s) s xs)"
    if "negotiated s" "\<forall>(k, a) \<in> set xs. a = do_answer k \<or> a = will_answer k" for s xs
    using that by (induction xs arbitrary: s) (auto simp: negotiated_do negotiated_will)
  show ?thesis unfolding setup_options_def by (rule f [OF f [OF i d] w])
qed

text \<open>
  C32: negotiations end. Whatever the client sends after the server announced its options, the server
  has sent at most one request and at most one offer for each option, so the two sides cannot answer
  each other for ever.
\<close>
theorem negotiation_settles:
  assumes "inputcooker known (setup_options (init_telnet t)) chunks = (tn, rest, e)"
  shows "length (filter (asks DO DONT opt) (tn_out tn)) \<le> 1 \<and> length (filter (asks WILL WONT opt) (tn_out tn)) \<le> 1"
  using negotiated_cooker [OF negotiated_setup assms] by (simp add: negotiated_def)

text \<open>A client that refuses everything and asks for the terminal type: bytes of the UTF-8 form of 255.\<close>

definition demo_chunks :: "chunk list" where
  "demo_chunks = [(True, utf8_encode [IAC, WILL, TTYPE, IAC, WILL, TTYPE]), (True, utf8_encode [IAC, DO, 99, IAC, DO, 99])]"

theorem negotiation_settles_witness:
  "\<exists>tn rest e. inputcooker (\<lambda>_. True) (setup_options (init_telnet [])) demo_chunks = (tn, rest, e) \<and>
     length (filter (asks WILL WONT 99) (tn_out tn)) \<le> 1"
proof -
  obtain tn rest e where c: "inputcooker (\<lambda>_. True) (setup_options (init_telnet [])) demo_chunks = (tn, rest, e)"
    by (cases "inputcooker (\<lambda>_. True) (setup_options (init_telnet [])) demo_chunks")
  from negotiation_settles [OF c, of 99] c show ?thesis by blast
qed

subsection \<open>Bytes on the wire\<close>

text \<open>The encoder and the decoder agree on every character that can be encoded.\<close>

definition scalar :: "nat \<Rightarrow> bool" where
  "scalar n \<longleftrightarrow> n < 1114112 \<and> \<not> (55296 \<le> n \<and> n < 57344)"

lemma utf8_head_utf8:
  assumes "scalar n"
  shows "utf8_head (utf8 n @ bs) = Some (n, bs)"
proof -
  have m: "64 * (n div 64) + n mod 64 = n" "4096 * (n div 4096) + 64 * (n div 64 mod 64) + n mod 64 = n"
    "262144 * (n div 262144) + 4096 * (n div 4096 mod 64) + 64 * (n div 64 mod 64) + n mod 64 = n"
  proof -
    obtain q1 q2 q3 r0 r1 r2 where q: "q1 = n div 64" "q2 = q1 div 64" "q3 = q2 div 64" "r0 = n mod 64" "r1 = q1 mod 64" "r2 = q2 mod 64"
      by blast
    have d: "n div 4096 = q2" "n div 262144 = q3" unfolding q by (simp_all add: div_mult2_eq [symmetric])
    have e: "64 * q1 + r0 = n" "64 * q2 + r1 = q1" "64 * q3 + r2 = q2" unfolding q by simp_all
    have "4096 * q2 + 64 * r1 + r0 = n" "262144 * q3 + 4096 * r2 + 64 * r1 + r0 = n" using e by simp_all
    with e(1) show "64 * (n div 64) + n mod 64 = n" "4096 * (n div 4096) + 64 * (n div 64 mod 64) + n mod 64 = n"
      "262144 * (n div 262144) + 4096 * (n div 4096 mod 64) + 64 * (n div 64 mod 64) + n mod 64 = n"
      unfolding d q(1) [symmetric] q(4-6) [symmetric] by blast+
  qed
  have k: "cont (128 + x mod 64)" for x by (simp add: cont_def)
  consider "n < 128" | "128 \<le> n" "n < 2048" | "2048 \<le> n" "n < 65536" | "65536 \<le> n" by linarith
  then show ?thesis
  proof cases
    case 1
    then show ?thesis by (simp add: utf8_head.simps)
  next
    case 2
    then have "2 \<le> n div 64" "n div 64 < 32" by (simp_all add: less_mult_imp_div_less div_le_mono [of 128 n 64, simplified])
    with 2 m(1) k show ?thesis by (simp add: utf8_head.simps)
  next
    case 3
    then have "n div 4096 < 16" by (simp add: less_mult_imp_div_less)
    with 3 m(2) k assms show ?thesis by (simp add: utf8_head.simps scalar_def Let_def)
  next
    case 4
    with assms have "n div 262144 < 5" by (simp add: less_mult_imp_div_less scalar_def)
    with 4 m(3) k assms show ?thesis by (simp add: utf8_head.simps scalar_def Let_def)
  qed
qed

lemma utf8_ne: "utf8 n \<noteq> []"
  by simp

lemma utf8_roundtrip: "\<forall>n \<in> set t. scalar n \<Longrightarrow> utf8_decode (utf8_encode t) = Some t"
proof (induction t)
  case Nil
  then show ?case by (simp add: utf8_encode_def)
next
  case (Cons n t)
  obtain a bs where ab: "utf8 n @ utf8_encode t = a # bs" by (cases "utf8 n @ utf8_encode t") (auto simp del: utf8.simps simp: utf8_ne)
  have "utf8_encode (n # t) = a # bs" by (simp add: utf8_encode_def ab [unfolded utf8_encode_def] del: utf8.simps)
  with ab utf8_head_utf8 [of n "utf8_encode t"] Cons show ?case by (simp del: utf8.simps)
qed

text \<open>
  The byte 255, with which a telnet client starts a command, is never sent: the character 255 goes
  out in its UTF-8 form of two bytes.
\<close>

lemma no_IAC_byte: "\<forall>n \<in> set t. scalar n \<Longrightarrow> 255 \<notin> set (utf8_encode t)"
proof -
  have "255 \<notin> set (utf8 n)" if "scalar n" for n
  proof -
    have "n div 262144 < 5" "n < 2048 \<Longrightarrow> n div 64 < 32" "n < 65536 \<Longrightarrow> n div 4096 < 16"
      "n mod 64 < 64" "n div 64 mod 64 < 64" "n div 4096 mod 64 < 64"
      using that by (simp_all add: less_mult_imp_div_less scalar_def)
    then show ?thesis by auto
  qed
  then show "\<forall>n \<in> set t. scalar n \<Longrightarrow> 255 \<notin> set (utf8_encode t)" by (auto simp: utf8_encode_def simp del: utf8.simps)
qed

lemma sendcommand_bytes: "utf8_encode [IAC, DO, OPT_ECHO] = [195, 191, 195, 189, 1]"
  by (simp add: utf8_encode_def IAC_def DO_def OPT_ECHO_def)

text \<open>What a client sends that follows the protocol ends the session or kills the thread.\<close>

lemma command_ends_stream:
  "tn_rawq tn = [] \<Longrightarrow> cook_one known tn ((ready, 255 # bs) # rest) = (tn\<lparr>tn_eof := False\<rparr>, rest, Some EndOfStream)"
  by (simp add: cook_one_def cooker_getc_def Let_def)

subsection \<open>What the shell reads\<close>

text \<open>The text without the different ways to end a line.\<close>

fun line_ends :: "utext \<Rightarrow> utext" where
  "line_ends [] = []"
| "line_ends [c] = [if c = 13 then 10 else c]"
| "line_ends (c # d # cs) =
     (if c = 13 then 10 # line_ends (if d = 0 \<or> d = 10 then cs else d # cs) else c # line_ends (d # cs))"

definition ascii_chunk :: "chunk \<Rightarrow> bool" where
  "ascii_chunk ch \<longleftrightarrow> fst ch \<and> snd ch \<noteq> [] \<and> (\<forall>b \<in> set (snd ch). b < 128)"

definition stream :: "telnet \<Rightarrow> chunk list \<Rightarrow> utext" where
  "stream tn chunks = tn_rawq tn @ concat (map snd chunks)"

definition plain_state :: "telnet \<Rightarrow> chunk list \<Rightarrow> bool" where
  "plain_state tn chunks \<longleftrightarrow> tn_iacseq tn = [] \<and> \<not> tn_sb tn \<and> (\<forall>b \<in> set (tn_rawq tn). b < 128) \<and> list_all ascii_chunk chunks"

lemma utf8_decode_ascii: "\<forall>b \<in> set bs. b < 128 \<Longrightarrow> utf8_decode bs = Some bs"
  by (induction bs) (auto simp: utf8_head.simps)

lemma getc_end:
  assumes "plain_state tn chunks" and "stream tn chunks = []"
  shows "cooker_getc block tn chunks = (if block then Waits else NoData, tn, chunks)" "chunks = []"
  using assms by (cases chunks; auto simp: stream_def plain_state_def ascii_chunk_def cooker_getc_def)+

lemma plain_first:
  assumes "tn_rawq tn = []" and "plain_state tn chunks" and "stream tn chunks = c # cs"
  shows "\<exists>bs rest. chunks = (True, c # bs) # rest \<and> c < 128 \<and> (\<forall>b \<in> set bs. b < 128) \<and> cs = bs @ concat (map snd rest)"
proof (cases chunks)
  case Nil
  with assms show ?thesis by (simp add: stream_def)
next
  case (Cons ch rest)
  obtain r b where ch: "ch = (r, b)" by (cases ch)
  with Cons assms obtain bs where "r" "b = c # bs" by (cases b) (auto simp: stream_def plain_state_def ascii_chunk_def)
  with Cons ch assms show ?thesis by (auto simp: stream_def plain_state_def ascii_chunk_def)
qed

lemma store_cooked: "\<not> tn_sb tn \<Longrightarrow> tn_cookedq (cooker_store c tn) = tn_cookedq tn @ [c]"
  by (simp add: cooker_store_def)

lemma getc_plain:
  assumes "plain_state tn chunks" and "stream tn chunks = c # cs"
  shows "\<exists>tn' ch'. cooker_getc block tn chunks = (Got c, tn', ch') \<and> stream tn' ch' = cs \<and> plain_state tn' ch' \<and>
    tn_cookedq tn' = tn_cookedq tn \<and> c < 128"
proof (cases "tn_rawq tn")
  case Nil
  from plain_first [OF Nil assms] obtain bs rest where ch: "chunks = (True, c # bs) # rest" and bs: "c < 128" "\<forall>b \<in> set bs. b < 128" "cs = bs @ concat (map snd rest)"
    by blast
  have "utf8_decode (c # bs) = Some (c # bs)" by (rule utf8_decode_ascii) (use bs in auto)
  then have "cooker_getc block tn chunks = (Got c, tn\<lparr>tn_eof := False, tn_rawq := bs\<rparr>, rest)"
    using bs(1) by (simp add: cooker_getc_def Nil ch Let_def del: utf8_decode.simps)
  then show ?thesis using assms(1) bs ch by (simp add: stream_def plain_state_def)
next
  case (Cons a as)
  with assms show ?thesis by (auto simp: cooker_getc_def stream_def plain_state_def)
qed

lemma stream_unget: "stream (cooker_ungetc c tn) chunks = c # stream tn chunks"
  by (simp add: stream_def cooker_ungetc_def)

lemma stream_store [simp]: "stream (cooker_store c tn) chunks = stream tn chunks"
  by (simp add: stream_def)

lemma return_plain:
  assumes "plain_state tn chunks"
  shows "\<exists>tn' ch'. cook_return tn chunks = (Inl 10, tn', ch') \<and> plain_state tn' ch' \<and> tn_cookedq tn' = tn_cookedq tn \<and>
    stream tn' ch' = (case stream tn chunks of [] \<Rightarrow> [] | d # cs \<Rightarrow> if d = 0 \<or> d = 10 then cs else d # cs)"
proof (cases "stream tn chunks")
  case Nil
  with assms getc_end(1) [OF assms Nil, of False] show ?thesis by (simp add: cook_return_def)
next
  case (Cons d cs)
  from getc_plain [OF assms Cons, of False] obtain tn' ch' where g: "cooker_getc False tn chunks = (Got d, tn', ch')"
    "stream tn' ch' = cs" "plain_state tn' ch'" "tn_cookedq tn' = tn_cookedq tn" "d < 128" by blast
  have "plain_state (cooker_ungetc d tn') ch'" using g(3,5) by (simp add: plain_state_def cooker_ungetc_def)
  with g Cons show ?thesis by (simp add: cook_return_def stream_unget) (simp add: cooker_ungetc_def)
qed

lemma cook_one_plain:
  assumes "plain_state tn chunks" and "stream tn chunks = c # cs"
  shows "\<exists>tn' ch'. cook_one known tn chunks = (tn', ch', None) \<and> plain_state tn' ch' \<and>
    tn_cookedq tn' @ line_ends (stream tn' ch') = tn_cookedq tn @ line_ends (c # cs)"
proof -
  from getc_plain [OF assms, of True] obtain tn1 ch1 where g: "cooker_getc True tn chunks = (Got c, tn1, ch1)"
    "stream tn1 ch1 = cs" "plain_state tn1 ch1" "tn_cookedq tn1 = tn_cookedq tn" "c < 128" by blast
  have i: "tn_iacseq tn1 = []" "\<not> tn_sb tn1" "c \<noteq> IAC" using g(3,5) by (auto simp: plain_state_def IAC_def)
  have store: "plain_state (cooker_store x s) ch = plain_state s ch" for x s ch by (simp add: plain_state_def)
  show ?thesis
  proof (cases "c = 13")
    case True
    from return_plain [OF g(3)] obtain tn2 ch2 where r: "cook_return tn1 ch1 = (Inl 10, tn2, ch2)" "plain_state tn2 ch2"
      "tn_cookedq tn2 = tn_cookedq tn1" "stream tn2 ch2 = (case cs of [] \<Rightarrow> [] | d # cs \<Rightarrow> if d = 0 \<or> d = 10 then cs else d # cs)"
      unfolding g(2) by blast
    have "\<not> tn_sb tn2" using r(2) by (simp add: plain_state_def)
    then have "tn_cookedq (cooker_store 10 tn2) @ line_ends (stream (cooker_store 10 tn2) ch2) = tn_cookedq tn @ line_ends (c # cs)"
      using True r(3,4) g(4) by (cases cs) (auto simp: store_cooked)
    moreover have "cook_one known tn chunks = (cooker_store 10 tn2, ch2, None)" using g(1) i True r(1) by (simp add: cook_one_def)
    ultimately show ?thesis using r(2) store by blast
  next
    case False
    then have "tn_cookedq (cooker_store c tn1) @ line_ends (stream (cooker_store c tn1) ch1) = tn_cookedq tn @ line_ends (c # cs)"
      using g(2,4) i(2) by (cases cs) (auto simp: store_cooked)
    moreover have "cook_one known tn chunks = (cooker_store c tn1, ch1, None)" using g(1) i False by (simp add: cook_one_def)
    ultimately show ?thesis using g(3) store by blast
  qed
qed

lemma cooker_plain:
  "plain_state tn chunks \<Longrightarrow> \<exists>tn'. inputcooker known tn chunks = (tn', [], Waiting) \<and> tn_cookedq tn' = tn_cookedq tn @ line_ends (stream tn chunks)"
proof (induction known tn chunks rule: inputcooker.induct)
  case (1 known tn chunks)
  show ?case
  proof (cases "stream tn chunks")
    case Nil
    then show ?thesis using getc_end(1) [OF "1.prems" Nil, of True] getc_end(2) [OF "1.prems" Nil] by (subst inputcooker.simps) (simp add: cook_one_def)
  next
    case (Cons c cs)
    from cook_one_plain [OF "1.prems" Cons, of known] obtain tn1 ch1 where o: "cook_one known tn chunks = (tn1, ch1, None)"
      "plain_state tn1 ch1" "tn_cookedq tn1 @ line_ends (stream tn1 ch1) = tn_cookedq tn @ line_ends (c # cs)" by blast
    from "1.IH" [OF o(1) [symmetric] refl refl o(2)] o(3) Cons show ?thesis
      by (subst inputcooker.simps) (simp add: o(1))
  qed
qed

lemma announce_frame:
  "tn_rawq (foldl (\<lambda>s (k, a). sendcommand a k s) s xs) = tn_rawq s"
  "tn_cookedq (foldl (\<lambda>s (k, a). sendcommand a k s) s xs) = tn_cookedq s"
  "tn_iacseq (foldl (\<lambda>s (k, a). sendcommand a k s) s xs) = tn_iacseq s"
  "tn_sb (foldl (\<lambda>s (k, a). sendcommand a k s) s xs) = tn_sb s"
  by (induction xs arbitrary: s; simp add: case_prod_beta)+

text \<open>
  the text that is typed arrives, however it is split into packets. If the packets hold ASCII
  text and each is there when it is looked for, the cooker delivers all characters in order, with
  every end of line (CR LF, CR NUL or CR) turned into a line feed, and then waits for more.
\<close>
theorem cooked_text_complete:
  assumes "list_all ascii_chunk chunks"
  shows "\<exists>tn. inputcooker known (setup_options (init_telnet t)) chunks = (tn, [], Waiting) \<and>
    tn_cookedq tn = line_ends (concat (map snd chunks))"
proof -
  have "plain_state (setup_options (init_telnet t)) chunks"
    using assms by (simp add: plain_state_def setup_options_def announce_frame init_telnet_def)
  from cooker_plain [OF this, of known] show ?thesis by (simp add: stream_def setup_options_def announce_frame init_telnet_def)
qed

theorem cooked_text_complete_witness:
  "\<exists>tn. inputcooker (\<lambda>_. True) (setup_options (init_telnet [])) [(True, [104, 13]), (True, [10, 105, 13, 0])] = (tn, [], Waiting) \<and>
     tn_cookedq tn = [104, 10, 105, 10]"
  using cooked_text_complete [of "[(True, [104, 13]), (True, [10, 105, 13, 0])]" "\<lambda>_. True" "[]"] by (simp add: ascii_chunk_def)

text \<open>A packet boundary between CR and LF that is noticed makes two lines of one.\<close>

lemma split_line_end:
  "line_ends [104, 13] @ line_ends [10] = [104, 10, 10]"
  by simp

end
