(* ===== verification/Telnet_Shell.thy ===== *)
theory Telnet_Shell
  imports Telnet
begin

section \<open>The telnet shell\<close>

text \<open>
  The line editor, the command line and the commands of \<open>TelnetHandler\<close>
  (\<open>src/python/infra/defw_telnetservlib.py\<close>) with the handler \<open>TNH\<close> of
  \<open>src/python/infra/defw_telnet_sr.py\<close>. The keys are those the cooker can deliver or the terminal
  library can name. What the Python console does with a line is an argument.
\<close>

subsection \<open>Editing a line\<close>

datatype key = Ch nat | KLeft | KRight | KUp | KDown | KDelete | KBackspace

text \<open>
  What is echoed: a text, or the code of the terminal for a movement. The codes are bytes, or nothing
  if the terminal has none, and writing either raises; two of them can be joined only if both exist.
\<close>

datatype echoed = Text utext | Code bool

record term_codes =
  tc_left :: bool
  tc_right :: bool
  tc_del :: bool
  tc_deol :: bool

record ed =
  ed_line :: utext
  ed_ins :: nat
  ed_hist :: nat

definition bell :: echoed where
  "bell = Text [7]"

definition shown :: "nat \<Rightarrow> utext" where
  "shown c = (if c < 32 then [94, c + 64] else [c])"

text \<open>How a key ends the line: with a text, which goes into the history or not, or with an exception.\<close>

datatype ending = Enter utext | Abort utext | Fails exc

definition recall :: "term_codes \<Rightarrow> utext list \<Rightarrow> nat \<Rightarrow> ed \<Rightarrow> ed \<times> echoed list \<times> ending option" where
  "recall tc history h e =
     (let line = (if h < length history then history ! h else []) in
      (\<lparr>ed_line = line, ed_ins = length line, ed_hist = h\<rparr>,
       replicate (ed_ins e) (Code (tc_left tc)) @ [Code (tc_deol tc), Text line], None))"

definition edit_key :: "term_codes \<Rightarrow> utext list \<Rightarrow> ed \<Rightarrow> key \<Rightarrow> ed \<times> echoed list \<times> ending option" where
  "edit_key tc history e k =
     (if k = Ch 0 then (e, [], None)
      else if k = KLeft then
        (if 0 < ed_ins e then (e\<lparr>ed_ins := ed_ins e - 1\<rparr>, [Code (tc_left tc)], None) else (e, [bell], None))
      else if k = KRight then
        (if ed_ins e < length (ed_line e) then (e\<lparr>ed_ins := ed_ins e + 1\<rparr>, [Code (tc_right tc)], None) else (e, [bell], None))
      else if k = KUp then (if 0 < ed_hist e then recall tc history (ed_hist e - 1) e else (e, [bell], None))
      else if k = KDown then (if ed_hist e < length history then recall tc history (ed_hist e + 1) e else (e, [bell], None))
      else if k = Ch 3 then (e, [Text ([10] @ shown 3 @ map of_char '' ABORT'' @ [10])], Some (Abort []))
      else if k = Ch 4 then
        (if ed_line e \<noteq> [] then (e, [Text ([10] @ shown 4 @ map of_char '' ABORT (QUIT)'' @ [10])], Some (Abort []))
         else (e, [Text ([10] @ shown 4 @ map of_char '' QUIT'' @ [10])], Some (Abort (map of_char ''QUIT''))))
      else if k = Ch 10 then (e, [Text [10]], Some (Enter (ed_line e)))
      else if k = KBackspace \<or> k = Ch 127 \<or> k = Ch 8 then
        (if 0 < ed_ins e then
           (if tc_left tc \<and> tc_del tc then
              (e\<lparr>ed_ins := ed_ins e - 1, ed_line := take (ed_ins e - 1) (ed_line e) @ drop (ed_ins e) (ed_line e)\<rparr>, [Code True], None)
            else (e, [], Some (Fails PyTypeError)))
         else (e, [bell], None))
      else if k = KDelete then
        (if ed_ins e < length (ed_line e) then
           (e\<lparr>ed_line := take (ed_ins e) (ed_line e) @ drop (Suc (ed_ins e)) (ed_line e)\<rparr>, [Code (tc_del tc)], None)
         else (e, [bell], None))
      else
        (case k of
           Ch c \<Rightarrow>
             (e\<lparr>ed_line := take (ed_ins e) (ed_line e) @ shown c @ drop (ed_ins e) (ed_line e),
                ed_ins := ed_ins e + length (shown c)\<rparr>, [Text (shown c)], None)
         | _ \<Rightarrow> (e, [], Some (Fails PyTypeError))))"

text \<open>\<open>_readline_echo\<close>: what is written if the echo is on.\<close>

fun echo_all :: "echoed list \<Rightarrow> utext list \<Rightarrow> utext list \<times> unit result" where
  "echo_all [] out = (out, Inr ())"
| "echo_all (Text t # es) out = echo_all es (out @ [cook_output t])"
| "echo_all (Code True # es) out = (out, Inl PyTypeError)"
| "echo_all (Code False # es) out = (out, Inl PyAttributeError)"

definition readline_echo :: "bool \<Rightarrow> echoed list \<Rightarrow> utext list \<Rightarrow> utext list \<times> unit result" where
  "readline_echo echo_on es out = (if echo_on then echo_all es out else (out, Inr ()))"

text \<open>
  \<open>readline\<close> on the keys that arrive: the text or the exception, the keys left, the history and the
  output; \<open>None\<close> while it waits. \<open>echo_on\<close> is the echo that was asked for or negotiated.
\<close>

record read_result =
  rr_line :: "utext result"
  rr_keys :: "key list"
  rr_history :: "utext list"
  rr_out :: "utext list"

definition finish_line :: "bool \<Rightarrow> utext list \<Rightarrow> key list \<Rightarrow> utext list \<Rightarrow> ending \<Rightarrow> read_result" where
  "finish_line echo_on history ks out r =
     \<lparr>rr_line = (case r of Enter t \<Rightarrow> Inr t | Abort t \<Rightarrow> Inr t | Fails x \<Rightarrow> Inl x), rr_keys = ks,
      rr_history = (case r of Enter t \<Rightarrow> if echo_on then history @ [t] else history | _ \<Rightarrow> history), rr_out = out\<rparr>"

fun readline_loop :: "bool \<Rightarrow> term_codes \<Rightarrow> utext list \<Rightarrow> ed \<Rightarrow> key list \<Rightarrow> utext list \<Rightarrow> read_result option" where
  "readline_loop echo_on tc history e [] out = None"
| "readline_loop echo_on tc history e (k # ks) out =
     (case edit_key tc history e k of
        (e', es, r) \<Rightarrow>
          (case readline_echo echo_on es out of
             (out', Inl x) \<Rightarrow> Some (finish_line echo_on history ks out' (Fails x))
           | (out', Inr _) \<Rightarrow>
               (case r of
                  Some r' \<Rightarrow> Some (finish_line echo_on history ks out' r')
                | None \<Rightarrow> readline_loop echo_on tc history e' ks out')))"

definition readline :: "bool \<Rightarrow> term_codes \<Rightarrow> utext list \<Rightarrow> key list \<Rightarrow> utext list \<Rightarrow> read_result option" where
  "readline echo_on tc history ks out =
     readline_loop echo_on tc history \<lparr>ed_line = [], ed_ins = 0, ed_hist = length history\<rparr> ks out"

subsection \<open>The command line\<close>

definition u_space :: "nat \<Rightarrow> bool" where
  "u_space c \<longleftrightarrow> c \<in> {9, 10, 11, 12, 13, 28, 29, 30, 31, 32, 133, 160, 5760, 8232, 8233, 8239, 8287, 12288} \<or> 8192 \<le> c \<and> c \<le> 8202"

text \<open>\<open>line.split()\<close>.\<close>

fun split_words :: "utext \<Rightarrow> utext \<Rightarrow> utext list" where
  "split_words acc [] = (if acc = [] then [] else [rev acc])"
| "split_words acc (c # cs) =
     (if u_space c then (if acc = [] then [] else [rev acc]) @ split_words [] cs else split_words (c # acc) cs)"

definition quotes :: "nat list" where
  "quotes = [39, 34]"

text \<open>
  The loop that joins quoted words: a word that starts with a quote takes the next one, until the
  last character is the same quote; then both are removed.
\<close>

function join_quoted :: "utext list \<Rightarrow> utext list" where
  "join_quoted [] = []"
| "join_quoted [w] = [w]"
| "join_quoted (w # v # ws) =
     (if w \<noteq> [] \<and> hd w \<in> set quotes then
        (let w' = w @ 32 # v in
         if hd w' \<noteq> last w' then join_quoted (w' # ws) else tl (butlast w') # join_quoted ws)
      else w # join_quoted (v # ws))"
  by pat_completeness auto
termination
  by (relation "measure length") auto

definition command_words :: "utext \<Rightarrow> utext list" where
  "command_words line = join_quoted (split_words [] line)"

subsection \<open>The shell\<close>

datatype command = HELP | EXIT | DEBUG | HISTORY | ECHO_CMD | INTERACT | SHUTDOWN

definition COMMANDS :: "(string \<times> command) list" where
  "COMMANDS = [(''?'', HELP), (''BYE'', EXIT), (''DEBUG'', DEBUG), (''ECHO'', ECHO_CMD), (''EXIT'', EXIT), (''HELP'', HELP),
     (''HISTORY'', HISTORY), (''INTERACT'', INTERACT), (''LOGOUT'', EXIT), (''QUIT'', EXIT), (''SHUTDOWN'', SHUTDOWN)]"

definition u :: "string \<Rightarrow> utext" where
  "u s = map of_char s"

definition u_upper :: "utext \<Rightarrow> utext" where
  "u_upper t = map (\<lambda>c. if 97 \<le> c \<and> c \<le> 122 then c - 32 else c) t"

definition find_command :: "utext \<Rightarrow> command option" where
  "find_command t = map_of (map (\<lambda>(n, c). (u n, c)) COMMANDS) t"

record shell =
  sh_run :: bool
  sh_interact :: bool
  sh_more :: bool
  sh_stopped :: bool
  sh_out :: "utext list"
  sh_pushed :: "utext list"

definition init_shell :: shell where
  "init_shell = \<lparr>sh_run = True, sh_interact = False, sh_more = False, sh_stopped = False, sh_out = [], sh_pushed = []\<rparr>"

definition say :: "utext \<Rightarrow> shell \<Rightarrow> shell" where
  "say t sh = sh\<lparr>sh_out := sh_out sh @ [cook_output t]\<rparr>"

text \<open>
  \<open>cmdHELP\<close>: the documentation of a command is the text of its parameters, its short and its long
  description; the names are listed in order.
\<close>

type_synonym docs = "command \<Rightarrow> utext \<times> utext \<times> utext"

definition help_entry :: "docs \<Rightarrow> string \<times> command \<Rightarrow> utext" where
  "help_entry doc nc =
     (case doc (snd nc) of (docp, short, _) \<Rightarrow>
        u (fst nc) @ [32] @ (if docp \<noteq> [] then docp @ u '' - '' @ short else u ''- '' @ short))"

definition help_lines :: "docs \<Rightarrow> utext list \<Rightarrow> utext list" where
  "help_lines doc params =
     (case params of
        p # _ \<Rightarrow>
          (case find_command (u_upper p) of
             Some c \<Rightarrow>
               (case doc c of (docp, short, long) \<Rightarrow>
                  [u_upper p @ [32] @ docp @ [10, 10] @ (if length long < 4 then short else long)])
           | None \<Rightarrow> (u ''Command '' @ [39] @ u_upper p @ [39] @ u '' not known'') # map (help_entry doc) COMMANDS)
      | [] \<Rightarrow> (u ''Help on built in commands'' @ [10]) # map (help_entry doc) COMMANDS)"

text \<open>\<open>cmdHISTORY\<close>: the lines with their numbers, \<open>"%-5d : %s"\<close>.\<close>

definition history_lines :: "utext list \<Rightarrow> utext list" where
  "history_lines history =
     (u ''Command history'' @ [10]) #
     map (\<lambda>(n, l). u (nat_dec n) @ replicate (5 - length (nat_dec n)) 32 @ u '' : '' @ l) (zip [1..<Suc (length history)] history)"

text \<open>
  The commands. \<open>DEBUG\<close> takes the code of each byte of a key sequence, which already is a number: it
  raises if the terminal has any sequence (\<open>esc\<close>).
\<close>

definition say_lines :: "utext list \<Rightarrow> shell \<Rightarrow> shell" where
  "say_lines ts sh = foldl (\<lambda>s t. say (t @ [10]) s) sh ts"

definition run_command :: "docs \<Rightarrow> bool \<Rightarrow> utext list \<Rightarrow> command \<Rightarrow> utext list \<Rightarrow> shell \<Rightarrow> shell \<times> unit result" where
  "run_command doc esc history c params sh =
     (case c of
        HELP \<Rightarrow> (say_lines (help_lines doc params) sh, Inr ())
      | EXIT \<Rightarrow> (say_lines [u ''Goodbye''] (sh\<lparr>sh_run := False\<rparr>), Inr ())
      | DEBUG \<Rightarrow> (sh, if esc then Inl PyTypeError else Inr ())
      | HISTORY \<Rightarrow> (say_lines (history_lines history) sh, Inr ())
      | ECHO_CMD \<Rightarrow> (say_lines (u ''Parameters:'' # map (Cons 9) params) sh, Inr ())
      | INTERACT \<Rightarrow> (sh\<lparr>sh_interact := True\<rparr>, Inr ())
      | SHUTDOWN \<Rightarrow> (say_lines [u ''Goodbye''] (sh\<lparr>sh_stopped := True, sh_run := False\<rparr>), Inr ()))"

text \<open>
  One round of \<open>handle\<close> without the prompt; \<open>True\<close>: the loop goes on. An exception of a command is
  reported (\<open>report e\<close>) and ends the loop.
\<close>

definition command_round :: "(exc \<Rightarrow> utext) \<Rightarrow> docs \<Rightarrow> bool \<Rightarrow> utext list \<Rightarrow> utext \<Rightarrow> shell \<Rightarrow> shell \<times> bool" where
  "command_round report doc esc history line sh =
     (case command_words line of
        [] \<Rightarrow> (sh, True)
      | w # params \<Rightarrow>
          (case find_command (u_upper w) of
             None \<Rightarrow> (say (u ''Unknown command '' @ [39] @ u_upper w @ [39, 10]) sh, True)
           | Some c \<Rightarrow>
               (case run_command doc esc history c params sh of
                  (sh', Inr _) \<Rightarrow> (sh', True)
                | (sh', Inl e) \<Rightarrow> (say_lines [report e] sh', False))))"

text \<open>What the console does with the lines pushed so far, the last of which is new.\<close>

datatype pushed = More bool | Interrupted | Escapes exc

definition interactive_round :: "(utext list \<Rightarrow> pushed) \<Rightarrow> utext \<Rightarrow> shell \<Rightarrow> shell \<times> unit result" where
  "interactive_round push line sh =
     (if \<not> sh_more sh \<and> line \<in> {u ''logout'', u ''quit'', u ''exit''} then (sh\<lparr>sh_interact := False\<rparr>, Inr ())
      else
        (let sh' = sh\<lparr>sh_pushed := sh_pushed sh @ [line]\<rparr> in
         case push (sh_pushed sh') of
           More b \<Rightarrow> (sh'\<lparr>sh_more := b\<rparr>, Inr ())
         | Interrupted \<Rightarrow> (say ([10] @ u ''KeyboardInterrupt'' @ [10]) (sh'\<lparr>sh_more := False\<rparr>), Inr ())
         | Escapes e \<Rightarrow> (sh', Inl e)))"

text \<open>\<open>handle\<close> on the lines that are read: \<open>None\<close> while it waits for another line.\<close>

fun handle_lines ::
  "(exc \<Rightarrow> utext) \<Rightarrow> docs \<Rightarrow> bool \<Rightarrow> (utext list \<Rightarrow> pushed) \<Rightarrow> utext list \<Rightarrow> utext list \<Rightarrow> shell \<Rightarrow> shell \<times> unit result option" where
  "handle_lines report doc esc push history [] sh = (sh, if sh_run sh then None else Some (Inr ()))"
| "handle_lines report doc esc push history (l # ls) sh =
     (if \<not> sh_run sh then (sh, Some (Inr ()))
      else if sh_interact sh then
        (case interactive_round push l sh of
           (sh', Inr _) \<Rightarrow> handle_lines report doc esc push history ls sh'
         | (sh', Inl e) \<Rightarrow> (sh', Some (Inl e)))
      else
        (case command_round report doc esc history l sh of
           (sh', True) \<Rightarrow> handle_lines report doc esc push history ls sh'
         | (sh', False) \<Rightarrow> (sh', Some (Inr ()))))"

subsection \<open>The line editor is a text with a cursor\<close>

text \<open>
  The reference: the text before the cursor, last character first, and the text behind it.
\<close>

record cursor =
  cu_before :: utext
  cu_after :: utext
  cu_hist :: nat

definition ed_of :: "cursor \<Rightarrow> ed" where
  "ed_of z = \<lparr>ed_line = rev (cu_before z) @ cu_after z, ed_ins = length (cu_before z), ed_hist = cu_hist z\<rparr>"

definition cursor_recall :: "term_codes \<Rightarrow> utext list \<Rightarrow> nat \<Rightarrow> cursor \<Rightarrow> cursor \<times> echoed list \<times> ending option" where
  "cursor_recall tc history h z =
     (let line = (if h < length history then history ! h else []) in
      (\<lparr>cu_before = rev line, cu_after = [], cu_hist = h\<rparr>,
       replicate (length (cu_before z)) (Code (tc_left tc)) @ [Code (tc_deol tc), Text line], None))"

fun cursor_key :: "term_codes \<Rightarrow> utext list \<Rightarrow> cursor \<Rightarrow> key \<Rightarrow> cursor \<times> echoed list \<times> ending option" where
  "cursor_key tc history z KLeft =
     (case cu_before z of [] \<Rightarrow> (z, [bell], None)
      | c # l \<Rightarrow> (z\<lparr>cu_before := l, cu_after := c # cu_after z\<rparr>, [Code (tc_left tc)], None))"
| "cursor_key tc history z KRight =
     (case cu_after z of [] \<Rightarrow> (z, [bell], None)
      | c # r \<Rightarrow> (z\<lparr>cu_before := c # cu_before z, cu_after := r\<rparr>, [Code (tc_right tc)], None))"
| "cursor_key tc history z KUp = (case cu_hist z of 0 \<Rightarrow> (z, [bell], None) | Suc h \<Rightarrow> cursor_recall tc history h z)"
| "cursor_key tc history z KDown =
     (if cu_hist z < length history then cursor_recall tc history (Suc (cu_hist z)) z else (z, [bell], None))"
| "cursor_key tc history z KBackspace =
     (case cu_before z of [] \<Rightarrow> (z, [bell], None)
      | c # l \<Rightarrow> if tc_left tc \<and> tc_del tc then (z\<lparr>cu_before := l\<rparr>, [Code True], None) else (z, [], Some (Fails PyTypeError)))"
| "cursor_key tc history z KDelete =
     (case cu_after z of [] \<Rightarrow> (z, [bell], None) | c # r \<Rightarrow> (z\<lparr>cu_after := r\<rparr>, [Code (tc_del tc)], None))"
| "cursor_key tc history z (Ch c) =
     (if c = 0 then (z, [], None)
      else if c = 3 then (z, [Text ([10] @ shown 3 @ map of_char '' ABORT'' @ [10])], Some (Abort []))
      else if c = 4 then
        (if cu_before z = [] \<and> cu_after z = []
         then (z, [Text ([10] @ shown 4 @ map of_char '' QUIT'' @ [10])], Some (Abort (map of_char ''QUIT'')))
         else (z, [Text ([10] @ shown 4 @ map of_char '' ABORT (QUIT)'' @ [10])], Some (Abort [])))
      else if c = 10 then (z, [Text [10]], Some (Enter (rev (cu_before z) @ cu_after z)))
      else if c = 127 \<or> c = 8 then
        (case cu_before z of [] \<Rightarrow> (z, [bell], None)
         | d # l \<Rightarrow> if tc_left tc \<and> tc_del tc then (z\<lparr>cu_before := l\<rparr>, [Code True], None) else (z, [], Some (Fails PyTypeError)))
      else (z\<lparr>cu_before := rev (shown c) @ cu_before z\<rparr>, [Text (shown c)], None))"

fun cursor_loop :: "bool \<Rightarrow> term_codes \<Rightarrow> utext list \<Rightarrow> cursor \<Rightarrow> key list \<Rightarrow> utext list \<Rightarrow> read_result option" where
  "cursor_loop echo_on tc history z [] out = None"
| "cursor_loop echo_on tc history z (k # ks) out =
     (case cursor_key tc history z k of
        (z', es, r) \<Rightarrow>
          (case readline_echo echo_on es out of
             (out', Inl x) \<Rightarrow> Some (finish_line echo_on history ks out' (Fails x))
           | (out', Inr _) \<Rightarrow>
               (case r of
                  Some r' \<Rightarrow> Some (finish_line echo_on history ks out' r')
                | None \<Rightarrow> cursor_loop echo_on tc history z' ks out')))"

lemma edit_back:
  assumes "k = KBackspace \<or> k = Ch 127 \<or> k = Ch 8"
  shows "edit_key tc history (ed_of z) k = (case cursor_key tc history z k of (z', r) \<Rightarrow> (ed_of z', r))"
  using assms by (cases "cu_before z") (auto simp: edit_key_def ed_of_def)

lemma edit_move:
  assumes "k \<in> {KLeft, KRight, KUp, KDown, KDelete}"
  shows "edit_key tc history (ed_of z) k = (case cursor_key tc history z k of (z', r) \<Rightarrow> (ed_of z', r))"
  using assms by (auto simp: edit_key_def ed_of_def recall_def cursor_recall_def Let_def split: list.splits nat.splits)

lemma edit_char: "edit_key tc history (ed_of z) (Ch c) = (case cursor_key tc history z (Ch c) of (z', r) \<Rightarrow> (ed_of z', r))"
proof (cases "c \<in> {127, 8}")
  case True
  then show ?thesis using edit_back [of "Ch c"] by auto
next
  case False
  then show ?thesis by (auto simp: edit_key_def ed_of_def)
qed

lemma edit_cursor: "edit_key tc history (ed_of z) k = (case cursor_key tc history z k of (z', r) \<Rightarrow> (ed_of z', r))"
  by (cases k) (simp_all only: edit_char, auto intro: edit_move edit_back simp del: cursor_key.simps)

lemma readline_cursor: "readline_loop echo_on tc history (ed_of z) ks out = cursor_loop echo_on tc history z ks out"
proof (induction ks arbitrary: z out)
  case (Cons k ks)
  obtain z' es r where c: "cursor_key tc history z k = (z', es, r)" by (cases "cursor_key tc history z k")
  then have e: "edit_key tc history (ed_of z) k = (ed_of z', es, r)" by (simp add: edit_cursor)
  show ?case by (simp add: c e Cons.IH split: prod.splits sum.splits option.splits)
qed simp

text \<open>
  C31: the line editor is correct. For every sequence of keys, whatever the echo and the terminal,
  \<open>readline\<close> does what a text with a cursor does: it reads the same line or raises the same exception,
  and leaves the same keys, history and output. In particular the cursor never leaves the line.
\<close>
theorem readline_is_cursor:
  "readline echo_on tc history ks out =
     cursor_loop echo_on tc history \<lparr>cu_before = [], cu_after = [], cu_hist = length history\<rparr> ks out"
  using readline_cursor [of echo_on tc history "\<lparr>cu_before = [], cu_after = [], cu_hist = length history\<rparr>"]
  by (simp add: readline_def ed_of_def)

text \<open>What is typed without control characters is read.\<close>

lemma cursor_typed:
  assumes "\<forall>c \<in> set t. 32 \<le> c \<and> c \<noteq> 127"
  shows "cursor_loop False tc history \<lparr>cu_before = l, cu_after = [], cu_hist = h\<rparr> (map Ch t @ Ch 10 # ks) out =
    Some \<lparr>rr_line = Inr (rev l @ t), rr_keys = ks, rr_history = history, rr_out = out\<rparr>"
  using assms
proof (induction t arbitrary: l)
  case Nil
  then show ?case by (simp add: readline_echo_def finish_line_def)
next
  case (Cons c t)
  then have "cursor_key tc history \<lparr>cu_before = l, cu_after = [], cu_hist = h\<rparr> (Ch c) =
      (\<lparr>cu_before = c # l, cu_after = [], cu_hist = h\<rparr>, [Text [c]], None)"
    by (auto simp: shown_def)
  with Cons show ?case by (simp add: readline_echo_def del: cursor_key.simps)
qed

lemma readline_typed:
  assumes "\<forall>c \<in> set t. 32 \<le> c \<and> c \<noteq> 127"
  shows "readline False tc history (map Ch t @ Ch 10 # ks) out =
    Some \<lparr>rr_line = Inr t, rr_keys = ks, rr_history = history, rr_out = out\<rparr>"
  using cursor_typed [OF assms, of tc history "[]" "length history" ks out]
    readline_cursor [of False tc history "\<lparr>cu_before = [], cu_after = [], cu_hist = length history\<rparr>"]
  by (simp add: readline_def ed_of_def)

text \<open>Without echo, as the shell calls it, the history never grows: \<open>HISTORY\<close> lists nothing.\<close>

lemma readline_no_history: "readline_loop False tc history e ks out = Some r \<Longrightarrow> rr_history r = history"
proof (induction ks arbitrary: e out)
  case (Cons k ks)
  then show ?case
    by (auto simp: readline_echo_def finish_line_def split: prod.splits option.splits ending.splits)
qed simp

subsection \<open>Quoting\<close>

text \<open>The words of an argument, and the argument as it is typed: quoted if it has several words.\<close>

definition plain_word :: "utext \<Rightarrow> bool" where
  "plain_word w \<longleftrightarrow> w \<noteq> [] \<and> (\<forall>c \<in> set w. \<not> u_space c \<and> c \<notin> set quotes)"

fun spaced :: "utext list \<Rightarrow> utext" where
  "spaced [] = []"
| "spaced [w] = w"
| "spaced (w # ws) = w @ 32 # spaced ws"

definition typed_arg :: "utext list \<Rightarrow> utext list" where
  "typed_arg ws = (if length ws = 1 then ws else (39 # hd ws) # butlast (tl ws) @ [last ws @ [39]])"

definition typed_line :: "utext list list \<Rightarrow> utext" where
  "typed_line args = spaced (concat (map typed_arg args))"

lemma split_words_word: "\<forall>c \<in> set w. \<not> u_space c \<Longrightarrow> split_words acc (w @ s) = split_words (rev w @ acc) s"
  by (induction w arbitrary: acc) auto

lemma u_space_32: "u_space 32"
  by (simp add: u_space_def)

lemma split_spaced: "\<forall>w \<in> set ws. w \<noteq> [] \<and> (\<forall>c \<in> set w. \<not> u_space c) \<Longrightarrow> split_words [] (spaced ws) = ws"
proof (induction ws rule: spaced.induct)
  case (2 w)
  then show ?case using split_words_word [of w "[]" "[]"] by simp
next
  case (3 w v ws)
  then show ?case using split_words_word [of w "[]" "32 # spaced (v # ws)"] u_space_32 by simp
qed simp

text \<open>The words of a quoted argument, from an open quote on.\<close>

lemma join_open:
  assumes "acc \<noteq> []" and "hd acc = 39" and "\<forall>w \<in> set ws. plain_word w" and "plain_word v"
  shows "join_quoted (acc # ws @ (v @ [39]) # rest) = (tl acc @ 32 # spaced (ws @ [v])) # join_quoted rest"
  using assms
proof (induction ws arbitrary: acc)
  case Nil
  have "hd (acc @ 32 # v @ [39]) = 39" "last (acc @ 32 # v @ [39]) = 39" using Nil.prems by simp_all
  moreover have "tl (butlast (acc @ 32 # v @ [39])) = tl acc @ 32 # v"
    using Nil.prems(1) by (cases acc) (simp_all add: butlast_append)
  ultimately show ?case using Nil.prems(1,2) by (simp add: quotes_def Let_def)
next
  case (Cons w ws)
  have w: "w \<noteq> []" "last w \<noteq> 39" using Cons.prems(3) by (auto simp: plain_word_def quotes_def)
  have "hd (acc @ 32 # w) = 39" "last (acc @ 32 # w) = last w" using Cons.prems w by simp_all
  then have "join_quoted (acc # (w # ws) @ (v @ [39]) # rest) = join_quoted ((acc @ 32 # w) # ws @ (v @ [39]) # rest)"
    using Cons.prems(1,2) w by (simp add: quotes_def Let_def)
  also have "\<dots> = (tl (acc @ 32 # w) @ 32 # spaced (ws @ [v])) # join_quoted rest"
    by (rule Cons.IH) (use Cons.prems in auto)
  finally show ?case using Cons.prems(1) by (cases ws) simp_all
qed

lemma join_arg:
  assumes "ws \<noteq> []" and "\<forall>w \<in> set ws. plain_word w"
  shows "join_quoted (typed_arg ws @ rest) = spaced ws # join_quoted rest"
proof (cases "length ws = 1")
  case True
  then obtain w where "ws = [w]" by (auto simp: length_Suc_conv)
  moreover from this assms have "w \<noteq> []" "hd w \<notin> set quotes" by (auto simp: plain_word_def)
  ultimately show ?thesis by (cases rest) (simp_all add: typed_arg_def)
next
  case False
  with assms(1) obtain w vs v where ws: "ws = w # vs @ [v]"
    by (cases ws; cases "tl ws" rule: rev_cases) auto
  have p: "plain_word w" "\<forall>x \<in> set vs. plain_word x" "plain_word v" using assms(2) ws by auto
  have "join_quoted ((39 # w) # vs @ (v @ [39]) # rest) = (tl (39 # w) @ 32 # spaced (vs @ [v])) # join_quoted rest"
    by (rule join_open) (use p in auto)
  then show ?thesis using ws by (cases vs) (simp_all add: typed_arg_def)
qed

text \<open>
  quoting works. A command line that was typed from arguments of one or more words, separated by
  single spaces, with quotes around those of several words, is split into exactly these arguments.
\<close>
theorem command_words_roundtrip:
  assumes "\<forall>ws \<in> set args. ws \<noteq> [] \<and> (\<forall>w \<in> set ws. plain_word w)"
  shows "command_words (typed_line args) = map spaced args"
proof -
  have q: "\<not> u_space 39" by (simp add: u_space_def)
  have "\<forall>w \<in> set (concat (map typed_arg args)). w \<noteq> [] \<and> (\<forall>c \<in> set w. \<not> u_space c)"
  proof
    fix w assume "w \<in> set (concat (map typed_arg args))"
    then obtain ws where ws: "ws \<in> set args" "w \<in> set (typed_arg ws)" by auto
    with assms have p: "ws \<noteq> []" "\<forall>w \<in> set ws. plain_word w" by auto
    from ws(2) consider "w \<in> set ws" | "w = 39 # hd ws" | "w \<in> set (butlast (tl ws))" | "w = last ws @ [39]"
      by (auto simp: typed_arg_def split: if_splits)
    then show "w \<noteq> [] \<and> (\<forall>c \<in> set w. \<not> u_space c)"
    proof cases
      case 3
      then have "w \<in> set ws" using p(1) by (auto dest!: in_set_butlastD intro: list.set_sel(2))
      with p(2) show ?thesis by (auto simp: plain_word_def)
    qed (use p q in \<open>auto simp: plain_word_def\<close>)
  qed
  then have "split_words [] (typed_line args) = concat (map typed_arg args)" unfolding typed_line_def by (rule split_spaced)
  moreover have "join_quoted (concat (map typed_arg args)) = map spaced args"
    using assms by (induction args) (simp_all add: join_arg)
  ultimately show ?thesis by (simp add: command_words_def)
qed

theorem command_words_roundtrip_witness:
  "command_words (u ''ECHO '' @ [39] @ u ''two words'' @ [39] @ u '' x'') = [u ''ECHO'', u ''two words'', u ''x'']"
  using command_words_roundtrip [of "[[u ''ECHO''], [u ''two'', u ''words''], [u ''x'']]"]
  by (simp add: u_def plain_word_def u_space_def quotes_def typed_line_def typed_arg_def)

text \<open>A single quoted word keeps its quotes and takes the next word with it.\<close>

lemma quoted_word_swallows: "command_words (u ''ECHO '' @ [39, 97, 39] @ u '' x'') = [u ''ECHO'', [39, 97, 39] @ u '' x'']"
  by (simp add: command_words_def u_def u_space_def quotes_def Let_def)

subsection \<open>Sessions\<close>

text \<open>No line reaches the Python console before \<open>INTERACT\<close>.\<close>

definition is_interact :: "utext \<Rightarrow> bool" where
  "is_interact line \<longleftrightarrow> (case command_words line of [] \<Rightarrow> False | w # _ \<Rightarrow> find_command (u_upper w) = Some INTERACT)"

lemma say_frame [simp]: "sh_interact (say t sh) = sh_interact sh" "sh_pushed (say t sh) = sh_pushed sh"
  "sh_interact (say_lines ts sh) = sh_interact sh" "sh_pushed (say_lines ts sh) = sh_pushed sh"
proof -
  show "sh_interact (say t sh) = sh_interact sh" "sh_pushed (say t sh) = sh_pushed sh" for t sh by (simp_all add: say_def)
  then show "sh_interact (say_lines ts sh) = sh_interact sh" "sh_pushed (say_lines ts sh) = sh_pushed sh"
    unfolding say_lines_def by (induction ts arbitrary: sh) simp_all
qed

lemma command_round_mode:
  "command_round report doc esc history line sh = (sh', b) \<Longrightarrow> \<not> is_interact line \<Longrightarrow>
     sh_interact sh' = sh_interact sh \<and> sh_pushed sh' = sh_pushed sh"
  by (auto simp: command_round_def is_interact_def run_command_def split: list.splits option.splits command.splits if_splits)

lemma console_guarded:
  "\<not> sh_interact sh \<Longrightarrow> sh_pushed sh = [] \<Longrightarrow> \<forall>l \<in> set lines. \<not> is_interact l \<Longrightarrow>
     sh_pushed (fst (handle_lines report doc esc push history lines sh)) = []"
proof (induction lines arbitrary: sh)
  case (Cons l ls)
  obtain sh1 b where r: "command_round report doc esc history l sh = (sh1, b)" by (cases "command_round report doc esc history l sh")
  with command_round_mode [OF r] Cons.prems Cons.IH [of sh1] show ?case by (cases b) auto
qed simp

end
