(* ===== verification/Errors.thy ===== *)
theory Errors
  imports Util
begin

section \<open>Exceptions and printed results\<close>

text \<open>
  \<open>DEFwError\<close> of \<open>src/python/infra/defw_exception.py\<close> with its stack trace, its text and the mapping it
  is sent as, and the text of a result (\<open>_format_result_yaml_like\<close> of
  \<open>src/python/infra/defw_remote.py\<close>). The stack frames, the name of the node and the text of values that
  are not strings, whole numbers, booleans or \<open>None\<close> are arguments, and so is YAML's text of a scalar.
\<close>

subsection \<open>Stack traces\<close>

definition py_rstrip :: "string \<Rightarrow> string" where
  "py_rstrip s = rev (dropWhile py_space (rev s))"

definition trace_lines :: "string \<Rightarrow> string list" where
  "trace_lines t = filter (\<lambda>l. l \<noteq> []) (map py_rstrip (split_lines [] t))"

fun normalize_stacktrace :: "(pyval \<Rightarrow> string) \<Rightarrow> pyval \<Rightarrow> string" where
  "normalize_stacktrace rp (PList es) = join_on [CHR 10] (concat (map (\<lambda>e. trace_lines (py_str rp e)) es))"
| "normalize_stacktrace rp v = join_on [CHR 10] (trace_lines (py_str rp v))"

subsection \<open>Errors\<close>

record defw_error =
  de_node_name :: pyval
  de_msg :: pyval
  de_arg :: pyval
  de_halt :: pyval
  de_filename :: pyval
  de_lineno :: pyval
  de_function :: pyval
  de_code_context :: pyval
  de_index :: pyval
  de_stacktrace :: string

text \<open>
  The constructor: \<open>frame\<close> is the frame that raises, \<open>stack\<close> are the formatted frames, of which the two
  last are left out, and \<open>pending\<close> the formatted exception that is being handled, if any.
\<close>

definition make_error ::
  "(pyval \<Rightarrow> string) \<Rightarrow> string \<Rightarrow> pyval \<times> pyval \<times> pyval \<times> pyval \<times> pyval \<Rightarrow> string list \<Rightarrow> string list
     \<Rightarrow> pyval \<Rightarrow> pyval \<Rightarrow> pyval \<Rightarrow> pyval \<Rightarrow> defw_error" where
  "make_error rp node frame stack pending msg arg halt nname =
     (case frame of (fname, lineno, func, context, ix) \<Rightarrow>
        \<lparr>de_node_name = py_or nname (PStr node), de_msg = msg, de_arg = arg, de_halt = halt, de_filename = fname,
         de_lineno = lineno, de_function = func, de_code_context = context, de_index = ix,
         de_stacktrace = normalize_stacktrace rp (PList (map PStr (take (length stack - 2) stack @ pending)))\<rparr>)"

definition populate ::
  "(pyval \<Rightarrow> string) \<Rightarrow> pyval \<Rightarrow> pyval \<Rightarrow> pyval \<Rightarrow> pyval \<Rightarrow> pyval \<Rightarrow> pyval \<Rightarrow> pyval \<Rightarrow> pyval \<Rightarrow> pyval \<Rightarrow> pyval \<Rightarrow> defw_error" where
  "populate rp node msg arg halt fname lineno func context ix trace =
     \<lparr>de_node_name = node, de_msg = msg, de_arg = arg, de_halt = halt, de_filename = fname, de_lineno = lineno,
      de_function = func, de_code_context = context, de_index = ix, de_stacktrace = normalize_stacktrace rp trace\<rparr>"

text \<open>\<open>__str__\<close>.\<close>

definition error_text :: "(pyval \<Rightarrow> string) \<Rightarrow> defw_error \<Rightarrow> string" where
  "error_text rp e = join_on [CHR 10]
     ([''DEFwError:'', ''  node-name: '' @ py_str rp (de_node_name e), ''  msg: '' @ py_str rp (de_msg e),
       ''  arg: '' @ py_str rp (de_arg e), ''  file name: '' @ py_str rp (de_filename e),
       ''  line number: '' @ py_str rp (de_lineno e), ''  function: '' @ py_str rp (de_function e), ''  stacktrace:''] @
      (if de_stacktrace e = [] then []
       else map (\<lambda>l. ''    '' @ l) (split_lines [] (normalize_stacktrace rp (PStr (de_stacktrace e))))))"

text \<open>The mapping that represents an error, and the error of a mapping.\<close>

definition defw_error_representer :: "defw_error \<Rightarrow> dict" where
  "defw_error_representer e =
     [(PStr ''node-name'', de_node_name e), (PStr ''msg'', de_msg e), (PStr ''arg'', de_arg e), (PStr ''halt'', de_halt e),
      (PStr ''filename'', de_filename e), (PStr ''lineno'', de_lineno e), (PStr ''function'', de_function e),
      (PStr ''code_context'', de_code_context e), (PStr ''index'', de_index e), (PStr ''stacktrace'', PStr (de_stacktrace e))]"

definition defw_error_constructor :: "(pyval \<Rightarrow> string) \<Rightarrow> dict \<Rightarrow> defw_error result" where
  "defw_error_constructor rp v =
     ebind (dindex v ''node-name'') (\<lambda>node. ebind (dindex v ''msg'') (\<lambda>msg. ebind (dindex v ''arg'') (\<lambda>arg.
     ebind (dindex v ''halt'') (\<lambda>halt. ebind (dindex v ''filename'') (\<lambda>fname. ebind (dindex v ''lineno'') (\<lambda>lineno.
     ebind (dindex v ''function'') (\<lambda>func. ebind (dindex v ''code_context'') (\<lambda>context. ebind (dindex v ''index'') (\<lambda>ix.
     ebind (dindex v ''stacktrace'') (\<lambda>trace. Inr (populate rp node msg arg halt fname lineno func context ix trace)))))))))))"

subsection \<open>The text of a result\<close>

definition indent_by :: "nat \<Rightarrow> string" where
  "indent_by n = replicate n CHR '' ''"

definition has_newline :: "pyval \<Rightarrow> bool" where
  "has_newline v = (case v of PStr s \<Rightarrow> CHR 10 \<in> set s | _ \<Rightarrow> False)"

definition block_lines :: "nat \<Rightarrow> pyval \<Rightarrow> string list" where
  "block_lines n v = (case v of PStr s \<Rightarrow> map (\<lambda>l. indent_by n @ ''  '' @ l) (split_lines [] s) | _ \<Rightarrow> [])"

definition nested :: "pyval \<Rightarrow> bool" where
  "nested v = (case v of PDict _ \<Rightarrow> True | PList _ \<Rightarrow> True | _ \<Rightarrow> False)"

fun yaml_lines :: "(pyval \<Rightarrow> string) \<Rightarrow> (pyval \<Rightarrow> string) \<Rightarrow> nat \<Rightarrow> pyval \<Rightarrow> string list" where
  "yaml_lines rp sc n (PDict d) = concat (map (\<lambda>(k, item).
     if has_newline item then (indent_by n @ py_str rp k @ '': |'') # block_lines n item
     else if nested item then [indent_by n @ py_str rp k @ '':'', join_on [CHR 10] (yaml_lines rp sc (n + 2) item)]
     else [indent_by n @ py_str rp k @ '': '' @ sc item]) d)"
| "yaml_lines rp sc n (PList xs) = concat (map (\<lambda>item.
     if has_newline item then (indent_by n @ ''- |'') # block_lines n item
     else if nested item then [indent_by n @ ''-'', join_on [CHR 10] (yaml_lines rp sc (n + 2) item)]
     else [indent_by n @ ''- '' @ sc item]) xs)"
| "yaml_lines rp sc n v = (if has_newline v then (indent_by n @ ''|'') # block_lines n v else [indent_by n @ sc v])"

text \<open>\<open>_format_scalar\<close>: \<open>rendered\<close> is YAML's text of the value, stripped.\<close>

definition format_scalar :: "string \<Rightarrow> string" where
  "format_scalar rendered =
     (if length rendered \<ge> 4 \<and> drop (length rendered - 4) rendered = [CHR 10] @ ''...'' then take (length rendered - 4) rendered
      else if rendered = ''...'' then [] else rendered)"

definition format_result_yaml_like :: "(pyval \<Rightarrow> string) \<Rightarrow> (pyval \<Rightarrow> string) \<Rightarrow> nat \<Rightarrow> pyval \<Rightarrow> string" where
  "format_result_yaml_like rp safe_dump n v = join_on [CHR 10] (yaml_lines rp (\<lambda>x. format_scalar (safe_dump x)) n v)"

definition result_text :: "(pyval \<Rightarrow> string) \<Rightarrow> (pyval \<Rightarrow> string) \<Rightarrow> dict \<Rightarrow> string" where
  "result_text rp safe_dump d = py_strip (format_result_yaml_like rp safe_dump 0 (PDict d))"

text \<open>A flat result has one line per key, in order; the lines of a multi-line string can be read back.\<close>

lemma yaml_lines_flat:
  "\<forall>(k, v) \<in> set d. \<not> nested v \<and> \<not> has_newline v \<Longrightarrow>
     yaml_lines rp sc n (PDict d) = map (\<lambda>(k, v). indent_by n @ py_str rp k @ '': '' @ sc v) d"
  by (induction d) auto

lemma block_lines_read: "map (drop (n + 2)) (block_lines n (PStr s)) = split_lines [] s"
  by (simp add: block_lines_def indent_by_def comp_def)

subsection \<open>Normalising twice\<close>

definition clean_line :: "string \<Rightarrow> bool" where
  "clean_line l \<longleftrightarrow> l \<noteq> [] \<and> \<not> py_space (last l) \<and> (\<forall>c \<in> set l. \<not> line_end c)"

lemma split_lines_no_end:
  "\<forall>c \<in> set acc. \<not> line_end c \<Longrightarrow> \<forall>l \<in> set (split_lines acc t). \<forall>c \<in> set l. \<not> line_end c"
proof (induction acc t rule: split_lines.induct)
  case (2 acc c cs)
  let ?crlf = "of_char c = (13 :: nat) \<and> cs \<noteq> [] \<and> of_char (hd cs) = (10 :: nat)"
  consider (crlf) ?crlf | (eol) "\<not> ?crlf" "line_end c" | (no) "\<not> ?crlf" "\<not> line_end c" by blast
  then show ?case
  proof cases
    case crlf
    then show ?thesis using "2.IH"(1) "2.prems" by simp
  next
    case eol
    have "split_lines acc (c # cs) = rev acc # split_lines [] cs" using eol by (simp only: split_lines.simps if_False if_True)
    then show ?thesis using "2.IH"(2) [OF eol] "2.prems" by simp
  next
    case no
    have "\<forall>c' \<in> set (c # acc). \<not> line_end c'" using no(2) "2.prems" by simp
    with "2.IH"(3) [OF no] show ?thesis using no by (simp only: split_lines.simps if_False)
  qed
qed simp

lemma py_rstrip_last: "py_rstrip s \<noteq> [] \<Longrightarrow> \<not> py_space (last (py_rstrip s))"
proof -
  assume "py_rstrip s \<noteq> []"
  then have "dropWhile py_space (rev s) \<noteq> []" by (simp add: py_rstrip_def)
  then show ?thesis by (simp add: py_rstrip_def last_rev hd_dropWhile)
qed

lemma py_rstrip_set: "set (py_rstrip s) \<subseteq> set s"
  by (auto simp: py_rstrip_def dest: set_dropWhileD)

lemma trace_lines_clean: "l \<in> set (trace_lines t) \<Longrightarrow> clean_line l"
proof -
  assume "l \<in> set (trace_lines t)"
  then obtain m where m: "m \<in> set (split_lines [] t)" "l = py_rstrip m" "l \<noteq> []" by (auto simp: trace_lines_def)
  have "\<forall>c \<in> set m. \<not> line_end c" using split_lines_no_end [of "[]" t] m(1) by simp
  with m py_rstrip_last [of m] py_rstrip_set [of m] show ?thesis unfolding clean_line_def by blast
qed

lemma py_rstrip_clean: "clean_line l \<Longrightarrow> py_rstrip l = l"
proof -
  assume c: "clean_line l"
  then obtain m x where l: "l = m @ [x]" by (cases l rule: rev_cases) (auto simp: clean_line_def)
  with c show ?thesis by (simp add: py_rstrip_def clean_line_def)
qed

lemma line_end_10: "line_end (CHR 10)"
  by (simp add: line_end_def)

lemma split_lines_append: "\<forall>c \<in> set l. \<not> line_end c \<Longrightarrow> split_lines acc (l @ s) = split_lines (rev l @ acc) s"
proof (induction l arbitrary: acc)
  case (Cons c l)
  have "of_char c \<noteq> (13 :: nat)" using Cons.prems by (auto simp: line_end_def)
  with Cons show ?case by simp
qed simp

lemma split_join_clean: "\<forall>l \<in> set ls. clean_line l \<Longrightarrow> split_lines [] (join_on [CHR 10] ls) = ls"
proof (induction ls)
  case (Cons l ls)
  then have l: "\<forall>c \<in> set l. \<not> line_end c" "l \<noteq> []" by (auto simp: clean_line_def)
  show ?case
  proof (cases "ls = []")
    case True
    then show ?thesis using split_lines_append [OF l(1), of "[]" "[]"] l(2) by simp
  next
    case False
    then show ?thesis using split_lines_append [OF l(1), of "[]" "CHR 10 # join_on [CHR 10] ls"] Cons line_end_10
      by (simp add: join_on_Cons)
  qed
qed simp

lemma trace_lines_join: "\<forall>l \<in> set ls. clean_line l \<Longrightarrow> trace_lines (join_on [CHR 10] ls) = ls"
proof -
  assume c: "\<forall>l \<in> set ls. clean_line l"
  then have "map py_rstrip ls = ls" by (intro map_idI) (auto simp: py_rstrip_clean)
  moreover have "filter (\<lambda>l. l \<noteq> []) ls = ls" using c by (intro filter_True) (auto simp: clean_line_def)
  ultimately show ?thesis by (simp add: trace_lines_def split_join_clean [OF c])
qed

lemma normalized_lines: "\<exists>ls. normalize_stacktrace rp v = join_on [CHR 10] ls \<and> (\<forall>l \<in> set ls. clean_line l)"
proof (cases v)
  case (PList es)
  then show ?thesis
    by (intro exI [of _ "concat (map (\<lambda>e. trace_lines (py_str rp e)) es)"]) (auto intro: trace_lines_clean)
qed (auto intro!: exI [of _ "trace_lines (py_str rp v)"] intro: trace_lines_clean)

lemma normalize_idem: "normalize_stacktrace rp (PStr (normalize_stacktrace rp v)) = normalize_stacktrace rp v"
proof -
  obtain ls where "normalize_stacktrace rp v = join_on [CHR 10] ls" "\<forall>l \<in> set ls. clean_line l" using normalized_lines by blast
  then show ?thesis by (simp add: trace_lines_join)
qed

text \<open>The errors a process can hold: new ones and received ones.\<close>

inductive error_value :: "(pyval \<Rightarrow> string) \<Rightarrow> defw_error \<Rightarrow> bool" for rp where
  raised: "error_value rp (make_error rp node frame stack pending msg arg halt nname)"
| received: "defw_error_constructor rp d = Inr e \<Longrightarrow> error_value rp e"

inductive_cases error_valueE: "error_value rp e"

lemma error_value_trace: "error_value rp e \<Longrightarrow> \<exists>v. de_stacktrace e = normalize_stacktrace rp v"
proof (induction rule: error_value.induct)
  case (raised node frame stack pending msg arg halt nname)
  then show ?case by (cases frame) (auto simp: make_error_def simp del: normalize_stacktrace.simps)
next
  case (received d e)
  then show ?case by (auto simp: defw_error_constructor_def ebind_Inr_iff populate_def simp del: normalize_stacktrace.simps)
qed

text \<open>
  C28: an error survives being sent. The error that is rebuilt from the mapping of an error that was
  raised or received equals it in every field: normalising the stack trace again changes nothing.
\<close>
theorem error_roundtrip:
  assumes "error_value rp e"
  shows "defw_error_constructor rp (defw_error_representer e) = Inr e"
proof -
  obtain v where v: "de_stacktrace e = normalize_stacktrace rp v" using error_value_trace [OF assms] by blast
  have "normalize_stacktrace rp (PStr (de_stacktrace e)) = de_stacktrace e" unfolding v by (rule normalize_idem)
  then show ?thesis
    by (simp add: defw_error_constructor_def defw_error_representer_def dindex_def populate_def del: normalize_stacktrace.simps)
qed

theorem error_roundtrip_witness:
  "\<exists>e. e = make_error (\<lambda>_. []) ''node'' (PNone, PInt 3, PNone, PNone, PNone) [''a  '', ''b'', ''c'', ''d''] [''x'' @ [CHR 10, CHR 10] @ ''y''] (PStr ''m'') PNone (PBool False) PNone \<and>
     de_stacktrace e = ''a'' @ [CHR 10] @ ''b'' @ [CHR 10] @ ''x'' @ [CHR 10] @ ''y'' \<and>
     defw_error_constructor (\<lambda>_. []) (defw_error_representer e) = Inr e"
proof -
  let ?e = "make_error (\<lambda>_. []) ''node'' (PNone, PInt 3, PNone, PNone, PNone) [''a  '', ''b'', ''c'', ''d''] [''x'' @ [CHR 10, CHR 10] @ ''y''] (PStr ''m'') PNone (PBool False) PNone"
  have "de_stacktrace ?e = ''a'' @ [CHR 10] @ ''b'' @ [CHR 10] @ ''x'' @ [CHR 10] @ ''y''"
    by (simp add: make_error_def trace_lines_def line_end_def py_rstrip_def py_space_def)
  moreover have "defw_error_constructor (\<lambda>_. []) (defw_error_representer ?e) = Inr ?e"
    by (rule error_roundtrip) (rule error_value.raised)
  ultimately show ?thesis by (intro exI [of _ ?e] conjI refl)
qed

end
