(* ===== verification/Wire.thy ===== *)
theory Wire
  imports Runtime_Cfg
begin

unbundle bit_operations_syntax

section \<open>Messages on the wire\<close>

text \<open>
  The framed messages of the C runtime: \<open>src/src/defw_message.h\<close>, the return codes of
  \<open>src/src/defw_common.h\<close>, and the functions of \<open>src/src/libdefw_connect.c\<close> that write and read a message
  over a socket in as many pieces as the system likes. What each \<open>read\<close> and \<open>write\<close> does is an argument:
  a list of outcomes, after which the rest is transferred in one piece (a peer that never answers again
  is not described). A byte is a character. \<open>None\<close> is behaviour that C leaves undefined.
\<close>

subsection \<open>Return codes\<close>

datatype defw_rc =
  RC_OK | RC_FAIL | RC_SYS_ERR | RC_BAD_VERSION | RC_SOCKET_FAIL | RC_BIND_FAILED | RC_LISTEN_FAILED | RC_CLIENT_CLOSED
| RC_ERR_THREAD_STARTUP | RC_AGENT_NOT_FOUND | RC_PY_IMPORT_FAIL | RC_PY_SCRIPT_FAIL | RC_RPC_FAIL | RC_OOM | RC_BAD_PARAM
| RC_BAD_ADDR | RC_MISSING_PARAM | RC_TIMEOUT | RC_LOG_CREATION_FAILURE | RC_PROTO_ERROR | RC_IN_PROGRESS | RC_BAD_UUID
| RC_NO_DATA_ON_SOCKET | RC_KEEP_DATA | RC_UNKNOWN_MESSAGE | RC_NOT_STARTED | RC_NO_LISTENER

definition INVALID_TCP_SOCKET :: int where
  "INVALID_TCP_SOCKET = - 1"

definition DEFW_VERSION_NUMBER :: "32 word" where
  "DEFW_VERSION_NUMBER = 4"

subsection \<open>Identities\<close>

text \<open>A UUID is sixteen bytes.\<close>

type_synonym uuid = string

definition null_uuid :: uuid where
  "null_uuid = replicate 16 (CHR 0x00)"

definition uuid_is_null :: "uuid \<Rightarrow> bool" where
  "uuid_is_null u \<longleftrightarrow> (\<forall>c \<in> set u. c = CHR 0x00)"

subsection \<open>Numbers and headers\<close>

definition htonl :: "32 word \<Rightarrow> string" where
  "htonl w = map char_of (addr_bytes w)"

definition ntohl :: "string \<Rightarrow> 32 word" where
  "ntohl s = word_of_nat (foldl (\<lambda>a c. 256 * a + of_char c) 0 (take 4 s))"

datatype msg_type = MT_HB | MT_SESSION_INFO | MT_PY_REQUEST | MT_PY_RESPONSE | MT_PY_EVENT | MT_RMA_ACK

definition msg_types :: "msg_type list" where
  "msg_types = [MT_HB, MT_SESSION_INFO, MT_PY_REQUEST, MT_PY_RESPONSE, MT_PY_EVENT, MT_RMA_ACK]"

fun type_code :: "msg_type \<Rightarrow> 32 word" where
  "type_code MT_HB = 0"
| "type_code MT_SESSION_INFO = 1"
| "type_code MT_PY_REQUEST = 2"
| "type_code MT_PY_RESPONSE = 3"
| "type_code MT_PY_EVENT = 4"
| "type_code MT_RMA_ACK = 5"

definition code_type :: "32 word \<Rightarrow> msg_type option" where
  "code_type w = (if unat w < length msg_types then Some (msg_types ! unat w) else None)"

record message_hdr =
  mh_type :: "32 word"
  mh_len :: "32 word"
  mh_sender_uuid :: uuid
  mh_version :: "32 word"

definition HDR_SIZE :: nat where
  "HDR_SIZE = 28"

definition hdr_bytes :: "message_hdr \<Rightarrow> string" where
  "hdr_bytes h = htonl (mh_type h) @ htonl (mh_len h) @ mh_sender_uuid h @ htonl (mh_version h)"

definition read_hdr :: "string \<Rightarrow> message_hdr" where
  "read_hdr s = \<lparr>mh_type = ntohl s, mh_len = ntohl (drop 4 s), mh_sender_uuid = take 16 (drop 8 s), mh_version = ntohl (drop 24 s)\<rparr>"

definition populateMsgHdr :: "uuid \<Rightarrow> int \<Rightarrow> msg_type \<Rightarrow> 32 word \<Rightarrow> message_hdr option" where
  "populateMsgHdr me fd ty len =
     (if fd = INVALID_TCP_SOCKET then None
      else Some \<lparr>mh_type = type_code ty, mh_len = len, mh_sender_uuid = me, mh_version = DEFW_VERSION_NUMBER\<rparr>)"

subsection \<open>Writing\<close>

datatype write_outcome = Wrote nat | WriteInterrupted | WriteError

fun write_loop :: "write_outcome list \<Rightarrow> string \<Rightarrow> string \<Rightarrow> defw_rc \<times> string \<times> write_outcome list" where
  "write_loop os sent [] = (RC_OK, sent, os)"
| "write_loop [] sent body = (RC_OK, sent @ body, [])"
| "write_loop (Wrote n # os) sent body = write_loop os (sent @ take n body) (drop n body)"
| "write_loop (WriteInterrupted # os) sent body = write_loop os sent body"
| "write_loop (WriteError # os) sent body = (RC_SYS_ERR, sent, os)"

definition sendTcpMessage :: "write_outcome list \<Rightarrow> int \<Rightarrow> string \<Rightarrow> defw_rc \<times> string \<times> write_outcome list" where
  "sendTcpMessage os fd body = (if fd = INVALID_TCP_SOCKET then (RC_FAIL, [], os) else write_loop os [] body)"

text \<open>
  The size is passed as an \<open>int\<close>: its lower 32 bits, and a negative one makes \<open>write\<close> read memory behind
  the message. The result: the return code and the bytes that were written.
\<close>

definition defw_send_msg :: "uuid \<Rightarrow> write_outcome list \<Rightarrow> int \<Rightarrow> string \<Rightarrow> msg_type \<Rightarrow> (defw_rc \<times> string) option" where
  "defw_send_msg me os fd msg ty =
     (let size = word_of_nat (length msg) :: 32 word in
      case populateMsgHdr me fd ty size of
        None \<Rightarrow> Some (RC_FAIL, [])
      | Some hdr \<Rightarrow>
          (case sendTcpMessage os fd (hdr_bytes hdr) of (rc, sent, os') \<Rightarrow>
             if rc \<noteq> RC_OK then Some (rc, sent)
             else if msg = [] then Some (rc, sent)
             else if sint size < 0 then None
             else (case sendTcpMessage os' fd (take (unat size) msg) of (rc', body, _) \<Rightarrow> Some (rc', sent @ body))))"

subsection \<open>Reading\<close>

text \<open>\<open>Got n\<close>: at most \<open>n + 1\<close> of the waiting bytes are read, none if the peer closed the connection.\<close>

datatype read_outcome = Got nat | ReadInterrupted | ReadAgain | ReadError

fun read_loop ::
  "bool \<Rightarrow> read_outcome list \<Rightarrow> nat \<Rightarrow> string \<Rightarrow> string \<Rightarrow> defw_rc \<times> string \<times> string \<times> read_outcome list" where
  "read_loop to os 0 got stream = (RC_OK, got, stream, os)"
| "read_loop to [] (Suc n) got stream =
     (if Suc n \<le> length stream then (RC_OK, got @ take (Suc n) stream, drop (Suc n) stream, [])
      else (RC_SOCKET_FAIL, got @ stream, [], []))"
| "read_loop to (Got k # os) (Suc n) got stream =
     (let piece = take (min (Suc k) (Suc n)) stream in
      if piece = [] then (RC_SOCKET_FAIL, got, stream, os)
      else read_loop to os (Suc n - length piece) (got @ piece) (drop (length piece) stream))"
| "read_loop to (ReadInterrupted # os) (Suc n) got stream = read_loop to os (Suc n) got stream"
| "read_loop to (ReadAgain # os) (Suc n) got stream = (if to then RC_TIMEOUT else RC_SOCKET_FAIL, got, stream, os)"
| "read_loop to (ReadError # os) (Suc n) got stream = (RC_SOCKET_FAIL, got, stream, os)"

text \<open>
  The size is an \<open>int\<close> again: a negative one is a length beyond every buffer. \<open>ioctl_ok\<close>: whether the
  descriptor can be asked for waiting bytes.
\<close>

definition readTcpMessage ::
  "bool \<Rightarrow> read_outcome list \<Rightarrow> int \<Rightarrow> 32 word \<Rightarrow> nat \<Rightarrow> bool \<Rightarrow> string
     \<Rightarrow> (defw_rc \<times> string \<times> string \<times> read_outcome list) option" where
  "readTcpMessage ioctl_ok os fd len timeout force_wait stream =
     (if fd = INVALID_TCP_SOCKET then Some (RC_CLIENT_CLOSED, [], stream, os)
      else if \<not> force_wait \<and> \<not> ioctl_ok then Some (RC_CLIENT_CLOSED, [], stream, os)
      else if sint len < 0 then None
      else Some (read_loop (timeout \<noteq> 0) os (unat len) [] stream))"

definition TCP_READ_TIMEOUT_SEC :: nat where
  "TCP_READ_TIMEOUT_SEC = 20"

text \<open>
  The first part of \<open>process_agent_message\<close>: the header and its checks, then the body. \<open>remote\<close> is the
  identity of the agent that owns the connection, the null UUID as long as it is not known.
\<close>

record net =
  nt_ioctl :: bool
  nt_reads :: "read_outcome list"
  nt_oom :: bool

definition receive_message ::
  "net \<Rightarrow> uuid \<Rightarrow> int \<Rightarrow> string \<Rightarrow> ((defw_rc + msg_type \<times> string) \<times> string) option" where
  "receive_message net remote fd stream =
     (case readTcpMessage (nt_ioctl net) (nt_reads net) fd (word_of_nat HDR_SIZE) TCP_READ_TIMEOUT_SEC False stream of
        None \<Rightarrow> None
      | Some (rc, raw, stream1, os) \<Rightarrow>
          if rc \<noteq> RC_OK then Some (Inl rc, stream1)
          else
            (let hdr = read_hdr raw in
             if mh_version hdr \<noteq> DEFW_VERSION_NUMBER then Some (Inl RC_BAD_VERSION, stream1)
             else if \<not> uuid_is_null remote \<and> remote \<noteq> mh_sender_uuid hdr then Some (Inl RC_BAD_ADDR, stream1)
             else
               (case code_type (mh_type hdr) of
                  None \<Rightarrow> Some (Inl RC_UNKNOWN_MESSAGE, stream1)
                | Some ty \<Rightarrow>
                    if nt_oom net then Some (Inl RC_OOM, stream1)
                    else
                      (case readTcpMessage (nt_ioctl net) os fd (mh_len hdr) TCP_READ_TIMEOUT_SEC False stream1 of
                         None \<Rightarrow> None
                       | Some (rc', body, stream2, _) \<Rightarrow>
                           Some (if rc' \<noteq> RC_OK then Inl rc' else Inr (ty, body), stream2)))))"

subsection \<open>Session messages\<close>

text \<open>
  The body of session information and of a heartbeat: two identities, of which the second is unused,
  four numbers, two names in 1024 bytes each and the address on the fabric in 256 bytes.
\<close>

record msg_session =
  ms_remote_uuid :: uuid
  ms_node_type :: "32 word"
  ms_pid :: "32 word"
  ms_rpc_setup :: "32 word"
  ms_listen_port :: "32 word"
  ms_node_name :: string
  ms_node_hostname :: string
  ms_ofi_addrlen :: "32 word"
  ms_ofi_addr :: string

definition DEFW_OFI_MAX_ADDRLEN :: nat where
  "DEFW_OFI_MAX_ADDRLEN = 256"

definition SESSION_SIZE :: nat where
  "SESSION_SIZE = 2356"

text \<open>\<open>strncpy\<close> into a buffer of \<open>n\<close> bytes whose last byte is set to zero: the text that can be read from it.\<close>

definition copy_text :: "nat \<Rightarrow> string \<Rightarrow> string" where
  "copy_text n s = take (n - 1) (takeWhile (\<lambda>c. c \<noteq> CHR 0x00) s)"

definition pad :: "nat \<Rightarrow> string \<Rightarrow> string" where
  "pad n s = take n (s @ replicate n (CHR 0x00))"

definition session_bytes :: "msg_session \<Rightarrow> string" where
  "session_bytes m = ms_remote_uuid m @ null_uuid @ htonl (ms_node_type m) @ htonl (ms_pid m) @ htonl (ms_rpc_setup m) @
     htonl (ms_listen_port m) @ pad MAX_STR_LEN (ms_node_name m) @ pad MAX_STR_LEN (ms_node_hostname m) @
     htonl (ms_ofi_addrlen m) @ pad DEFW_OFI_MAX_ADDRLEN (ms_ofi_addr m)"

text \<open>The body is cast to the structure: a shorter body is read beyond its end.\<close>

definition read_session :: "string \<Rightarrow> msg_session option" where
  "read_session s =
     (if length s < SESSION_SIZE then None
      else Some \<lparr>ms_remote_uuid = take 16 s, ms_node_type = ntohl (drop 32 s), ms_pid = ntohl (drop 36 s),
        ms_rpc_setup = ntohl (drop 40 s), ms_listen_port = ntohl (drop 44 s),
        ms_node_name = copy_text MAX_STR_LEN (take MAX_STR_LEN (drop 48 s)),
        ms_node_hostname = copy_text MAX_STR_LEN (take MAX_STR_LEN (drop 1072 s)),
        ms_ofi_addrlen = ntohl (drop 2096 s), ms_ofi_addr = take DEFW_OFI_MAX_ADDRLEN (drop 2100 s)\<rparr>)"

text \<open>
  What a process tells of itself: \<open>rpc\<close> and \<open>port\<close> are set in session information only. \<open>fabric\<close> is its
  address on the fabric, if it has one.
\<close>

record node_info =
  ni_uuid :: uuid
  ni_pid :: "32 word"
  ni_type :: "32 word"
  ni_listen_port :: "16 word"
  ni_name :: string
  ni_hostname :: string
  ni_fabric :: "string option"

definition session_of :: "node_info \<Rightarrow> bool \<Rightarrow> bool \<Rightarrow> msg_session" where
  "session_of ni session rpc =
     \<lparr>ms_remote_uuid = ni_uuid ni, ms_node_type = ni_type ni, ms_pid = ni_pid ni,
      ms_rpc_setup = (if session \<and> rpc then 1 else 0),
      ms_listen_port = (if session then ucast (ni_listen_port ni) else 0),
      ms_node_name = copy_text MAX_STR_LEN (ni_name ni), ms_node_hostname = copy_text MAX_STR_LEN (ni_hostname ni),
      ms_ofi_addrlen = (case ni_fabric ni of None \<Rightarrow> 0 | Some a \<Rightarrow> word_of_nat (length a)),
      ms_ofi_addr = (case ni_fabric ni of None \<Rightarrow> [] | Some a \<Rightarrow> a)\<rparr>"

subsection \<open>Acknowledgements\<close>

definition rma_ack_bytes :: "64 word \<Rightarrow> string" where
  "rma_ack_bytes h = htonl (ucast (drop_bit 32 h)) @ htonl (ucast (h AND 0xffffffff))"

definition read_rma_ack :: "string \<Rightarrow> 64 word option" where
  "read_rma_ack s = (if length s < 8 then None
     else Some (push_bit 32 (ucast (ntohl s)) OR ucast (ntohl (drop 4 s))))"

subsection \<open>Numbers and headers can be read back\<close>

lemma htonl_length [simp]: "length (htonl w) = 4"
  by (simp add: htonl_def addr_bytes_def)

lemma foldl_bytes: "\<forall>n \<in> set ns. n < 256 \<Longrightarrow>
    foldl (\<lambda>a c. 256 * a + (of_char c :: nat)) z (map char_of ns) = foldl (\<lambda>a n. 256 * a + n) z ns"
  by (induction ns arbitrary: z) (auto simp: of_char_of)

lemma addr_bytes_less: "n \<in> set (addr_bytes w) \<Longrightarrow> n < 256"
proof -
  have "unat w < 256 ^ 4" using unsigned_less [of w, where 'a = nat] by simp
  then have "unat w div 16777216 < 256" by (simp add: less_mult_imp_div_less)
  then show "n \<in> set (addr_bytes w) \<Longrightarrow> n < 256" by (auto simp: addr_bytes_def)
qed

lemma addr_bytes_fold: "foldl (\<lambda>a n. 256 * a + n) 0 (addr_bytes w) = unat w"
proof -
  have "addr_bytes w = butlast (addr_bytes w) @ [last (addr_bytes w)]" by (simp add: addr_bytes_def)
  then have "foldl (\<lambda>a n. 256 * a + n) 0 (addr_bytes w) =
      256 * foldl (\<lambda>a n. 256 * a + n) 0 (butlast (addr_bytes w)) + last (addr_bytes w)"
    by (metis foldl.simps foldl_append)
  also have "\<dots> = unat w" using addr_bytes_value [of w] by (simp add: mult.commute)
  finally show ?thesis .
qed

lemma ntohl_take: "length h = 4 \<Longrightarrow> ntohl (h @ s) = ntohl h"
  by (simp add: ntohl_def)

lemma ntohl_htonl_self: "ntohl (htonl w) = w"
proof -
  have "take 4 (htonl w) = map char_of (addr_bytes w)" by (simp add: htonl_def addr_bytes_def)
  moreover have "\<forall>n \<in> set (addr_bytes w). n < 256" using addr_bytes_less by blast
  ultimately show ?thesis by (simp only: ntohl_def foldl_bytes addr_bytes_fold) simp
qed

lemma ntohl_htonl [simp]: "ntohl (htonl w @ s) = w" "ntohl (htonl w) = w"
  by (simp_all only: ntohl_take htonl_length ntohl_htonl_self)

lemma hdr_bytes_length: "length (mh_sender_uuid h) = 16 \<Longrightarrow> length (hdr_bytes h) = HDR_SIZE"
  by (simp add: hdr_bytes_def HDR_SIZE_def)

lemma read_hdr_bytes: "length (mh_sender_uuid h) = 16 \<Longrightarrow> read_hdr (hdr_bytes h) = h"
  by (simp add: read_hdr_def hdr_bytes_def)

lemma code_type_code [simp]: "code_type (type_code ty) = Some ty"
  by (cases ty) (simp_all add: code_type_def msg_types_def)

subsection \<open>Pieces do not matter\<close>

lemma write_loop_ok: "write_loop os sent body = (RC_OK, out, os') \<Longrightarrow> out = sent @ body"
  by (induction os sent body rule: write_loop.induct) auto

lemma write_loop_prefix: "write_loop os sent body = (rc, out, os') \<Longrightarrow> \<exists>n. out = sent @ take n body"
proof (induction os sent body rule: write_loop.induct)
  case (2 sent c body)
  then have "out = sent @ take (Suc (length body)) (c # body)" by simp
  then show ?case by blast
next
  case (3 n os sent c body)
  then obtain k where "out = (sent @ take n (c # body)) @ take k (drop n (c # body))" by auto
  then have "out = sent @ take (n + k) (c # body)" by (simp only: take_add append_assoc)
  then show ?case by blast
qed (auto intro: exI [of _ 0])

definition benign :: "read_outcome list \<Rightarrow> bool" where
  "benign os \<longleftrightarrow> ReadAgain \<notin> set os \<and> ReadError \<notin> set os"

lemma benign_Cons: "benign (x # os) \<longleftrightarrow> x \<noteq> ReadAgain \<and> x \<noteq> ReadError \<and> benign os"
  by (auto simp: benign_def)

lemma read_loop_got:
  assumes "length s = Suc n" and "piece = take (min (Suc k) (Suc n)) s"
  shows "read_loop to (Got k # os) (Suc n) got (s @ rest) =
      read_loop to os (Suc n - length piece) (got @ piece) (drop (length piece) s @ rest)"
    and "piece @ drop (length piece) s = s" and "length (drop (length piece) s) = Suc n - length piece"
proof -
  have "take (min (Suc k) (Suc n)) (s @ rest) = piece" "piece \<noteq> []" "drop (length piece) (s @ rest) = drop (length piece) s @ rest"
    using assms by auto
  then show "read_loop to (Got k # os) (Suc n) got (s @ rest) =
      read_loop to os (Suc n - length piece) (got @ piece) (drop (length piece) s @ rest)"
    by (simp only: read_loop.simps Let_def if_False)
  show "piece @ drop (length piece) s = s" "length (drop (length piece) s) = Suc n - length piece"
    using assms by (auto simp: min_def)
qed

lemma read_loop_benign:
  "benign os \<Longrightarrow> length s = n \<Longrightarrow>
     \<exists>os'. read_loop to os n got (s @ rest) = (RC_OK, got @ s, rest, os') \<and> benign os'"
proof (induction os arbitrary: n got s)
  case Nil
  then show ?case by (cases n) auto
next
  case (Cons x os)
  show ?case
  proof (cases n)
    case 0
    with Cons.prems show ?thesis by auto
  next
    case (Suc m)
    show ?thesis
    proof (cases x)
      case (Got k)
      define piece where "piece = take (min (Suc k) (Suc m)) s"
      have len: "length s = Suc m" using Cons.prems(2) Suc by simp
      note g = read_loop_got [OF len piece_def]
      obtain os' where "read_loop to os (Suc m - length piece) (got @ piece) (drop (length piece) s @ rest) =
          (RC_OK, (got @ piece) @ drop (length piece) s, rest, os')" "benign os'"
        using Cons.IH [of "drop (length piece) s" "Suc m - length piece"] Cons.prems(1) g(3) benign_Cons by blast
      then show ?thesis using g(1,2) Got Suc by auto
    next
      case ReadInterrupted
      then show ?thesis using Cons Suc by (simp add: benign_Cons)
    qed (use Cons.prems in \<open>simp_all add: benign_Cons\<close>)
  qed
qed

lemma read_loop_ok:
  "read_loop to os n got stream = (RC_OK, out, rest, os') \<Longrightarrow> \<exists>s. out = got @ s \<and> stream = s @ rest \<and> length s = n"
proof (induction to os n got stream rule: read_loop.induct)
  case (2 to n got stream)
  then have "out = got @ take (Suc n) stream" "rest = drop (Suc n) stream" "Suc n \<le> length stream"
    by (auto split: if_splits)
  then show ?case by (intro exI [of _ "take (Suc n) stream"]) simp
next
  case (3 to k os n got stream)
  define piece where "piece = take (min (Suc k) (Suc n)) stream"
  have ne: "piece \<noteq> []" using "3.prems" by (auto simp: piece_def Let_def)
  have "read_loop to os (Suc n - length piece) (got @ piece) (drop (length piece) stream) = (RC_OK, out, rest, os')"
    using "3.prems" ne by (simp only: read_loop.simps Let_def piece_def [symmetric] if_False)
  then obtain s where s: "out = (got @ piece) @ s" "drop (length piece) stream = s @ rest" "length s = Suc n - length piece"
    using "3.IH" [OF piece_def ne] by blast
  have "length piece \<le> Suc n" "stream = piece @ drop (length piece) stream"
    by (auto simp: piece_def min_def)
  with s show ?case by (intro exI [of _ "piece @ s"]) simp
qed (auto split: if_splits)

lemma sint_small: "n < 2 ^ 31 \<Longrightarrow> \<not> sint (word_of_nat n :: 32 word) < 0 \<and> unat (word_of_nat n :: 32 word) = n"
proof -
  assume n: "n < 2 ^ 31"
  have "signed_take_bit 31 (int n) = int n" using n by (intro signed_take_bit_int_eq_self) simp_all
  then have "sint (word_of_nat n :: 32 word) = int n" by (simp add: signed_of_nat)
  moreover have "unat (word_of_nat n :: 32 word) = n" using n by (simp add: unsigned_of_nat take_bit_nat_eq_self_iff)
  ultimately show ?thesis by simp
qed

lemma sent_bytes:
  assumes "defw_send_msg me os fd msg ty = Some (RC_OK, bytes)" and "length msg < 2 ^ 31"
  shows "bytes = hdr_bytes \<lparr>mh_type = type_code ty, mh_len = word_of_nat (length msg), mh_sender_uuid = me,
      mh_version = DEFW_VERSION_NUMBER\<rparr> @ msg"
proof -
  note small = sint_small [OF assms(2)]
  from assms(1) small show ?thesis
    by (auto simp: defw_send_msg_def populateMsgHdr_def sendTcpMessage_def Let_def dest!: write_loop_ok
        split: if_splits prod.splits option.splits)
qed

text \<open>
  C18: a message arrives as it was sent. However the system splits the writes and the reads, the bytes
  that a successful send wrote are received as one message of the same type with the same content, and
  what follows on the connection is left for the next message. The sender is accepted if it is the owner
  of the connection or the owner is not known yet.
\<close>
theorem message_roundtrip:
  assumes "defw_send_msg me os fd msg ty = Some (RC_OK, bytes)" and "length msg < 2 ^ 31" and "length me = 16"
    and "uuid_is_null remote \<or> remote = me" and "fd' \<noteq> INVALID_TCP_SOCKET" and "nt_ioctl net" and "\<not> nt_oom net"
    and "benign (nt_reads net)"
  shows "receive_message net remote fd' (bytes @ rest) = Some (Inr (ty, msg), rest)"
proof -
  define hdr where "hdr = \<lparr>mh_type = type_code ty, mh_len = word_of_nat (length msg), mh_sender_uuid = me,
      mh_version = DEFW_VERSION_NUMBER\<rparr>"
  have b: "bytes = hdr_bytes hdr @ msg" using sent_bytes [OF assms(1,2)] by (simp add: hdr_def)
  have me: "length (mh_sender_uuid hdr) = 16" using assms(3) by (simp add: hdr_def)
  note small = sint_small [OF assms(2)]
  have hs: "\<not> sint (word_of_nat HDR_SIZE :: 32 word) < 0" "unat (word_of_nat HDR_SIZE :: 32 word) = HDR_SIZE"
    using sint_small [of HDR_SIZE] by (simp_all add: HDR_SIZE_def)
  obtain os1 where r1: "read_loop True (nt_reads net) HDR_SIZE [] (hdr_bytes hdr @ msg @ rest) =
      (RC_OK, hdr_bytes hdr, msg @ rest, os1)" "benign os1"
    using read_loop_benign [OF assms(8) hdr_bytes_length [OF me], of True "[]" "msg @ rest"] by auto
  obtain os2 where r2: "read_loop True os1 (length msg) [] (msg @ rest) = (RC_OK, msg, rest, os2)"
    using read_loop_benign [OF r1(2), of msg "length msg" True "[]" rest] by auto
  show ?thesis unfolding b receive_message_def readTcpMessage_def
    using assms(4-7) hs small r1(1) r2 read_hdr_bytes [OF me]
    by (auto simp: hdr_def TCP_READ_TIMEOUT_SEC_def)
qed

theorem message_roundtrip_witness:
  "\<exists>bytes. defw_send_msg (replicate 16 CHR ''u'') [Wrote 3, WriteInterrupted, Wrote 30, Wrote 1] 7 ''hello'' MT_PY_REQUEST = Some (RC_OK, bytes) \<and>
     receive_message \<lparr>nt_ioctl = True, nt_reads = [Got 0, ReadInterrupted, Got 40], nt_oom = False\<rparr> (replicate 16 CHR ''u'') 9
       (bytes @ ''more'') = Some (Inr (MT_PY_REQUEST, ''hello''), ''more'')"
proof -
  have "\<exists>bytes. defw_send_msg (replicate 16 CHR ''u'') [Wrote 3, WriteInterrupted, Wrote 30, Wrote 1] 7 ''hello'' MT_PY_REQUEST = Some (RC_OK, bytes)"
    by (simp add: defw_send_msg_def populateMsgHdr_def INVALID_TCP_SOCKET_def sendTcpMessage_def hdr_bytes_def htonl_def
        addr_bytes_def Let_def)
  then obtain bytes where b: "defw_send_msg (replicate 16 CHR ''u'') [Wrote 3, WriteInterrupted, Wrote 30, Wrote 1] 7 ''hello'' MT_PY_REQUEST = Some (RC_OK, bytes)"
    by blast
  have "receive_message \<lparr>nt_ioctl = True, nt_reads = [Got 0, ReadInterrupted, Got 40], nt_oom = False\<rparr> (replicate 16 CHR ''u'') 9
       (bytes @ ''more'') = Some (Inr (MT_PY_REQUEST, ''hello''), ''more'')"
    by (rule message_roundtrip [OF b]) (simp_all add: INVALID_TCP_SOCKET_def benign_def)
  with b show ?thesis by blast
qed

text \<open>What is accepted was framed: a header with the right version, an accepted sender and the length of the body.\<close>

lemma readTcpMessage_ok:
  assumes "readTcpMessage ioctl_ok os fd len to fw stream = Some (RC_OK, got, rest, os')"
  shows "stream = got @ rest \<and> length got = unat len"
  using assms by (auto simp: readTcpMessage_def dest!: read_loop_ok split: if_splits)

lemma received_framed:
  assumes "receive_message net remote fd stream = Some (Inr (ty, body), rest)"
  obtains raw where "stream = raw @ body @ rest" "length raw = HDR_SIZE" "mh_version (read_hdr raw) = DEFW_VERSION_NUMBER"
    "uuid_is_null remote \<or> mh_sender_uuid (read_hdr raw) = remote" "code_type (mh_type (read_hdr raw)) = Some ty"
    "unat (mh_len (read_hdr raw)) = length body"
proof -
  have hs: "unat (word_of_nat HDR_SIZE :: 32 word) = HDR_SIZE" using sint_small [of HDR_SIZE] by (simp add: HDR_SIZE_def)
  from assms obtain raw stream1 os os' where r:
    "readTcpMessage (nt_ioctl net) (nt_reads net) fd (word_of_nat HDR_SIZE) TCP_READ_TIMEOUT_SEC False stream = Some (RC_OK, raw, stream1, os)"
    "readTcpMessage (nt_ioctl net) os fd (mh_len (read_hdr raw)) TCP_READ_TIMEOUT_SEC False stream1 = Some (RC_OK, body, rest, os')"
    "mh_version (read_hdr raw) = DEFW_VERSION_NUMBER" "uuid_is_null remote \<or> mh_sender_uuid (read_hdr raw) = remote"
    "code_type (mh_type (read_hdr raw)) = Some ty"
    by (auto simp: receive_message_def Let_def split: option.splits if_splits prod.splits)
  with readTcpMessage_ok [OF r(1)] readTcpMessage_ok [OF r(2)] hs show ?thesis by (intro that [of raw]) simp_all
qed

subsection \<open>Session messages can be read back\<close>

lemma pad_length [simp]: "length (pad n s) = n"
  by (simp add: pad_def)

lemma copy_text_no_NUL: "CHR 0x00 \<notin> set (copy_text n s)"
  by (auto simp: copy_text_def dest!: in_set_takeD set_takeWhileD)

lemma copy_text_length: "0 < n \<Longrightarrow> length (copy_text n s) < n"
  by (auto simp: copy_text_def)

lemma copy_text_pad:
  assumes "CHR 0x00 \<notin> set s" and "length s < n"
  shows "copy_text n (take n (pad n s)) = s"
proof -
  have "\<forall>c \<in> set s. c \<noteq> CHR 0x00" using assms(1) by blast
  then have "takeWhile (\<lambda>c. c \<noteq> CHR 0x00) (s @ replicate (n - length s) (CHR 0x00)) = s"
    using assms(2) by (simp add: takeWhile_append takeWhile_all)
  moreover have "take n (pad n s) = s @ replicate (n - length s) (CHR 0x00)" using assms(2) by (simp add: pad_def)
  ultimately show ?thesis using assms(2) by (simp add: copy_text_def)
qed

lemma copy_text_idem: "0 < n \<Longrightarrow> copy_text n (take n (pad n (copy_text n s))) = copy_text n s"
  using copy_text_pad [OF copy_text_no_NUL copy_text_length] by blast

lemma session_length: "length (ms_remote_uuid m) = 16 \<Longrightarrow> length (session_bytes m) = SESSION_SIZE"
  by (simp add: session_bytes_def SESSION_SIZE_def null_uuid_def MAX_STR_LEN_def DEFW_OFI_MAX_ADDRLEN_def)

lemma session_layout:
  assumes "length u = 16" "length z = 16" "length a = 4" "length b = 4" "length c = 4" "length d = 4"
    "length n = 1024" "length h = 1024" "length l = 4"
  shows "take 16 (u @ z @ a @ b @ c @ d @ n @ h @ l @ f) = u"
    and "drop 32 (u @ z @ a @ b @ c @ d @ n @ h @ l @ f) = a @ b @ c @ d @ n @ h @ l @ f"
    and "drop 36 (u @ z @ a @ b @ c @ d @ n @ h @ l @ f) = b @ c @ d @ n @ h @ l @ f"
    and "drop 40 (u @ z @ a @ b @ c @ d @ n @ h @ l @ f) = c @ d @ n @ h @ l @ f"
    and "drop 44 (u @ z @ a @ b @ c @ d @ n @ h @ l @ f) = d @ n @ h @ l @ f"
    and "take 1024 (drop 48 (u @ z @ a @ b @ c @ d @ n @ h @ l @ f)) = n"
    and "take 1024 (drop 1072 (u @ z @ a @ b @ c @ d @ n @ h @ l @ f)) = h"
    and "drop 2096 (u @ z @ a @ b @ c @ d @ n @ h @ l @ f) = l @ f"
    and "drop 2100 (u @ z @ a @ b @ c @ d @ n @ h @ l @ f) = f"
  by (simp_all add: assms)

text \<open>A node learns from session information and heartbeats what the sender put in.\<close>

lemma session_read:
  assumes "length (ni_uuid ni) = 16"
  shows "read_session (session_bytes (session_of ni s rpc)) =
    Some ((session_of ni s rpc)\<lparr>ms_ofi_addr := pad DEFW_OFI_MAX_ADDRLEN (ms_ofi_addr (session_of ni s rpc))\<rparr>)"
proof -
  let ?m = "session_of ni s rpc"
  have m: "length (ms_remote_uuid ?m) = 16" using assms by (simp add: session_of_def)
  have len: "length (pad MAX_STR_LEN t) = 1024" "take DEFW_OFI_MAX_ADDRLEN (pad DEFW_OFI_MAX_ADDRLEN t) = pad DEFW_OFI_MAX_ADDRLEN t"
    for t by (simp_all add: MAX_STR_LEN_def)
  have z: "length null_uuid = 16" by (simp add: null_uuid_def)
  have "copy_text MAX_STR_LEN (pad MAX_STR_LEN (copy_text MAX_STR_LEN t)) = copy_text MAX_STR_LEN t" for t
    using copy_text_idem [of MAX_STR_LEN t] by (simp add: MAX_STR_LEN_def)
  then have names: "copy_text MAX_STR_LEN (pad MAX_STR_LEN (ms_node_name ?m)) = ms_node_name ?m"
    "copy_text MAX_STR_LEN (pad MAX_STR_LEN (ms_node_hostname ?m)) = ms_node_hostname ?m" by (simp_all only: session_of_def msg_session.simps)
  note lay = session_layout [OF m z htonl_length htonl_length htonl_length htonl_length len(1) len(1) htonl_length]
  have k: "take MAX_STR_LEN = (take 1024 :: string \<Rightarrow> string)" by (simp add: MAX_STR_LEN_def)
  have "read_session (session_bytes ?m) = Some (?m\<lparr>ms_ofi_addr := pad DEFW_OFI_MAX_ADDRLEN (ms_ofi_addr ?m)\<rparr>)"
    unfolding read_session_def session_length [OF m] less_irrefl if_False
    unfolding session_bytes_def k lay names len ntohl_htonl by simp
  then show ?thesis .
qed

lemma ucast_drop: "ucast (ucast (drop_bit 32 h :: 64 word) :: 32 word) = (drop_bit 32 h :: 64 word)"
  by (rule bit_word_eqI) (auto simp: bit_ucast_iff bit_drop_bit_eq dest: bit_imp_le_length)

lemma ucast_low: "ucast (ucast (h AND 0xffffffff :: 64 word) :: 32 word) = (take_bit 32 h :: 64 word)"
proof -
  have "h AND 0xffffffff = take_bit 32 h" by (simp add: take_bit_eq_mask mask_eq_exp_minus_1)
  then show ?thesis by (simp only:) (rule bit_word_eqI, auto simp: bit_ucast_iff bit_take_bit_iff)
qed

lemma rma_ack_read: "read_rma_ack (rma_ack_bytes h) = Some h"
proof -
  have a: "ntohl (rma_ack_bytes h) = ucast (drop_bit 32 h)" "ntohl (drop 4 (rma_ack_bytes h)) = ucast (h AND 0xffffffff)"
    "\<not> length (rma_ack_bytes h) < 8"
    by (simp_all only: rma_ack_bytes_def ntohl_htonl length_append htonl_length drop_append) simp_all
  have "push_bit 32 (drop_bit 32 h) OR take_bit 32 h = h"
    by (rule bit_word_eqI) (auto simp: bit_or_iff bit_push_bit_iff bit_drop_bit_eq bit_take_bit_iff)
  then show ?thesis by (simp only: read_rma_ack_def a if_False ucast_drop ucast_low)
qed

end
