(* ===== verification/Events.thy ===== *)
theory Events
  imports Class_Registry "HOL-Library.Multiset"
begin

section \<open>Event queues\<close>

text \<open>
  The class \<open>BaseEventAPI\<close> of \<open>src/python/infra/defw_event_baseapi.py\<close>: a queue of events, and a pipe
  that holds a byte for each of them so that a consumer can wait on its descriptor. An event is an
  object: the queue holds references into a store, since the callback \<open>recordtime\<close> changes the events
  and an event may be put twice. The capacity of the pipe is an argument. \<open>Blocked\<close> is the state in
  which a thread waits: for the lock, for room in the pipe, or for a byte.
\<close>

subsection \<open>The queue and its lock\<close>

record 'v event_api =
  ea_queue :: "nat list"
  ea_store :: "nat \<Rightarrow> 'v"
  ea_pipe :: nat
  ea_thread_safe :: bool
  ea_locked :: bool
  ea_class_id :: string

datatype ('s, 'a) run = Done 's 'a | Blocked 's

definition make_event_api :: "bool \<Rightarrow> string \<Rightarrow> (nat \<Rightarrow> 'v) \<Rightarrow> 'v event_api" where
  "make_event_api thread_safe class_id h =
     \<lparr>ea_queue = [], ea_store = h, ea_pipe = 0, ea_thread_safe = thread_safe, ea_locked = False, ea_class_id = class_id\<rparr>"

definition lock_enter :: "'v event_api \<Rightarrow> 'v event_api option" where
  "lock_enter s = (if ea_thread_safe s then (if ea_locked s then None else Some (s\<lparr>ea_locked := True\<rparr>)) else Some s)"

definition lock_exit :: "'v event_api \<Rightarrow> 'v event_api" where
  "lock_exit s = (if ea_thread_safe s then s\<lparr>ea_locked := False\<rparr> else s)"

subsection \<open>Putting and getting events\<close>

definition put :: "nat \<Rightarrow> nat \<Rightarrow> 'v event_api \<Rightarrow> ('v event_api, unit) run" where
  "put capacity event s =
     (case lock_enter s of
        None \<Rightarrow> Blocked s
      | Some s1 \<Rightarrow>
          (let s2 = s1\<lparr>ea_queue := ea_queue s1 @ [event]\<rparr> in
           if ea_pipe s2 < capacity then Done (lock_exit (s2\<lparr>ea_pipe := ea_pipe s2 + 1\<rparr>)) ()
           else Blocked s2))"

text \<open>The loop over the queue: \<open>equalto\<close> has the criteria as its first argument already.\<close>

fun scan_events ::
  "('v \<Rightarrow> bool result) \<Rightarrow> ('v \<Rightarrow> 'v result) \<Rightarrow> nat list \<Rightarrow> (nat \<Rightarrow> 'v) \<Rightarrow> (nat \<Rightarrow> 'v) \<times> nat list result" where
  "scan_events equalto recordtime [] h = (h, Inr [])"
| "scan_events equalto recordtime (e # es) h =
     (case equalto (h e) of
        Inl x \<Rightarrow> (h, Inl x)
      | Inr False \<Rightarrow> scan_events equalto recordtime es h
      | Inr True \<Rightarrow>
          (case recordtime (h e) of
             Inl x \<Rightarrow> (h, Inl x)
           | Inr v \<Rightarrow>
               (case scan_events equalto recordtime es (h(e := v)) of
                  (h', Inl x) \<Rightarrow> (h', Inl x)
                | (h', Inr res) \<Rightarrow> (h', Inr (e # res)))))"

text \<open>\<open>queue.remove(e)\<close> removes the first event that is the same or equal.\<close>

fun remove_event :: "(nat \<Rightarrow> 'v) \<Rightarrow> nat \<Rightarrow> nat list \<Rightarrow> nat list result" where
  "remove_event h e [] = Inl PyValueError"
| "remove_event h e (x # xs) = (if x = e \<or> h x = h e then Inr xs else ebind (remove_event h e xs) (\<lambda>ys. Inr (x # ys)))"

fun remove_events :: "(nat \<Rightarrow> 'v) \<Rightarrow> nat list \<Rightarrow> nat list \<Rightarrow> nat list \<times> unit result" where
  "remove_events h [] q = (q, Inr ())"
| "remove_events h (e # es) q =
     (case remove_event h e q of Inl x \<Rightarrow> (q, Inl x) | Inr q' \<Rightarrow> remove_events h es q')"

definition os_read :: "nat \<Rightarrow> nat \<Rightarrow> nat option" where
  "os_read n pipe = (if n = 0 then Some pipe else if pipe = 0 then None else Some (pipe - min n pipe))"

definition get_events ::
  "('v \<Rightarrow> bool result) \<Rightarrow> ('v \<Rightarrow> 'v result) \<Rightarrow> 'v event_api \<Rightarrow> ('v event_api, nat list result) run" where
  "get_events equalto recordtime s =
     (case lock_enter s of
        None \<Rightarrow> Blocked s
      | Some s1 \<Rightarrow>
          (case scan_events equalto recordtime (ea_queue s1) (ea_store s1) of
             (h, Inl x) \<Rightarrow> Done (lock_exit (s1\<lparr>ea_store := h\<rparr>)) (Inl x)
           | (h, Inr res) \<Rightarrow>
               (case remove_events h res (ea_queue s1) of
                  (q, Inl x) \<Rightarrow> Done (lock_exit (s1\<lparr>ea_store := h, ea_queue := q\<rparr>)) (Inl x)
                | (q, Inr _) \<Rightarrow>
                    (case os_read (length res) (ea_pipe s1) of
                       None \<Rightarrow> Blocked (s1\<lparr>ea_store := h, ea_queue := q\<rparr>)
                     | Some n \<Rightarrow> Done (lock_exit (s1\<lparr>ea_store := h, ea_queue := q, ea_pipe := n\<rparr>)) (Inr res)))))"

text \<open>Remote callers reach the queue through the table of objects.\<close>

definition register_external :: "pyval \<Rightarrow> 'v event_api \<Rightarrow> registry \<Rightarrow> registry \<times> unit result" where
  "register_external self s g =
     (case get_class_from_db (PStr (ea_class_id s)) g of
        Inr _ \<Rightarrow> (g, Inr ())
      | Inl (DEFwNotFound _) \<Rightarrow> add_to_class_db self (PStr (ea_class_id s)) g
      | Inl x \<Rightarrow> (g, Inl x))"

definition unregister_external :: "'v event_api \<Rightarrow> registry \<Rightarrow> registry" where
  "unregister_external s g = del_entry_from_class_db (PStr (ea_class_id s)) g"

subsection \<open>What a consumer gets\<close>

text \<open>The callbacks decide and record without raising, and an event that matches still does once it is recorded.\<close>

definition well_behaved :: "('v \<Rightarrow> bool result) \<Rightarrow> ('v \<Rightarrow> 'v result) \<Rightarrow> ('v \<Rightarrow> bool) \<Rightarrow> ('v \<Rightarrow> 'v) \<Rightarrow> bool" where
  "well_behaved equalto recordtime P f \<longleftrightarrow>
     (\<forall>v. equalto v = Inr (P v)) \<and> (\<forall>v. recordtime v = Inr (f v)) \<and> (\<forall>v. P v \<longrightarrow> P (f v))"

lemma scan_events_exact:
  assumes "well_behaved equalto recordtime P f"
  shows "\<exists>h'. scan_events equalto recordtime es h = (h', Inr (filter (\<lambda>e. P (h e)) es)) \<and> (\<forall>e. P (h' e) = P (h e))"
proof (induction es arbitrary: h)
  case (Cons e es)
  have w: "equalto v = Inr (P v)" "recordtime v = Inr (f v)" "P v \<Longrightarrow> P (f v)" for v
    using assms by (simp_all add: well_behaved_def)
  show ?case
  proof (cases "P (h e)")
    case True
    let ?h = "h(e := f (h e))"
    obtain h' where h': "scan_events equalto recordtime es ?h = (h', Inr (filter (\<lambda>e. P (?h e)) es))" "\<forall>x. P (h' x) = P (?h x)"
      using Cons by blast
    have same: "P (?h x) = P (h x)" for x using True w(3) by simp
    have "scan_events equalto recordtime (e # es) h = (h', Inr (e # filter (\<lambda>e. P (?h e)) es))"
      using True h'(1) by (simp add: w)
    with h'(2) True show ?thesis by (simp only: same filter.simps if_True) blast
  next
    case False
    with Cons show ?thesis by (simp add: w)
  qed
qed simp

lemma remove_event_matching:
  assumes "\<exists>x \<in> set q. h x = h e" and "P (h e)"
  shows "\<exists>q'. remove_event h e q = Inr q' \<and> filter (\<lambda>x. \<not> P (h x)) q' = filter (\<lambda>x. \<not> P (h x)) q \<and>
     mset (map h (filter (\<lambda>x. P (h x)) q)) = add_mset (h e) (mset (map h (filter (\<lambda>x. P (h x)) q')))"
  using assms(1)
proof (induction q)
  case (Cons x q)
  show ?case
  proof (cases "x = e \<or> h x = h e")
    case True
    then have "h x = h e" by auto
    then show ?thesis using assms(2) by simp
  next
    case False
    then obtain q' where "remove_event h e q = Inr q'" "filter (\<lambda>x. \<not> P (h x)) q' = filter (\<lambda>x. \<not> P (h x)) q"
      "mset (map h (filter (\<lambda>x. P (h x)) q)) = add_mset (h e) (mset (map h (filter (\<lambda>x. P (h x)) q')))"
      using Cons by auto
    with False show ?thesis by simp
  qed
qed simp

lemma remove_events_matching:
  assumes "\<forall>e \<in> set es. P (h e)" and "mset (map h (filter (\<lambda>x. P (h x)) q)) = mset (map h es)"
  shows "remove_events h es q = (filter (\<lambda>x. \<not> P (h x)) q, Inr ())"
  using assms
proof (induction es arbitrary: q)
  case Nil
  then have "filter (\<lambda>x. P (h x)) q = []" by simp
  then have "\<forall>x \<in> set q. \<not> P (h x)" by (simp add: filter_empty_conv)
  then show ?case by simp
next
  case (Cons e es)
  have "h e \<in># mset (map h (filter (\<lambda>x. P (h x)) q))" using Cons.prems(2) by simp
  then have "\<exists>x \<in> set q. h x = h e" by auto
  then obtain q' where q': "remove_event h e q = Inr q'" "filter (\<lambda>x. \<not> P (h x)) q' = filter (\<lambda>x. \<not> P (h x)) q"
    "mset (map h (filter (\<lambda>x. P (h x)) q)) = add_mset (h e) (mset (map h (filter (\<lambda>x. P (h x)) q')))"
    using remove_event_matching [of q h e P] Cons.prems(1) by auto
  have "mset (map h (filter (\<lambda>x. P (h x)) q')) = mset (map h es)" using q'(3) Cons.prems(2) by simp
  with Cons.IH [of q'] Cons.prems(1) q'(1,2) show ?case by simp
qed

text \<open>Between two operations there is one byte per event, and nobody holds the lock.\<close>

definition ea_inv :: "'v event_api \<Rightarrow> bool" where
  "ea_inv s \<longleftrightarrow> ea_pipe s = length (ea_queue s) \<and> \<not> ea_locked s"

lemma lock_exit_fields [simp]: "ea_queue (lock_exit s) = ea_queue s" "ea_store (lock_exit s) = ea_store s" "ea_pipe (lock_exit s) = ea_pipe s"
  by (simp_all add: lock_exit_def)

lemma put_done: "ea_inv s \<Longrightarrow> length (ea_queue s) < capacity \<Longrightarrow>
    \<exists>s'. put capacity e s = Done s' () \<and> ea_inv s' \<and> ea_queue s' = ea_queue s @ [e] \<and> ea_store s' = ea_store s"
  by (auto simp: put_def ea_inv_def lock_enter_def lock_exit_def)

text \<open>
  C24: a consumer that asks for events gets all that match, in the order they were put, without
  waiting. The events that do not match stay in the queue in their order, and the pipe again holds one
  byte for each of them, so that its descriptor is readable exactly while events are left. Equal
  events and events that were put twice are no exception.
\<close>
theorem get_delivers:
  assumes "ea_inv s" and "well_behaved equalto recordtime P f"
  shows "\<exists>s'. get_events equalto recordtime s = Done s' (Inr (filter (\<lambda>e. P (ea_store s e)) (ea_queue s))) \<and>
     ea_queue s' = filter (\<lambda>e. \<not> P (ea_store s e)) (ea_queue s) \<and> ea_inv s'"
proof -
  let ?q = "ea_queue s" and ?h = "ea_store s"
  let ?res = "filter (\<lambda>e. P (?h e)) ?q"
  have free: "\<not> ea_locked s" and pipe: "ea_pipe s = length ?q" using assms(1) by (simp_all add: ea_inv_def)
  obtain h' where h': "scan_events equalto recordtime ?q ?h = (h', Inr ?res)" "\<And>e. P (h' e) = P (?h e)"
    using scan_events_exact [OF assms(2), of ?q ?h] by blast
  have rem: "remove_events h' ?res ?q = (filter (\<lambda>e. \<not> P (?h e)) ?q, Inr ())"
    using remove_events_matching [of ?res P h' ?q] by (simp add: h'(2))
  have len: "length ?q - length ?res = length (filter (\<lambda>e. \<not> P (?h e)) ?q)"
    using sum_length_filter_compl [of "\<lambda>e. P (?h e)" ?q] by simp
  have read: "os_read (length ?res) (ea_pipe s) = Some (length (filter (\<lambda>e. \<not> P (?h e)) ?q))"
  proof (cases "?res = []")
    case True
    then show ?thesis using len by (simp add: os_read_def pipe)
  next
    case False
    then have "?q \<noteq> []" by auto
    moreover have "length ?res \<le> length ?q" by simp
    ultimately show ?thesis using False len by (simp add: os_read_def pipe del: length_filter_le)
  qed
  show ?thesis
  proof (cases "ea_thread_safe s")
    case True
    then show ?thesis using free h'(1) rem read by (simp add: get_events_def lock_enter_def lock_exit_def ea_inv_def)
  next
    case False
    then show ?thesis using free h'(1) rem read by (simp add: get_events_def lock_enter_def lock_exit_def ea_inv_def)
  qed
qed

theorem get_delivers_witness:
  "\<exists>s'. get_events (\<lambda>v. Inr (even v)) (\<lambda>v. Inr (v + 10 :: nat))
       \<lparr>ea_queue = [0, 1, 0, 2], ea_store = (\<lambda>r. if r = 1 then 3 else 4), ea_pipe = 4, ea_thread_safe = True, ea_locked = False, ea_class_id = ''c''\<rparr> =
     Done s' (Inr [0, 0, 2]) \<and> ea_queue s' = [1] \<and> ea_inv s'"
proof -
  let ?s = "\<lparr>ea_queue = [0, 1, 0, 2], ea_store = (\<lambda>r. if r = 1 then 3 else 4), ea_pipe = 4, ea_thread_safe = True, ea_locked = False, ea_class_id = ''c''\<rparr> :: nat event_api"
  have "ea_inv ?s" "well_behaved (\<lambda>v. Inr (even v)) (\<lambda>v. Inr (v + 10 :: nat)) even (\<lambda>v. v + 10)"
    by (simp_all add: ea_inv_def well_behaved_def)
  from get_delivers [OF this] show ?thesis by simp
qed

text \<open>
  A producer that finds the pipe full waits for room while it holds the lock, and then no consumer can
  take an event out: every later operation waits, too.
\<close>

lemma full_pipe_deadlock:
  assumes "ea_inv s" and "ea_thread_safe s" and "length (ea_queue s) = capacity"
  shows "\<exists>s'. put capacity e s = Blocked s' \<and> put capacity e' s' = Blocked s' \<and> get_events equalto recordtime s' = Blocked s'"
  using assms by (simp add: put_def get_events_def ea_inv_def lock_enter_def)

text \<open>Registering makes the queue reachable under its id, once; unregistering undoes it.\<close>

lemma register_external_found:
  assumes "register_external self s g = (g', Inr ())"
  shows "\<exists>obj. get_class_from_db (PStr (ea_class_id s)) g' = Inr obj \<and> register_external other s g' = (g', Inr ())"
  using assms by (auto simp: register_external_def get_class_from_db_def add_to_class_db_def split: option.splits if_splits)

lemma unregister_external_gone: "\<exists>m. get_class_from_db (PStr (ea_class_id s)) (unregister_external s g) = Inl (DEFwNotFound m)"
  by (auto simp: unregister_external_def del_entry_from_class_db_def get_class_from_db_def delete_conv' split: option.splits)

end
