(* ===== verification/Spec2Isabelle.thy ===== *)
theory Spec2Isabelle
  imports Directory_Props Prefs Dispatch Launcher Startup Docs Telnet_Shell Errors Wire Events
begin

text \<open>
  A verification of DEFw, the Distributed Execution Framework: the Python runtime under \<open>src/python\<close> and
  the parts of the C runtime under \<open>src/src\<close> that set its configuration and frame its messages.

  \<^bold>\<open>The program.\<close> A DEFw process embeds a Python interpreter in a C runtime that keeps connections to
  its peers. The C runtime hands requests, responses, completed connections and peer events to one
  worker thread in Python. The worker keeps a table of peers, answers requests by calling objects of the
  services, and wakes the callers that wait for responses. One process is the directory service, where
  services register and clients resolve them. Applications start service processes of their own.

  \<^bold>\<open>How it is modelled.\<close> Definitions are pure functions over records that hold the state of a class or a
  module, and they return the new state. Python values are the type \<open>pyval\<close>, dictionaries are association
  lists in insertion order, an exception is \<open>Inl e\<close> of the type \<open>'a result\<close>. What the operating system, the
  clock, remote processes, imported modules and third-party packages do is an argument; where a property
  relies on them, what it relies on is a named hypothesis. A thread that is started, a message that is
  sent and a callback that is made are results. Sections under a lock are one step, and step relations
  interleave them. A waiting loop is a recursion over the polls it makes, with \<open>None\<close> if it goes on after
  them, so that no fuel has to be chosen. Floats are real numbers except where rounding is the subject.

  \<^bold>\<open>Theories.\<close> Python files are named below \<open>src/python\<close>, C files below \<open>src\<close>.

  \<^item> \<open>Py_Prelude\<close>: Python values, truth, equality, dictionaries, exceptions, text and decimal numbers.
  \<^item> \<open>Directory\<close>, \<open>Directory_Props\<close> (\<open>infra/defw_directory.py\<close>): the class \<open>Directory\<close> with registration,
    deregistration, resolution, retention, subscriptions and peer events; its invariant over all runs, an
    abstract directory of owners and generations that every operation refines, fencing of previous
    owners, exactness of resolution, and the effect of peer loss.
  \<^item> \<open>Endpoints\<close> (\<open>infra/defw_agent.py\<close>), \<open>Peers\<close> (\<open>infra/defw_peers.py\<close>): endpoints, agents and the peer
    table; an agent that is found runs the requested runtime, a lost peer is not found.
  \<^item> \<open>Class_Registry\<close> (\<open>infra/defw_common_def.py\<close>): the tables of objects and singletons; the interface
    \<open>object_table\<close> is interpreted by them.
  \<^item> \<open>Events\<close> (\<open>infra/defw_event_baseapi.py\<close>): queues of events with a pipe, on top of \<open>Class_Registry\<close>; what
    a consumer gets, one byte per event, and the deadlock of a full pipe.
  \<^item> \<open>Base64\<close>, \<open>Attachments\<close> (\<open>infra/defw_attachments.py\<close>): binary attachments of messages, inline or by remote
    memory access; encoding and loading a message gives the message.
  \<^item> \<open>Rpc\<close> (\<open>infra/defw_common_def.py\<close>, \<open>infra/defw_trace.py\<close>): envelopes, timing statistics, trace context.
  \<^item> \<open>Workers\<close> (\<open>infra/defw_workers.py\<close>): the worker thread and the waiting callers; at most one response per
    request, survival of the loop, waking of waiters on loss and shutdown.
  \<^item> \<open>Dispatch\<close> (\<open>infra/defw_workers.py\<close>, \<open>infra/defw_agent.py\<close>, \<open>infra/defw_remote.py\<close>): both ends of a remote
    call and the proxies; the caller gets the result or the exception of the callee.
  \<^item> \<open>Errors\<close> (\<open>infra/defw_exception.py\<close>, \<open>infra/defw_remote.py\<close>): exceptions with their stack traces, which
    survive being sent, and the text of results.
  \<^item> \<open>Dirsvc\<close> (\<open>services/svc_dirsvc\<close>, \<open>infra/defw_agent_baseapi.py\<close>): the directory service, which composes
    \<open>Directory\<close> and \<open>Peers\<close>.
  \<^item> \<open>Polling\<close>, \<open>Connect\<close> (\<open>infra/defw.py\<close>): the contract of waiting loops, a locale with an interpretation for
    every loop, and connecting to services.
  \<^item> \<open>App_Util\<close> (\<open>infra/defw_app_util.py\<close>): starting and stopping service processes.
  \<^item> \<open>Launcher\<close> (\<open>services/svc_launcher\<close>): the launcher service and the splitting of command lines.
  \<^item> \<open>Prefs\<close> (\<open>infra/defw_common_def.py\<close>): preferences and log levels.
  \<^item> \<open>Util\<close> (\<open>infra/defw_util.py\<close>): host list expressions and the table of CPU facts.
  \<^item> \<open>Results\<close>, \<open>Suites\<close>, \<open>Docs\<close> (\<open>infra/defw.py\<close>): results of experiments and their reports, scripts, suites and
    the loading of service modules, tables of requirements.
  \<^item> \<open>Runtime_Cfg\<close> (\<open>src/libdefw_global.c\<close>, \<open>src/defw.h\<close>): the parameters of the C runtime at their widths.
  \<^item> \<open>Wire\<close> (\<open>src/libdefw_connect.c\<close>, \<open>src/defw_message.h\<close>, \<open>process_agent_message\<close> of \<open>src/defw_listener.c\<close>):
    framed messages, written and read in pieces; session messages and acknowledgements.
  \<^item> \<open>Config\<close>, \<open>Startup\<close> (\<open>infra/defw.py\<close>, \<open>config/defw_generic.yaml\<close>): configuration from the environment
    and the start of a process; a service that \<open>App_Util\<close> spawns is configured as its parent wants.
  \<^item> \<open>Telnet\<close>, \<open>Telnet_Shell\<close> (\<open>infra/defw_telnetservlib.py\<close>, \<open>infra/defw_telnet_sr.py\<close>): the telnet server, its
    line editor and its commands.

  \<^bold>\<open>Bounds.\<close> Ports and addresses of the C runtime are words of 16 and 32 bits, names are buffers of 1024
  bytes, the length of a message is a 32-bit word that is read as a signed number. A read or a write
  that the system splits is a list of outcomes after which the rest is transferred at once.

  \<^bold>\<open>Not modelled.\<close> The agent table and the select loop of the C runtime (\<open>src/libdefw_agent.c\<close>,
  \<open>src/defw_listener.c\<close>), which is shared memory under several mutexes: the Python code sees it through
  peer events and return codes, which are arguments. The fabric transport, a sequence of calls of
  libfabric. The embedding of the interpreter (\<open>src/defw_python.c\<close>), the main programs, logging and the
  SWIG interfaces. \<open>infra/defw_cmd.py\<close> and \<open>infra/defw_venv.py\<close>, which only run programs and look for
  files. The interfaces under \<open>service-apis\<close>, whose methods have no body. The services, experiments and
  the runner for tests, and the build scripts. Terminal output, colours and file writing in the modelled
  files.
\<close>

end
